(* ===== verification/Xproc_Prelude.thy ===== *)
theory Xproc_Prelude
  imports Main "HOL-Library.Word"
begin

text \<open>
  Shared vocabulary of the development: machine-integer types at the widths the C++ sources
  use, the platform a build targets, byte-buffer operations (\<open>memcpy\<close>, \<open>memset\<close>, zero padding)
  on byte lists with their in-range laws, and the named theorem collections that carry the
  component proofs.

  A \<open>size_t\<close> is 64 bits wide throughout (the 64-bit builds of the library); C++ \<open>int\<close> values
  that are only compared or counted (file descriptors, retry counts, process ids, errno values)
  are \<open>int\<close>.
\<close>

unbundle bit_operations_syntax

type_synonym byte = "8 word"
type_synonym u16 = "16 word"
type_synonym u32 = "32 word"
type_synonym u64 = "64 word"

named_theorems xproc_split \<open>case splits of the result types of the model\<close>
named_theorems ring_law \<open>consequences of the documented behaviour of the ring\<close>
named_theorems kernel_law \<open>consequences of the documented behaviour of the operating system\<close>

section \<open>Platforms\<close>

datatype platform = Linux | Darwin | Windows

definition is_linux :: "platform \<Rightarrow> bool" where
  "is_linux p \<longleftrightarrow> p = Linux"

definition is_windows :: "platform \<Rightarrow> bool" where
  "is_windows p \<longleftrightarrow> p = Windows"

definition is_macos :: "platform \<Rightarrow> bool" where
  "is_macos p \<longleftrightarrow> p = Darwin"

definition os_name :: "platform \<Rightarrow> string" where
  "os_name p = (case p of Linux \<Rightarrow> ''Linux'' | Windows \<Rightarrow> ''Windows'' | Darwin \<Rightarrow> ''MacOS'')"

section \<open>Byte buffers\<close>

text \<open>
  \<open>buf_write off bs d\<close> is \<open>memcpy (d + off, bs, length bs)\<close> on the buffer \<open>d\<close>, and
  \<open>buf_read off n d\<close> the \<open>n\<close> bytes at \<open>off\<close>. Both are meaningful for accesses inside the buffer
  (\<open>off + n \<le> length d\<close>), which the lemmas below carry as a premise and the components prove.
\<close>

definition buf_write :: "nat \<Rightarrow> 'a list \<Rightarrow> 'a list \<Rightarrow> 'a list" where
  "buf_write off bs d = take off d @ bs @ drop (off + length bs) d"

definition buf_read :: "nat \<Rightarrow> nat \<Rightarrow> 'a list \<Rightarrow> 'a list" where
  "buf_read off n d = take n (drop off d)"

definition zero_pad :: "nat \<Rightarrow> byte list \<Rightarrow> byte list" where
  "zero_pad n bs = bs @ replicate (n - length bs) 0"

section \<open>Decimal numerals\<close>

text \<open>\<open>std::to_string\<close> on unsigned and signed integers.\<close>

definition digit_char :: "nat \<Rightarrow> char" where
  "digit_char d = char_of (48 + d)"

fun nat_to_string :: "nat \<Rightarrow> string" where
  "nat_to_string n = (if n < 10 then [digit_char n] else nat_to_string (n div 10) @ [digit_char (n mod 10)])"

declare nat_to_string.simps [simp del]

definition int_to_string :: "int \<Rightarrow> string" where
  "int_to_string i = (if i < 0 then CHR ''-'' # nat_to_string (nat (- i)) else nat_to_string (nat i))"

section \<open>Generic lemmas\<close>

lemma length_buf_write [simp]:
  "off + length bs \<le> length d \<Longrightarrow> length (buf_write off bs d) = length d"
  by (simp add: buf_write_def)

lemma length_buf_read [simp]:
  "off + n \<le> length d \<Longrightarrow> length (buf_read off n d) = n"
  by (simp add: buf_read_def)

lemma buf_read_write_same [simp]:
  "off + length bs \<le> length d \<Longrightarrow> buf_read off (length bs) (buf_write off bs d) = bs"
  by (simp add: buf_read_def buf_write_def)

lemma buf_write_Nil [simp]: "buf_write off [] d = d"
  by (simp add: buf_write_def)

text \<open>Copying a payload and then clearing the rest of the slot is one write of the padded payload.\<close>

lemma buf_write_append:
  assumes "off + length xs + length ys \<le> length d"
  shows "buf_write (off + length xs) ys (buf_write off xs d) = buf_write off (xs @ ys) d"
proof -
  have "length (take off d) = off" using assms by simp
  then show ?thesis
    by (simp add: buf_write_def ac_simps)
qed

lemma buf_write_zero_pad:
  assumes "length bs \<le> n" and "off + n \<le> length d"
  shows "buf_write (off + length bs) (replicate (n - length bs) 0) (buf_write off bs d)
         = buf_write off (zero_pad n bs) d"
  using assms buf_write_append [of off bs "replicate (n - length bs) 0" d]
  by (simp add: zero_pad_def)

lemma length_zero_pad [simp]: "length bs \<le> n \<Longrightarrow> length (zero_pad n bs) = n"
  by (simp add: zero_pad_def)

lemma zero_pad_full [simp]: "length bs = n \<Longrightarrow> zero_pad n bs = bs"
  by (simp add: zero_pad_def)

lemma take_zero_pad [simp]: "take (length bs) (zero_pad n bs) = bs"
  by (simp add: zero_pad_def)

lemma sum_case_Inr_iff [xproc_split]:
  "(case r of Inl e \<Rightarrow> Inl e | Inr x \<Rightarrow> f x) = Inr y \<longleftrightarrow> (\<exists>x. r = Inr x \<and> f x = Inr y)"
  by (cases r) auto

lemma unat_add_no_wrap:
  fixes a b :: "'a::len word"
  shows "unat a + unat b < 2 ^ LENGTH('a) \<Longrightarrow> unat (a + b) = unat a + unat b"
  by (simp add: unat_word_ariths)

lemma unat_less_two_power: "unat (w :: 'a::len word) < 2 ^ LENGTH('a)"
  by (rule unsigned_less)

end
