(* ===== verification/Layout.thy ===== *)
theory Layout
  imports Xproc_Prelude
begin

text \<open>
  The control block at the head of every shared-memory segment and the functions that create
  and validate it: \<open>include/xproc/core/layout_types.hpp\<close>, \<open>layout_manager.hpp\<close>,
  \<open>layout_exception.hpp\<close> and \<open>src/core/layout_manager.cpp\<close>.

  The first part of the control block belongs to the third-party ring library \<open>spscring\<close>; the
  record \<open>spsc_cb\<close> holds the fields of it that the sources read or write. Its initialiser
  \<open>spscring::init_control_block\<close> is a parameter of the model (an argument of
  \<open>init_header\<close> and \<open>format\<close>), and \<open>init_spec\<close> names what the sources rely on. The constants
  \<open>spscring::expected_magic\<close>, the two version numbers and \<open>sizeof(control_block)\<close> are the
  record \<open>abi\<close>.

  Another process may be initialising the block while it is validated, so
  \<open>validate_detailed\<close> takes the sequence of contents the validating process observes: the magic
  number is read from observation 0, the k-th load of \<open>is_ready\<close> from observation k + 1, and the
  fields behind it from the observation in which \<open>is_ready\<close> was seen set.
\<close>

section \<open>Data\<close>

record spsc_cb =
  magic :: u32
  version_major :: u16
  version_minor :: u32
  header_size :: u64
  layout_type :: u32
  data_capacity :: u64
  data_alignment :: u32
  fixed_item_size :: u32
  write_pos :: u64
  read_pos :: u64
  commit_pos :: u64
  commit_seq :: u32
  read_wake_seq :: u32

record control_block =
  spscring_cb :: spsc_cb
  attach_count :: u32
  is_ready :: bool
  producer_pid :: int
  cb_schema_id :: u64
  cb_creator_timestamp_ns :: u64
  cb_creator_flags :: u64
  reserved_xproc :: u64

record abi =
  expected_magic :: u32
  abi_version_major :: u16
  abi_version_minor :: u32
  sizeof_control_block :: u64

type_synonym init_fn = "spsc_cb \<Rightarrow> u64 \<Rightarrow> u32 \<Rightarrow> u32 \<Rightarrow> u32 \<Rightarrow> bool \<times> spsc_cb"

record embedded_version =
  ev_major :: u16
  ev_minor :: u32

datatype attach_behavior = ref_count | readonly

datatype validate_error =
    ok
  | not_attached
  | bad_magic
  | not_ready_timeout
  | version_mismatch
  | header_size_mismatch
  | layout_type_mismatch
  | fixed_item_size_mismatch
  | schema_id_mismatch
  | alignment_invalid
  | capacity_insufficient
  | fixed_item_size_incompatible

text \<open>
  The C++ exceptions the library throws, with the message each carries, and a value for the
  executions that the C++ standard leaves undefined.
\<close>

datatype exn =
    Logic_error string
  | Invalid_argument string
  | Runtime_error string
  | Layout_exception string validate_error
  | Bad_alloc
  | Undefined_behavior string

section \<open>Operations\<close>

definition read_embedded_version :: "control_block option \<Rightarrow> embedded_version" where
  "read_embedded_version h =
     (case h of
        None \<Rightarrow> \<lparr>ev_major = 0, ev_minor = 0\<rparr>
      | Some b \<Rightarrow> \<lparr>ev_major = version_major (spscring_cb b), ev_minor = version_minor (spscring_cb b)\<rparr>)"

fun layout_category_message :: "validate_error \<Rightarrow> string" where
  "layout_category_message ok = ''ok''"
| "layout_category_message not_attached = ''shared memory mapping is not attached''"
| "layout_category_message bad_magic = ''bad magic (not an xproc segment or corrupted)''"
| "layout_category_message not_ready_timeout =
     ''control block not ready (timeout waiting for is_ready)''"
| "layout_category_message version_mismatch = ''layout version mismatch''"
| "layout_category_message header_size_mismatch = ''header_size does not match this build''"
| "layout_category_message layout_type_mismatch = ''layout_type mismatch (fixed vs variable)''"
| "layout_category_message fixed_item_size_mismatch = ''fixed_item_size mismatch''"
| "layout_category_message schema_id_mismatch = ''schema_id mismatch''"
| "layout_category_message alignment_invalid =
     ''data_alignment invalid or does not match expected value''"
| "layout_category_message capacity_insufficient =
     ''data_capacity smaller than expected for this endpoint''"
| "layout_category_message fixed_item_size_incompatible =
     ''data_capacity is not a multiple of fixed_item_size''"

fun validate_cstr :: "validate_error \<Rightarrow> string" where
  "validate_cstr ok = ''ok''"
| "validate_cstr not_attached = ''shared memory mapping is not attached''"
| "validate_cstr bad_magic = ''bad magic (not an xproc segment or corrupted)''"
| "validate_cstr not_ready_timeout = ''control block not ready (timeout waiting for is_ready)''"
| "validate_cstr version_mismatch = ''layout version mismatch''"
| "validate_cstr header_size_mismatch = ''header_size does not match this build''"
| "validate_cstr layout_type_mismatch = ''layout_type mismatch (fixed vs variable)''"
| "validate_cstr fixed_item_size_mismatch = ''fixed_item_size mismatch''"
| "validate_cstr schema_id_mismatch = ''schema_id mismatch''"
| "validate_cstr alignment_invalid = ''data_alignment invalid or does not match expected value''"
| "validate_cstr capacity_insufficient = ''data_capacity smaller than expected for this endpoint''"
| "validate_cstr _ = ''unknown layout validation error''"

definition layout_exception :: "string \<Rightarrow> validate_error \<Rightarrow> exn" where
  "layout_exception prefix code = Layout_exception (prefix @ validate_cstr code) code"

definition is_power_of_two_uint32 :: "u32 \<Rightarrow> bool" where
  "is_power_of_two_uint32 x \<longleftrightarrow> 4 \<le> x \<and> (x AND (x - 1)) = 0"

definition is_ready_spin_limit :: nat where
  "is_ready_spin_limit = 1000000"

text \<open>
  The spin loop on \<open>is_ready\<close>: the first argument is \<open>timeout_limit\<close>, the last the index of
  the next observation. The result is the observation in which the flag was seen set.
\<close>

fun wait_ready :: "nat \<Rightarrow> (nat \<Rightarrow> control_block) \<Rightarrow> nat \<Rightarrow> nat option" where
  "wait_ready 0 obs i = (if is_ready (obs i) then Some i else None)"
| "wait_ready (Suc n) obs i =
     (if is_ready (obs i) then Some i
      else if n = 0 then None
      else wait_ready n obs (Suc i))"

definition validate_detailed ::
  "abi \<Rightarrow> (nat \<Rightarrow> control_block) option \<Rightarrow> u64 \<Rightarrow> u32 \<Rightarrow> u32 \<Rightarrow> u32 \<Rightarrow> u64 \<Rightarrow> validate_error" where
  "validate_detailed A header expected_capacity expected_layout_type expected_data_alignment
       expected_fixed_item_size expected_schema_id =
     (case header of
        None \<Rightarrow> not_attached
      | Some obs \<Rightarrow>
          if magic (spscring_cb (obs 0)) \<noteq> expected_magic A then bad_magic
          else
          (case wait_ready is_ready_spin_limit obs 1 of
             None \<Rightarrow> not_ready_timeout
           | Some i \<Rightarrow>
               let h = obs i; c = spscring_cb h;
                   want_align = (if expected_data_alignment \<noteq> 0 then expected_data_alignment else 8)
               in
               if version_major c \<noteq> abi_version_major A \<or> version_minor c \<noteq> abi_version_minor A
               then version_mismatch
               else if header_size c \<noteq> sizeof_control_block A then header_size_mismatch
               else if layout_type c \<noteq> expected_layout_type then layout_type_mismatch
               else if fixed_item_size c \<noteq> expected_fixed_item_size then fixed_item_size_mismatch
               else if fixed_item_size c \<noteq> 0 \<and> data_capacity c mod ucast (fixed_item_size c) \<noteq> 0
               then fixed_item_size_incompatible
               else if cb_schema_id h \<noteq> expected_schema_id then schema_id_mismatch
               else if data_alignment c \<noteq> want_align \<or> \<not> is_power_of_two_uint32 (data_alignment c)
               then alignment_invalid
               else if data_capacity c < expected_capacity then capacity_insufficient
               else ok))"

definition validate ::
  "abi \<Rightarrow> (nat \<Rightarrow> control_block) option \<Rightarrow> u64 \<Rightarrow> u32 \<Rightarrow> u32 \<Rightarrow> u32 \<Rightarrow> u64 \<Rightarrow> bool" where
  "validate A header cap lt al item sid \<longleftrightarrow> validate_detailed A header cap lt al item sid = ok"

text \<open>
  \<open>_init_header\<close>: \<open>False\<close> is the failure return; the block is then as the ring initialiser left
  it. \<open>pid\<close> is the value of \<open>current_process_id()\<close>.
\<close>

definition init_header ::
  "abi \<Rightarrow> init_fn \<Rightarrow> int \<Rightarrow> control_block \<Rightarrow> u64 \<Rightarrow> u32 \<Rightarrow> u32 \<Rightarrow> u32 \<Rightarrow> u64 \<Rightarrow> u64 \<Rightarrow> u64
   \<Rightarrow> bool \<times> control_block" where
  "init_header A init_control_block pid h capacity lt al item sid ts fl =
     (if item \<noteq> 0 \<and> capacity mod ucast item \<noteq> 0 then (False, h)
      else
        (case init_control_block (spscring_cb h) capacity lt (if al \<noteq> 0 then al else 8) item of
           (False, c) \<Rightarrow> (False, h\<lparr>spscring_cb := c\<rparr>)
         | (True, c) \<Rightarrow>
             (True,
              h\<lparr>spscring_cb := c\<lparr>header_size := sizeof_control_block A\<rparr>,
                cb_schema_id := sid,
                cb_creator_timestamp_ns := ts,
                cb_creator_flags := fl,
                reserved_xproc := 0,
                producer_pid := pid,
                attach_count := 1,
                is_ready := True\<rparr>)))"

text \<open>
  \<open>format\<close>: the first component of the result says whether a non-null header is returned, the
  second is the new content of the block. The mapping is \<open>attached\<close> or not; the content \<open>h\<close> does
  not change while the call runs.
\<close>

definition format ::
  "abi \<Rightarrow> init_fn \<Rightarrow> int \<Rightarrow> bool \<Rightarrow> control_block \<Rightarrow> u64 \<Rightarrow> bool \<Rightarrow> u32 \<Rightarrow> u32 \<Rightarrow> u32 \<Rightarrow> u64 \<Rightarrow> u64 \<Rightarrow> u64
   \<Rightarrow> attach_behavior \<Rightarrow> bool \<times> control_block" where
  "format A init_control_block pid attached h capacity is_creator lt al item sid ts fl behavior =
     (if \<not> attached then (False, h)
      else if is_creator then init_header A init_control_block pid h capacity lt al item sid ts fl
      else if \<not> validate A (Some (\<lambda>_. h)) capacity lt al item sid then (False, h)
      else if behavior = ref_count then (True, h\<lparr>attach_count := attach_count h + 1\<rparr>)
      else (True, h))"

text \<open>The geometry an attached endpoint relies on, as one predicate over a block.\<close>

definition well_formed_block ::
  "abi \<Rightarrow> control_block \<Rightarrow> u64 \<Rightarrow> u32 \<Rightarrow> u32 \<Rightarrow> u32 \<Rightarrow> u64 \<Rightarrow> bool" where
  "well_formed_block A h cap lt al item sid \<longleftrightarrow>
     (let c = spscring_cb h in
      version_major c = abi_version_major A \<and> version_minor c = abi_version_minor A \<and>
      header_size c = sizeof_control_block A \<and> layout_type c = lt \<and> fixed_item_size c = item \<and>
      (item = 0 \<or> data_capacity c mod ucast item = 0) \<and> cb_schema_id h = sid \<and>
      data_alignment c = (if al \<noteq> 0 then al else 8) \<and>
      is_power_of_two_uint32 (if al \<noteq> 0 then al else 8) \<and> cap \<le> data_capacity c)"

text \<open>
  What the sources rely on of \<open>spscring::init_control_block\<close>: a successful call stores the
  library's magic number and versions and the requested geometry, and empties the ring.
\<close>

definition init_spec :: "abi \<Rightarrow> init_fn \<Rightarrow> bool" where
  "init_spec A init_control_block \<longleftrightarrow>
     (\<forall>c cap lt al item c'.
        init_control_block c cap lt al item = (True, c') \<longrightarrow>
        magic c' = expected_magic A \<and> version_major c' = abi_version_major A \<and>
        version_minor c' = abi_version_minor A \<and> layout_type c' = lt \<and>
        data_capacity c' = cap \<and> data_alignment c' = al \<and> fixed_item_size c' = item \<and>
        write_pos c' = 0 \<and> read_pos c' = 0 \<and> commit_pos c' = 0)"

text \<open>
  A concrete build and ring initialiser, used where a theorem is applied at a concrete input.
\<close>

definition ref_abi :: abi where
  "ref_abi = \<lparr>expected_magic = 0x53505343, abi_version_major = 1, abi_version_minor = 2,
              sizeof_control_block = 384\<rparr>"

definition ref_init :: init_fn where
  "ref_init c cap lt al item =
     (True, c\<lparr>magic := expected_magic ref_abi, version_major := abi_version_major ref_abi,
              version_minor := abi_version_minor ref_abi, layout_type := lt, data_capacity := cap,
              data_alignment := al, fixed_item_size := item, write_pos := 0, read_pos := 0,
              commit_pos := 0, commit_seq := 0, read_wake_seq := 0\<rparr>)"

text \<open>The content of a freshly created segment: all bytes zero.\<close>

definition zero_spsc_cb :: spsc_cb where
  "zero_spsc_cb = \<lparr>magic = 0, version_major = 0, version_minor = 0, header_size = 0, layout_type = 0,
     data_capacity = 0, data_alignment = 0, fixed_item_size = 0, write_pos = 0, read_pos = 0,
     commit_pos = 0, commit_seq = 0, read_wake_seq = 0\<rparr>"

definition zero_block :: control_block where
  "zero_block = \<lparr>spscring_cb = zero_spsc_cb, attach_count = 0, is_ready = False, producer_pid = 0,
     cb_schema_id = 0, cb_creator_timestamp_ns = 0, cb_creator_flags = 0, reserved_xproc = 0\<rparr>"

text \<open>A segment of 64 data bytes for 8-byte items under schema 7, initialised by process 42.\<close>

definition ref_block :: control_block where
  "ref_block = snd (init_header ref_abi ref_init 42 zero_block 64 0 8 8 7 0 0)"

section \<open>The readiness loop\<close>

lemma wait_ready_now [simp]: "is_ready (obs i) \<Longrightarrow> wait_ready n obs i = Some i"
  by (cases n) auto

lemma wait_ready_spin_limit [code_unfold]:
  "wait_ready is_ready_spin_limit obs i =
     (if is_ready (obs i) then Some i else wait_ready 1000000 obs i)"
  by (simp add: is_ready_spin_limit_def)

lemma wait_ready_Some:
  "wait_ready n obs i = Some j \<Longrightarrow>
     i \<le> j \<and> is_ready (obs j) \<and> (\<forall>k. i \<le> k \<and> k < j \<longrightarrow> \<not> is_ready (obs k))"
proof (induction n obs i rule: wait_ready.induct)
  case (2 n obs i)
  show ?case
  proof (cases "is_ready (obs i) \<or> n = 0")
    case True
    with "2.prems" show ?thesis by (auto split: if_splits)
  next
    case False
    with 2 have "Suc i \<le> j \<and> is_ready (obs j) \<and>
        (\<forall>k. Suc i \<le> k \<and> k < j \<longrightarrow> \<not> is_ready (obs k))" by simp
    with False show ?thesis by (metis Suc_leD le_antisym not_less_eq_eq)
  qed
qed (auto split: if_splits)

lemma wait_ready_None_iff:
  "0 < n \<Longrightarrow> wait_ready n obs i = None \<longleftrightarrow> (\<forall>k < n. \<not> is_ready (obs (i + k)))"
proof (induction n obs i rule: wait_ready.induct)
  case (2 n obs i)
  have split: "(\<forall>k < Suc n. \<not> is_ready (obs (i + k))) \<longleftrightarrow>
        \<not> is_ready (obs i) \<and> (\<forall>k < n. \<not> is_ready (obs (Suc i + k)))"
    by (auto simp: All_less_Suc2)
  show ?case
    using 2 by (cases "is_ready (obs i)"; cases "n = 0") (auto simp: split)
qed simp

lemma wait_ready_Some_bound: "0 < n \<Longrightarrow> wait_ready n obs i = Some j \<Longrightarrow> j < i + n"
proof (induction n obs i rule: wait_ready.induct)
  case (2 n obs i)
  then show ?case by (cases "is_ready (obs i)"; cases "n = 0") auto
qed simp

lemma wait_ready_Some_iff:
  assumes "0 < n"
  shows "wait_ready n obs i = Some j \<longleftrightarrow>
     i \<le> j \<and> j < i + n \<and> is_ready (obs j) \<and> (\<forall>k. i \<le> k \<and> k < j \<longrightarrow> \<not> is_ready (obs k))"
proof
  assume "wait_ready n obs i = Some j"
  then show "i \<le> j \<and> j < i + n \<and> is_ready (obs j) \<and> (\<forall>k. i \<le> k \<and> k < j \<longrightarrow> \<not> is_ready (obs k))"
    using wait_ready_Some wait_ready_Some_bound [OF assms] by blast
next
  assume j: "i \<le> j \<and> j < i + n \<and> is_ready (obs j) \<and> (\<forall>k. i \<le> k \<and> k < j \<longrightarrow> \<not> is_ready (obs k))"
  then have "j = i + (j - i)" and "j - i < n" by auto
  with j have "wait_ready n obs i \<noteq> None"
    unfolding wait_ready_None_iff [OF assms] by metis
  then obtain j' where j': "wait_ready n obs i = Some j'" by blast
  from wait_ready_Some [OF this] j have "j' = j" by (meson linorder_neqE_nat)
  with j' show "wait_ready n obs i = Some j" by simp
qed

section \<open>Facts about validation and initialisation\<close>

lemma validate_iff_ok: "validate A hdr cap lt al item sid \<longleftrightarrow> validate_detailed A hdr cap lt al item sid = ok"
  by (simp add: validate_def)

lemma validate_detailed_quiescent:
  "validate_detailed A (Some (\<lambda>_. h)) cap lt al item sid = ok \<longleftrightarrow>
     magic (spscring_cb h) = expected_magic A \<and> is_ready h \<and> well_formed_block A h cap lt al item sid"
proof (cases "is_ready h")
  case True
  then show ?thesis
    by (auto simp: validate_detailed_def well_formed_block_def Let_def not_less)
next
  case False
  then have "wait_ready is_ready_spin_limit (\<lambda>_. h) 1 = None"
    by (subst wait_ready_None_iff) (auto simp: is_ready_spin_limit_def)
  with False show ?thesis by (simp add: validate_detailed_def)
qed

lemma is_power_of_two_8 [simp]: "is_power_of_two_uint32 8"
  by (simp add: is_power_of_two_uint32_def)

lemma init_header_TrueE:
  assumes "init_header A init pid h cap lt al item sid ts fl = (True, h')"
  obtains c where "item = 0 \<or> cap mod ucast item = 0"
    and "init (spscring_cb h) cap lt (if al \<noteq> 0 then al else 8) item = (True, c)"
    and "h' = h\<lparr>spscring_cb := c\<lparr>header_size := sizeof_control_block A\<rparr>, cb_schema_id := sid,
                cb_creator_timestamp_ns := ts, cb_creator_flags := fl, reserved_xproc := 0,
                producer_pid := pid, attach_count := 1, is_ready := True\<rparr>"
  using assms
  by (cases "init (spscring_cb h) cap lt (if al \<noteq> 0 then al else 8) item")
     (simp add: init_header_def split: if_split_asm bool.split_asm)

lemma init_header_well_formed:
  assumes "init_spec A init" and "init_header A init pid h cap lt al item sid ts fl = (True, h')"
    and "al = 0 \<or> is_power_of_two_uint32 al" and "need \<le> cap"
  shows "validate A (Some (\<lambda>_. h')) need lt al item sid"
proof -
  from assms(2) obtain c where item: "item = 0 \<or> cap mod ucast item = 0"
      and c: "init (spscring_cb h) cap lt (if al \<noteq> 0 then al else 8) item = (True, c)"
      and h': "h' = h\<lparr>spscring_cb := c\<lparr>header_size := sizeof_control_block A\<rparr>, cb_schema_id := sid,
                cb_creator_timestamp_ns := ts, cb_creator_flags := fl, reserved_xproc := 0,
                producer_pid := pid, attach_count := 1, is_ready := True\<rparr>"
    by (rule init_header_TrueE)
  from assms(1) c have "magic c = expected_magic A" "version_major c = abi_version_major A"
      "version_minor c = abi_version_minor A" "layout_type c = lt" "data_capacity c = cap"
      "data_alignment c = (if al \<noteq> 0 then al else 8)" "fixed_item_size c = item"
    unfolding init_spec_def by blast+
  with item assms(3,4) show ?thesis
    unfolding validate_iff_ok validate_detailed_quiescent h'
    by (auto simp: well_formed_block_def Let_def)
qed

lemma ref_abi_fields [simp]:
  "expected_magic ref_abi = 0x53505343" "abi_version_major ref_abi = 1"
  "abi_version_minor ref_abi = 2" "sizeof_control_block ref_abi = 384"
  by (simp_all add: ref_abi_def)

lemma ref_init_spec [simp]: "init_spec ref_abi ref_init"
  by (simp add: init_spec_def ref_init_def)

lemmas ref_defs = ref_abi_def ref_init_def zero_block_def zero_spsc_cb_def

lemma format_creator [simp]:
  "format A init pid True h cap True lt al item sid ts fl b = init_header A init pid h cap lt al item sid ts fl"
  by (simp add: format_def)

lemma ref_block_fields [simp]:
  "spscring_cb ref_block = zero_spsc_cb\<lparr>magic := 0x53505343, version_major := 1, version_minor := 2,
     header_size := 384, layout_type := 0, data_capacity := 64, data_alignment := 8,
     fixed_item_size := 8\<rparr>"
  "is_ready ref_block" "cb_schema_id ref_block = 7" "attach_count ref_block = 1"
  "producer_pid ref_block = 42"
  by (simp_all add: ref_block_def init_header_def ref_defs)

lemma init_header_ref_block:
  "init_header ref_abi ref_init 42 zero_block 64 0 8 8 7 0 0 = (True, ref_block)"
  by (simp add: ref_block_def init_header_def ref_defs)

lemma ref_block_well_formed [simp]: "well_formed_block ref_abi ref_block 64 0 8 8 7"
  by (simp add: well_formed_block_def Let_def)

section \<open>Properties\<close>

text \<open>
  C5. Validation accepts a block exactly when the magic number is seen at once, \<open>is_ready\<close> is seen
  set within the first million loads, and at that moment the block carries this build's versions
  and header size, the expected layout type, item size and schema, a capacity that is a multiple
  of the item size and at least the expected one, and the expected power-of-two alignment.
\<close>

theorem validate_detailed_ok_iff:
  "validate_detailed A (Some obs) cap lt al item sid = ok \<longleftrightarrow>
     magic (spscring_cb (obs 0)) = expected_magic A \<and>
     (\<exists>i. 1 \<le> i \<and> i \<le> 1000000 \<and> is_ready (obs i) \<and> (\<forall>k. 1 \<le> k \<and> k < i \<longrightarrow> \<not> is_ready (obs k)) \<and>
          well_formed_block A (obs i) cap lt al item sid)"
proof -
  have hit: "validate_detailed A (Some obs) cap lt al item sid = ok \<longleftrightarrow>
      magic (spscring_cb (obs 0)) = expected_magic A \<and>
      (\<exists>i. wait_ready is_ready_spin_limit obs 1 = Some i \<and> well_formed_block A (obs i) cap lt al item sid)"
    by (cases "wait_ready is_ready_spin_limit obs 1")
       (auto simp: validate_detailed_def well_formed_block_def Let_def not_less)
  have ready: "wait_ready is_ready_spin_limit obs 1 = Some i \<longleftrightarrow>
      1 \<le> i \<and> i \<le> 1000000 \<and> is_ready (obs i) \<and> (\<forall>k. 1 \<le> k \<and> k < i \<longrightarrow> \<not> is_ready (obs k))" for i
    by (auto simp: wait_ready_Some_iff is_ready_spin_limit_def)
  show ?thesis by (simp only: hit ready conj_assoc)
qed

theorem validate_detailed_ok_iff_witness:
  "validate_detailed ref_abi (Some (\<lambda>i. if i < 3 then ref_block\<lparr>is_ready := False\<rparr> else ref_block)) 64 0 8 8 7 = ok"
  by (subst validate_detailed_ok_iff) (auto intro!: exI [of _ 3])

text \<open>
  The wait for the creator is bounded and complete: validation reports a readiness timeout
  exactly when the magic number is right and each of the first million loads of \<open>is_ready\<close> sees it
  clear.
\<close>

theorem validate_timeout_iff:
  "validate_detailed A (Some obs) cap lt al item sid = not_ready_timeout \<longleftrightarrow>
     magic (spscring_cb (obs 0)) = expected_magic A \<and> (\<forall>k < 1000000. \<not> is_ready (obs (1 + k)))"
proof -
  have "validate_detailed A (Some obs) cap lt al item sid = not_ready_timeout \<longleftrightarrow>
     magic (spscring_cb (obs 0)) = expected_magic A \<and> wait_ready is_ready_spin_limit obs 1 = None"
    by (auto simp: validate_detailed_def Let_def split: option.splits)
  also have "wait_ready is_ready_spin_limit obs 1 = None \<longleftrightarrow> (\<forall>k < 1000000. \<not> is_ready (obs (1 + k)))"
    using wait_ready_None_iff [of is_ready_spin_limit obs 1] by (simp add: is_ready_spin_limit_def)
  finally show ?thesis .
qed

theorem validate_timeout_iff_witness:
  "validate_detailed ref_abi (Some (\<lambda>_. ref_block\<lparr>is_ready := False\<rparr>)) 64 0 8 8 7 = not_ready_timeout"
  by (subst validate_timeout_iff) simp

text \<open>
  C13. A segment that its creator has formatted can be attached: an attacher that asks for the same
  layout, alignment, item size and schema and for no more capacity gets the header, and the attach
  count it leaves behind is two. The ring initialiser is only assumed to store what it was given.
\<close>

theorem create_then_attach:
  assumes "init_spec A init"
    and "format A init pid True h cap True lt al item sid ts fl ref_count = (True, h')"
    and "al = 0 \<or> is_power_of_two_uint32 al" and "need \<le> cap"
  shows "format A init pid' True h' need False lt al item sid ts' fl' ref_count = (True, h'\<lparr>attach_count := 2\<rparr>)"
proof -
  from assms(2) have i: "init_header A init pid h cap lt al item sid ts fl = (True, h')" by simp
  from assms(1) i assms(3,4) have "validate A (Some (\<lambda>_. h')) need lt al item sid"
    by (rule init_header_well_formed)
  moreover from i have "attach_count h' = 1" by (rule init_header_TrueE) simp
  ultimately show ?thesis by (simp add: format_def)
qed

theorem create_then_attach_witness:
  "format ref_abi ref_init 43 True ref_block 32 False 0 8 8 7 5 6 ref_count
     = (True, ref_block\<lparr>attach_count := 2\<rparr>)"
  by (rule create_then_attach [where pid = 42 and h = zero_block and cap = 64 and ts = 0 and fl = 0])
     (simp_all add: init_header_ref_block is_power_of_two_uint32_def)

text \<open>
  An attacher that looks while the creator is still formatting is refused, not made to wait:
  there is a creation whose finished block validates, and for which an attacher that reads the
  magic number one step before it is stored gets \<open>bad_magic\<close> although \<open>is_ready\<close> is set on its
  first load.
\<close>

theorem attach_races_creation:
  "\<exists>h'. format ref_abi ref_init 42 True zero_block 64 True 0 8 8 7 0 0 ref_count = (True, h') \<and>
        validate_detailed ref_abi (Some (\<lambda>_. h')) 64 0 8 8 7 = ok \<and>
        validate_detailed ref_abi (Some (\<lambda>i. if i = 0 then zero_block else h')) 64 0 8 8 7 = bad_magic"
proof (intro exI conjI)
  show "format ref_abi ref_init 42 True zero_block 64 True 0 8 8 7 0 0 ref_count = (True, ref_block)"
    by (simp add: init_header_ref_block)
  show "validate_detailed ref_abi (Some (\<lambda>_. ref_block)) 64 0 8 8 7 = ok"
    by (simp add: validate_detailed_quiescent)
  show "validate_detailed ref_abi (Some (\<lambda>i. if i = 0 then zero_block else ref_block)) 64 0 8 8 7 = bad_magic"
    by (simp add: validate_detailed_def ref_defs)
qed

text \<open>
  The two texts the library has for a validation error agree on every error but
  \<open>fixed_item_size_incompatible\<close>, which \<open>validate_cstr\<close> (and so every \<open>layout_exception\<close>)
  reports as unknown.
\<close>

lemma validate_cstr_category_agree:
  "validate_cstr e = layout_category_message e \<longleftrightarrow> e \<noteq> fixed_item_size_incompatible"
  by (cases e) simp_all

end
