(* ===== verification/Options.thy ===== *)
theory Options
  imports Layout
begin

text \<open>
  Transport options, their validators and the size helpers: \<open>include/xproc/ipc/options.hpp\<close>. The
  validators throw \<open>std::invalid_argument\<close>; here they return \<open>Inl\<close> of the exception. The
  conditionally compiled Windows check takes the platform as an argument, and \<open>min_shm_size\<close>, which
  is \<open>sizeof(core::control_block)\<close>, is \<open>sizeof_control_block\<close> of the build's \<open>abi\<close>.
\<close>

section \<open>Data\<close>

datatype channel_type = fixed | varlen

datatype transport_backend = shared_memory | socket

record transport_options =
  backend :: transport_backend
  path :: string
  shm_size :: u64
  item_size :: u32
  data_align :: u32
  schema_id :: u64
  creator_timestamp_ns :: u64
  creator_flags :: u64
  create_if_missing :: bool
  chan_type :: channel_type
  win32_object_namespace :: string
  socket_host :: string
  socket_port :: u16
  socket_listen :: bool
  socket_connect_retries :: int
  socket_connect_retry_ms :: int

definition default_options :: transport_options where
  "default_options = \<lparr>backend = shared_memory, path = [], shm_size = 0, item_size = 0, data_align = 0,
     schema_id = 0, creator_timestamp_ns = 0, creator_flags = 0, create_if_missing = True,
     chan_type = fixed, win32_object_namespace = ''Local'', socket_host = ''127.0.0.1'',
     socket_port = 0, socket_listen = False, socket_connect_retries = 200,
     socket_connect_retry_ms = 10\<rparr>"

section \<open>Operations\<close>

definition infer_existing_shm_size :: u64 where
  "infer_existing_shm_size = 0"

definition min_shm_size :: "abi \<Rightarrow> u64" where
  "min_shm_size A = sizeof_control_block A"

definition shm_size_for_data_capacity :: "abi \<Rightarrow> u64 \<Rightarrow> u64" where
  "shm_size_for_data_capacity A cap = min_shm_size A + cap"

definition shm_data_capacity_for_size :: "abi \<Rightarrow> u64 \<Rightarrow> u64" where
  "shm_data_capacity_for_size A sz = (if sz > min_shm_size A then sz - min_shm_size A else 0)"

definition validate_transport_options :: "platform \<Rightarrow> abi \<Rightarrow> transport_options \<Rightarrow> exn + unit" where
  "validate_transport_options p A opts =
     (if chan_type opts = fixed \<and> item_size opts = 0
      then Inl (Invalid_argument ''transport_options: fixed channel requires non-zero item_size'')
      else if data_align opts \<noteq> 0 \<and>
              (data_align opts < 4 \<or> (data_align opts AND (data_align opts - 1)) \<noteq> 0)
      then Inl (Invalid_argument
             ''transport_options: data_align must be 0 (default 8) or a power of two >= 4'')
      else if is_windows p \<and> win32_object_namespace opts \<noteq> ''Local'' \<and>
              win32_object_namespace opts \<noteq> ''Global''
      then Inl (Invalid_argument ''transport_options: win32_object_namespace must be Local (default) or Global'')
      else
        (case backend opts of
           shared_memory \<Rightarrow>
             if path opts = []
             then Inl (Invalid_argument
                    ''transport_options: shared_memory backend requires non-empty path'')
             else if shm_size opts \<noteq> infer_existing_shm_size \<and> shm_size opts < min_shm_size A
             then Inl (Invalid_argument ''transport_options: shm_size is smaller than control_block'')
             else Inr ()
         | socket \<Rightarrow>
             if socket_connect_retries opts < 0
             then Inl (Invalid_argument
                    ''transport_options: socket_connect_retries must be >= 0 (0 = unlimited)'')
             else if socket_connect_retry_ms opts < 0
             then Inl (Invalid_argument ''transport_options: socket_connect_retry_ms must be >= 0'')
             else if \<not> socket_listen opts \<and> socket_host opts = []
             then Inl (Invalid_argument
                    ''transport_options: socket connect mode requires non-empty socket_host'')
             else if \<not> socket_listen opts \<and> socket_port opts = 0
             then Inl (Invalid_argument
                    ''transport_options: socket connect mode requires non-zero socket_port'')
             else Inr ()))"

definition validate_producer_transport_options :: "platform \<Rightarrow> abi \<Rightarrow> transport_options \<Rightarrow> exn + unit" where
  "validate_producer_transport_options p A opts =
     (case validate_transport_options p A opts of
        Inl e \<Rightarrow> Inl e
      | Inr _ \<Rightarrow>
          if backend opts = shared_memory \<and> create_if_missing opts \<and>
             shm_size opts = infer_existing_shm_size
          then Inl (Invalid_argument
                 (''transport_options: shared_memory producer with create_if_missing=true requires '' @
                  ''non-zero shm_size (use shm_size_for_data_capacity(...))''))
          else if backend opts = socket \<and> socket_listen opts
          then Inl (Invalid_argument ''transport_options: socket producer requires socket_listen=false'')
          else Inr ())"

definition validate_consumer_transport_options :: "platform \<Rightarrow> abi \<Rightarrow> transport_options \<Rightarrow> exn + unit" where
  "validate_consumer_transport_options p A opts =
     (case validate_transport_options p A opts of
        Inl e \<Rightarrow> Inl e
      | Inr _ \<Rightarrow>
          if backend opts = shared_memory \<and> create_if_missing opts \<and>
             shm_size opts = infer_existing_shm_size
          then Inl (Invalid_argument
                 (''transport_options: shared_memory consumer with create_if_missing=true requires '' @
                  ''non-zero shm_size (use shm_size_for_data_capacity(...))''))
          else if backend opts = socket \<and> \<not> socket_listen opts
          then Inl (Invalid_argument ''transport_options: socket consumer requires socket_listen=true'')
          else Inr ())"

definition validate_observer_transport_options :: "platform \<Rightarrow> abi \<Rightarrow> transport_options \<Rightarrow> exn + unit" where
  "validate_observer_transport_options p A opts =
     (case validate_transport_options p A opts of
        Inl e \<Rightarrow> Inl e
      | Inr _ \<Rightarrow>
          if backend opts \<noteq> shared_memory
          then Inl (Invalid_argument ''transport_options: observer requires shared_memory backend'')
          else Inr ())"

text \<open>What valid options look like, independently of the order of the checks.\<close>

definition options_ok :: "platform \<Rightarrow> abi \<Rightarrow> transport_options \<Rightarrow> bool" where
  "options_ok p A opts \<longleftrightarrow>
     (chan_type opts = fixed \<longrightarrow> 0 < item_size opts) \<and>
     (data_align opts = 0 \<or> (\<exists>n. 2 \<le> n \<and> n < 32 \<and> data_align opts = 2 ^ n)) \<and>
     (p = Windows \<longrightarrow> win32_object_namespace opts \<in> {''Local'', ''Global''}) \<and>
     (case backend opts of
        shared_memory \<Rightarrow> path opts \<noteq> [] \<and> (shm_size opts = 0 \<or> sizeof_control_block A \<le> shm_size opts)
      | socket \<Rightarrow>
          0 \<le> socket_connect_retries opts \<and> 0 \<le> socket_connect_retry_ms opts \<and>
          (socket_listen opts \<or> (socket_host opts \<noteq> [] \<and> socket_port opts \<noteq> 0)))"

section \<open>Powers of two\<close>

lemma nat_and_pred_odd: "(Suc (2 * k) AND (2 * k)) = 2 * k"
  by (subst and_rec) simp

lemma nat_lowest_bit:
  assumes "0 < (x::nat)"
  obtains n k where "x = 2 ^ n * (2 * k + 1)"
  using assms
proof (induction x arbitrary: thesis rule: less_induct)
  case (less x)
  show ?case
  proof (cases "even x")
    case False
    then obtain k where "x = 2 * k + 1" by (rule oddE)
    then show ?thesis using less.prems(1) [of 0 k] by simp
  next
    case True
    then obtain y where y: "x = 2 * y" by (rule evenE)
    with less.prems(2) obtain n k where "y = 2 ^ n * (2 * k + 1)"
      using less.IH [of y] by auto
    then show ?thesis using less.prems(1) [of "Suc n" k] y by simp
  qed
qed

lemma nat_and_pred_zero:
  assumes "0 < (x::nat)" and "x AND (x - 1) = 0"
  shows "\<exists>n. x = 2 ^ n"
proof -
  obtain n k where x: "x = 2 ^ n * (2 * k + 1)" using nat_lowest_bit [OF assms(1)] .
  define r :: nat where "r = 2 ^ n - 1"
  have "r < 2 ^ n" by (simp add: r_def)
  moreover have "x - 1 = 2 ^ n * (2 * k) + r" by (simp add: x r_def algebra_simps)
  ultimately have "drop_bit n (x - 1) = 2 * k" by (simp add: drop_bit_eq_div)
  moreover have "drop_bit n x = 2 * k + 1" by (simp add: drop_bit_eq_div x)
  ultimately have "drop_bit n (x AND (x - 1)) = 2 * k"
    by (simp add: nat_and_pred_odd)
  with assms(2) have "k = 0" by simp
  with x show ?thesis by auto
qed

lemma nat_power_and_pred: "((2::nat) ^ n) AND (2 ^ n - Suc 0) = 0"
proof -
  have "((2::nat) ^ n) AND mask n = 0" by (rule bit_eqI) (auto simp: bit_simps)
  then show ?thesis by (simp add: mask_eq_exp_minus_1)
qed

lemma unat_two_power: "n < LENGTH('a) \<Longrightarrow> unat ((2 :: 'a::len word) ^ n) = 2 ^ n"
proof -
  assume "n < LENGTH('a)"
  then have "take_bit LENGTH('a) ((2::nat) ^ n) = 2 ^ n"
    by (simp add: take_bit_nat_eq_self_iff)
  then have "unat (of_nat (2 ^ n) :: 'a word) = 2 ^ n"
    by (simp only: unsigned_of_nat of_nat_id)
  then show ?thesis by simp
qed

lemma is_power_of_two_uint32_iff:
  "is_power_of_two_uint32 x \<longleftrightarrow> (\<exists>n. 2 \<le> n \<and> n < 32 \<and> x = 2 ^ n)"
proof
  assume "is_power_of_two_uint32 x"
  then have le: "4 \<le> unat x" and z: "x AND (x - 1) = 0"
    by (auto simp: is_power_of_two_uint32_def word_le_nat_alt)
  from le have "unat (x - 1) = unat x - 1" by (intro unat_minus_one) auto
  with z have "unat x AND (unat x - 1) = 0"
    by (metis unsigned_and_eq unsigned_0)
  with le obtain n where n: "unat x = 2 ^ n" using nat_and_pred_zero [of "unat x"] by auto
  have "(2::nat) ^ 2 \<le> 2 ^ n" using le n by simp
  then have "2 \<le> n" by (rule power_le_imp_le_exp [rotated]) simp
  have "unat x < 2 ^ LENGTH(32)" by (rule unsigned_less)
  with n have "(2::nat) ^ n < 2 ^ 32" by simp
  then have "n < 32" by (rule power_less_imp_less_exp [rotated]) simp
  have "x = 2 ^ n" using n \<open>n < 32\<close> by (simp add: word_unat_eq_iff unat_two_power)
  with \<open>2 \<le> n\<close> \<open>n < 32\<close> show "\<exists>n. 2 \<le> n \<and> n < 32 \<and> x = 2 ^ n" by blast
next
  assume "\<exists>n. 2 \<le> n \<and> n < 32 \<and> x = 2 ^ n"
  then obtain n where n: "2 \<le> n" "n < 32" "x = 2 ^ n" by blast
  have u: "unat x = 2 ^ n" using n by (simp add: unat_two_power)
  have "(2::nat) ^ 2 \<le> 2 ^ n" using n(1) by (rule power_increasing) simp
  with u have le: "4 \<le> unat x" by simp
  then have "unat (x - 1) = unat x - 1" by (intro unat_minus_one) auto
  then have "unat (x AND (x - 1)) = 0" by (simp add: unsigned_and_eq u nat_power_and_pred)
  with le show "is_power_of_two_uint32 x"
    by (simp add: is_power_of_two_uint32_def word_le_nat_alt unat_eq_0)
qed

section \<open>Facts about validation\<close>

lemma data_align_check:
  "a \<noteq> 0 \<and> (a < 4 \<or> (a AND (a - 1)) \<noteq> 0) \<longleftrightarrow> a \<noteq> 0 \<and> \<not> is_power_of_two_uint32 a"
  by (auto simp: is_power_of_two_uint32_def not_less)

lemma validate_transport_options_iff:
  "validate_transport_options p A opts = Inr () \<longleftrightarrow> options_ok p A opts"
proof -
  have pos: "0 < item_size opts \<longleftrightarrow> item_size opts \<noteq> 0" by (simp add: word_neq_0_conv)
  show ?thesis
    unfolding validate_transport_options_def options_ok_def data_align_check pos
    by (cases "backend opts")
       (auto simp: is_windows_def is_power_of_two_uint32_iff infer_existing_shm_size_def
          min_shm_size_def not_less split: if_splits)
qed

lemma validate_producer_iff:
  "validate_producer_transport_options p A opts = Inr () \<longleftrightarrow>
     options_ok p A opts \<and>
     (backend opts = shared_memory \<longrightarrow> create_if_missing opts \<longrightarrow> shm_size opts \<noteq> 0) \<and>
     (backend opts = socket \<longrightarrow> \<not> socket_listen opts)"
  unfolding validate_producer_transport_options_def validate_transport_options_iff [symmetric]
  by (auto simp: infer_existing_shm_size_def split: sum.splits)

lemma validate_consumer_iff:
  "validate_consumer_transport_options p A opts = Inr () \<longleftrightarrow>
     options_ok p A opts \<and>
     (backend opts = shared_memory \<longrightarrow> create_if_missing opts \<longrightarrow> shm_size opts \<noteq> 0) \<and>
     (backend opts = socket \<longrightarrow> socket_listen opts)"
  unfolding validate_consumer_transport_options_def validate_transport_options_iff [symmetric]
  by (auto simp: infer_existing_shm_size_def split: sum.splits)

lemma validate_observer_iff:
  "validate_observer_transport_options p A opts = Inr () \<longleftrightarrow>
     options_ok p A opts \<and> backend opts = shared_memory"
  unfolding validate_observer_transport_options_def validate_transport_options_iff [symmetric]
  by (auto split: sum.splits)

lemma options_ok_align:
  "options_ok p A opts \<Longrightarrow> data_align opts = 0 \<or> is_power_of_two_uint32 (data_align opts)"
  by (auto simp: options_ok_def is_power_of_two_uint32_iff)

lemma shm_size_inverse:
  assumes "unat (sizeof_control_block A) + unat cap < 2 ^ 64"
  shows "shm_data_capacity_for_size A (shm_size_for_data_capacity A cap) = cap"
proof -
  from assms have u: "unat (sizeof_control_block A + cap) = unat (sizeof_control_block A) + unat cap"
    by (intro unat_add_no_wrap) simp
  show ?thesis
  proof (cases "cap = 0")
    case True
    then show ?thesis
      by (simp add: shm_data_capacity_for_size_def shm_size_for_data_capacity_def min_shm_size_def)
  next
    case False
    then have "0 < unat cap" by (simp add: unat_gt_0)
    with u have "sizeof_control_block A < sizeof_control_block A + cap"
      by (simp add: word_less_nat_alt)
    then show ?thesis
      by (simp add: shm_data_capacity_for_size_def shm_size_for_data_capacity_def min_shm_size_def)
  qed
qed

section \<open>Properties\<close>

text \<open>
  C14. The option validators accept exactly the well-formed options, for every role: a fixed channel
  has a non-zero item size, the alignment is 0 or a power of two from 4 to 2^31, a shared-memory
  endpoint has a path and a size of 0 or at least a control block (non-zero where it may create the
  segment), a socket producer connects and a socket consumer listens.
\<close>

theorem validators_accept_iff:
  "(validate_producer_transport_options p A opts = Inr () \<longleftrightarrow>
      options_ok p A opts \<and> \<not> (backend opts = shared_memory \<and> create_if_missing opts \<and> shm_size opts = 0) \<and>
      \<not> (backend opts = socket \<and> socket_listen opts)) \<and>
   (validate_consumer_transport_options p A opts = Inr () \<longleftrightarrow>
      options_ok p A opts \<and> \<not> (backend opts = shared_memory \<and> create_if_missing opts \<and> shm_size opts = 0) \<and>
      \<not> (backend opts = socket \<and> \<not> socket_listen opts)) \<and>
   (validate_observer_transport_options p A opts = Inr () \<longleftrightarrow>
      options_ok p A opts \<and> backend opts = shared_memory)"
  by (auto simp: validate_producer_iff validate_consumer_iff validate_observer_iff)

text \<open>
  The size helpers invert each other wherever the total size fits in \<open>size_t\<close>; above that the
  sum wraps, and a request for the last \<open>sizeof(control_block)\<close> capacities yields a segment size
  smaller than the control block.
\<close>

theorem shm_size_round_trip:
  "(if unat (sizeof_control_block A) + unat cap < 2 ^ 64
    then shm_data_capacity_for_size A (shm_size_for_data_capacity A cap) = cap
    else shm_size_for_data_capacity A cap < sizeof_control_block A \<and>
         shm_data_capacity_for_size A (shm_size_for_data_capacity A cap) = 0)"
proof (cases "unat (sizeof_control_block A) + unat cap < 2 ^ 64")
  case True
  then show ?thesis by (simp add: shm_size_inverse)
next
  case False
  have "unat (sizeof_control_block A + cap) = (unat (sizeof_control_block A) + unat cap) mod 2 ^ 64"
    by (simp add: unat_word_ariths)
  also have "\<dots> = unat (sizeof_control_block A) + unat cap - 2 ^ 64"
    using False unat_less_two_power [of cap] unat_less_two_power [of "sizeof_control_block A"]
    by (simp add: mod_if)
  finally have "sizeof_control_block A + cap < sizeof_control_block A"
    using False unat_less_two_power [of cap] by (simp add: word_less_nat_alt)
  then have lt: "shm_size_for_data_capacity A cap < sizeof_control_block A"
    by (simp add: shm_size_for_data_capacity_def min_shm_size_def)
  then have "\<not> min_shm_size A < shm_size_for_data_capacity A cap"
    by (simp add: min_shm_size_def)
  with False lt show ?thesis by (simp add: shm_data_capacity_for_size_def)
qed

end
