(* ===== verification/Ring.thy ===== *)
theory Ring
  imports Options
begin

text \<open>
  The interface of the third-party ring library \<open>spscring\<close> that the channel code calls, as a
  parameter of the model. The library is a git submodule whose source is not part of the
  repository, so nothing of it is defined here: the record \<open>spscring\<close> has one field per function the
  sources call, all state of a ring being in the mapped segment (its control block and its data
  region), and the predicates \<open>fixed_ring\<close>, \<open>varlen_ring\<close> and \<open>ring_frame\<close> name what the sources,
  their comments and their tests rely on:
  \<^item> a fixed ring of \<open>slots\<close> slots of \<open>item\<close> bytes (\<open>data_capacity\<close> is a multiple of the item size and
    a slot has no header) hands out a slot inside the data region unless all slots are in use, makes it
    visible on \<open>commit\<close>, and presents the oldest visible slot until \<open>read_advance\<close>;
  \<^item> a variable-length ring does the same for messages with metadata, reports a message that can never
    fit as too large and otherwise \<open>full\<close> when there is no room, and its \<open>read\<close> calls the handler on the
    oldest message and keeps that message exactly if the handler returns false;
  \<^item> no ring function touches the fields of the control block that xproc added or the geometry that
    was fixed at creation.

  A handler of \<open>varlen_read\<close> is the function from a message to its return value or the exception it
  throws; the result lists the messages it was called with.
\<close>

section \<open>Data\<close>

record segment =
  hdr :: control_block
  data :: "byte list"

record message_meta =
  user_data :: u64
  timestamp_ns :: u64
  meta_schema_id :: u32
  flags :: u32

type_synonym message = "message_meta \<times> byte list"

definition default_meta :: message_meta where
  "default_meta = \<lparr>user_data = 0, timestamp_ns = 0, meta_schema_id = 0, flags = 0\<rparr>"

datatype reserve_status = rs_ok | rs_full | rs_timeout | rs_message_too_large | rs_other nat

record reserve_result =
  rr_valid :: bool
  rr_status :: reserve_status
  rr_payload :: nat
  rr_position :: u64

record spscring =
  fixed_try_reserve :: "segment \<Rightarrow> nat option \<times> segment"
  fixed_spin_until_reserve :: "(nat \<Rightarrow> segment \<Rightarrow> segment) \<Rightarrow> segment \<Rightarrow> (nat \<times> segment) option"
  fixed_commit :: "segment \<Rightarrow> segment"
  fixed_try_read :: "segment \<Rightarrow> (nat \<times> u32) option"
  fixed_read_advance :: "segment \<Rightarrow> segment"
  varlen_try_reserve :: "u32 \<Rightarrow> message_meta \<Rightarrow> segment \<Rightarrow> reserve_result \<times> segment"
  varlen_commit :: "u64 \<Rightarrow> segment \<Rightarrow> segment"
  varlen_read :: "(message \<Rightarrow> exn + bool) \<Rightarrow> segment \<Rightarrow> (exn + bool) \<times> message list \<times> segment"
  reserve_status_cstr :: "reserve_status \<Rightarrow> string"
  notify_seq_value :: "u32 \<Rightarrow> u32"
  bump_notify_word :: "u32 \<Rightarrow> bool \<times> u32"

definition mem_write :: "nat \<Rightarrow> byte list \<Rightarrow> segment \<Rightarrow> segment" where
  "mem_write off bs s = s\<lparr>data := buf_write off bs (data s)\<rparr>"

definition mem_read :: "nat \<Rightarrow> nat \<Rightarrow> segment \<Rightarrow> byte list" where
  "mem_read off n s = buf_read off n (data s)"

section \<open>Documented behaviour\<close>

definition fixed_ring :: "spscring \<Rightarrow> nat \<Rightarrow> nat \<Rightarrow> (segment \<Rightarrow> bool) \<Rightarrow> (segment \<Rightarrow> byte list list) \<Rightarrow> bool" where
  "fixed_ring R item slots I q \<longleftrightarrow>
     (\<forall>s. I s \<longrightarrow> length (q s) \<le> slots \<and> (\<forall>m \<in> set (q s). length m = item)) \<and>
     (\<forall>s. I s \<and> length (q s) = slots \<longrightarrow>
        (\<exists>s'. fixed_try_reserve R s = (None, s') \<and> I s' \<and> q s' = q s)) \<and>
     (\<forall>s. I s \<and> length (q s) < slots \<longrightarrow>
        (\<exists>off s'. fixed_try_reserve R s = (Some off, s') \<and> off + item \<le> length (data s') \<and>
           (\<forall>bs. length bs = item \<longrightarrow>
              I (fixed_commit R (mem_write off bs s')) \<and>
              q (fixed_commit R (mem_write off bs s')) = q s @ [bs]))) \<and>
     (\<forall>s. I s \<and> q s = [] \<longrightarrow> fixed_try_read R s = None) \<and>
     (\<forall>s m ms. I s \<and> q s = m # ms \<longrightarrow>
        (\<exists>off. fixed_try_read R s = Some (off, of_nat item) \<and> mem_read off item s = m) \<and>
        I (fixed_read_advance R s) \<and> q (fixed_read_advance R s) = ms)"

text \<open>The outcomes of a variable-length reserve of \<open>len\<close> bytes in \<open>s\<close>.\<close>

definition reserve_post ::
  "spscring \<Rightarrow> nat \<Rightarrow> (segment \<Rightarrow> bool) \<Rightarrow> (segment \<Rightarrow> message list) \<Rightarrow> u32 \<Rightarrow> message_meta \<Rightarrow> segment
   \<Rightarrow> reserve_result \<Rightarrow> segment \<Rightarrow> bool" where
  "reserve_post R max_len I q len meta s r s' \<longleftrightarrow>
     (rr_valid r \<longleftrightarrow> rr_status r = rs_ok) \<and>
     (rr_status r \<noteq> rs_ok \<longrightarrow> I s' \<and> q s' = q s) \<and>
     (if max_len < unat len then rr_status r = rs_message_too_large
      else rr_status r = rs_ok \<or> rr_status r = rs_full \<and> q s \<noteq> []) \<and>
     (rr_status r = rs_ok \<longrightarrow>
        rr_payload r + unat len \<le> length (data s') \<and>
        (\<forall>bs. length bs = unat len \<longrightarrow>
           I (varlen_commit R (rr_position r) (mem_write (rr_payload r) bs s')) \<and>
           q (varlen_commit R (rr_position r) (mem_write (rr_payload r) bs s')) = q s @ [(meta, bs)]))"

definition varlen_ring :: "spscring \<Rightarrow> nat \<Rightarrow> (segment \<Rightarrow> bool) \<Rightarrow> (segment \<Rightarrow> message list) \<Rightarrow> bool" where
  "varlen_ring R max_len I q \<longleftrightarrow>
     (\<forall>s len meta r s'. I s \<and> varlen_try_reserve R len meta s = (r, s') \<longrightarrow>
        reserve_post R max_len I q len meta s r s') \<and>
     (\<forall>s b. I s \<and> q s = [] \<longrightarrow>
        (\<exists>s'. varlen_read R (\<lambda>_. Inr b) s = (Inr False, [], s') \<and> I s' \<and> q s' = [])) \<and>
     (\<forall>s m ms. I s \<and> q s = m # ms \<longrightarrow>
        (\<exists>s'. varlen_read R (\<lambda>_. Inr True) s = (Inr True, [m], s') \<and> I s' \<and> q s' = ms) \<and>
        (\<exists>r s'. varlen_read R (\<lambda>_. Inr False) s = (Inr r, [m], s') \<and> I s' \<and> q s' = m # ms))"

text \<open>The part of a control block that no ring operation changes.\<close>

definition frame_of :: "control_block \<Rightarrow> control_block" where
  "frame_of h = h\<lparr>spscring_cb := (spscring_cb h)\<lparr>write_pos := 0, read_pos := 0, commit_pos := 0,
     commit_seq := 0, read_wake_seq := 0\<rparr>\<rparr>"

definition ring_frame :: "spscring \<Rightarrow> bool" where
  "ring_frame R \<longleftrightarrow>
     (\<forall>s. frame_of (hdr (snd (fixed_try_reserve R s))) = frame_of (hdr s)) \<and>
     (\<forall>s. frame_of (hdr (fixed_commit R s)) = frame_of (hdr s)) \<and>
     (\<forall>s. frame_of (hdr (fixed_read_advance R s)) = frame_of (hdr s)) \<and>
     (\<forall>len meta s. frame_of (hdr (snd (varlen_try_reserve R len meta s))) = frame_of (hdr s)) \<and>
     (\<forall>pos s. frame_of (hdr (varlen_commit R pos s)) = frame_of (hdr s)) \<and>
     (\<forall>f s. frame_of (hdr (snd (snd (varlen_read R f s)))) = frame_of (hdr s))"

text \<open>
  A blocking reserve polls until it succeeds: with \<open>env i\<close> what the rest of the system does between
  the i-th attempt and the next, it returns the first successful attempt, and does not return (\<open>None\<close>)
  if no attempt succeeds.
\<close>

fun reserve_attempt :: "spscring \<Rightarrow> (nat \<Rightarrow> segment \<Rightarrow> segment) \<Rightarrow> nat \<Rightarrow> segment \<Rightarrow> segment" where
  "reserve_attempt R env 0 s = s"
| "reserve_attempt R env (Suc n) s = env n (snd (fixed_try_reserve R (reserve_attempt R env n s)))"

definition spin_spec :: "spscring \<Rightarrow> bool" where
  "spin_spec R \<longleftrightarrow>
     (\<forall>env s n off s'.
        (\<forall>k < n. fst (fixed_try_reserve R (reserve_attempt R env k s)) = None) \<and>
        fixed_try_reserve R (reserve_attempt R env n s) = (Some off, s') \<longrightarrow>
        fixed_spin_until_reserve R env s = Some (off, s')) \<and>
     (\<forall>env s. (\<forall>n. fst (fixed_try_reserve R (reserve_attempt R env n s)) = None) \<longrightarrow>
        fixed_spin_until_reserve R env s = None)"

section \<open>A concrete ring\<close>

text \<open>
  The hypotheses above can hold together: the ring below keeps the pending items in front of the data
  region, with their number in \<open>write_pos\<close> for fixed slots, and a single pending message (its metadata
  and length in spare fields of the block) for the variable-length calls. It is only used to apply
  theorems at concrete inputs.
\<close>

definition shift_count :: "segment \<Rightarrow> nat" where
  "shift_count s = unat (write_pos (spscring_cb (hdr s)))"

definition set_ring :: "(spsc_cb \<Rightarrow> spsc_cb) \<Rightarrow> segment \<Rightarrow> segment" where
  "set_ring f s = s\<lparr>hdr := (hdr s)\<lparr>spscring_cb := f (spscring_cb (hdr s))\<rparr>\<rparr>"

definition shift_inv :: "nat \<Rightarrow> nat \<Rightarrow> segment \<Rightarrow> bool" where
  "shift_inv item slots s \<longleftrightarrow> length (data s) = slots * item \<and> shift_count s \<le> slots"

definition shift_q :: "nat \<Rightarrow> segment \<Rightarrow> byte list list" where
  "shift_q item s = map (\<lambda>i. mem_read (i * item) item s) [0..<shift_count s]"

definition slot_inv :: "nat \<Rightarrow> segment \<Rightarrow> bool" where
  "slot_inv max_len s \<longleftrightarrow> length (data s) = max_len \<and> max_len < 2 ^ 32 \<and>
     (commit_seq (spscring_cb (hdr s)) \<noteq> 0 \<longrightarrow> unat (read_wake_seq (spscring_cb (hdr s))) \<le> max_len)"

definition slot_meta :: "segment \<Rightarrow> message_meta" where
  "slot_meta s = (let c = spscring_cb (hdr s) in
     \<lparr>user_data = write_pos c, timestamp_ns = read_pos c, meta_schema_id = ucast (drop_bit 32 (commit_pos c)),
      flags = ucast (commit_pos c)\<rparr>)"

definition slot_q :: "segment \<Rightarrow> message list" where
  "slot_q s = (let c = spscring_cb (hdr s) in
     if commit_seq c = 0 then [] else [(slot_meta s, take (unat (read_wake_seq c)) (data s))])"

partial_function (option) spin_loop ::
  "(segment \<Rightarrow> nat option \<times> segment) \<Rightarrow> (nat \<Rightarrow> segment \<Rightarrow> segment) \<Rightarrow> nat \<Rightarrow> segment \<Rightarrow> (nat \<times> segment) option" where
  "spin_loop try_reserve env i s =
     (case try_reserve s of
        (Some off, s') \<Rightarrow> Some (off, s')
      | (None, s') \<Rightarrow> spin_loop try_reserve env (Suc i) (env i s'))"

definition shift_ring :: "nat \<Rightarrow> nat \<Rightarrow> spscring" where
  "shift_ring item slots =
     (let try_reserve = (\<lambda>s. if shift_count s < slots then (Some (shift_count s * item), s) else (None, s))
      in \<lparr>
       fixed_try_reserve = try_reserve,
       fixed_spin_until_reserve = (\<lambda>env s. spin_loop try_reserve env 0 s),
       fixed_commit = set_ring (\<lambda>c. c\<lparr>write_pos := write_pos c + 1\<rparr>),
       fixed_try_read = (\<lambda>s. if shift_count s = 0 then None else Some (0, of_nat item)),
       fixed_read_advance = (\<lambda>s. set_ring (\<lambda>c. c\<lparr>write_pos := write_pos c - 1\<rparr>)
          (s\<lparr>data := drop item (data s) @ replicate item 0\<rparr>)),
       varlen_try_reserve = (\<lambda>len meta s.
          if length (data s) < unat len
          then (\<lparr>rr_valid = False, rr_status = rs_message_too_large, rr_payload = 0, rr_position = 0\<rparr>, s)
          else if commit_seq (spscring_cb (hdr s)) \<noteq> 0
          then (\<lparr>rr_valid = False, rr_status = rs_full, rr_payload = 0, rr_position = 0\<rparr>, s)
          else (\<lparr>rr_valid = True, rr_status = rs_ok, rr_payload = 0, rr_position = 0\<rparr>,
                set_ring (\<lambda>c. c\<lparr>write_pos := user_data meta, read_pos := timestamp_ns meta,
                  commit_pos := push_bit 32 (ucast (meta_schema_id meta)) OR ucast (flags meta),
                  read_wake_seq := len\<rparr>) s)),
       varlen_commit = (\<lambda>pos. set_ring (\<lambda>c. c\<lparr>commit_seq := 1\<rparr>)),
       varlen_read = (\<lambda>f s.
          case slot_q s of [] \<Rightarrow> (Inr False, [], s)
          | m # _ \<Rightarrow> (f m, [m],
              if f m = Inr True then set_ring (\<lambda>c. c\<lparr>commit_seq := 0\<rparr>) s else s)),
       reserve_status_cstr = (\<lambda>st. case st of rs_full \<Rightarrow> ''full'' | _ \<Rightarrow> ''error''),
       notify_seq_value = (\<lambda>w. w AND 0x7FFFFFFF),
       bump_notify_word = (\<lambda>w. (bit w 31, (w + 1) AND 0x7FFFFFFF))\<rparr>)"

section \<open>Consequences of the documented behaviour\<close>

lemma fixed_ring_bound [ring_law]:
  "fixed_ring R item slots I q \<Longrightarrow> I s \<Longrightarrow> length (q s) \<le> slots"
  by (simp add: fixed_ring_def)

lemma fixed_ring_item_length [ring_law]:
  "fixed_ring R item slots I q \<Longrightarrow> I s \<Longrightarrow> m \<in> set (q s) \<Longrightarrow> length m = item"
  by (simp add: fixed_ring_def)

lemma fixed_ring_full:
  assumes "fixed_ring R item slots I q" and "I s" and "\<not> length (q s) < slots"
  obtains s' where "fixed_try_reserve R s = (None, s')" and "I s'" and "q s' = q s"
proof -
  from assms have "length (q s) = slots" by (meson fixed_ring_bound le_neq_implies_less)
  with assms that show ?thesis unfolding fixed_ring_def by blast
qed

lemma fixed_ring_room:
  assumes "fixed_ring R item slots I q" and "I s" and "length (q s) < slots"
  obtains off s' where "fixed_try_reserve R s = (Some off, s')" and "off + item \<le> length (data s')"
    and "\<And>bs. length bs = item \<Longrightarrow> I (fixed_commit R (mem_write off bs s'))"
    and "\<And>bs. length bs = item \<Longrightarrow> q (fixed_commit R (mem_write off bs s')) = q s @ [bs]"
  using assms unfolding fixed_ring_def by blast

lemma fixed_ring_empty [ring_law]:
  "fixed_ring R item slots I q \<Longrightarrow> I s \<Longrightarrow> q s = [] \<Longrightarrow> fixed_try_read R s = None"
  unfolding fixed_ring_def by blast

lemma fixed_ring_front:
  assumes "fixed_ring R item slots I q" and "I s" and "q s = m # ms"
  obtains off where "fixed_try_read R s = Some (off, of_nat item)" and "mem_read off item s = m"
    and "I (fixed_read_advance R s)" and "q (fixed_read_advance R s) = ms"
  using assms unfolding fixed_ring_def by blast

lemma varlen_ring_reserve:
  "varlen_ring R max_len I q \<Longrightarrow> I s \<Longrightarrow> varlen_try_reserve R len meta s = (r, s') \<Longrightarrow>
     reserve_post R max_len I q len meta s r s'"
  unfolding varlen_ring_def by blast

lemma varlen_ring_empty:
  assumes "varlen_ring R max_len I q" and "I s" and "q s = []"
  obtains s' where "varlen_read R (\<lambda>_. Inr b) s = (Inr False, [], s')" and "I s'" and "q s' = []"
  using assms unfolding varlen_ring_def by blast

lemma varlen_ring_consume:
  assumes "varlen_ring R max_len I q" and "I s" and "q s = m # ms"
  obtains s' where "varlen_read R (\<lambda>_. Inr True) s = (Inr True, [m], s')" and "I s'" and "q s' = ms"
  using assms unfolding varlen_ring_def by blast

lemma varlen_ring_peek:
  assumes "varlen_ring R max_len I q" and "I s" and "q s = m # ms"
  obtains r s' where "varlen_read R (\<lambda>_. Inr False) s = (Inr r, [m], s')" and "I s'" and "q s' = m # ms"
  using assms unfolding varlen_ring_def by blast

section \<open>The concrete ring has the documented behaviour\<close>

lemma shift_count_simps [simp]:
  "shift_count (s\<lparr>data := d\<rparr>) = shift_count s"
  "shift_count (mem_write off bs s) = shift_count s"
  by (simp_all add: shift_count_def mem_write_def)

lemma set_ring_data [simp]: "data (set_ring f s) = data s"
  by (simp add: set_ring_def)

lemma mem_read_data: "mem_read off n (set_ring f s) = mem_read off n s"
  by (simp add: mem_read_def)

lemma shift_commit_count:
  assumes "shift_count s < slots" and "slots < 2 ^ 64"
  shows "shift_count (set_ring (\<lambda>c. c\<lparr>write_pos := write_pos c + 1\<rparr>) s) = Suc (shift_count s)"
  using assms by (simp add: shift_count_def set_ring_def unat_word_ariths)

lemma shift_advance_count:
  assumes "0 < shift_count s"
  shows "shift_count (set_ring (\<lambda>c. c\<lparr>write_pos := write_pos c - 1\<rparr>) s) = shift_count s - 1"
  using assms by (simp add: shift_count_def set_ring_def unat_minus_one unat_gt_0)

lemma buf_read_write_disjoint:
  "i + n \<le> off \<Longrightarrow> off + length bs \<le> length d \<Longrightarrow> buf_read i n (buf_write off bs d) = buf_read i n d"
  by (auto simp: buf_read_def buf_write_def drop_take min_def)

lemma slot_fits: "i < slots \<Longrightarrow> i * item + item \<le> slots * (item::nat)"
  by (metis Suc_leI add.commute mult_Suc mult_le_mono1)

lemma shift_commit_q:
  assumes "shift_inv item slots s" and "shift_count s < slots" and "slots < 2 ^ 64" and "length bs = item"
  defines "s' \<equiv> set_ring (\<lambda>c. c\<lparr>write_pos := write_pos c + 1\<rparr>) (mem_write (shift_count s * item) bs s)"
  shows "shift_inv item slots s'" and "shift_q item s' = shift_q item s @ [bs]"
proof -
  let ?off = "shift_count s * item"
  have len: "?off + length bs \<le> length (data s)"
    using assms slot_fits [of "shift_count s" slots item] by (simp add: shift_inv_def)
  have cnt: "shift_count s' = Suc (shift_count s)"
    unfolding s'_def using assms(2,3) by (subst shift_commit_count [where slots = slots]) simp_all
  show "shift_inv item slots s'"
    using assms(1,2) len cnt by (simp add: shift_inv_def s'_def mem_write_def)
  have old: "mem_read (i * item) item s' = mem_read (i * item) item s" if "i < shift_count s" for i
    using len slot_fits [OF that, of item] assms(4)
    by (simp add: s'_def mem_read_data mem_read_def mem_write_def buf_read_write_disjoint)
  have new: "mem_read ?off item s' = bs"
    using buf_read_write_same [OF len] assms(4)
    by (simp add: s'_def mem_read_data mem_read_def mem_write_def)
  show "shift_q item s' = shift_q item s @ [bs]"
    using cnt old new by (simp add: shift_q_def)
qed

lemma shift_advance_q:
  assumes "shift_inv item slots s" and "0 < shift_count s"
  defines "s' \<equiv> set_ring (\<lambda>c. c\<lparr>write_pos := write_pos c - 1\<rparr>) (s\<lparr>data := drop item (data s) @ replicate item 0\<rparr>)"
  shows "shift_inv item slots s'" and "shift_q item s = mem_read 0 item s # shift_q item s'"
proof -
  obtain n where n: "shift_count s = Suc n" using assms(2) by (cases "shift_count s") auto
  have cnt: "shift_count s' = n"
    unfolding s'_def using n by (subst shift_advance_count) simp_all
  have len: "length (data s) = slots * item" and n_le: "Suc n \<le> slots"
    using assms(1) n by (simp_all add: shift_inv_def)
  then have "item \<le> slots * item" by (cases slots) auto
  then show "shift_inv item slots s'"
    using len n_le cnt by (simp add: shift_inv_def s'_def)
  have shifted: "mem_read (i * item) item s' = mem_read (Suc i * item) item s" if "i < n" for i
  proof -
    have "Suc i * item + item \<le> length (data s)"
      using that n_le slot_fits [of "Suc i" slots item] len by simp
    then show ?thesis
      by (simp add: s'_def mem_read_data mem_read_def buf_read_def add.commute)
  qed
  have "[0..<shift_count s] = 0 # map Suc [0..<n]"
    by (simp add: n upt_conv_Cons map_Suc_upt)
  then show "shift_q item s = mem_read 0 item s # shift_q item s'"
    using cnt shifted by (simp add: shift_q_def)
qed

lemma shift_ring_fixed:
  assumes "slots < 2 ^ 64"
  shows "fixed_ring (shift_ring item slots) item slots (shift_inv item slots) (shift_q item)"
  unfolding fixed_ring_def
proof (intro conjI allI impI)
  fix s assume I: "shift_inv item slots s"
  then show "length (shift_q item s) \<le> slots" by (simp add: shift_inv_def shift_q_def)
  show "\<forall>m \<in> set (shift_q item s). length m = item"
  proof
    fix m assume "m \<in> set (shift_q item s)"
    then obtain i where "i < shift_count s" and m: "m = mem_read (i * item) item s"
      by (auto simp: shift_q_def)
    then have "i * item + item \<le> length (data s)"
      using I slot_fits [of i slots item] by (simp add: shift_inv_def)
    then show "length m = item" by (simp add: m mem_read_def)
  qed
next
  fix s assume "shift_inv item slots s \<and> length (shift_q item s) = slots"
  then show "\<exists>s'. fixed_try_reserve (shift_ring item slots) s = (None, s') \<and>
      shift_inv item slots s' \<and> shift_q item s' = shift_q item s"
    by (auto simp: shift_ring_def Let_def shift_q_def)
next
  fix s assume a: "shift_inv item slots s \<and> length (shift_q item s) < slots"
  then have lt: "shift_count s < slots" by (simp add: shift_q_def)
  have res: "fixed_try_reserve (shift_ring item slots) s = (Some (shift_count s * item), s)"
    using lt by (simp add: shift_ring_def Let_def)
  have fits: "shift_count s * item + item \<le> length (data s)"
    using a slot_fits [OF lt, of item] by (simp add: shift_inv_def)
  have commit: "fixed_commit (shift_ring item slots) = set_ring (\<lambda>c. c\<lparr>write_pos := write_pos c + 1\<rparr>)"
    by (simp add: shift_ring_def Let_def)
  show "\<exists>off s'. fixed_try_reserve (shift_ring item slots) s = (Some off, s') \<and>
      off + item \<le> length (data s') \<and>
      (\<forall>bs. length bs = item \<longrightarrow>
         shift_inv item slots (fixed_commit (shift_ring item slots) (mem_write off bs s')) \<and>
         shift_q item (fixed_commit (shift_ring item slots) (mem_write off bs s')) = shift_q item s @ [bs])"
    unfolding commit using res fits shift_commit_q [OF conjunct1 [OF a] lt assms] by blast
next
  fix s assume "shift_inv item slots s \<and> shift_q item s = []"
  then show "fixed_try_read (shift_ring item slots) s = None"
    by (simp add: shift_ring_def Let_def shift_q_def)
next
  fix s m ms assume a: "shift_inv item slots s \<and> shift_q item s = m # ms"
  then have pos: "0 < shift_count s" by (cases "shift_count s") (auto simp: shift_q_def)
  from a shift_advance_q(2) [OF _ pos] have "m = mem_read 0 item s" by auto
  then show "\<exists>off. fixed_try_read (shift_ring item slots) s = Some (off, of_nat item) \<and> mem_read off item s = m"
    using pos by (simp add: shift_ring_def Let_def)
  show "shift_inv item slots (fixed_read_advance (shift_ring item slots) s)"
    using a shift_advance_q(1) [OF _ pos] by (simp add: shift_ring_def Let_def)
  show "shift_q item (fixed_read_advance (shift_ring item slots) s) = ms"
    using a shift_advance_q(2) [OF _ pos] by (auto simp: shift_ring_def Let_def)
qed

lemma slot_meta_round_trip:
  "slot_meta (set_ring (\<lambda>c. c\<lparr>write_pos := user_data m, read_pos := timestamp_ns m,
      commit_pos := push_bit 32 (ucast (meta_schema_id m)) OR ucast (flags m), read_wake_seq := len\<rparr>) s) = m"
proof -
  have "ucast (drop_bit 32 (push_bit 32 (ucast a) OR ucast b :: u64)) = a" for a b :: u32
    by (rule bit_word_eqI) (auto simp: bit_simps dest: bit_imp_le_length)
  moreover have "ucast (push_bit 32 (ucast a) OR ucast b :: u64) = b" for a b :: u32
    by (rule bit_word_eqI) (auto simp: bit_simps)
  ultimately show ?thesis by (simp add: slot_meta_def set_ring_def Let_def)
qed

lemma slot_meta_cong [simp]:
  "slot_meta (mem_write off bs s) = slot_meta s"
  "slot_meta (set_ring (\<lambda>c. c\<lparr>commit_seq := x\<rparr>) s) = slot_meta s"
  by (simp_all add: slot_meta_def mem_write_def set_ring_def Let_def)

lemma slot_reserve_post:
  assumes "slot_inv max_len s" and "varlen_try_reserve (shift_ring item slots) len meta s = (r, s')"
  shows "reserve_post (shift_ring item slots) max_len (slot_inv max_len) slot_q len meta s r s'"
proof -
  let ?R = "shift_ring item slots"
  have len: "length (data s) = max_len" using assms(1) by (simp add: slot_inv_def)
  consider (large) "max_len < unat len" | (full) "unat len \<le> max_len" "commit_seq (spscring_cb (hdr s)) \<noteq> 0"
    | (room) "unat len \<le> max_len" "commit_seq (spscring_cb (hdr s)) = 0" by fastforce
  then show ?thesis
  proof cases
    case large
    with assms len show ?thesis by (auto simp: shift_ring_def Let_def reserve_post_def)
  next
    case full
    with assms len show ?thesis by (auto simp: shift_ring_def Let_def reserve_post_def slot_q_def)
  next
    case room
    let ?f = "\<lambda>c. c\<lparr>write_pos := user_data meta, read_pos := timestamp_ns meta,
                  commit_pos := push_bit 32 (ucast (meta_schema_id meta)) OR ucast (flags meta),
                  read_wake_seq := len\<rparr>"
    have s': "s' = set_ring ?f s" and r: "r = \<lparr>rr_valid = True, rr_status = rs_ok, rr_payload = 0, rr_position = 0\<rparr>"
      using assms(2) room len by (auto simp: shift_ring_def Let_def)
    have c: "varlen_commit ?R pos = set_ring (\<lambda>c. c\<lparr>commit_seq := 1\<rparr>)" for pos
      by (simp add: shift_ring_def Let_def)
    have q0: "slot_q s = []" using room by (simp add: slot_q_def)
    have "slot_inv max_len (varlen_commit ?R 0 (mem_write 0 bs s')) \<and>
          slot_q (varlen_commit ?R 0 (mem_write 0 bs s')) = [(meta, bs)]" if "length bs = unat len" for bs
      using that room len assms(1) slot_meta_round_trip [where m = meta and len = len and s = s] unfolding c s'
      by (auto simp: slot_inv_def slot_q_def Let_def set_ring_def mem_write_def buf_write_def slot_meta_def)
    with room len q0 s' r show ?thesis by (simp add: reserve_post_def)
  qed
qed

lemma shift_ring_varlen:
  "varlen_ring (shift_ring item slots) max_len (slot_inv max_len) slot_q"
proof -
  let ?R = "shift_ring item slots"
  have rd: "varlen_read ?R f s = (case slot_q s of [] \<Rightarrow> (Inr False, [], s)
      | m # _ \<Rightarrow> (f m, [m], if f m = Inr True then set_ring (\<lambda>c. c\<lparr>commit_seq := 0\<rparr>) s else s))" for f s
    by (simp add: shift_ring_def Let_def)
  have cleared: "slot_inv max_len (set_ring (\<lambda>c. c\<lparr>commit_seq := 0\<rparr>) s)"
      "slot_q (set_ring (\<lambda>c. c\<lparr>commit_seq := 0\<rparr>) s) = []" if "slot_inv max_len s" for s
    using that by (simp_all add: slot_inv_def slot_q_def set_ring_def)
  have one: "slot_q s = m # ms \<Longrightarrow> ms = []" for s m ms
    by (simp add: slot_q_def Let_def split: if_splits)
  show ?thesis
    unfolding varlen_ring_def rd
    using slot_reserve_post cleared by (auto dest: one)
qed

lemma spin_loop_first:
  assumes "\<forall>k < n. fst (fixed_try_reserve R (reserve_attempt R env k s)) = None"
    and "fixed_try_reserve R (reserve_attempt R env n s) = (Some off, s')"
    and "i \<le> n"
  shows "spin_loop (fixed_try_reserve R) env i (reserve_attempt R env i s) = Some (off, s')"
  using assms(3)
proof (induction "n - i" arbitrary: i)
  case 0
  with assms(2) show ?case by (simp add: spin_loop.simps)
next
  case (Suc d)
  then have "i < n" by simp
  have "spin_loop (fixed_try_reserve R) env (Suc i) (reserve_attempt R env (Suc i) s) = Some (off, s')"
    using Suc.hyps(2) by (intro Suc.hyps(1)) auto
  with \<open>i < n\<close> show ?case
    using assms(1) by (subst spin_loop.simps) (auto split: prod.splits)
qed

lemma spin_loop_returns:
  assumes ret: "spin_loop tr env i s = Some r"
  shows "\<forall>R s0. tr = fixed_try_reserve R \<longrightarrow> s = reserve_attempt R env i s0 \<longrightarrow>
    (\<exists>n. fst (fixed_try_reserve R (reserve_attempt R env n s0)) \<noteq> None)"
proof (rule spin_loop.raw_induct [where P = "\<lambda>tr env i s r. \<forall>R s0. tr = fixed_try_reserve R \<longrightarrow>
      s = reserve_attempt R env i s0 \<longrightarrow>
      (\<exists>n. fst (fixed_try_reserve R (reserve_attempt R env n s0)) \<noteq> None)", OF _ ret])
  fix f tr env i s r
  assume IH: "\<And>tr env i s r. f tr env i s = Some r \<Longrightarrow> \<forall>R s0. tr = fixed_try_reserve R \<longrightarrow>
      s = reserve_attempt R env i s0 \<longrightarrow>
      (\<exists>n. fst (fixed_try_reserve R (reserve_attempt R env n s0)) \<noteq> None)"
    and eq: "(case tr s of (Some off, s') \<Rightarrow> Some (off, s') | (None, s') \<Rightarrow> f tr env (Suc i) (env i s')) = Some r"
  show "\<forall>R s0. tr = fixed_try_reserve R \<longrightarrow> s = reserve_attempt R env i s0 \<longrightarrow>
      (\<exists>n. fst (fixed_try_reserve R (reserve_attempt R env n s0)) \<noteq> None)"
  proof (intro allI impI)
    fix R s0 assume tr: "tr = fixed_try_reserve R" and s: "s = reserve_attempt R env i s0"
    show "\<exists>n. fst (fixed_try_reserve R (reserve_attempt R env n s0)) \<noteq> None"
    proof (cases "fst (tr s)")
      case (Some off)
      with tr s show ?thesis by (intro exI [of _ i]) simp
    next
      case None
      with eq have "f tr env (Suc i) (env i (snd (tr s))) = Some r" by (cases "tr s") auto
      from IH [OF this] tr s show ?thesis by simp
    qed
  qed
qed

lemma shift_ring_spin: "spin_spec (shift_ring item slots)"
proof -
  let ?R = "shift_ring item slots"
  have spin: "fixed_spin_until_reserve ?R env s = spin_loop (fixed_try_reserve ?R) env 0 s" for env s
    by (simp add: shift_ring_def Let_def)
  show ?thesis
    unfolding spin_spec_def spin
  proof (intro conjI allI impI)
    fix env s n off s'
    assume "(\<forall>k < n. fst (fixed_try_reserve ?R (reserve_attempt ?R env k s)) = None) \<and>
        fixed_try_reserve ?R (reserve_attempt ?R env n s) = (Some off, s')"
    then show "spin_loop (fixed_try_reserve ?R) env 0 s = Some (off, s')"
      using spin_loop_first [of n ?R env s off s' 0] by simp
  next
    fix env s
    assume none: "\<forall>n. fst (fixed_try_reserve ?R (reserve_attempt ?R env n s)) = None"
    show "spin_loop (fixed_try_reserve ?R) env 0 s = None"
    proof (rule ccontr)
      assume "spin_loop (fixed_try_reserve ?R) env 0 s \<noteq> None"
      then obtain r where "spin_loop (fixed_try_reserve ?R) env 0 s = Some r" by blast
      from spin_loop_returns [OF this] none show False by auto
    qed
  qed
qed

lemma shift_ring_frame: "ring_frame (shift_ring item slots)"
  by (auto simp: ring_frame_def shift_ring_def Let_def frame_of_def set_ring_def split: list.splits)

end
