(* ===== verification/Endpoint.thy ===== *)
theory Endpoint
  imports Ring
begin

text \<open>
  The shared-memory endpoint: \<open>include/xproc/ipc/endpoint.hpp\<close>, over the interface of the class
  \<open>core::shm\<close> (\<open>include/xproc/core/shm.hpp\<close>, \<open>shm_open_mode.hpp\<close>).

  \<open>core::shm\<close> has a POSIX and a Windows implementation with one interface, chosen when the library is
  built. The record \<open>shm_backend\<close> holds that interface: \<open>'s\<close> is the state of a \<open>shm\<close> object, \<open>'k\<close> the
  state of the operating system and of the memory it maps, and \<open>bk_load\<close>/\<open>bk_store\<close> access the segment
  mapped at an address. The locale \<open>shm_api\<close> states what an endpoint relies on of an implementation; the
  theories \<open>Shm_Posix\<close> and \<open>Shm_Win32\<close> interpret it for theirs.

  An exception thrown by a constructor destroys the members built so far, so every failing path of
  \<open>establish_connection\<close> ends with the destructor of the \<open>shm\<close> member, which detaches it.
\<close>

section \<open>Data\<close>

datatype shm_open_mode = mode_create | mode_open | mode_open_create | mode_read

record ('s, 'k) shm_backend =
  bk_fresh :: 's
  bk_open :: "string \<Rightarrow> u64 \<Rightarrow> shm_open_mode \<Rightarrow> string \<Rightarrow> 's \<Rightarrow> 'k \<Rightarrow> bool \<times> 's \<times> 'k"
  bk_detach :: "'s \<Rightarrow> 'k \<Rightarrow> 's \<times> 'k"
  bk_addr :: "'s \<Rightarrow> nat option"
  bk_created :: "'s \<Rightarrow> bool"
  bk_os_error :: "'s \<Rightarrow> int"
  bk_load :: "'k \<Rightarrow> nat \<Rightarrow> segment"
  bk_store :: "nat \<Rightarrow> segment \<Rightarrow> 'k \<Rightarrow> 'k"

datatype role = producer_role | consumer_role | observer_role

record 's endpoint =
  ep_role :: role
  ep_shm :: 's
  ep_header :: "nat option"
  ep_opts :: transport_options

section \<open>Operations\<close>

definition attach_error :: "string \<Rightarrow> string \<Rightarrow> int \<Rightarrow> exn" where
  "attach_error context p err =
     Runtime_error (context @ ''failed to attach shm path: '' @ p @
       (if err \<noteq> 0 then '' (os_error='' @ int_to_string err @ '')'' else []))"

definition layout_type_of :: "transport_options \<Rightarrow> u32" where
  "layout_type_of opts = (if chan_type opts = fixed then 0 else 1)"

definition data_align_of :: "transport_options \<Rightarrow> u32" where
  "data_align_of opts = (if data_align opts \<noteq> 0 then data_align opts else 8)"

definition fixed_item_size_of :: "transport_options \<Rightarrow> u32" where
  "fixed_item_size_of opts = (if chan_type opts = fixed then item_size opts else 0)"

definition resolve_options :: "abi \<Rightarrow> control_block \<Rightarrow> transport_options \<Rightarrow> transport_options" where
  "resolve_options A h opts =
     opts\<lparr>shm_size := shm_size_for_data_capacity A (data_capacity (spscring_cb h)),
          creator_timestamp_ns := cb_creator_timestamp_ns h,
          creator_flags := cb_creator_flags h\<rparr>"

definition validate_for_role :: "platform \<Rightarrow> abi \<Rightarrow> role \<Rightarrow> transport_options \<Rightarrow> exn + unit" where
  "validate_for_role p A r opts =
     (if r = producer_role then validate_producer_transport_options p A opts
      else if r = consumer_role then validate_consumer_transport_options p A opts
      else validate_transport_options p A opts)"

text \<open>The final stores to \<open>producer_pid\<close>.\<close>

definition store_pid :: "role \<Rightarrow> bool \<Rightarrow> int \<Rightarrow> control_block \<Rightarrow> control_block" where
  "store_pid r is_creator pid h =
     (let h1 = (if is_creator \<and> r \<noteq> producer_role then h\<lparr>producer_pid := 0\<rparr> else h)
      in if r = producer_role then h1\<lparr>producer_pid := pid\<rparr> else h1)"

definition establish_connection ::
  "platform \<Rightarrow> abi \<Rightarrow> init_fn \<Rightarrow> int \<Rightarrow> ('s, 'k) shm_backend \<Rightarrow> role \<Rightarrow> transport_options \<Rightarrow> 'k
   \<Rightarrow> (exn + 's endpoint) \<times> 'k" where
  "establish_connection p A init pid B r opts k =
     (if r = observer_role
      then (Inl (Logic_error (''endpoint: observer role is not supported here; '' @
              ''use xproc::ipc::observer for read-only attach instead'')), snd (bk_detach B (bk_fresh B) k))
      else
        (case validate_for_role p A r opts of
           Inl e \<Rightarrow> (Inl e, snd (bk_detach B (bk_fresh B) k))
         | Inr _ \<Rightarrow>
             let mode = (if create_if_missing opts then mode_open_create else mode_open) in
             (case bk_open B (path opts) (shm_size opts) mode (win32_object_namespace opts) (bk_fresh B) k of
                (False, s, k1) \<Rightarrow>
                  (Inl (attach_error ''endpoint: '' (path opts) (bk_os_error B s)), snd (bk_detach B s k1))
              | (True, s, k1) \<Rightarrow>
                  (case bk_addr B s of
                     None \<Rightarrow> (Inl (layout_exception ''endpoint: '' not_attached), snd (bk_detach B s k1))
                   | Some a \<Rightarrow>
                       let is_creator = bk_created B s;
                           cap = shm_data_capacity_for_size A (shm_size opts);
                           lt = layout_type_of opts;
                           al = data_align_of opts;
                           item = fixed_item_size_of opts;
                           seg = bk_load B k1 a
                       in
                       (case format A init pid True (hdr seg) cap is_creator lt al item (schema_id opts)
                               (creator_timestamp_ns opts) (creator_flags opts) ref_count of
                          (False, h) \<Rightarrow>
                            let k2 = bk_store B a (seg\<lparr>hdr := h\<rparr>) k1;
                                err = validate_detailed A (Some (\<lambda>_. hdr (bk_load B k2 a))) cap lt al item
                                        (schema_id opts)
                            in (Inl (layout_exception ''endpoint: '' err), snd (bk_detach B s k2))
                        | (True, h) \<Rightarrow>
                            (Inr \<lparr>ep_role = r, ep_shm = s, ep_header = Some a,
                                  ep_opts = resolve_options A h opts\<rparr>,
                             bk_store B a (seg\<lparr>hdr := store_pid r is_creator pid h\<rparr>) k1))))))"

definition release_header :: "control_block \<Rightarrow> control_block" where
  "release_header h = h\<lparr>attach_count := attach_count h - 1\<rparr>"

definition destroy_endpoint :: "('s, 'k) shm_backend \<Rightarrow> 's endpoint \<Rightarrow> 'k \<Rightarrow> 'k" where
  "destroy_endpoint B ep k =
     (let k1 = (case ep_header ep of
                  None \<Rightarrow> k
                | Some a \<Rightarrow> let seg = bk_load B k a in bk_store B a (seg\<lparr>hdr := release_header (hdr seg)\<rparr>) k)
      in snd (bk_detach B (ep_shm ep) k1))"

definition is_connected :: "'s endpoint \<Rightarrow> bool" where
  "is_connected ep \<longleftrightarrow> ep_header ep \<noteq> None"

section \<open>The life of a control block\<close>

text \<open>
  One step of any process on a block together with the number of live producer and consumer endpoints:
  creation, a reference-counted or read-only attach, a refused attach, a \<open>producer_pid\<close> store, the
  destruction of an endpoint, and anything a ring operation may do.
\<close>

inductive block_step :: "abi \<Rightarrow> init_fn \<Rightarrow> control_block \<times> nat \<Rightarrow> control_block \<times> nat \<Rightarrow> bool"
  for A :: abi and init :: init_fn where
  attach: "format A init pid True h cap False lt al item sid ts fl ref_count = (True, h') \<Longrightarrow>
     block_step A init (h, n) (h', Suc n)"
| observe: "format A init pid True h cap False lt al item sid ts fl readonly = (True, h') \<Longrightarrow>
     block_step A init (h, n) (h', n)"
| refuse: "format A init pid True h cap False lt al item sid ts fl b = (False, h') \<Longrightarrow>
     block_step A init (h, n) (h', n)"
| pid: "block_step A init (h, n) (h\<lparr>producer_pid := p\<rparr>, n)"
| release: "block_step A init (h, Suc n) (release_header h, n)"
| ring: "frame_of h' = frame_of h \<Longrightarrow> block_step A init (h, n) (h', n)"

inductive block_life :: "abi \<Rightarrow> init_fn \<Rightarrow> control_block \<Rightarrow> control_block \<times> nat \<Rightarrow> bool"
  for A :: abi and init :: init_fn and h0 :: control_block where
  created: "block_life A init h0 (h0, 1)"
| next_step: "block_life A init h0 x \<Longrightarrow> block_step A init x y \<Longrightarrow> block_life A init h0 y"

text \<open>A fixed channel of eight 8-byte slots under schema 7, for applying theorems at a concrete input.\<close>

definition ref_options :: transport_options where
  "ref_options = default_options\<lparr>path := ''/x'', shm_size := 448, item_size := 8, data_align := 8,
                                schema_id := 7, create_if_missing := True, chan_type := fixed\<rparr>"

definition ref_endpoint :: "role \<Rightarrow> channel_type \<Rightarrow> unit endpoint" where
  "ref_endpoint r t = \<lparr>ep_role = r, ep_shm = (), ep_header = Some 4, ep_opts = ref_options\<lparr>chan_type := t\<rparr>\<rparr>"

definition ref_segment :: segment where
  "ref_segment = \<lparr>hdr = ref_block, data = replicate 64 0\<rparr>"

section \<open>What an endpoint relies on of the shm class\<close>

locale shm_api =
  fixes B :: "('s, 'k) shm_backend"
  assumes open_addr: "bk_open B nm sz m ns (bk_fresh B) k = (True, s, k') \<Longrightarrow> bk_addr B s \<noteq> None"
    and open_fail_addr: "bk_open B nm sz m ns (bk_fresh B) k = (False, s, k') \<Longrightarrow> bk_addr B s = None"
    and created_only_when_allowed:
      "bk_open B nm sz m ns (bk_fresh B) k = (True, s, k') \<Longrightarrow> bk_created B s \<Longrightarrow>
         m \<in> {mode_create, mode_open_create} \<and> sz \<noteq> 0"
    and detach_addr: "bk_addr B (fst (bk_detach B s k)) = None"
begin

lemma establish_success:
  assumes "establish_connection p A init pid B r opts k = (Inr ep, k')"
  obtains a k1 s h where
    "validate_for_role p A r opts = Inr ()" and "r \<noteq> observer_role"
    and "bk_open B (path opts) (shm_size opts) (if create_if_missing opts then mode_open_create else mode_open)
           (win32_object_namespace opts) (bk_fresh B) k = (True, s, k1)"
    and "bk_addr B s = Some a"
    and "format A init pid True (hdr (bk_load B k1 a)) (shm_data_capacity_for_size A (shm_size opts))
           (bk_created B s) (layout_type_of opts) (data_align_of opts) (fixed_item_size_of opts) (schema_id opts)
           (creator_timestamp_ns opts) (creator_flags opts) ref_count = (True, h)"
    and "ep = \<lparr>ep_role = r, ep_shm = s, ep_header = Some a, ep_opts = resolve_options A h opts\<rparr>"
    and "k' = bk_store B a ((bk_load B k1 a)\<lparr>hdr := store_pid r (bk_created B s) pid h\<rparr>) k1"
  using assms unfolding establish_connection_def Let_def
  by (auto split: if_split_asm sum.split_asm prod.split_asm bool.split_asm option.split_asm)

lemma establish_connection_cases:
  assumes "establish_connection p A init pid B r opts k = (Inl e, k')"
  obtains "k' = snd (bk_detach B (bk_fresh B) k)"
  | s k1 nm sz m ns where "bk_open B nm sz m ns (bk_fresh B) k = (False, s, k1)" and "k' = snd (bk_detach B s k1)"
  | s k1 nm sz m ns where "bk_open B nm sz m ns (bk_fresh B) k = (True, s, k1)" and "k' = snd (bk_detach B s k1)"
  | s k1 nm sz m ns a seg where "bk_open B nm sz m ns (bk_fresh B) k = (True, s, k1)" and "bk_addr B s = Some a"
      and "k' = snd (bk_detach B s (bk_store B a seg k1))"
proof -
  obtain b s k1 where op: "bk_open B (path opts) (shm_size opts)
      (if create_if_missing opts then mode_open_create else mode_open)
      (win32_object_namespace opts) (bk_fresh B) k = (b, s, k1)"
    by (metis surj_pair)
  show ?thesis
  proof (cases "r = observer_role \<or> (\<exists>x. validate_for_role p A r opts = Inl x)")
    case True
    then have "k' = snd (bk_detach B (bk_fresh B) k)"
      using assms by (auto simp: establish_connection_def split: if_splits)
    then show ?thesis by (rule that(1))
  next
    case False
    then have pre: "r \<noteq> observer_role" "validate_for_role p A r opts = Inr ()"
      by (auto, cases "validate_for_role p A r opts") auto
    show ?thesis
    proof (cases b)
      case False
      then show ?thesis using assms pre op that(2) by (auto simp: establish_connection_def)
    next
      case True
      then have op': "bk_open B (path opts) (shm_size opts)
          (if create_if_missing opts then mode_open_create else mode_open)
          (win32_object_namespace opts) (bk_fresh B) k = (True, s, k1)" using op by simp
      then obtain a where a: "bk_addr B s = Some a" using open_addr by blast
      obtain h where "k' = snd (bk_detach B s (bk_store B a ((bk_load B k1 a)\<lparr>hdr := h\<rparr>) k1))"
        using assms pre a by (auto simp: establish_connection_def op' Let_def split: prod.split_asm bool.split_asm)
      then show ?thesis by (rule that(4) [OF op' a])
    qed
  qed
qed

lemma attacher_never_formats:
  assumes "establish_connection p A init pid B r opts k = (Inr ep, k')" and "\<not> create_if_missing opts"
  shows "\<not> bk_created B (ep_shm ep)"
  using assms(1)
proof (rule establish_success)
  fix a k1 s h
  assume "bk_open B (path opts) (shm_size opts) (if create_if_missing opts then mode_open_create else mode_open)
           (win32_object_namespace opts) (bk_fresh B) k = (True, s, k1)"
    and ep: "ep = \<lparr>ep_role = r, ep_shm = s, ep_header = Some a, ep_opts = resolve_options A h opts\<rparr>"
  then show ?thesis using assms(2) created_only_when_allowed by fastforce
qed

end

text \<open>
  A backend that gives back what it takes: \<open>res\<close> is what the operating system holds for its users
  (descriptors and mappings, or handles and views), \<open>spec\<close> what is assumed of the system and of the
  state the backend is used in.
\<close>

locale shm_resources = shm_api B for B :: "('s, 'k) shm_backend" +
  fixes res :: "'k \<Rightarrow> 'r" and spec :: "'k \<Rightarrow> bool"
  assumes detach_fresh: "spec k \<Longrightarrow> res (snd (bk_detach B (bk_fresh B) k)) = res k"
    and open_fail_res: "spec k \<Longrightarrow> bk_open B nm sz m ns (bk_fresh B) k = (False, s, k') \<Longrightarrow>
          res (snd (bk_detach B s k')) = res k"
    and store_res: "spec k \<Longrightarrow> bk_open B nm sz m ns (bk_fresh B) k = (True, s, k') \<Longrightarrow> res k'' = res k' \<Longrightarrow>
          bk_addr B s = Some a \<Longrightarrow> res (bk_store B a seg k'') = res k''"
    and open_detach_res: "spec k \<Longrightarrow> bk_open B nm sz m ns (bk_fresh B) k = (True, s, k') \<Longrightarrow>
          res k'' = res k' \<Longrightarrow> res (snd (bk_detach B s k'')) = res k"
begin

lemma establish_failure_releases:
  assumes "spec k" and "establish_connection p A init pid B r opts k = (Inl e, k')"
  shows "res k' = res k"
proof (rule establish_connection_cases [OF assms(2)])
  assume "k' = snd (bk_detach B (bk_fresh B) k)"
  then show ?thesis by (simp add: detach_fresh [OF assms(1)])
next
  fix s k1 nm sz m ns
  assume "bk_open B nm sz m ns (bk_fresh B) k = (False, s, k1)" and "k' = snd (bk_detach B s k1)"
  then show ?thesis by (simp add: open_fail_res [OF assms(1)])
next
  fix s k1 nm sz m ns
  assume "bk_open B nm sz m ns (bk_fresh B) k = (True, s, k1)" and "k' = snd (bk_detach B s k1)"
  then show ?thesis by (simp add: open_detach_res [OF assms(1)])
next
  fix s k1 nm sz m ns a seg
  assume op: "bk_open B nm sz m ns (bk_fresh B) k = (True, s, k1)" and "bk_addr B s = Some a"
    and k': "k' = snd (bk_detach B s (bk_store B a seg k1))"
  then have "res (bk_store B a seg k1) = res k1" by (simp add: store_res [OF assms(1)])
  then show ?thesis using open_detach_res [OF assms(1) op] k' by simp
qed

lemma establish_destroy_releases:
  assumes "spec k" and "establish_connection p A init pid B r opts k = (Inr ep, k')" and "res k'' = res k'"
  shows "res (destroy_endpoint B ep k'') = res k"
  using assms(2)
proof (rule establish_success)
  fix a k1 s h
  assume op: "bk_open B (path opts) (shm_size opts) (if create_if_missing opts then mode_open_create else mode_open)
           (win32_object_namespace opts) (bk_fresh B) k = (True, s, k1)"
    and a: "bk_addr B s = Some a"
    and ep: "ep = \<lparr>ep_role = r, ep_shm = s, ep_header = Some a, ep_opts = resolve_options A h opts\<rparr>"
    and k': "k' = bk_store B a ((bk_load B k1 a)\<lparr>hdr := store_pid r (bk_created B s) pid h\<rparr>) k1"
  have "res k'' = res k1" using store_res [OF assms(1) op refl a] assms(3) k' by simp
  then have "res (bk_store B a seg k'') = res k1" for seg using store_res [OF assms(1) op _ a] by simp
  then show ?thesis using open_detach_res [OF assms(1) op] by (simp add: destroy_endpoint_def ep Let_def)
qed

end

section \<open>Steps of a block\<close>

lemma frame_of_sel:
  "attach_count (frame_of h) = attach_count h"
  "is_ready (frame_of h) = is_ready h"
  "cb_schema_id (frame_of h) = cb_schema_id h"
  "magic (spscring_cb (frame_of h)) = magic (spscring_cb h)"
  "version_major (spscring_cb (frame_of h)) = version_major (spscring_cb h)"
  "version_minor (spscring_cb (frame_of h)) = version_minor (spscring_cb h)"
  "header_size (spscring_cb (frame_of h)) = header_size (spscring_cb h)"
  "layout_type (spscring_cb (frame_of h)) = layout_type (spscring_cb h)"
  "fixed_item_size (spscring_cb (frame_of h)) = fixed_item_size (spscring_cb h)"
  "data_capacity (spscring_cb (frame_of h)) = data_capacity (spscring_cb h)"
  "data_alignment (spscring_cb (frame_of h)) = data_alignment (spscring_cb h)"
  by (simp_all add: frame_of_def)

lemma frame_of_fields:
  assumes "frame_of h' = frame_of h"
  shows "attach_count h' = attach_count h" "is_ready h' = is_ready h" "cb_schema_id h' = cb_schema_id h"
    "magic (spscring_cb h') = magic (spscring_cb h)"
    "version_major (spscring_cb h') = version_major (spscring_cb h)"
    "version_minor (spscring_cb h') = version_minor (spscring_cb h)"
    "header_size (spscring_cb h') = header_size (spscring_cb h)"
    "layout_type (spscring_cb h') = layout_type (spscring_cb h)"
    "fixed_item_size (spscring_cb h') = fixed_item_size (spscring_cb h)"
    "data_capacity (spscring_cb h') = data_capacity (spscring_cb h)"
    "data_alignment (spscring_cb h') = data_alignment (spscring_cb h)"
  using frame_of_sel [of h'] unfolding assms frame_of_sel by simp_all

lemma validate_fields:
  "validate A (Some (\<lambda>_. h)) cap lt al item sid \<longleftrightarrow>
     magic (spscring_cb h) = expected_magic A \<and> is_ready h \<and> well_formed_block A h cap lt al item sid"
  by (simp add: validate_iff_ok validate_detailed_quiescent)

lemma validate_frame:
  assumes "frame_of h' = frame_of h"
  shows "validate A (Some (\<lambda>_. h')) cap lt al item sid = validate A (Some (\<lambda>_. h)) cap lt al item sid"
  by (simp add: validate_fields well_formed_block_def Let_def frame_of_fields [OF assms])

lemma validate_count_pid [simp]:
  "validate A (Some (\<lambda>_. h\<lparr>attach_count := c\<rparr>)) cap lt al item sid = validate A (Some (\<lambda>_. h)) cap lt al item sid"
  "validate A (Some (\<lambda>_. h\<lparr>producer_pid := p\<rparr>)) cap lt al item sid = validate A (Some (\<lambda>_. h)) cap lt al item sid"
  by (simp_all add: validate_fields well_formed_block_def Let_def)

lemma format_attacher:
  "format A init pid True h cap False lt al item sid ts fl b = (r, h') \<longleftrightarrow>
     r = validate A (Some (\<lambda>_. h)) cap lt al item sid \<and>
     h' = (if r \<and> b = ref_count then h\<lparr>attach_count := attach_count h + 1\<rparr> else h)"
  by (auto simp: format_def)

lemma block_step_keeps:
  assumes "block_step A init (h, n) (h', n')" and "attach_count h = of_nat n"
  shows "attach_count h' = of_nat n' \<and>
     (\<forall>cap lt al item sid. validate A (Some (\<lambda>_. h')) cap lt al item sid = validate A (Some (\<lambda>_. h)) cap lt al item sid)"
  using assms(1)
proof (cases rule: block_step.cases)
  case ring
  then show ?thesis using assms(2) frame_of_fields(1) [of h' h] validate_frame [of h' h] by simp
qed (use assms(2) in \<open>auto simp: format_attacher release_header_def\<close>)

lemma block_life_keeps:
  assumes "block_life A init h0 x" and "attach_count h0 = 1"
  shows "attach_count (fst x) = of_nat (snd x) \<and>
     (\<forall>cap lt al item sid. validate A (Some (\<lambda>_. fst x)) cap lt al item sid = validate A (Some (\<lambda>_. h0)) cap lt al item sid)"
  using assms
proof (induction rule: block_life.induct)
  case (next_step x y)
  then show ?case using block_step_keeps [of A init "fst x" "snd x" "fst y" "snd y"] by simp
qed simp

text \<open>What stays the same for the whole life of a block.\<close>

definition static_part :: "control_block \<Rightarrow> control_block" where
  "static_part h = (frame_of h)\<lparr>attach_count := 0, producer_pid := 0\<rparr>"

lemma static_part_updates [simp]:
  "static_part (h\<lparr>attach_count := n\<rparr>) = static_part h" "static_part (h\<lparr>producer_pid := p\<rparr>) = static_part h"
  by (simp_all add: static_part_def frame_of_def)

lemma block_life_static: "block_life A init h0 x \<Longrightarrow> static_part (fst x) = static_part h0"
proof (induction rule: block_life.induct)
  case (next_step x y)
  from next_step(2) have "static_part (fst y) = static_part (fst x)"
    by (cases rule: block_step.cases) (auto simp: format_attacher release_header_def, simp add: static_part_def)
  with next_step(3) show ?case by simp
qed simp

lemma init_header_count: "init_header A init pid h cap lt al item sid ts fl = (True, h') \<Longrightarrow> attach_count h' = 1"
  by (erule init_header_TrueE) simp

section \<open>Properties\<close>

text \<open>
  C6. However producers, consumers and observers come, go, fail to attach and use the ring, in any order,
  from the creation of a segment on: the attach count in the block is the number of live producer and
  consumer endpoints (modulo its width), and the block keeps accepting an attacher that asks for the
  creator's geometry, or for less capacity.
\<close>

theorem attach_count_exact:
  assumes "init_spec A init" and "al = 0 \<or> is_power_of_two_uint32 al" and "need \<le> cap"
    and "init_header A init pid h00 cap lt al item sid ts fl = (True, h0)" and "block_life A init h0 (h, n)"
  shows "attach_count h = of_nat n \<and>
    format A init pid' True h need False lt al item sid ts' fl' ref_count =
      (True, h\<lparr>attach_count := of_nat (Suc n)\<rparr>)"
proof -
  have keeps: "attach_count h = of_nat n"
    "validate A (Some (\<lambda>_. h)) need lt al item sid = validate A (Some (\<lambda>_. h0)) need lt al item sid"
    using block_life_keeps [OF assms(5) init_header_count [OF assms(4)]] by auto
  moreover have "validate A (Some (\<lambda>_. h0)) need lt al item sid"
    using assms(1,4,2,3) by (rule init_header_well_formed)
  ultimately show ?thesis by (simp add: format_attacher add.commute)
qed

theorem attach_count_exact_witness:
  "attach_count (ref_block\<lparr>producer_pid := 7, attach_count := 1\<rparr>) = of_nat 1 \<and>
   format ref_abi ref_init 9 True (ref_block\<lparr>producer_pid := 7, attach_count := 1\<rparr>) 32 False 0 8 8 7 0 0 ref_count =
     (True, ref_block\<lparr>producer_pid := 7, attach_count := of_nat (Suc 1)\<rparr>)"
proof -
  have "format ref_abi ref_init 7 True ref_block 64 False 0 8 8 7 0 0 ref_count = (True, ref_block\<lparr>attach_count := 2\<rparr>)"
    by (simp add: format_attacher validate_fields)
  then have "block_life ref_abi ref_init ref_block (ref_block\<lparr>attach_count := 2\<rparr>, 2)"
    using block_life.next_step [OF block_life.created block_step.attach] by (simp add: numeral_2_eq_2)
  from block_life.next_step [OF this block_step.pid, of 7]
  have "block_life ref_abi ref_init ref_block (ref_block\<lparr>attach_count := 2, producer_pid := 7\<rparr>, Suc 1)"
    by (simp add: numeral_2_eq_2)
  from block_life.next_step [OF this block_step.release]
  have life: "block_life ref_abi ref_init ref_block (ref_block\<lparr>producer_pid := 7, attach_count := 1\<rparr>, 1)"
    by (simp add: release_header_def)
  show ?thesis
    using attach_count_exact [OF ref_init_spec _ _ init_header_ref_block life, of 32 9 0 0] by simp
qed

end
