(* ===== verification/Shm_Posix.thy ===== *)
theory Shm_Posix
  imports Endpoint "HOL-Library.AList"
begin

text \<open>
  The POSIX implementation of \<open>core::shm\<close>: \<open>src/core/shm_posix.cpp\<close>.

  The system calls are the fields of the record \<open>posix\<close> over an abstract kernel state \<open>'k\<close>; \<open>Inl e\<close> is
  a failing call with \<open>errno = e\<close>. What POSIX documents of them is \<open>posix_spec\<close>, stated over a view of the
  kernel (name space, descriptors, mappings and the shared objects), and \<open>ref_posix\<close> is a kernel that is its
  own view. Descriptors and addresses of different processes are kept apart by their numbers. A mapped
  segment is accessed with \<open>sys_load\<close> and \<open>sys_store\<close>. A null pointer and the descriptor -1 are \<open>None\<close>.
\<close>

section \<open>System calls\<close>

datatype shm_flags = O_RDONLY | O_RDWR | O_CREAT_RDWR_EXCL

record 'k posix =
  sys_shm_open :: "string \<Rightarrow> shm_flags \<Rightarrow> 'k \<Rightarrow> (int + nat) \<times> 'k"
  sys_ftruncate :: "nat \<Rightarrow> u64 \<Rightarrow> 'k \<Rightarrow> (int + unit) \<times> 'k"
  sys_fstat :: "nat \<Rightarrow> 'k \<Rightarrow> int + u64"
  sys_mmap :: "u64 \<Rightarrow> bool \<Rightarrow> nat \<Rightarrow> 'k \<Rightarrow> (int + nat) \<times> 'k"
  sys_munmap :: "nat \<Rightarrow> u64 \<Rightarrow> 'k \<Rightarrow> 'k"
  sys_close :: "nat \<Rightarrow> 'k \<Rightarrow> 'k"
  sys_shm_unlink :: "string \<Rightarrow> 'k \<Rightarrow> 'k"
  sys_load :: "'k \<Rightarrow> nat \<Rightarrow> segment"
  sys_store :: "nat \<Rightarrow> segment \<Rightarrow> 'k \<Rightarrow> 'k"

definition EEXIST :: int where "EEXIST = 17"
definition EINVAL :: int where "EINVAL = 22"

record kernel_view =
  kdir :: "string \<Rightarrow> nat option"
  kfds :: "nat \<Rightarrow> nat option"
  kmaps :: "nat \<Rightarrow> nat option"
  ksize :: "nat \<Rightarrow> u64"
  kseg :: "nat \<Rightarrow> segment"

definition zero_segment :: "abi \<Rightarrow> u64 \<Rightarrow> segment" where
  "zero_segment A sz = \<lparr>hdr = zero_block, data = replicate (unat sz - unat (sizeof_control_block A)) 0\<rparr>"

text \<open>
  The documented effect of each call: an open names an existing object or, with \<open>O_CREAT | O_EXCL\<close>, a new
  empty one under a free name, and returns an unused descriptor; truncation gives a new object its size,
  filled with zeros; a mapping is placed at an unused address and shows the object; closing, unmapping and
  unlinking remove one entry each. A failing call changes nothing.
\<close>

definition opened_new :: "kernel_view \<Rightarrow> string \<Rightarrow> nat \<Rightarrow> nat \<Rightarrow> kernel_view \<Rightarrow> bool" where
  "opened_new v nm fd ob v' \<longleftrightarrow>
     kfds v fd = None \<and> kdir v nm = None \<and> ksize v ob = 0 \<and>
     ob \<notin> ran (kdir v) \<union> ran (kfds v) \<union> ran (kmaps v) \<and>
     v' = v\<lparr>kdir := (kdir v)(nm \<mapsto> ob), kfds := (kfds v)(fd \<mapsto> ob)\<rparr>"

definition opened_old :: "kernel_view \<Rightarrow> string \<Rightarrow> nat \<Rightarrow> nat \<Rightarrow> kernel_view \<Rightarrow> bool" where
  "opened_old v nm fd ob v' \<longleftrightarrow>
     kfds v fd = None \<and> kdir v nm = Some ob \<and> v' = v\<lparr>kfds := (kfds v)(fd \<mapsto> ob)\<rparr>"

definition shm_open_spec :: "'k posix \<Rightarrow> ('k \<Rightarrow> kernel_view) \<Rightarrow> bool" where
  "shm_open_spec K view \<longleftrightarrow>
     (\<forall>nm fl k e k'. sys_shm_open K nm fl k = (Inl e, k') \<longrightarrow> view k' = view k) \<and>
     (\<forall>nm fl k fd k'. sys_shm_open K nm fl k = (Inr fd, k') \<longrightarrow>
        (\<exists>ob. if fl = O_CREAT_RDWR_EXCL then opened_new (view k) nm fd ob (view k')
              else opened_old (view k) nm fd ob (view k')))"

definition ftruncate_spec :: "abi \<Rightarrow> 'k posix \<Rightarrow> ('k \<Rightarrow> kernel_view) \<Rightarrow> bool" where
  "ftruncate_spec A K view \<longleftrightarrow>
     (\<forall>fd sz k e k'. sys_ftruncate K fd sz k = (Inl e, k') \<longrightarrow> view k' = view k) \<and>
     (\<forall>fd sz k k' ob. sys_ftruncate K fd sz k = (Inr (), k') \<longrightarrow> kfds (view k) fd = Some ob \<longrightarrow>
        ksize (view k) ob = 0 \<longrightarrow>
        view k' = (view k)\<lparr>ksize := (ksize (view k))(ob := sz), kseg := (kseg (view k))(ob := zero_segment A sz)\<rparr>)"

definition mapping_spec :: "'k posix \<Rightarrow> ('k \<Rightarrow> kernel_view) \<Rightarrow> bool" where
  "mapping_spec K view \<longleftrightarrow>
     (\<forall>sz w fd k e k'. sys_mmap K sz w fd k = (Inl e, k') \<longrightarrow> view k' = view k) \<and>
     (\<forall>sz w fd k a k' ob. sys_mmap K sz w fd k = (Inr a, k') \<longrightarrow> kfds (view k) fd = Some ob \<longrightarrow>
        kmaps (view k) a = None \<and> view k' = (view k)\<lparr>kmaps := (kmaps (view k))(a \<mapsto> ob)\<rparr>) \<and>
     (\<forall>a sz k. view (sys_munmap K a sz k) = (view k)\<lparr>kmaps := (kmaps (view k))(a := None)\<rparr>) \<and>
     (\<forall>a k ob. kmaps (view k) a = Some ob \<longrightarrow> sys_load K k a = kseg (view k) ob) \<and>
     (\<forall>a s k ob. kmaps (view k) a = Some ob \<longrightarrow>
        view (sys_store K a s k) = (view k)\<lparr>kseg := (kseg (view k))(ob := s)\<rparr>)"

definition posix_spec :: "abi \<Rightarrow> 'k posix \<Rightarrow> ('k \<Rightarrow> kernel_view) \<Rightarrow> bool" where
  "posix_spec A K view \<longleftrightarrow>
     shm_open_spec K view \<and> ftruncate_spec A K view \<and> mapping_spec K view \<and>
     (\<forall>fd k sz ob. sys_fstat K fd k = Inr sz \<longrightarrow> kfds (view k) fd = Some ob \<longrightarrow> sz = ksize (view k) ob) \<and>
     (\<forall>fd k. view (sys_close K fd k) = (view k)\<lparr>kfds := (kfds (view k))(fd := None)\<rparr>) \<and>
     (\<forall>nm k. view (sys_shm_unlink K nm k) \<in> {view k, (view k)\<lparr>kdir := (kdir (view k))(nm := None)\<rparr>})"

section \<open>Names\<close>

definition fnv_offset :: u64 where "fnv_offset = 14695981039346656037"
definition fnv_prime :: u64 where "fnv_prime = 1099511628211"

primrec fnv1a64_from :: "u64 \<Rightarrow> string \<Rightarrow> u64" where
  "fnv1a64_from h [] = h"
| "fnv1a64_from h (c # cs) = fnv1a64_from ((h XOR of_char c) * fnv_prime) cs"

definition fnv1a64 :: "string \<Rightarrow> u64" where
  "fnv1a64 s = fnv1a64_from fnv_offset s"

definition hex_digit :: "nat \<Rightarrow> char" where
  "hex_digit d = (if d < 10 then char_of (48 + d) else char_of (87 + d))"

text \<open>\<open>snprintf("%016llx")\<close>: sixteen digits, the most significant first.\<close>

definition hex16 :: "u64 \<Rightarrow> string" where
  "hex16 w = map (\<lambda>i. hex_digit (unat (drop_bit (4 * (15 - i)) w) mod 16)) [0..<16]"

definition is_alnum :: "char \<Rightarrow> bool" where
  "is_alnum c \<longleftrightarrow> (let n = of_char c :: nat in 48 \<le> n \<and> n \<le> 57 \<or> 65 \<le> n \<and> n \<le> 90 \<or> 97 \<le> n \<and> n \<le> 122)"

text \<open>The loop over the reversed name, with the number of characters still to take.\<close>

fun take_suffix :: "nat \<Rightarrow> string \<Rightarrow> string" where
  "take_suffix n [] = []"
| "take_suffix 0 (c # cs) = []"
| "take_suffix (Suc n) (c # cs) =
     (if c = CHR ''/'' then [] else if is_alnum c then c # take_suffix n cs else take_suffix (Suc n) cs)"

definition shm_name_for_kernel :: "platform \<Rightarrow> string \<Rightarrow> string" where
  "shm_name_for_kernel p user_name =
     (if is_macos p then
        (if length user_name \<le> 31 then user_name
         else
           let n = ''/xproc_'' @ hex16 (fnv1a64 user_name) @ ''_'' @ take_suffix 7 (rev user_name)
           in n @ replicate (31 - length n) (CHR ''0''))
      else user_name)"

section \<open>The shm object\<close>

record posix_shm =
  shm_addr :: "nat option"
  sh_size :: u64
  shm_fd :: "nat option"
  shm_last_os_error :: int
  shm_created_this_open :: bool
  shm_name :: string

definition new_shm :: posix_shm where
  "new_shm = \<lparr>shm_addr = None, sh_size = 0, shm_fd = None, shm_last_os_error = 0,
              shm_created_this_open = False, shm_name = []\<rparr>"

definition close_and_fail :: "'k posix \<Rightarrow> int \<Rightarrow> posix_shm \<Rightarrow> 'k \<Rightarrow> bool \<times> posix_shm \<times> 'k" where
  "close_and_fail K err s k =
     (case shm_fd s of
        None \<Rightarrow> (False, s\<lparr>shm_last_os_error := err\<rparr>, k)
      | Some fd \<Rightarrow> (False, s\<lparr>shm_last_os_error := err, shm_fd := None\<rparr>, sys_close K fd k))"

text \<open>
  The first half of \<open>open\<close>: which calls are tried in which mode. The result is the descriptor and whether the
  segment was created, or the error; the descriptor of a failed attempt is -1.
\<close>

definition open_fd :: "'k posix \<Rightarrow> string \<Rightarrow> u64 \<Rightarrow> shm_open_mode \<Rightarrow> 'k \<Rightarrow> (int + nat \<times> bool) \<times> 'k" where
  "open_fd K kname sz mode k =
     (case mode of
        mode_create \<Rightarrow>
          (if sz = 0 then (Inl EINVAL, k)
           else case sys_shm_open K kname O_CREAT_RDWR_EXCL k of
                  (Inl e, k1) \<Rightarrow> (Inl e, k1) | (Inr fd, k1) \<Rightarrow> (Inr (fd, True), k1))
      | mode_open \<Rightarrow>
          (case sys_shm_open K kname O_RDWR k of
             (Inl e, k1) \<Rightarrow> (Inl e, k1) | (Inr fd, k1) \<Rightarrow> (Inr (fd, False), k1))
      | mode_open_create \<Rightarrow>
          (case sys_shm_open K kname O_RDWR k of
             (Inr fd, k1) \<Rightarrow> (Inr (fd, False), k1)
           | (Inl _, k1) \<Rightarrow>
               if sz = 0 then (Inl EINVAL, k1)
               else (case sys_shm_open K kname O_CREAT_RDWR_EXCL k1 of
                       (Inr fd, k2) \<Rightarrow> (Inr (fd, True), k2)
                     | (Inl e, k2) \<Rightarrow>
                         if e = EEXIST
                         then (case sys_shm_open K kname O_RDWR k2 of
                                 (Inl e', k3) \<Rightarrow> (Inl e', k3) | (Inr fd, k3) \<Rightarrow> (Inr (fd, False), k3))
                         else (Inl e, k2)))
      | mode_read \<Rightarrow>
          (case sys_shm_open K kname O_RDONLY k of
             (Inl e, k1) \<Rightarrow> (Inl e, k1) | (Inr fd, k1) \<Rightarrow> (Inr (fd, False), k1)))"

definition shm_map :: "'k posix \<Rightarrow> shm_open_mode \<Rightarrow> posix_shm \<Rightarrow> nat \<Rightarrow> 'k \<Rightarrow> bool \<times> posix_shm \<times> 'k" where
  "shm_map K mode s fd k =
     (if sh_size s = 0 then close_and_fail K EINVAL s k
      else case sys_mmap K (sh_size s) (mode \<noteq> mode_read) fd k of
             (Inl e, k1) \<Rightarrow> close_and_fail K e (s\<lparr>shm_addr := None\<rparr>) k1
           | (Inr a, k1) \<Rightarrow> (True, s\<lparr>shm_addr := Some a\<rparr>, k1))"

definition shm_open ::
  "platform \<Rightarrow> 'k posix \<Rightarrow> string \<Rightarrow> u64 \<Rightarrow> shm_open_mode \<Rightarrow> string \<Rightarrow> posix_shm \<Rightarrow> 'k \<Rightarrow> bool \<times> posix_shm \<times> 'k" where
  "shm_open p K name sz mode ns s k =
     (let s0 = s\<lparr>shm_last_os_error := 0, shm_created_this_open := False, shm_name := name, sh_size := sz\<rparr>;
          kname = shm_name_for_kernel p name
      in case open_fd K kname sz mode k of
           (Inl e, k1) \<Rightarrow>
             (False,
              s0\<lparr>shm_last_os_error := e,
                 shm_fd := (if sz = 0 \<and> mode = mode_create then shm_fd s0 else None)\<rparr>, k1)
         | (Inr (fd, created), k1) \<Rightarrow>
             let s1 = s0\<lparr>shm_fd := Some fd, shm_created_this_open := created\<rparr> in
             if created
             then (case sys_ftruncate K fd sz k1 of
                     (Inl e, k2) \<Rightarrow> close_and_fail K e s1 k2
                   | (Inr _, k2) \<Rightarrow> shm_map K mode s1 fd k2)
             else (case sys_fstat K fd k1 of
                     Inl e \<Rightarrow> close_and_fail K e s1 k1
                   | Inr existing_size \<Rightarrow>
                       if sz = 0 then shm_map K mode (s1\<lparr>sh_size := existing_size\<rparr>) fd k1
                       else if existing_size < sz then close_and_fail K EINVAL s1 k1
                       else shm_map K mode s1 fd k1))"

definition shm_detach :: "'k posix \<Rightarrow> posix_shm \<Rightarrow> 'k \<Rightarrow> posix_shm \<times> 'k" where
  "shm_detach K s k =
     (let k1 = (case shm_addr s of None \<Rightarrow> k | Some a \<Rightarrow> sys_munmap K a (sh_size s) k);
          k2 = (case shm_fd s of None \<Rightarrow> k1 | Some fd \<Rightarrow> sys_close K fd k1)
      in (s\<lparr>shm_addr := None, shm_fd := None, shm_created_this_open := False\<rparr>, k2))"

text \<open>
  Move assignment of two different objects: the target, the source left behind and the kernel. The name moves
  out of the source, which is left with an empty one.
\<close>

definition shm_move_assign :: "'k posix \<Rightarrow> posix_shm \<Rightarrow> posix_shm \<Rightarrow> 'k \<Rightarrow> posix_shm \<times> posix_shm \<times> 'k" where
  "shm_move_assign K self other k =
     (let (self1, k1) = shm_detach K self k
      in (self1\<lparr>shm_addr := shm_addr other, sh_size := sh_size other, shm_fd := shm_fd other,
                shm_last_os_error := shm_last_os_error other,
                shm_created_this_open := shm_created_this_open other, shm_name := shm_name other\<rparr>,
          other\<lparr>shm_addr := None, sh_size := 0, shm_fd := None, shm_last_os_error := 0,
                shm_created_this_open := False, shm_name := []\<rparr>,
          k1))"

definition shm_unlink :: "platform \<Rightarrow> 'k posix \<Rightarrow> string \<Rightarrow> 'k \<Rightarrow> 'k" where
  "shm_unlink p K name k = sys_shm_unlink K (shm_name_for_kernel p name) k"

definition posix_backend :: "platform \<Rightarrow> 'k posix \<Rightarrow> (posix_shm, 'k) shm_backend" where
  "posix_backend p K =
     \<lparr>bk_fresh = new_shm, bk_open = shm_open p K, bk_detach = shm_detach K, bk_addr = shm_addr,
      bk_created = shm_created_this_open, bk_os_error = shm_last_os_error,
      bk_load = sys_load K, bk_store = sys_store K\<rparr>"

text \<open>
  The kernel after a successful \<open>open\<close> of a fresh object, relative to the kernel before: the object holds a
  new descriptor and a new mapping of one shared object, which it either created, with the size asked for and
  filled with zeros, or found under that name with at least that size.
\<close>

definition opened :: "abi \<Rightarrow> kernel_view \<Rightarrow> string \<Rightarrow> u64 \<Rightarrow> shm_open_mode \<Rightarrow> posix_shm \<Rightarrow> kernel_view \<Rightarrow> bool" where
  "opened A v nm sz mode s v' \<longleftrightarrow>
     (\<exists>fd a ob. shm_fd s = Some fd \<and> shm_addr s = Some a \<and> sh_size s \<noteq> 0 \<and> kfds v fd = None \<and> kmaps v a = None \<and>
        (if shm_created_this_open s
         then (mode = mode_create \<or> mode = mode_open_create) \<and> sh_size s = sz \<and> kdir v nm = None \<and>
              ob \<notin> ran (kdir v) \<union> ran (kfds v) \<union> ran (kmaps v) \<and>
              v' = v\<lparr>kdir := (kdir v)(nm \<mapsto> ob), kfds := (kfds v)(fd \<mapsto> ob), kmaps := (kmaps v)(a \<mapsto> ob),
                     ksize := (ksize v)(ob := sz), kseg := (kseg v)(ob := zero_segment A sz)\<rparr>
         else mode \<noteq> mode_create \<and> kdir v nm = Some ob \<and> sz \<le> ksize v ob \<and>
              sh_size s = (if sz = 0 then ksize v ob else sz) \<and>
              v' = v\<lparr>kfds := (kfds v)(fd \<mapsto> ob), kmaps := (kmaps v)(a \<mapsto> ob)\<rparr>))"

text \<open>An object that holds neither a descriptor nor a mapping, and what all users together hold.\<close>

definition holds_nothing :: "posix_shm \<Rightarrow> bool" where
  "holds_nothing s \<longleftrightarrow> shm_fd s = None \<and> shm_addr s = None"

definition held :: "('k \<Rightarrow> kernel_view) \<Rightarrow> 'k \<Rightarrow> (nat \<Rightarrow> nat option) \<times> (nat \<Rightarrow> nat option)" where
  "held view k = (kfds (view k), kmaps (view k))"

section \<open>A concrete kernel\<close>

text \<open>
  Tables as association lists, objects numbered by their position, and one counter for descriptors and
  addresses. It never runs out of anything but refuses a number that is in use.
\<close>

record ref_kernel =
  rk_dir :: "(string \<times> nat) list"
  rk_fds :: "(nat \<times> nat) list"
  rk_maps :: "(nat \<times> nat) list"
  rk_objs :: "(u64 \<times> segment) list"
  rk_next :: nat

definition rk_obj :: "ref_kernel \<Rightarrow> nat \<Rightarrow> u64 \<times> segment" where
  "rk_obj k ob = (if ob < length (rk_objs k) then rk_objs k ! ob else (0, \<lparr>hdr = zero_block, data = []\<rparr>))"

definition rk_set_obj :: "ref_kernel \<Rightarrow> nat \<Rightarrow> u64 \<times> segment \<Rightarrow> ref_kernel" where
  "rk_set_obj k ob x = k\<lparr>rk_objs := (rk_objs k)[ob := x]\<rparr>"

definition rk_view :: "ref_kernel \<Rightarrow> kernel_view" where
  "rk_view k = \<lparr>kdir = map_of (rk_dir k), kfds = map_of (rk_fds k), kmaps = map_of (rk_maps k),
                ksize = fst \<circ> rk_obj k, kseg = snd \<circ> rk_obj k\<rparr>"

definition rk_fresh_obj :: "ref_kernel \<Rightarrow> bool" where
  "rk_fresh_obj k \<longleftrightarrow> length (rk_objs k) \<notin> set (map snd (rk_dir k @ map (Pair []) (map snd (rk_fds k) @ map snd (rk_maps k))))"

definition ref_shm_open :: "string \<Rightarrow> shm_flags \<Rightarrow> ref_kernel \<Rightarrow> (int + nat) \<times> ref_kernel" where
  "ref_shm_open nm fl k =
     (let fd = rk_next k; k1 = k\<lparr>rk_next := Suc fd\<rparr> in
      if map_of (rk_fds k) fd \<noteq> None then (Inl 24, k)
      else case map_of (rk_dir k) nm of
             None \<Rightarrow>
               if fl = O_CREAT_RDWR_EXCL \<and> rk_fresh_obj k
               then (Inr fd, k1\<lparr>rk_dir := (nm, length (rk_objs k)) # rk_dir k,
                                rk_fds := (fd, length (rk_objs k)) # rk_fds k,
                                rk_objs := rk_objs k @ [(0, \<lparr>hdr = zero_block, data = []\<rparr>)]\<rparr>)
               else (Inl 2, k)
           | Some ob \<Rightarrow>
               if fl = O_CREAT_RDWR_EXCL then (Inl EEXIST, k)
               else (Inr fd, k1\<lparr>rk_fds := (fd, ob) # rk_fds k\<rparr>))"

definition ref_posix :: "abi \<Rightarrow> ref_kernel posix" where
  "ref_posix A =
     \<lparr>sys_shm_open = ref_shm_open,
      sys_ftruncate = (\<lambda>fd sz k.
        case map_of (rk_fds k) fd of
          None \<Rightarrow> (Inl 9, k)
        | Some ob \<Rightarrow> if ob < length (rk_objs k) then (Inr (), rk_set_obj k ob (sz, zero_segment A sz)) else (Inl 9, k)),
      sys_fstat = (\<lambda>fd k.
        case map_of (rk_fds k) fd of None \<Rightarrow> Inl 9 | Some ob \<Rightarrow> Inr (fst (rk_obj k ob))),
      sys_mmap = (\<lambda>sz w fd k.
        case map_of (rk_fds k) fd of
          None \<Rightarrow> (Inl 9, k)
        | Some ob \<Rightarrow>
            if map_of (rk_maps k) (rk_next k) = None \<and> ob < length (rk_objs k)
            then (Inr (rk_next k), k\<lparr>rk_next := Suc (rk_next k), rk_maps := (rk_next k, ob) # rk_maps k\<rparr>)
            else (Inl 12, k)),
      sys_munmap = (\<lambda>a sz k. k\<lparr>rk_maps := AList.delete a (rk_maps k)\<rparr>),
      sys_close = (\<lambda>fd k. k\<lparr>rk_fds := AList.delete fd (rk_fds k)\<rparr>),
      sys_shm_unlink = (\<lambda>nm k. k\<lparr>rk_dir := AList.delete nm (rk_dir k)\<rparr>),
      sys_load = (\<lambda>k a.
        case map_of (rk_maps k) a of None \<Rightarrow> \<lparr>hdr = zero_block, data = []\<rparr> | Some ob \<Rightarrow> snd (rk_obj k ob)),
      sys_store = (\<lambda>a s k.
        case map_of (rk_maps k) a of
          None \<Rightarrow> k
        | Some ob \<Rightarrow> rk_set_obj (k\<lparr>rk_objs := rk_objs k @ replicate (Suc ob - length (rk_objs k))
                                                      (0, \<lparr>hdr = zero_block, data = []\<rparr>)\<rparr>) ob
                       (fst (rk_obj k ob), s))\<rparr>"

definition empty_kernel :: ref_kernel where
  "empty_kernel = \<lparr>rk_dir = [], rk_fds = [], rk_maps = [], rk_objs = [], rk_next = 3\<rparr>"

text \<open>What the first producer of the reference channel leaves behind.\<close>

definition ref_producer :: "(exn + posix_shm endpoint) \<times> ref_kernel" where
  "ref_producer = establish_connection Linux ref_abi ref_init 42 (posix_backend Linux (ref_posix ref_abi))
                    producer_role ref_options empty_kernel"

section \<open>The concrete kernel satisfies the specification\<close>

lemma fst_rk_set_obj:
  "ob < length (rk_objs k) \<Longrightarrow> fst \<circ> rk_obj (rk_set_obj k ob x) = (fst \<circ> rk_obj k)(ob := fst x)"
  "ob < length (rk_objs k) \<Longrightarrow> snd \<circ> rk_obj (rk_set_obj k ob x) = (snd \<circ> rk_obj k)(ob := snd x)"
  by (auto simp: rk_obj_def rk_set_obj_def fun_eq_iff nth_list_update)

lemma rk_obj_extend:
  "rk_obj (k\<lparr>rk_objs := rk_objs k @ replicate n (0, \<lparr>hdr = zero_block, data = []\<rparr>)\<rparr>) = rk_obj k"
  by (auto simp: rk_obj_def fun_eq_iff nth_append)

lemma rk_set_obj_tables [simp]:
  "rk_dir (rk_set_obj k ob x) = rk_dir k" "rk_fds (rk_set_obj k ob x) = rk_fds k"
  "rk_maps (rk_set_obj k ob x) = rk_maps k" "rk_next (rk_set_obj k ob x) = rk_next k"
  by (simp_all add: rk_set_obj_def)

lemma rk_obj_other [simp]:
  "rk_obj (k\<lparr>rk_dir := d\<rparr>) = rk_obj k" "rk_obj (k\<lparr>rk_fds := f\<rparr>) = rk_obj k"
  "rk_obj (k\<lparr>rk_maps := m\<rparr>) = rk_obj k" "rk_obj (k\<lparr>rk_next := n\<rparr>) = rk_obj k"
  by (simp_all add: rk_obj_def fun_eq_iff)

lemma rk_fresh_obj_ran:
  "rk_fresh_obj k \<Longrightarrow>
     length (rk_objs k) \<notin> ran (map_of (rk_dir k)) \<union> ran (map_of (rk_fds k)) \<union> ran (map_of (rk_maps k))"
  by (force simp: rk_fresh_obj_def ran_def dest: map_of_SomeD)

lemma rk_obj_new [simp]:
  "rk_obj (k\<lparr>rk_objs := rk_objs k @ [(0, \<lparr>hdr = zero_block, data = []\<rparr>)]\<rparr>) = rk_obj k"
  using rk_obj_extend [of k 1] by simp

lemma ref_shm_open_spec: "shm_open_spec (ref_posix A) rk_view"
proof -
  have "rk_view k' = rk_view k" if "ref_shm_open nm fl k = (Inl e, k')" for nm fl k e k'
    using that by (auto simp: ref_shm_open_def Let_def split: if_splits option.splits)
  moreover have "\<exists>ob. if fl = O_CREAT_RDWR_EXCL then opened_new (rk_view k) nm fd ob (rk_view k')
              else opened_old (rk_view k) nm fd ob (rk_view k')"
    if op: "ref_shm_open nm fl k = (Inr fd, k')" for nm fl k fd k'
  proof (cases "map_of (rk_dir k) nm")
    case None
    with op have "fl = O_CREAT_RDWR_EXCL" "rk_fresh_obj k" and fd: "fd = rk_next k" "map_of (rk_fds k) fd = None"
      and k': "k' = k\<lparr>rk_next := Suc fd, rk_dir := (nm, length (rk_objs k)) # rk_dir k,
                      rk_fds := (fd, length (rk_objs k)) # rk_fds k,
                      rk_objs := rk_objs k @ [(0, \<lparr>hdr = zero_block, data = []\<rparr>)]\<rparr>"
      by (auto simp: ref_shm_open_def Let_def split: if_splits)
    have "rk_obj k' = rk_obj k" unfolding k' by (auto simp: rk_obj_def fun_eq_iff nth_append)
    with None fd rk_fresh_obj_ran [OF \<open>rk_fresh_obj k\<close>] \<open>fl = _\<close> show ?thesis
      by (auto simp: k' rk_view_def opened_new_def intro!: exI [of _ "length (rk_objs k)"]) (simp add: rk_obj_def)
  next
    case (Some ob)
    with op show ?thesis
      by (auto simp: ref_shm_open_def Let_def rk_view_def opened_old_def split: if_splits intro!: exI [of _ ob])
  qed
  ultimately show ?thesis by (simp add: shm_open_spec_def ref_posix_def)
qed

lemma ref_ftruncate_spec: "ftruncate_spec A (ref_posix A) rk_view"
  by (auto simp: ftruncate_spec_def ref_posix_def rk_view_def fst_rk_set_obj split: option.splits if_splits)

lemma ref_mapping_spec: "mapping_spec (ref_posix A) rk_view"
proof -
  have st: "rk_view (rk_set_obj (k\<lparr>rk_objs := rk_objs k @ replicate (Suc ob - length (rk_objs k))
               (0, \<lparr>hdr = zero_block, data = []\<rparr>)\<rparr>) ob (fst (rk_obj k ob), s)) =
             (rk_view k)\<lparr>kseg := (kseg (rk_view k))(ob := s)\<rparr>" for k ob s
  proof -
    let ?k = "k\<lparr>rk_objs := rk_objs k @ replicate (Suc ob - length (rk_objs k)) (0, \<lparr>hdr = zero_block, data = []\<rparr>)\<rparr>"
    have "ob < length (rk_objs ?k)" by simp
    from fst_rk_set_obj [OF this] show ?thesis by (simp add: rk_view_def rk_obj_extend fun_eq_iff)
  qed
  show ?thesis
    unfolding mapping_spec_def
    by (intro conjI; auto simp: ref_posix_def st simp flip: fun_upd_def split: option.splits if_splits)
       (auto simp: rk_view_def delete_conv')
qed

lemma ref_posix_spec: "posix_spec A (ref_posix A) rk_view"
  unfolding posix_spec_def
  by (intro conjI ref_shm_open_spec ref_ftruncate_spec ref_mapping_spec)
     (auto simp: ref_posix_def rk_view_def delete_conv' split: option.splits)

section \<open>Laws of the system calls\<close>

lemma posix_open:
  assumes "posix_spec A K view"
  shows "sys_shm_open K nm fl k = (Inl e, k') \<Longrightarrow> view k' = view k"
    and "sys_shm_open K nm O_CREAT_RDWR_EXCL k = (Inr fd, k') \<Longrightarrow> \<exists>ob. opened_new (view k) nm fd ob (view k')"
    and "fl \<noteq> O_CREAT_RDWR_EXCL \<Longrightarrow> sys_shm_open K nm fl k = (Inr fd, k') \<Longrightarrow>
      \<exists>ob. opened_old (view k) nm fd ob (view k')"
  using assms unfolding posix_spec_def shm_open_spec_def by (blast, metis, metis)

lemma posix_ftruncate:
  assumes "posix_spec A K view"
  shows "sys_ftruncate K fd sz k = (Inl e, k') \<Longrightarrow> view k' = view k"
    and "sys_ftruncate K fd sz k = (Inr u, k') \<Longrightarrow> kfds (view k) fd = Some ob \<Longrightarrow> ksize (view k) ob = 0 \<Longrightarrow>
      view k' = (view k)\<lparr>ksize := (ksize (view k))(ob := sz), kseg := (kseg (view k))(ob := zero_segment A sz)\<rparr>"
  using assms by (auto simp: posix_spec_def ftruncate_spec_def)

lemma posix_mmap:
  assumes "posix_spec A K view"
  shows "sys_mmap K sz w fd k = (Inl e, k') \<Longrightarrow> view k' = view k"
    and "sys_mmap K sz w fd k = (Inr a, k') \<Longrightarrow> kfds (view k) fd = Some ob \<Longrightarrow> kmaps (view k) a = None"
    and "sys_mmap K sz w fd k = (Inr a, k') \<Longrightarrow> kfds (view k) fd = Some ob \<Longrightarrow>
      view k' = (view k)\<lparr>kmaps := (kmaps (view k))(a \<mapsto> ob)\<rparr>"
  using assms by (auto simp: posix_spec_def mapping_spec_def)

lemma posix_fstat:
  "posix_spec A K view \<Longrightarrow> sys_fstat K fd k = Inr sz \<Longrightarrow> kfds (view k) fd = Some ob \<Longrightarrow> sz = ksize (view k) ob"
  by (auto simp: posix_spec_def)

lemma posix_remove:
  assumes "posix_spec A K view"
  shows "view (sys_munmap K a sz k) = (view k)\<lparr>kmaps := (kmaps (view k))(a := None)\<rparr>"
    and "view (sys_close K fd k) = (view k)\<lparr>kfds := (kfds (view k))(fd := None)\<rparr>"
    and "view (sys_shm_unlink K nm k) \<in> {view k, (view k)\<lparr>kdir := (kdir (view k))(nm := None)\<rparr>}"
  using assms by (auto simp: posix_spec_def mapping_spec_def)

lemma posix_memory:
  assumes "posix_spec A K view" and "kmaps (view k) a = Some ob"
  shows "sys_load K k a = kseg (view k) ob"
    and "view (sys_store K a s k) = (view k)\<lparr>kseg := (kseg (view k))(ob := s)\<rparr>"
  using assms by (auto simp: posix_spec_def mapping_spec_def)

section \<open>Opening\<close>

lemma open_fd_view:
  assumes "posix_spec A K view"
  shows "open_fd K nm sz mode k = (Inl e, k') \<Longrightarrow> view k' = view k"
    and "open_fd K nm sz mode k = (Inr (fd, True), k') \<Longrightarrow>
      (mode = mode_create \<or> mode = mode_open_create) \<and> sz \<noteq> 0 \<and> (\<exists>ob. opened_new (view k) nm fd ob (view k'))"
    and "open_fd K nm sz mode k = (Inr (fd, False), k') \<Longrightarrow>
      mode \<noteq> mode_create \<and> (\<exists>ob. opened_old (view k) nm fd ob (view k'))"
  unfolding open_fd_def
  by (auto split: shm_open_mode.split_asm if_split_asm prod.split_asm sum.split_asm
      dest!: posix_open(1,2) [OF assms] posix_open(3) [OF assms shm_flags.distinct(3)]
        posix_open(3) [OF assms shm_flags.distinct(5)])

lemma close_and_fail_view:
  assumes "posix_spec A K view" and "close_and_fail K e s k = (b, s', k')" and "shm_fd s = Some fd"
  shows "\<not> b" "shm_fd s' = None" "shm_addr s' = shm_addr s"
    "view k' = (view k)\<lparr>kfds := (kfds (view k))(fd := None)\<rparr>"
  using assms(2,3) posix_remove(2) [OF assms(1)] by (auto simp: close_and_fail_def)

lemma shm_map_view:
  assumes "posix_spec A K view" and "kfds (view k) fd = Some ob" and "shm_fd s = Some fd"
  shows "shm_map K mode s fd k = (True, s', k') \<Longrightarrow>
      \<exists>a. s' = s\<lparr>shm_addr := Some a\<rparr> \<and> sh_size s \<noteq> 0 \<and> kmaps (view k) a = None \<and>
          view k' = (view k)\<lparr>kmaps := (kmaps (view k))(a \<mapsto> ob)\<rparr>"
    and "shm_map K mode s fd k = (False, s', k') \<Longrightarrow> shm_addr s = None \<Longrightarrow>
      shm_fd s' = None \<and> shm_addr s' = None \<and> view k' = (view k)\<lparr>kfds := (kfds (view k))(fd := None)\<rparr>"
  using assms(3)
  by (auto simp: shm_map_def split: if_split_asm prod.split_asm sum.split_asm
      dest!: posix_mmap(1) [OF assms(1)] dest: close_and_fail_view [OF assms(1)]
        posix_mmap(2,3) [OF assms(1) _ assms(2)])

lemma shm_open_created:
  assumes "posix_spec A K view" and "opened_new (view k) nm fd ob (view k1)" and "shm_fd s = Some fd"
    and "shm_addr s = None" and "shm_created_this_open s" and "sh_size s = sz"
    and "(case sys_ftruncate K fd sz k1 of
            (Inl e, k2) \<Rightarrow> close_and_fail K e s k2 | (Inr _, k2) \<Rightarrow> shm_map K mode s fd k2) = (b, s', k')"
    and "mode = mode_create \<or> mode = mode_open_create"
  shows "b \<Longrightarrow> opened A (view k) nm sz mode s' (view k')"
    and "\<not> b \<Longrightarrow> shm_fd s' = None \<and> shm_addr s' = None \<and> kfds (view k') = kfds (view k) \<and>
      kmaps (view k') = kmaps (view k) \<and> kdir (view k') = (kdir (view k))(nm \<mapsto> ob)"
proof -
  have new: "kfds (view k1) fd = Some ob" "ksize (view k1) ob = 0" "kfds (view k) fd = None"
    using assms(2) by (auto simp: opened_new_def)
  then have undo: "(kfds (view k))(fd := None) = kfds (view k)" by (simp add: fun_upd_idem)
  obtain r k2 where ft: "sys_ftruncate K fd sz k1 = (r, k2)" by (metis surj_pair)
  consider (bad) e where "r = Inl e" | (good) "r = Inr ()" by (cases r) auto
  then have "(b \<longrightarrow> opened A (view k) nm sz mode s' (view k')) \<and>
    (\<not> b \<longrightarrow> shm_fd s' = None \<and> shm_addr s' = None \<and> kfds (view k') = kfds (view k) \<and>
      kmaps (view k') = kmaps (view k) \<and> kdir (view k') = (kdir (view k))(nm \<mapsto> ob))"
  proof cases
    case bad
    then have "close_and_fail K e s k2 = (b, s', k')" using assms(7) ft by simp
    from close_and_fail_view [OF assms(1) this assms(3)] posix_ftruncate(1) [OF assms(1) ft [unfolded bad]]
    show ?thesis using assms(2,4) undo by (simp add: opened_new_def)
  next
    case good
    then have mp: "shm_map K mode s fd k2 = (b, s', k')" using assms(7) ft by simp
    have v2: "view k2 = (view k1)\<lparr>ksize := (ksize (view k1))(ob := sz), kseg := (kseg (view k1))(ob := zero_segment A sz)\<rparr>"
      using posix_ftruncate(2) [OF assms(1) ft [unfolded good]] new by simp
    then have fd2: "kfds (view k2) fd = Some ob" using new by simp
    show ?thesis
    proof (cases b)
      case True
      with mp have "shm_map K mode s fd k2 = (True, s', k')" by simp
      then obtain a where "s' = s\<lparr>shm_addr := Some a\<rparr>" "sh_size s \<noteq> 0" "kmaps (view k2) a = None"
          "view k' = (view k2)\<lparr>kmaps := (kmaps (view k2))(a \<mapsto> ob)\<rparr>"
        using shm_map_view(1) [OF assms(1) fd2 assms(3)] by blast
      with True assms(2,3,5,6,8) v2 show ?thesis
        by (auto simp: opened_def opened_new_def intro!: exI [of _ ob])
    next
      case False
      with shm_map_view(2) [OF assms(1) fd2 assms(3) _ assms(4)] mp v2 assms(2) undo show ?thesis
        by (simp add: opened_new_def)
    qed
  qed
  then show "b \<Longrightarrow> opened A (view k) nm sz mode s' (view k')"
    and "\<not> b \<Longrightarrow> shm_fd s' = None \<and> shm_addr s' = None \<and> kfds (view k') = kfds (view k) \<and>
      kmaps (view k') = kmaps (view k) \<and> kdir (view k') = (kdir (view k))(nm \<mapsto> ob)" by simp_all
qed

lemma shm_open_existing:
  assumes "posix_spec A K view" and "opened_old (view k) nm fd ob (view k1)" and "shm_fd s = Some fd"
    and "shm_addr s = None" and "\<not> shm_created_this_open s" and "sh_size s = sz" and "mode \<noteq> mode_create"
    and "(case sys_fstat K fd k1 of
            Inl e \<Rightarrow> close_and_fail K e s k1
          | Inr existing_size \<Rightarrow>
              if sz = 0 then shm_map K mode (s\<lparr>sh_size := existing_size\<rparr>) fd k1
              else if existing_size < sz then close_and_fail K EINVAL s k1
              else shm_map K mode s fd k1) = (b, s', k')"
  shows "b \<Longrightarrow> opened A (view k) nm sz mode s' (view k')"
    and "\<not> b \<Longrightarrow> shm_fd s' = None \<and> shm_addr s' = None \<and> view k' = view k"
proof -
  have old: "kfds (view k1) fd = Some ob" "kfds (view k) fd = None" "ksize (view k1) ob = ksize (view k) ob"
    "kdir (view k) nm = Some ob"
    and v1: "view k1 = (view k)\<lparr>kfds := (kfds (view k))(fd \<mapsto> ob)\<rparr>"
    using assms(2) by (auto simp: opened_old_def)
  have undo: "(view k1)\<lparr>kfds := (kfds (view k1))(fd := None)\<rparr> = view k"
    using old(2) v1 by (simp add: fun_upd_idem)
  have closed: "shm_fd s' = None \<and> shm_addr s' = None \<and> view k' = view k \<and> \<not> b"
    if "close_and_fail K e s k1 = (b, s', k')" for e
    using close_and_fail_view [OF assms(1) that assms(3)] undo assms(4) by simp
  have mapped: "(b \<longrightarrow> opened A (view k) nm sz mode s' (view k')) \<and>
      (\<not> b \<longrightarrow> shm_fd s' = None \<and> shm_addr s' = None \<and> view k' = view k)"
    if m: "shm_map K mode (s\<lparr>sh_size := n\<rparr>) fd k1 = (b, s', k')" and "sz \<le> ksize (view k) ob"
      and "n = (if sz = 0 then ksize (view k) ob else sz)" for n
  proof (cases b)
    case True
    with m have "shm_map K mode (s\<lparr>sh_size := n\<rparr>) fd k1 = (True, s', k')" by simp
    from shm_map_view(1) [OF assms(1) old(1) _ this] assms(3)
    obtain a where "s' = s\<lparr>sh_size := n, shm_addr := Some a\<rparr>" "n \<noteq> 0" "kmaps (view k1) a = None"
        "view k' = (view k1)\<lparr>kmaps := (kmaps (view k1))(a \<mapsto> ob)\<rparr>"
      by auto
    with True that(2,3) assms(3,5,7) old v1 show ?thesis by (auto simp: opened_def)
  next
    case False
    with m have "shm_map K mode (s\<lparr>sh_size := n\<rparr>) fd k1 = (False, s', k')" by simp
    from shm_map_view(2) [OF assms(1) old(1) _ this] assms(3,4) False undo show ?thesis by simp
  qed
  have same: "s\<lparr>sh_size := sz\<rparr> = s" using assms(6) by simp
  have "(b \<longrightarrow> opened A (view k) nm sz mode s' (view k')) \<and>
      (\<not> b \<longrightarrow> shm_fd s' = None \<and> shm_addr s' = None \<and> view k' = view k)"
    using assms(8) mapped [of 0] mapped [of "ksize (view k) ob"] mapped [of sz] closed posix_fstat [OF assms(1) _ old(1)]
    by (auto simp: old same split: sum.split_asm if_split_asm)
  then show "b \<Longrightarrow> opened A (view k) nm sz mode s' (view k')"
    and "\<not> b \<Longrightarrow> shm_fd s' = None \<and> shm_addr s' = None \<and> view k' = view k" by simp_all
qed

lemma shm_open_view:
  assumes "posix_spec A K view" and "holds_nothing s" and "shm_open p K nm sz mode ns s k = (b, s', k')"
  shows "b \<Longrightarrow> opened A (view k) (shm_name_for_kernel p nm) sz mode s' (view k')"
    and "\<not> b \<Longrightarrow> holds_nothing s' \<and> kfds (view k') = kfds (view k) \<and> kmaps (view k') = kmaps (view k)"
proof -
  let ?nm = "shm_name_for_kernel p nm"
  let ?s1 = "\<lambda>fd c. s\<lparr>shm_last_os_error := 0, shm_created_this_open := False, shm_name := nm, sh_size := sz,
    shm_fd := Some fd, shm_created_this_open := c\<rparr>"
  obtain r k1 where op: "open_fd K ?nm sz mode k = (r, k1)" by (metis surj_pair)
  consider (bad) e where "r = Inl e" | (new) fd where "r = Inr (fd, True)" | (old) fd where "r = Inr (fd, False)"
    by (cases r) auto
  then have "(b \<longrightarrow> opened A (view k) ?nm sz mode s' (view k')) \<and>
      (\<not> b \<longrightarrow> holds_nothing s' \<and> kfds (view k') = kfds (view k) \<and> kmaps (view k') = kmaps (view k))"
  proof cases
    case bad
    with assms(2,3) op open_fd_view(1) [OF assms(1) op [unfolded bad]] show ?thesis
      by (auto simp: shm_open_def Let_def holds_nothing_def)
  next
    case new
    from open_fd_view(2) [OF assms(1) op [unfolded new]] obtain ob where
      m: "mode = mode_create \<or> mode = mode_open_create" and ob: "opened_new (view k) ?nm fd ob (view k1)" by blast
    have run: "(case sys_ftruncate K fd sz k1 of
        (Inl e, k2) \<Rightarrow> close_and_fail K e (?s1 fd True) k2 | (Inr _, k2) \<Rightarrow> shm_map K mode (?s1 fd True) fd k2) = (b, s', k')"
      using assms(3) op new by (simp add: shm_open_def Let_def)
    show ?thesis
      using shm_open_created [OF assms(1) ob _ _ _ _ run m] assms(2) by (simp add: holds_nothing_def)
  next
    case old
    from open_fd_view(3) [OF assms(1) op [unfolded old]] obtain ob where
      m: "mode \<noteq> mode_create" and ob: "opened_old (view k) ?nm fd ob (view k1)" by blast
    have run: "(case sys_fstat K fd k1 of
            Inl e \<Rightarrow> close_and_fail K e (?s1 fd False) k1
          | Inr existing_size \<Rightarrow>
              if sz = 0 then shm_map K mode ((?s1 fd False)\<lparr>sh_size := existing_size\<rparr>) fd k1
              else if existing_size < sz then close_and_fail K EINVAL (?s1 fd False) k1
              else shm_map K mode (?s1 fd False) fd k1) = (b, s', k')"
      using assms(3) op old by (simp add: shm_open_def Let_def)
    show ?thesis
      using shm_open_existing [OF assms(1) ob _ _ _ _ m run] assms(2) by (simp add: holds_nothing_def)
  qed
  then show "b \<Longrightarrow> opened A (view k) ?nm sz mode s' (view k')"
    and "\<not> b \<Longrightarrow> holds_nothing s' \<and> kfds (view k') = kfds (view k) \<and> kmaps (view k') = kmaps (view k)" by simp_all
qed

lemmas shm_open_ok = shm_open_view(1) [where b = True, OF _ _ _ TrueI]
lemmas shm_open_failed = shm_open_view(2) [where b = False, OF _ _ _ not_False_eq_True [THEN iffD2, OF TrueI]]

lemma shm_detach_view:
  assumes "posix_spec A K view" and "shm_detach K s k = (s', k')"
  shows "holds_nothing s'"
    and "view k' = (view k)\<lparr>kfds := (case shm_fd s of None \<Rightarrow> kfds (view k) | Some fd \<Rightarrow> (kfds (view k))(fd := None)),
           kmaps := (case shm_addr s of None \<Rightarrow> kmaps (view k) | Some a \<Rightarrow> (kmaps (view k))(a := None))\<rparr>"
  using assms(2) posix_remove(1,2) [OF assms(1)]
  by (auto simp: shm_detach_def holds_nothing_def Let_def split: option.splits)

lemma holds_nothing_new [simp]: "holds_nothing new_shm"
  by (simp add: holds_nothing_def new_shm_def)

lemma shm_open_structure:
  assumes "shm_open p K nm sz m ns new_shm k = (b, s, k')"
  shows "b \<longleftrightarrow> shm_addr s \<noteq> None"
    and "b \<Longrightarrow> shm_created_this_open s \<Longrightarrow> m \<in> {mode_create, mode_open_create} \<and> sz \<noteq> 0"
  using assms
  by (auto simp: shm_open_def open_fd_def shm_map_def close_and_fail_def new_shm_def Let_def
      split: shm_open_mode.split_asm if_split_asm prod.split_asm sum.split_asm)

section \<open>The interfaces an endpoint relies on\<close>

lemma posix_backend_fields [simp]:
  "bk_fresh (posix_backend p K) = new_shm" "bk_open (posix_backend p K) = shm_open p K"
  "bk_detach (posix_backend p K) = shm_detach K" "bk_addr (posix_backend p K) = shm_addr"
  "bk_created (posix_backend p K) = shm_created_this_open" "bk_os_error (posix_backend p K) = shm_last_os_error"
  "bk_load (posix_backend p K) = sys_load K" "bk_store (posix_backend p K) = sys_store K"
  by (simp_all add: posix_backend_def)

interpretation px: shm_api "posix_backend p K" for p K
  by unfold_locales (auto dest: shm_open_structure simp: shm_detach_def Let_def)

lemma opened_tables:
  assumes "opened A v nm sz mode s v'"
  obtains fd a ob where "shm_fd s = Some fd" and "shm_addr s = Some a" and "kfds v fd = None" and "kmaps v a = None"
    and "kfds v' = (kfds v)(fd \<mapsto> ob)" and "kmaps v' = (kmaps v)(a \<mapsto> ob)"
  using assms unfolding opened_def by (elim exE conjE) (simp split: if_split_asm)

lemma opened_detach:
  assumes "posix_spec A K view" and "opened A (view k) nm sz mode s v1" and "held view k2 = (kfds v1, kmaps v1)"
  shows "held view (snd (shm_detach K s k2)) = held view k"
  using assms(2)
proof (rule opened_tables)
  fix fd a ob
  assume "shm_fd s = Some fd" "shm_addr s = Some a" and none: "kfds (view k) fd = None" "kmaps (view k) a = None"
    and tables: "kfds v1 = (kfds (view k))(fd \<mapsto> ob)" "kmaps v1 = (kmaps (view k))(a \<mapsto> ob)"
  then have "held view (snd (shm_detach K s k2)) = ((kfds v1)(fd := None), (kmaps v1)(a := None))"
    using shm_detach_view(2) [OF assms(1) surjective_pairing, of s k2] assms(3) by (simp add: held_def)
  then show ?thesis using none tables by (simp add: held_def fun_upd_idem)
qed

interpretation pr: shm_resources "posix_backend p K" "held view" "\<lambda>_. posix_spec A K view" for p K view A
proof (unfold_locales, goal_cases)
  case (1 k)
  then show ?case by (simp add: shm_detach_def new_shm_def held_def Let_def)
next
  case (2 k nm sz m ns s k')
  then have "holds_nothing s \<and> kfds (view k') = kfds (view k) \<and> kmaps (view k') = kmaps (view k)"
    using shm_open_failed [OF 2(1) holds_nothing_new] by simp
  then show ?case by (simp add: shm_detach_def holds_nothing_def held_def Let_def)
next
  case (3 k nm sz m ns s k' k'' a seg)
  then have "opened A (view k) (shm_name_for_kernel p nm) sz m s (view k')"
    using shm_open_ok [OF 3(1) holds_nothing_new] by simp
  then obtain ob where "kmaps (view k') a = Some ob"
    by (rule opened_tables) (use 3(4) in simp)
  then have "kmaps (view k'') a = Some ob" using 3(3) by (simp add: held_def)
  from posix_memory(2) [OF 3(1) this] show ?case by (simp add: held_def)
next
  case (4 k nm sz m ns s k' k'')
  then have "opened A (view k) (shm_name_for_kernel p nm) sz m s (view k')"
    using shm_open_ok [OF 4(1) holds_nothing_new] by simp
  from opened_detach [OF 4(1) this] 4(3) show ?case by (simp add: held_def)
qed

lemma move_assign_transfers:
  assumes "posix_spec A K view" and "shm_move_assign K self other k = (self', other', k')"
  shows "holds_nothing other'" and "shm_fd self' = shm_fd other" and "shm_addr self' = shm_addr other"
    and "view k' = view (snd (shm_detach K self k))"
  using assms(2) by (auto simp: shm_move_assign_def holds_nothing_def split: prod.split_asm)

section \<open>Names\<close>

lemma length_take_suffix: "length (take_suffix n cs) \<le> n"
  by (induction n cs rule: take_suffix.induct) auto

lemma length_hex16 [simp]: "length (hex16 w) = 16"
  by (simp add: hex16_def)

section \<open>Properties\<close>

text \<open>
  C7. Opening a shared-memory object that holds nothing either succeeds with a new descriptor and a new
  mapping of the named object (created zero-filled at the size asked for only in the creating modes and only
  under a free name, and at least that large otherwise), or fails and leaves the object and the process with
  the descriptors and mappings they had.
\<close>

theorem posix_open_contract:
  assumes "posix_spec A K view" and "holds_nothing s" and "shm_open p K nm sz mode ns s k = (b, s', k')"
  shows "if b then opened A (view k) (shm_name_for_kernel p nm) sz mode s' (view k')
         else holds_nothing s' \<and> held view k' = held view k"
  using shm_open_view [OF assms] by (simp add: held_def)

theorem posix_open_contract_witness:
  "opened ref_abi (rk_view empty_kernel) ''/x'' 1024 mode_open_create
     (fst (snd (shm_open Linux (ref_posix ref_abi) ''/x'' 1024 mode_open_create ''Local'' new_shm empty_kernel)))
     (rk_view (snd (snd (shm_open Linux (ref_posix ref_abi) ''/x'' 1024 mode_open_create ''Local'' new_shm empty_kernel))))"
proof -
  obtain b s k where op: "shm_open Linux (ref_posix ref_abi) ''/x'' 1024 mode_open_create ''Local'' new_shm empty_kernel = (b, s, k)"
    by (metis surj_pair)
  moreover have "fst (shm_open Linux (ref_posix ref_abi) ''/x'' 1024 mode_open_create ''Local'' new_shm empty_kernel)"
    by (simp add: shm_open_def open_fd_def shm_map_def ref_posix_def ref_shm_open_def empty_kernel_def new_shm_def
        rk_fresh_obj_def rk_set_obj_def shm_name_for_kernel_def Let_def)
  ultimately show ?thesis
    using posix_open_contract [OF ref_posix_spec [of ref_abi] holds_nothing_new op] by (simp add: shm_name_for_kernel_def is_macos_def)
qed

text \<open>
  The name handed to the kernel always fits Darwin's limit of 31 characters, is 31 characters long when
  the user's name had to be shortened, and is the user's own name on every other system and whenever it fits.
\<close>

theorem shm_name_for_kernel_fits:
  "if is_macos p
   then length (shm_name_for_kernel p nm) = min 31 (length nm) \<and>
        (length nm \<le> 31 \<and> shm_name_for_kernel p nm = nm \<or>
         31 < length nm \<and> take 24 (shm_name_for_kernel p nm) = ''/xproc_'' @ hex16 (fnv1a64 nm) @ ''_'')
   else shm_name_for_kernel p nm = nm"
proof (cases "is_macos p \<and> 31 < length nm")
  case True
  have "length (take_suffix 7 (rev nm)) \<le> 7" by (rule length_take_suffix)
  with True show ?thesis by (simp add: shm_name_for_kernel_def Let_def)
qed (auto simp: shm_name_for_kernel_def)

text \<open>
  C12. An endpoint gives back what it takes from the kernel: a constructor that throws leaves the tables of
  descriptors and mappings as they were, and so do construction and destruction together, whatever happens to
  the contents of the segments in between.
\<close>

theorem posix_endpoint_no_leak:
  assumes "posix_spec A K view"
    and "establish_connection p A' init pid (posix_backend p K) r opts k = (res, k')"
  shows "case res of
           Inl e \<Rightarrow> held view k' = held view k
         | Inr ep \<Rightarrow> \<forall>k''. held view k'' = held view k' \<longrightarrow>
             held view (destroy_endpoint (posix_backend p K) ep k'') = held view k"
  using assms pr.establish_failure_releases pr.establish_destroy_releases by (auto split: sum.split)

lemma ref_producer_connects:
  obtains ep k where "ref_producer = (Inr ep, k)" and "ep_header ep = Some 4" and "ep_role ep = producer_role"
    and "rk_fds k = [(3, 0)]" and "rk_maps k = [(4, 0)]" and "rk_dir k = [(''/x'', 0)]"
proof -
  have "case ref_producer of
          (Inl e, k) \<Rightarrow> False
        | (Inr ep, k) \<Rightarrow> ep_header ep = Some 4 \<and> ep_role ep = producer_role \<and> rk_fds k = [(3, 0)] \<and>
                         rk_maps k = [(4, 0)] \<and> rk_dir k = [(''/x'', 0)]"
    by code_simp
  then show ?thesis by (auto split: prod.split_asm sum.split_asm intro: that)
qed

theorem posix_endpoint_no_leak_witness:
  "case ref_producer of
     (Inl e, k) \<Rightarrow> False
   | (Inr ep, k) \<Rightarrow> held rk_view k \<noteq> held rk_view empty_kernel \<and>
       held rk_view (destroy_endpoint (posix_backend Linux (ref_posix ref_abi)) ep k) = held rk_view empty_kernel"
proof (rule ref_producer_connects)
  fix ep k
  assume run: "ref_producer = (Inr ep, k)" and "rk_fds k = [(3, 0)]"
  then have "kfds (rk_view k) 3 \<noteq> kfds (rk_view empty_kernel) 3" by (simp add: rk_view_def empty_kernel_def)
  then have "held rk_view k \<noteq> held rk_view empty_kernel" by (auto simp: held_def)
  then show ?thesis
    using posix_endpoint_no_leak [OF ref_posix_spec run [unfolded ref_producer_def]] by (simp add: run)
qed

text \<open>
  C17. A creator whose \<open>ftruncate\<close> fails leaves an empty segment under its name, and as long as nothing
  removes that name or gives the segment a size, no later \<open>open\<close> of it succeeds, in any mode.
\<close>

theorem failed_truncate_blocks_name:
  assumes "posix_spec A K view"
    and "open_fd K (shm_name_for_kernel p nm) sz mode k = (Inr (fd, True), k1)"
    and "sys_ftruncate K fd sz k1 = (Inl e, k2)"
    and "shm_open p K nm sz mode ns new_shm k = (b, s, k')"
    and "kdir (view k'') = kdir (view k')" and "ksize (view k'') = ksize (view k')"
  shows "\<not> b \<and> shm_last_os_error s = e \<and> \<not> fst (shm_open p K nm sz' mode' ns' new_shm k'')"
proof -
  let ?nm = "shm_name_for_kernel p nm"
  obtain ob where ob: "opened_new (view k) ?nm fd ob (view k1)" using open_fd_view(2) [OF assms(1,2)] by blast
  have run: "\<not> b \<and> shm_last_os_error s = e \<and> k' = sys_close K fd k2"
    using assms(2,3,4) by (auto simp: shm_open_def Let_def close_and_fail_def)
  then have "view k' = (view k1)\<lparr>kfds := (kfds (view k1))(fd := None)\<rparr>"
    using posix_remove(2) [OF assms(1)] posix_ftruncate(1) [OF assms(1,3)] by simp
  with ob have "kdir (view k'') ?nm = Some ob" "ksize (view k'') ob = 0"
    using assms(5,6) by (auto simp: opened_new_def)
  then have "\<not> opened A (view k'') ?nm sz' mode' s' v'" for s' v'
    by (auto simp: opened_def split: if_split_asm)
  then show ?thesis
    using run shm_open_ok [OF assms(1) holds_nothing_new] by (metis prod.collapse)
qed

theorem failed_truncate_blocks_name_witness:
  "let K = (ref_posix ref_abi)\<lparr>sys_ftruncate := (\<lambda>fd sz k. (Inl 28, k))\<rparr>;
       k' = snd (snd (shm_open Linux K ''/x'' 448 mode_open_create ''Local'' new_shm empty_kernel))
   in \<not> fst (shm_open Linux K ''/x'' 448 mode_open_create ''Local'' new_shm k')"
proof -
  let ?K = "(ref_posix ref_abi)\<lparr>sys_ftruncate := (\<lambda>fd sz k. (Inl 28, k))\<rparr>"
  have spec: "posix_spec ref_abi ?K rk_view"
    using ref_posix_spec [of ref_abi]
    by (simp add: posix_spec_def shm_open_spec_def ftruncate_spec_def mapping_spec_def)
  have op: "open_fd ?K (shm_name_for_kernel Linux ''/x'') 448 mode_open_create empty_kernel =
      (Inr (3, True), empty_kernel\<lparr>rk_dir := [(''/x'', 0)], rk_fds := [(3, 0)], rk_next := 4,
         rk_objs := [(0, \<lparr>hdr = zero_block, data = []\<rparr>)]\<rparr>)"
    by (simp add: open_fd_def shm_name_for_kernel_def is_macos_def ref_posix_def ref_shm_open_def empty_kernel_def
        rk_fresh_obj_def Let_def)
  show ?thesis
    unfolding Let_def
    by (rule conjunct2 [OF conjunct2 [OF failed_truncate_blocks_name [OF spec op]]])
       (simp_all add: prod_eq_iff)
qed

end
