(* ===== verification/Fifo.thy ===== *)
theory Fifo
  imports Xproc_Prelude
begin

text \<open>
  What every transport of the library promises to a producer and a consumer: a first-in first-out queue.

  A run interleaves, in any order, attempts to send and attempts to receive; \<open>run_ops\<close> collects what was
  accepted and what was delivered. The locale \<open>fifo_transport\<close> states the contract of the two
  operations over an abstraction \<open>q\<close> of the transport's state, and its lemmas are about whole runs. The
  theories \<open>Channel\<close> and \<open>Socket\<close> interpret it for the code's send and poll functions.
\<close>

datatype 'm op = Send 'm | Recv

fun run_ops ::
  "('m \<Rightarrow> 's \<Rightarrow> bool \<times> 's) \<Rightarrow> ('s \<Rightarrow> 'w option \<times> 's) \<Rightarrow> 'm op list \<Rightarrow> 's \<Rightarrow> 'm list \<times> 'w list \<times> 's" where
  "run_ops send recv [] s = ([], [], s)"
| "run_ops send recv (Send m # ops) s =
     (let (b, s1) = send m s; (acc, del, s2) = run_ops send recv ops s1
      in (if b then m # acc else acc, del, s2))"
| "run_ops send recv (Recv # ops) s =
     (let (w, s1) = recv s; (acc, del, s2) = run_ops send recv ops s1
      in (acc, case w of None \<Rightarrow> del | Some x \<Rightarrow> x # del, s2))"

definition sends_valid :: "('m \<Rightarrow> bool) \<Rightarrow> 'm op list \<Rightarrow> bool" where
  "sends_valid valid ops \<longleftrightarrow> list_all (\<lambda>x. case x of Send m \<Rightarrow> valid m | Recv \<Rightarrow> True) ops"

lemma sends_valid_simps [simp]:
  "sends_valid valid []"
  "sends_valid valid (Send m # ops) \<longleftrightarrow> valid m \<and> sends_valid valid ops"
  "sends_valid valid (Recv # ops) \<longleftrightarrow> sends_valid valid ops"
  by (simp_all add: sends_valid_def)

locale fifo_transport =
  fixes send :: "'m \<Rightarrow> 's \<Rightarrow> bool \<times> 's" and recv :: "'s \<Rightarrow> 'w option \<times> 's"
    and inv :: "'s \<Rightarrow> bool" and q :: "'s \<Rightarrow> 'w list" and wire :: "'m \<Rightarrow> 'w" and valid :: "'m \<Rightarrow> bool"
  assumes send_inv: "inv s \<Longrightarrow> valid m \<Longrightarrow> inv (snd (send m s))"
    and send_q: "inv s \<Longrightarrow> valid m \<Longrightarrow> q (snd (send m s)) = (if fst (send m s) then q s @ [wire m] else q s)"
    and recv_inv: "inv s \<Longrightarrow> inv (snd (recv s))"
    and recv_q: "inv s \<Longrightarrow> q s = (case fst (recv s) of None \<Rightarrow> [] | Some w \<Rightarrow> [w]) @ q (snd (recv s))"
    and recv_empty: "inv s \<Longrightarrow> fst (recv s) = None \<Longrightarrow> q s = []"
begin

lemma run_ops_fifo:
  assumes "inv s" and "sends_valid valid ops" and "run_ops send recv ops s = (acc, del, s')"
  shows "inv s' \<and> q s @ map wire acc = del @ q s'"
  using assms
proof (induction ops arbitrary: s acc del s')
  case Nil
  then show ?case by simp
next
  case (Cons x ops)
  show ?case
  proof (cases x)
    case (Send m)
    obtain b s1 where snd1: "send m s = (b, s1)" by fastforce
    obtain acc1 del1 s2 where run: "run_ops send recv ops s1 = (acc1, del1, s2)" by (metis surj_pair)
    have "inv s1" "q s1 = (if b then q s @ [wire m] else q s)"
      using send_inv send_q Cons.prems Send snd1 by fastforce+
    with Cons.IH [OF _ _ run] Cons.prems Send snd1 run show ?thesis
      by (auto split: if_split_asm)
  next
    case Recv
    obtain w s1 where rcv: "recv s = (w, s1)" by fastforce
    obtain acc1 del1 s2 where run: "run_ops send recv ops s1 = (acc1, del1, s2)" by (metis surj_pair)
    have "inv s1" "q s = (case w of None \<Rightarrow> [] | Some w \<Rightarrow> [w]) @ q s1"
      using recv_inv recv_q [of s] Cons.prems rcv by (metis snd_conv, simp)
    with Cons.IH [OF _ _ run] Cons.prems Recv rcv run show ?thesis
      by (auto split: option.split_asm)
  qed
qed

text \<open>
  Started empty, a run delivers a prefix of what it accepted, in order and without loss or duplication, and
  the rest is still queued.
\<close>

lemma run_ops_prefix:
  assumes "inv s" and "q s = []" and "sends_valid valid ops" and "run_ops send recv ops s = (acc, del, s')"
  shows "del = take (length del) (map wire acc) \<and> q s' = drop (length del) (map wire acc)"
  using run_ops_fifo [OF assms(1,3,4)] assms(2) by simp

text \<open>A receiver that keeps polling drains the queue: after as many polls as there are messages it is empty.\<close>

lemma drain:
  assumes "inv s" and "run_ops send recv (replicate (length (q s)) Recv) s = (acc, del, s')"
  shows "del = q s \<and> q s' = []"
  using assms
proof (induction "length (q s)" arbitrary: s acc del s')
  case 0
  then show ?case by simp
next
  case (Suc n)
  obtain w s1 where rcv: "recv s = (w, s1)" by fastforce
  obtain m where w: "w = Some m" using recv_empty [OF Suc.prems(1)] rcv Suc.hyps(2) by (cases w) auto
  then have s1: "inv s1" "q s = m # q s1" using recv_inv recv_q [of s] Suc.prems(1) rcv by (metis snd_conv, simp)
  then have "n = length (q s1)" using Suc.hyps(2) by simp
  moreover obtain acc1 del1 s2 where run: "run_ops send recv (replicate (length (q s1)) Recv) s1 = (acc1, del1, s2)"
    by (metis surj_pair)
  ultimately have "del1 = q s1 \<and> q s2 = []" using Suc.hyps(1) s1(1) by blast
  then show ?case using Suc.prems(2) s1 rcv w run by simp
qed

end

end
