(* ===== verification/Channel.thy ===== *)
theory Channel
  imports Endpoint Fifo Complex_Main
begin

text \<open>
  The shared-memory channel: \<open>include/xproc/ipc/channel.hpp\<close>, \<open>message_meta.hpp\<close> and \<open>send_result.hpp\<close>.

  A channel is an endpoint; its reader and writer views keep their state in the segment, which every
  operation takes and returns. The ring functions are the parameter \<open>R\<close>. \<open>src\<close> is the caller's buffer: an
  operation copies its first \<open>byte_length\<close> bytes. A pointer cast to the wrong view, which C++ leaves
  undefined, is the exception value \<open>Undefined_behavior\<close>.

  A blocking call that may never return has an \<open>option\<close> result, \<open>None\<close> if it does not return. \<open>env i\<close> is what
  the rest of the system does to the segment between the i-th attempt and the next one, \<open>now i\<close> the i-th reading
  of the monotonic clock during the call, and \<open>ts i\<close> the i-th default timestamp.
\<close>

section \<open>Data\<close>

datatype send_result = sr_ok | sr_full | sr_timeout | sr_message_too_large | sr_invalid_argument

definition send_result_cstr :: "send_result \<Rightarrow> string" where
  "send_result_cstr result =
     (case result of
        sr_ok \<Rightarrow> ''ok''
      | sr_full \<Rightarrow> ''full''
      | sr_timeout \<Rightarrow> ''timeout''
      | sr_message_too_large \<Rightarrow> ''message_too_large''
      | sr_invalid_argument \<Rightarrow> ''invalid_argument'')"

definition to_spscring_meta :: "u64 \<Rightarrow> message_meta \<Rightarrow> message_meta" where
  "to_spscring_meta steady_now m =
     (if timestamp_ns m = 0 then m\<lparr>timestamp_ns := steady_now\<rparr> else m)"

definition map_reserve_status :: "reserve_status \<Rightarrow> send_result" where
  "map_reserve_status status =
     (case status of
        rs_ok \<Rightarrow> sr_ok
      | rs_full \<Rightarrow> sr_full
      | rs_timeout \<Rightarrow> sr_timeout
      | rs_message_too_large \<Rightarrow> sr_message_too_large
      | rs_other _ \<Rightarrow> sr_invalid_argument)"

section \<open>Construction and occupancy\<close>

text \<open>The constructor: an endpoint, then the role check, whose failure destroys the endpoint again.\<close>

definition make_channel ::
  "platform \<Rightarrow> abi \<Rightarrow> init_fn \<Rightarrow> int \<Rightarrow> ('s, 'k) shm_backend \<Rightarrow> transport_options \<Rightarrow> role \<Rightarrow> 'k
   \<Rightarrow> (exn + 's endpoint) \<times> 'k" where
  "make_channel p A init pid B opts r k =
     (case establish_connection p A init pid B r opts k of
        (Inl e, k1) \<Rightarrow> (Inl e, k1)
      | (Inr ep, k1) \<Rightarrow>
          if r \<noteq> producer_role \<and> r \<noteq> consumer_role
          then (Inl (Logic_error ''channel: only producer or consumer roles are supported''), destroy_endpoint B ep k1)
          else (Inr ep, k1))"

text \<open>\<open>init_views\<close>: the kind of both views.\<close>

definition init_views :: "'s endpoint \<Rightarrow> channel_type" where
  "init_views ep = (if chan_type (ep_opts ep) = fixed then fixed else varlen)"

text \<open>
  The occupancy queries read the block while others write it: \<open>obs i\<close> is the block at the i-th load.
\<close>

definition capacity_bytes :: "(nat \<Rightarrow> control_block) option \<Rightarrow> u64" where
  "capacity_bytes header = (case header of None \<Rightarrow> 0 | Some obs \<Rightarrow> data_capacity (spscring_cb (obs 0)))"

definition used_bytes :: "(nat \<Rightarrow> control_block) option \<Rightarrow> u64" where
  "used_bytes header =
     (case header of
        None \<Rightarrow> 0
      | Some obs \<Rightarrow>
          let write = write_pos (spscring_cb (obs 0));
              read = read_pos (spscring_cb (obs 1));
              used = (if write \<ge> read then write - read else 0);
              cap = data_capacity (spscring_cb (obs 2))
          in if used > cap then cap else used)"

definition later :: "nat \<Rightarrow> (nat \<Rightarrow> control_block) option \<Rightarrow> (nat \<Rightarrow> control_block) option" where
  "later n header = map_option (\<lambda>obs i. obs (n + i)) header"

definition available_bytes :: "(nat \<Rightarrow> control_block) option \<Rightarrow> u64" where
  "available_bytes header = capacity_bytes header - used_bytes (later 1 header)"

definition fill_ratio :: "(nat \<Rightarrow> control_block) option \<Rightarrow> rat" where
  "fill_ratio header =
     (let cap = capacity_bytes header
      in if cap = 0 then 0 else of_nat (unat (used_bytes (later 1 header))) / of_nat (unat cap))"

section \<open>Fixed-size sends\<close>

text \<open>The copy into a slot: \<open>memcpy\<close>, then \<open>memset\<close> of the unused tail.\<close>

definition fill_slot :: "nat \<Rightarrow> byte list \<Rightarrow> u32 \<Rightarrow> u32 \<Rightarrow> segment \<Rightarrow> segment" where
  "fill_slot off src byte_length item s =
     (let s1 = mem_write off (take (unat byte_length) src) s
      in if byte_length < item
         then mem_write (off + unat byte_length) (replicate (unat (item - byte_length)) 0) s1
         else s1)"

definition send_fixed_sized ::
  "spscring \<Rightarrow> (nat \<Rightarrow> segment \<Rightarrow> segment) \<Rightarrow> 's endpoint \<Rightarrow> byte list \<Rightarrow> u32 \<Rightarrow> message_meta \<Rightarrow> segment
   \<Rightarrow> ((exn + unit) \<times> segment) option" where
  "send_fixed_sized R env ep src byte_length meta s =
     (if ep_role ep \<noteq> producer_role
      then Some (Inl (Logic_error ''channel::send_fixed_sized requires producer role''), s)
      else if chan_type (ep_opts ep) \<noteq> fixed
      then Some (Inl (Logic_error ''channel::send_fixed_sized requires fixed channel''), s)
      else if byte_length > item_size (ep_opts ep)
      then Some (Inl (Invalid_argument ''channel::send_fixed_sized: byte_length exceeds item_size''), s)
      else
        (case fixed_spin_until_reserve R env s of
           None \<Rightarrow> None
         | Some (buf, s1) \<Rightarrow>
             Some (Inr (), fixed_commit R (fill_slot buf src byte_length (item_size (ep_opts ep)) s1))))"

definition send_fixed_bytes ::
  "spscring \<Rightarrow> (nat \<Rightarrow> segment \<Rightarrow> segment) \<Rightarrow> 's endpoint \<Rightarrow> byte list \<Rightarrow> u32 \<Rightarrow> message_meta \<Rightarrow> segment
   \<Rightarrow> ((exn + unit) \<times> segment) option" where
  "send_fixed_bytes R env ep src payload_len meta s =
     (if ep_role ep \<noteq> producer_role
      then Some (Inl (Logic_error ''channel::send_fixed_bytes requires producer role''), s)
      else if chan_type (ep_opts ep) \<noteq> fixed
      then Some (Inl (Logic_error ''channel::send_fixed_bytes requires fixed channel''), s)
      else if payload_len > item_size (ep_opts ep)
      then Some (Inl (Invalid_argument ''channel::send_fixed_bytes: payload_len exceeds item_size''), s)
      else
        (case fixed_spin_until_reserve R env s of
           None \<Rightarrow> None
         | Some (buf, s1) \<Rightarrow>
             Some (Inr (), fixed_commit R (fill_slot buf src payload_len (item_size (ep_opts ep)) s1))))"

definition try_send_fixed_sized ::
  "spscring \<Rightarrow> 's endpoint \<Rightarrow> byte list \<Rightarrow> u32 \<Rightarrow> message_meta \<Rightarrow> segment \<Rightarrow> (exn + send_result) \<times> segment" where
  "try_send_fixed_sized R ep src byte_length meta s =
     (if ep_role ep \<noteq> producer_role
      then (Inl (Logic_error ''channel::try_send_fixed_sized requires producer role''), s)
      else if chan_type (ep_opts ep) \<noteq> fixed
      then (Inl (Logic_error ''channel::try_send_fixed_sized requires fixed channel''), s)
      else if byte_length > item_size (ep_opts ep) then (Inr sr_invalid_argument, s)
      else
        (case fixed_try_reserve R s of
           (None, s1) \<Rightarrow> (Inr sr_full, s1)
         | (Some buf, s1) \<Rightarrow>
             (Inr sr_ok, fixed_commit R (fill_slot buf src byte_length (item_size (ep_opts ep)) s1))))"

text \<open>The retry loop of the bounded-time sends: \<open>body\<close> is one attempt, which either settles the call or not.\<close>

partial_function (option) retry_loop ::
  "(nat \<Rightarrow> segment \<Rightarrow> send_result option \<times> segment) \<Rightarrow> (nat \<Rightarrow> int) \<Rightarrow> int \<Rightarrow> (nat \<Rightarrow> segment \<Rightarrow> segment) \<Rightarrow> nat
   \<Rightarrow> segment \<Rightarrow> (send_result \<times> segment) option" where
  "retry_loop body now deadline env i s =
     (case body i s of
        (Some r, s1) \<Rightarrow> Some (r, s1)
      | (None, s1) \<Rightarrow>
          if now (Suc i) \<ge> deadline then Some (sr_timeout, s1)
          else retry_loop body now deadline env (Suc i) (env i s1))"

definition fixed_attempt :: "spscring \<Rightarrow> u32 \<Rightarrow> byte list \<Rightarrow> u32 \<Rightarrow> nat \<Rightarrow> segment \<Rightarrow> send_result option \<times> segment" where
  "fixed_attempt R item src byte_length i s =
     (case fixed_try_reserve R s of
        (Some buf, s1) \<Rightarrow> (Some sr_ok, fixed_commit R (fill_slot buf src byte_length item s1))
      | (None, s1) \<Rightarrow> (None, s1))"

definition send_fixed_sized_for ::
  "spscring \<Rightarrow> (nat \<Rightarrow> int) \<Rightarrow> (nat \<Rightarrow> segment \<Rightarrow> segment) \<Rightarrow> 's endpoint \<Rightarrow> byte list \<Rightarrow> u32 \<Rightarrow> int \<Rightarrow> message_meta
   \<Rightarrow> segment \<Rightarrow> ((exn + send_result) \<times> segment) option" where
  "send_fixed_sized_for R now env ep src byte_length timeout meta s =
     (if ep_role ep \<noteq> producer_role
      then Some (Inl (Logic_error ''channel::send_fixed_sized_for requires producer role''), s)
      else if chan_type (ep_opts ep) \<noteq> fixed
      then Some (Inl (Logic_error ''channel::send_fixed_sized_for requires fixed channel''), s)
      else if byte_length > item_size (ep_opts ep) then Some (Inr sr_invalid_argument, s)
      else
        let deadline = now 0 + timeout in
        map_option (\<lambda>(r, s'). (Inr r, s'))
          (retry_loop (fixed_attempt R (item_size (ep_opts ep)) src byte_length) now deadline env 0 s))"

section \<open>Variable-length sends\<close>

definition send_varlen ::
  "spscring \<Rightarrow> u64 \<Rightarrow> 's endpoint \<Rightarrow> byte list \<Rightarrow> u32 \<Rightarrow> message_meta \<Rightarrow> segment \<Rightarrow> (exn + unit) \<times> segment" where
  "send_varlen R ts ep src len meta s =
     (if ep_role ep \<noteq> producer_role
      then (Inl (Logic_error ''channel::send_varlen requires producer role''), s)
      else if init_views ep \<noteq> varlen then (Inl (Undefined_behavior ''static_cast of a fixed_writer to varlen_writer''), s)
      else
        (case varlen_try_reserve R len (to_spscring_meta ts meta) s of
           (rr, s1) \<Rightarrow>
             if \<not> rr_valid rr
             then (Inl (Runtime_error (''channel::send_varlen: reserve failed: '' @ reserve_status_cstr R (rr_status rr))),
                   s1)
             else (Inr (), varlen_commit R (rr_position rr) (mem_write (rr_payload rr) (take (unat len) src) s1))))"

definition try_send_varlen ::
  "spscring \<Rightarrow> u64 \<Rightarrow> 's endpoint \<Rightarrow> byte list \<Rightarrow> u32 \<Rightarrow> message_meta \<Rightarrow> segment \<Rightarrow> (exn + send_result) \<times> segment" where
  "try_send_varlen R ts ep src len meta s =
     (if ep_role ep \<noteq> producer_role
      then (Inl (Logic_error ''channel::try_send_varlen requires producer role''), s)
      else if chan_type (ep_opts ep) \<noteq> varlen
      then (Inl (Logic_error ''channel::try_send_varlen requires variable channel''), s)
      else
        (case varlen_try_reserve R len (to_spscring_meta ts meta) s of
           (rr, s1) \<Rightarrow>
             if \<not> rr_valid rr then (Inr (map_reserve_status (rr_status rr)), s1)
             else (Inr sr_ok, varlen_commit R (rr_position rr) (mem_write (rr_payload rr) (take (unat len) src) s1))))"

definition varlen_attempt ::
  "spscring \<Rightarrow> (nat \<Rightarrow> u64) \<Rightarrow> byte list \<Rightarrow> u32 \<Rightarrow> message_meta \<Rightarrow> nat \<Rightarrow> segment \<Rightarrow> send_result option \<times> segment" where
  "varlen_attempt R ts src len meta i s =
     (case varlen_try_reserve R len (to_spscring_meta (ts i) meta) s of
        (rr, s1) \<Rightarrow>
          if rr_valid rr
          then (Some sr_ok, varlen_commit R (rr_position rr) (mem_write (rr_payload rr) (take (unat len) src) s1))
          else if rr_status rr \<noteq> rs_full then (Some (map_reserve_status (rr_status rr)), s1)
          else (None, s1))"

definition send_varlen_for ::
  "spscring \<Rightarrow> (nat \<Rightarrow> u64) \<Rightarrow> (nat \<Rightarrow> int) \<Rightarrow> (nat \<Rightarrow> segment \<Rightarrow> segment) \<Rightarrow> 's endpoint \<Rightarrow> byte list \<Rightarrow> u32 \<Rightarrow> int
   \<Rightarrow> message_meta \<Rightarrow> segment \<Rightarrow> ((exn + send_result) \<times> segment) option" where
  "send_varlen_for R ts now env ep src len timeout meta s =
     (if ep_role ep \<noteq> producer_role
      then Some (Inl (Logic_error ''channel::send_varlen_for requires producer role''), s)
      else if chan_type (ep_opts ep) \<noteq> varlen
      then Some (Inl (Logic_error ''channel::send_varlen_for requires variable channel''), s)
      else
        let deadline = now 0 + timeout in
        map_option (\<lambda>(r, s'). (Inr r, s'))
          (retry_loop (varlen_attempt R ts src len meta) now deadline env 0 s))"

section \<open>Polling\<close>

text \<open>
  A handler returns (\<open>None\<close>) or throws. The result of \<open>poll\<close> lists the messages the handler was called with;
  a slot whose handler throws is not advanced over.
\<close>

definition poll ::
  "spscring \<Rightarrow> 's endpoint \<Rightarrow> (message \<Rightarrow> exn option) \<Rightarrow> segment \<Rightarrow> (exn + bool) \<times> message list \<times> segment" where
  "poll R ep handler s =
     (if ep_role ep \<noteq> consumer_role
      then (Inl (Logic_error ''channel::poll requires consumer role''), [], s)
      else if chan_type (ep_opts ep) = fixed
      then
        (case fixed_try_read R s of
           None \<Rightarrow> (Inr False, [], s)
         | Some (slot, _) \<Rightarrow>
             let m = (default_meta, mem_read slot (unat (item_size (ep_opts ep))) s) in
             (case handler m of
                Some e \<Rightarrow> (Inl e, [m], s)
              | None \<Rightarrow> (Inr True, [m], fixed_read_advance R s)))
      else varlen_read R (\<lambda>m. case handler m of Some e \<Rightarrow> Inl e | None \<Rightarrow> Inr True) s)"

section \<open>One message at a time\<close>

text \<open>
  The operations of a run: a non-blocking send that either queues the message or does not, and a poll
  with a handler that only takes the message.
\<close>

definition fixed_send :: "spscring \<Rightarrow> 's endpoint \<Rightarrow> byte list \<times> u32 \<times> message_meta \<Rightarrow> segment \<Rightarrow> bool \<times> segment" where
  "fixed_send R ep m s =
     (case m of (d, n, meta) \<Rightarrow>
        (case try_send_fixed_sized R ep d n meta s of (r, s1) \<Rightarrow> (r = Inr sr_ok, s1)))"

definition varlen_send ::
  "spscring \<Rightarrow> 's endpoint \<Rightarrow> u64 \<times> byte list \<times> u32 \<times> message_meta \<Rightarrow> segment \<Rightarrow> bool \<times> segment" where
  "varlen_send R ep m s =
     (case m of (ts, d, n, meta) \<Rightarrow>
        (case try_send_varlen R ts ep d n meta s of (r, s1) \<Rightarrow> (r = Inr sr_ok, s1)))"

definition poll_one :: "spscring \<Rightarrow> 's endpoint \<Rightarrow> segment \<Rightarrow> message option \<times> segment" where
  "poll_one R ep s =
     (case poll R ep (\<lambda>_. None) s of (r, ms, s1) \<Rightarrow> (if r = Inr True then Some (hd ms) else None, s1))"

text \<open>
  A producer and a consumer of one segment, with what is assumed of the ring: the state invariant of a run,
  and what a message looks like to the consumer.
\<close>

definition fixed_link ::
  "spscring \<Rightarrow> 's endpoint \<Rightarrow> 's endpoint \<Rightarrow> nat \<Rightarrow> (segment \<Rightarrow> bool) \<Rightarrow> (segment \<Rightarrow> byte list list) \<Rightarrow> segment \<Rightarrow> bool" where
  "fixed_link R pe ce slots I q s \<longleftrightarrow>
     fixed_ring R (unat (item_size (ep_opts pe))) slots I q \<and> I s \<and>
     ep_role pe = producer_role \<and> ep_role ce = consumer_role \<and>
     chan_type (ep_opts pe) = fixed \<and> chan_type (ep_opts ce) = fixed \<and>
     item_size (ep_opts ce) = item_size (ep_opts pe)"

definition fixed_wire :: "'s endpoint \<Rightarrow> byte list \<times> u32 \<times> message_meta \<Rightarrow> message" where
  "fixed_wire ep m = (case m of (d, n, meta) \<Rightarrow> (default_meta, zero_pad (unat (item_size (ep_opts ep))) (take (unat n) d)))"

definition varlen_link ::
  "spscring \<Rightarrow> 's endpoint \<Rightarrow> 's endpoint \<Rightarrow> nat \<Rightarrow> (segment \<Rightarrow> bool) \<Rightarrow> (segment \<Rightarrow> message list) \<Rightarrow> segment \<Rightarrow> bool" where
  "varlen_link R pe ce max_len I q s \<longleftrightarrow>
     varlen_ring R max_len I q \<and> I s \<and> ep_role pe = producer_role \<and> ep_role ce = consumer_role \<and>
     chan_type (ep_opts pe) = varlen \<and> chan_type (ep_opts ce) = varlen"

definition varlen_wire :: "u64 \<times> byte list \<times> u32 \<times> message_meta \<Rightarrow> message" where
  "varlen_wire m = (case m of (ts, d, n, meta) \<Rightarrow> (to_spscring_meta ts meta, take (unat n) d))"

text \<open>What a consumer and observers may do to the queue between two attempts of a producer.\<close>

definition consuming :: "(segment \<Rightarrow> bool) \<Rightarrow> (segment \<Rightarrow> 'm list) \<Rightarrow> (nat \<Rightarrow> segment \<Rightarrow> segment) \<Rightarrow> bool" where
  "consuming I q env \<longleftrightarrow> (\<forall>i s. I s \<longrightarrow> I (env i s) \<and> (\<exists>k. q (env i s) = drop k (q s)))"

section \<open>Copying\<close>

lemma mem_write_twice:
  assumes "n \<le> item" and "unat n \<le> length src" and "off + unat item \<le> length (data s)"
  shows "fill_slot off src n item s = mem_write off (zero_pad (unat item) (take (unat n) src)) s"
proof (cases "n < item")
  case True
  have len: "length (take (unat n) src) = unat n" using assms(2) by simp
  have le: "unat n \<le> unat item" using assms(1) by (simp add: word_le_nat_alt)
  have "unat (item - n) = unat item - unat n" using assms(1) by (rule unat_sub)
  with True buf_write_zero_pad [of "take (unat n) src" "unat item" off "data s"] len le assms(3)
  show ?thesis by (simp add: fill_slot_def mem_write_def)
next
  case False
  with assms(1) have "n = item" by simp
  with assms(2) show ?thesis by (simp add: fill_slot_def)
qed

lemma length_padded:
  assumes "n \<le> item" and "unat n \<le> length src"
  shows "length (zero_pad (unat item) (take (unat n) src)) = unat item"
  using assms by (simp add: word_le_nat_alt)

lemma fixed_attempt_queue:
  assumes "fixed_ring R (unat item) slots I q" and "I s" and "n \<le> item" and "unat n \<le> length src"
  shows "\<exists>s'. fixed_attempt R item src n i s = (if length (q s) < slots then Some sr_ok else None, s') \<and> I s' \<and>
     q s' = (if length (q s) < slots then q s @ [zero_pad (unat item) (take (unat n) src)] else q s)"
proof (cases "length (q s) < slots")
  case True
  with assms(1,2) obtain off s1 where r: "fixed_try_reserve R s = (Some off, s1)" and fit: "off + unat item \<le> length (data s1)"
    and c: "\<And>bs. length bs = unat item \<Longrightarrow> I (fixed_commit R (mem_write off bs s1))"
       "\<And>bs. length bs = unat item \<Longrightarrow> q (fixed_commit R (mem_write off bs s1)) = q s @ [bs]"
    by (rule fixed_ring_room) auto
  from True r fit c [OF length_padded [OF assms(3,4)]] mem_write_twice [OF assms(3,4) fit] show ?thesis
    by (simp add: fixed_attempt_def)
next
  case False
  with assms(1,2) obtain s1 where "fixed_try_reserve R s = (None, s1)" "I s1" "q s1 = q s" by (rule fixed_ring_full)
  with False show ?thesis by (simp add: fixed_attempt_def)
qed

lemma try_send_is_attempt:
  assumes "ep_role ep = producer_role" and "chan_type (ep_opts ep) = fixed" and "n \<le> item_size (ep_opts ep)"
  shows "try_send_fixed_sized R ep src n meta s =
     (case fixed_attempt R (item_size (ep_opts ep)) src n 0 s of
        (None, s1) \<Rightarrow> (Inr sr_full, s1) | (Some r, s1) \<Rightarrow> (Inr r, s1))"
  using assms by (auto simp: try_send_fixed_sized_def fixed_attempt_def split: prod.splits option.splits)

lemma poll_fixed:
  assumes "ep_role ep = consumer_role" and "chan_type (ep_opts ep) = fixed"
    and "fixed_ring R (unat (item_size (ep_opts ep))) slots I q" and "I s"
  shows "poll R ep h s =
    (case q s of
       [] \<Rightarrow> (Inr False, [], s)
     | m # _ \<Rightarrow> (case h (default_meta, m) of
          Some e \<Rightarrow> (Inl e, [(default_meta, m)], s)
        | None \<Rightarrow> (Inr True, [(default_meta, m)], fixed_read_advance R s)))"
proof (cases "q s")
  case Nil
  with assms show ?thesis by (simp add: poll_def fixed_ring_empty)
next
  case (Cons m ms)
  with assms(3,4) obtain off where "fixed_try_read R s = Some (off, of_nat (unat (item_size (ep_opts ep))))"
      "mem_read off (unat (item_size (ep_opts ep))) s = m"
    by (rule fixed_ring_front)
  with assms(1,2) Cons show ?thesis by (auto simp: poll_def Let_def split: option.split)
qed

interpretation fx: fifo_transport "fixed_send R pe" "poll_one R ce" "fixed_link R pe ce slots I q"
    "\<lambda>s. map (Pair default_meta) (q s)" "fixed_wire pe" "\<lambda>(d, n, meta). unat n \<le> length d"
  for R pe ce slots I q
proof -
  have send: "fixed_link R pe ce slots I q (snd (fixed_send R pe m s)) \<and>
      map (Pair default_meta) (q (snd (fixed_send R pe m s))) =
        (if fst (fixed_send R pe m s) then map (Pair default_meta) (q s) @ [fixed_wire pe m]
         else map (Pair default_meta) (q s))"
    if link: "fixed_link R pe ce slots I q s" and len: "case m of (d, n, meta) \<Rightarrow> unat n \<le> length d" for m s
  proof -
    obtain d n meta where m: "m = (d, n, meta)" by (cases m)
    show ?thesis
    proof (cases "n \<le> item_size (ep_opts pe)")
      case True
      with fixed_attempt_queue [of R "item_size (ep_opts pe)" slots I q s n d 0] link len m
      obtain s' where "fixed_attempt R (item_size (ep_opts pe)) d n 0 s = (if length (q s) < slots then Some sr_ok else None, s')"
        "I s'" "q s' = (if length (q s) < slots then q s @ [zero_pad (unat (item_size (ep_opts pe))) (take (unat n) d)] else q s)"
        by (auto simp: fixed_link_def)
      with True link m show ?thesis
        by (simp add: fixed_link_def fixed_send_def try_send_is_attempt fixed_wire_def)
    next
      case False
      then have "item_size (ep_opts pe) < n" by simp
      with link len m show ?thesis by (simp add: fixed_link_def fixed_send_def try_send_fixed_sized_def not_le)
    qed
  qed
  have recv: "fixed_link R pe ce slots I q (snd (poll_one R ce s)) \<and>
      map (Pair default_meta) (q s) =
        (case fst (poll_one R ce s) of None \<Rightarrow> [] | Some w \<Rightarrow> [w]) @ map (Pair default_meta) (q (snd (poll_one R ce s))) \<and>
      (fst (poll_one R ce s) = None \<longrightarrow> q s = [])"
    if link: "fixed_link R pe ce slots I q s" for s
  proof -
    have "poll R ce h s =
      (case q s of [] \<Rightarrow> (Inr False, [], s)
       | m # _ \<Rightarrow> (case h (default_meta, m) of
          Some e \<Rightarrow> (Inl e, [(default_meta, m)], s) | None \<Rightarrow> (Inr True, [(default_meta, m)], fixed_read_advance R s)))" for h
      using that by (intro poll_fixed [where I = I and slots = slots]) (auto simp: fixed_link_def)
    moreover have "I (fixed_read_advance R s) \<and> q (fixed_read_advance R s) = ms" if "q s = m # ms" for m ms
      using link that unfolding fixed_link_def by (auto elim!: fixed_ring_front)
    ultimately show ?thesis using link by (cases "q s") (auto simp: poll_one_def fixed_link_def)
  qed
  show "fifo_transport (fixed_send R pe) (poll_one R ce) (fixed_link R pe ce slots I q)
    (\<lambda>s. map (Pair default_meta) (q s)) (fixed_wire pe) (\<lambda>(d, n, meta). unat n \<le> length d)"
    by unfold_locales (use send recv in \<open>(simp; fail) | blast\<close>)+
qed

lemma varlen_attempt_queue:
  assumes "varlen_ring R max_len I q" and "I s" and "unat n \<le> length src"
  shows "\<exists>r s'. varlen_attempt R ts src n meta i s = (r, s') \<and> I s' \<and>
     (if max_len < unat n then r = Some sr_message_too_large \<and> q s' = q s
      else r = Some sr_ok \<and> q s' = q s @ [(to_spscring_meta (ts i) meta, take (unat n) src)] \<or>
           r = None \<and> q s' = q s \<and> q s \<noteq> [])"
proof -
  obtain rr s1 where r: "varlen_try_reserve R n (to_spscring_meta (ts i) meta) s = (rr, s1)" by fastforce
  have len: "length (take (unat n) src) = unat n" using assms(3) by simp
  from varlen_ring_reserve [OF assms(1,2) r] len show ?thesis
    by (auto simp: reserve_post_def varlen_attempt_def r map_reserve_status_def split: if_split_asm)
qed

lemma try_send_varlen_is_attempt:
  assumes "ep_role ep = producer_role" and "chan_type (ep_opts ep) = varlen"
  shows "try_send_varlen R t ep src n meta s =
     (case varlen_attempt R (\<lambda>_. t) src n meta 0 s of
        (None, s1) \<Rightarrow> (Inr sr_full, s1) | (Some r, s1) \<Rightarrow> (Inr r, s1))"
  using assms
  by (auto simp: try_send_varlen_def varlen_attempt_def map_reserve_status_def split: prod.splits reserve_status.splits)

interpretation vl: fifo_transport "varlen_send R pe" "poll_one R ce" "varlen_link R pe ce max_len I q"
    q varlen_wire "\<lambda>(t, d, n, meta). unat n \<le> length d"
  for R pe ce max_len I q
proof -
  have send: "varlen_link R pe ce max_len I q (snd (varlen_send R pe m s)) \<and>
      q (snd (varlen_send R pe m s)) = (if fst (varlen_send R pe m s) then q s @ [varlen_wire m] else q s)"
    if link: "varlen_link R pe ce max_len I q s" and len: "case m of (t, d, n, meta) \<Rightarrow> unat n \<le> length d" for m s
  proof -
    obtain t d n meta where m: "m = (t, d, n, meta)" by (cases m)
    obtain r s' where "varlen_attempt R (\<lambda>_. t) d n meta 0 s = (r, s')" "I s'"
      "if max_len < unat n then r = Some sr_message_too_large \<and> q s' = q s
       else r = Some sr_ok \<and> q s' = q s @ [(to_spscring_meta t meta, take (unat n) d)] \<or>
            r = None \<and> q s' = q s \<and> q s \<noteq> []"
      using varlen_attempt_queue [of R max_len I q s n d "\<lambda>_. t" meta 0] link len m by (auto simp: varlen_link_def)
    with link m show ?thesis
      by (auto simp: varlen_link_def varlen_send_def try_send_varlen_is_attempt varlen_wire_def split: if_split_asm)
  qed
  have recv: "varlen_link R pe ce max_len I q (snd (poll_one R ce s)) \<and>
      q s = (case fst (poll_one R ce s) of None \<Rightarrow> [] | Some w \<Rightarrow> [w]) @ q (snd (poll_one R ce s)) \<and>
      (fst (poll_one R ce s) = None \<longrightarrow> q s = [])"
    if link: "varlen_link R pe ce max_len I q s" for s
  proof -
    have ring: "varlen_ring R max_len I q" and "I s" using link by (simp_all add: varlen_link_def)
    have pl: "poll R ce (\<lambda>_. None) s = varlen_read R (\<lambda>_. Inr True) s" using link by (simp add: poll_def varlen_link_def)
    show ?thesis
    proof (cases "q s")
      case Nil
      with ring \<open>I s\<close> obtain s' where "varlen_read R (\<lambda>_. Inr True) s = (Inr False, [], s')" "I s'" "q s' = []"
        by (rule varlen_ring_empty)
      with Nil link pl show ?thesis by (simp add: poll_one_def varlen_link_def)
    next
      case (Cons m ms)
      with ring \<open>I s\<close> obtain s' where "varlen_read R (\<lambda>_. Inr True) s = (Inr True, [m], s')" "I s'" "q s' = ms"
        by (rule varlen_ring_consume)
      with Cons link pl show ?thesis by (simp add: poll_one_def varlen_link_def)
    qed
  qed
  show "fifo_transport (varlen_send R pe) (poll_one R ce) (varlen_link R pe ce max_len I q)
    q varlen_wire (\<lambda>(t, d, n, meta). unat n \<le> length d)"
    by unfold_locales (use send recv in \<open>(simp; fail) | blast\<close>)+
qed

section \<open>The bounded-time loops\<close>

lemma retry_loop_returns:
  assumes "now j \<ge> deadline" and "i < j"
  shows "\<exists>r s'. retry_loop body now deadline env i s = Some (r, s')"
  using assms
proof (induction "j - i" arbitrary: i s)
  case (Suc n)
  obtain r s1 where b: "body i s = (r, s1)" by fastforce
  show ?case
  proof (cases "r \<noteq> None \<or> deadline \<le> now (Suc i)")
    case True
    with b show ?thesis by (subst retry_loop.simps) (auto split: option.splits)
  next
    case False
    then have "Suc i < j" using Suc.prems by (metis Suc_lessI)
    with Suc.hyps(1) [of "Suc i"] Suc.hyps(2) Suc.prems(1) False b show ?thesis
      by (subst retry_loop.simps) (auto simp: not_le)
  qed
qed simp

lemma retry_loop_rule:
  assumes "retry_loop body now deadline env i s = Some (r, s')" and "Q s"
    and "\<And>i s s1. Q s \<Longrightarrow> body i s = (None, s1) \<Longrightarrow> Q (env i s1)"
    and "\<And>i s s1. Q s \<Longrightarrow> body i s = (None, s1) \<Longrightarrow> P sr_timeout s1"
    and "\<And>i s r s1. Q s \<Longrightarrow> body i s = (Some r, s1) \<Longrightarrow> P r s1"
  shows "P r s'"
proof -
  have "body = body \<longrightarrow> env = env \<longrightarrow> Q s \<longrightarrow> P (fst (r, s')) (snd (r, s'))"
    by (rule retry_loop.raw_induct [where P = "\<lambda>b now deadline e i s x. b = body \<longrightarrow> e = env \<longrightarrow> Q s \<longrightarrow> P (fst x) (snd x)",
          OF _ assms(1)])
       (auto split: prod.split_asm option.split_asm if_split_asm intro: assms(4,5), use assms(3) in blast)
  then show ?thesis using assms(2) by simp
qed

lemma ratio_bounds: "a \<le> b \<Longrightarrow> 0 \<le> (of_nat a / of_nat b :: rat) \<and> (of_nat a / of_nat b :: rat) \<le> 1"
  by (cases "b = 0") (auto simp: divide_le_eq)

lemma consuming_step:
  "consuming I q env \<Longrightarrow> I s \<Longrightarrow> q s = drop k q0 \<Longrightarrow> I (env i s) \<and> (\<exists>k. q (env i s) = drop k q0)"
  unfolding consuming_def by (metis drop_drop)

section \<open>The blocking send\<close>

lemma reserve_attempt_queue:
  assumes "fixed_ring R item slots I q" and "consuming I q env" and "I s"
    and "\<forall>k < n. slots \<le> length (q (reserve_attempt R env k s))"
  shows "I (reserve_attempt R env n s) \<and> (\<exists>k. q (reserve_attempt R env n s) = drop k (q s))"
  using assms(4)
proof (induction n)
  case 0
  then show ?case using assms(3) by (auto intro: exI [of _ 0])
next
  case (Suc n)
  then have I: "I (reserve_attempt R env n s)" and "\<exists>k. q (reserve_attempt R env n s) = drop k (q s)"
    and full: "\<not> length (q (reserve_attempt R env n s)) < slots" by (auto simp: not_less)
  moreover obtain s1 where "fixed_try_reserve R (reserve_attempt R env n s) = (None, s1)" "I s1"
      "q s1 = q (reserve_attempt R env n s)"
    using assms(1) I full by (rule fixed_ring_full)
  ultimately show ?case using consuming_step [OF assms(2)] by force
qed

lemma reserve_attempt_result:
  assumes "fixed_ring R item slots I q" and "I s"
  shows "fst (fixed_try_reserve R s) = None \<longleftrightarrow> slots \<le> length (q s)"
  using fixed_ring_room [OF assms] fixed_ring_full [OF assms] by (metis fst_conv not_less option.distinct(1))

section \<open>Properties\<close>

text \<open>
  C15. Occupancy is always within bounds, whatever the other side does between the loads: the bytes used
  never exceed the capacity, the subtraction in \<open>available_bytes\<close> never wraps, and the fill ratio lies
  between 0 and 1.
\<close>

theorem occupancy_bounds:
  assumes "\<forall>i. data_capacity (spscring_cb (obs i)) = cap"
  shows "used_bytes (Some obs) \<le> cap \<and>
    unat (available_bytes (Some obs)) + unat (used_bytes (later 1 (Some obs))) = unat cap \<and>
    0 \<le> fill_ratio (Some obs) \<and> fill_ratio (Some obs) \<le> 1"
proof (intro conjI)
  have used: "used_bytes (Some obs') \<le> cap" if "\<forall>i. data_capacity (spscring_cb (obs' i)) = cap" for obs'
    using that by (auto simp: used_bytes_def Let_def not_less)
  then show "used_bytes (Some obs) \<le> cap" using assms by blast
  have later: "used_bytes (later 1 (Some obs)) \<le> cap" using used assms by (simp add: later_def)
  then show "unat (available_bytes (Some obs)) + unat (used_bytes (later 1 (Some obs))) = unat cap"
    using assms by (simp add: available_bytes_def capacity_bytes_def unat_sub word_le_nat_alt)
  show "0 \<le> fill_ratio (Some obs)" and "fill_ratio (Some obs) \<le> 1"
    using ratio_bounds [OF later [unfolded word_le_nat_alt]] assms
    by (simp_all add: fill_ratio_def capacity_bytes_def Let_def)
qed

theorem occupancy_bounds_witness:
  "fill_ratio (Some (\<lambda>i. ref_block\<lparr>spscring_cb := (spscring_cb ref_block)\<lparr>write_pos := 24, read_pos := of_nat (8 * i)\<rparr>\<rparr>)) \<le> 1 \<and>
   used_bytes (Some (\<lambda>i. ref_block\<lparr>spscring_cb := (spscring_cb ref_block)\<lparr>write_pos := 24, read_pos := of_nat (8 * i)\<rparr>\<rparr>)) = 16"
  using occupancy_bounds [of "\<lambda>i. ref_block\<lparr>spscring_cb := (spscring_cb ref_block)\<lparr>write_pos := 24, read_pos := of_nat (8 * i)\<rparr>\<rparr>" 64]
  by (simp add: used_bytes_def)

text \<open>
  A non-blocking fixed send with a valid length succeeds exactly when a slot is free: it then appends
  the payload, zero-padded to the item size, as the newest item; on a full ring it reports \<open>full\<close> and leaves
  the queue as it is; a payload longer than a slot is refused without touching the segment.
\<close>

theorem try_send_fixed_correct:
  assumes "fixed_ring R (unat (item_size (ep_opts ep))) slots I q" and "I s" and "ep_role ep = producer_role"
    and "chan_type (ep_opts ep) = fixed" and "unat n \<le> length src"
    and "try_send_fixed_sized R ep src n meta s = (r, s')"
  shows "if n > item_size (ep_opts ep) then r = Inr sr_invalid_argument \<and> s' = s
         else I s' \<and>
           (if length (q s) < slots
            then r = Inr sr_ok \<and> q s' = q s @ [zero_pad (unat (item_size (ep_opts ep))) (take (unat n) src)]
            else r = Inr sr_full \<and> q s' = q s)"
proof (cases "n \<le> item_size (ep_opts ep)")
  case True
  obtain s1 where "fixed_attempt R (item_size (ep_opts ep)) src n 0 s = (if length (q s) < slots then Some sr_ok else None, s1)"
    "I s1" "q s1 = (if length (q s) < slots then q s @ [zero_pad (unat (item_size (ep_opts ep))) (take (unat n) src)] else q s)"
    using fixed_attempt_queue [OF assms(1,2) True assms(5)] by blast
  with assms(6) True show ?thesis
    by (simp add: try_send_is_attempt [OF assms(3,4) True] not_less [symmetric] split: if_split_asm)
next
  case False
  with assms(3,4,6) show ?thesis by (simp add: try_send_fixed_sized_def not_le)
qed

lemma ref_fixed_ring: "fixed_ring (shift_ring 8 8) 8 8 (shift_inv 8 8) (shift_q 8)"
  by (rule shift_ring_fixed) simp

lemma ref_segment_fixed [simp]: "shift_inv 8 8 ref_segment" "shift_q 8 ref_segment = []"
  by (simp_all add: shift_inv_def shift_q_def shift_count_def ref_segment_def zero_spsc_cb_def)

lemma ref_endpoint_fields [simp]:
  "ep_role (ref_endpoint r t) = r" "chan_type (ep_opts (ref_endpoint r t)) = t"
  "item_size (ep_opts (ref_endpoint r t)) = 8"
  by (simp_all add: ref_endpoint_def ref_options_def)

lemma ref_fixed_link [simp]:
  "fixed_link (shift_ring 8 8) (ref_endpoint producer_role fixed) (ref_endpoint consumer_role fixed) 8
     (shift_inv 8 8) (shift_q 8) ref_segment"
  using ref_fixed_ring by (simp add: fixed_link_def)

theorem try_send_fixed_correct_witness:
  "fst (try_send_fixed_sized (shift_ring 8 8) (ref_endpoint producer_role fixed) [1, 2, 3] 3 default_meta ref_segment) = Inr sr_ok \<and>
   shift_q 8 (snd (try_send_fixed_sized (shift_ring 8 8) (ref_endpoint producer_role fixed) [1, 2, 3] 3 default_meta ref_segment)) =
     [[1, 2, 3, 0, 0, 0, 0, 0]]"
proof -
  have "fixed_ring (shift_ring 8 8) (unat (item_size (ep_opts (ref_endpoint producer_role fixed)))) 8 (shift_inv 8 8) (shift_q 8)"
    using ref_fixed_ring by simp
  from try_send_fixed_correct [OF this ref_segment_fixed(1) _ _ _ surjective_pairing, of 3 "[1, 2, 3]" default_meta]
  moreover have "zero_pad 8 [1, 2, 3] = [1, 2, 3, 0, 0, 0, 0, 0]" by code_simp
  ultimately show ?thesis by simp
qed

text \<open>
  C1. A fixed channel is a lossless queue: in any interleaving of non-blocking sends and polls by its
  producer and its consumer, the items queued at the start followed by the accepted ones (zero-padded to the
  item size) are exactly the items delivered, in that order, followed by the items still queued.
\<close>

theorem fixed_channel_fifo:
  assumes "fixed_link R pe ce slots I q s" and "sends_valid (\<lambda>(d, n, meta). unat n \<le> length d) ops"
    and "run_ops (fixed_send R pe) (poll_one R ce) ops s = (accepted, delivered, s')"
  shows "map (Pair default_meta) (q s) @ map (fixed_wire pe) accepted = delivered @ map (Pair default_meta) (q s')"
  using fx.run_ops_fifo [OF assms] by blast

theorem fixed_channel_fifo_witness:
  "map (fixed_wire (ref_endpoint producer_role fixed))
     (fst (run_ops (fixed_send (shift_ring 8 8) (ref_endpoint producer_role fixed))
        (poll_one (shift_ring 8 8) (ref_endpoint consumer_role fixed))
        [Send ([1, 2], 2, default_meta), Send ([3], 1, default_meta), Recv, Recv, Recv] ref_segment)) =
   [(default_meta, [1, 2, 0, 0, 0, 0, 0, 0]), (default_meta, [3, 0, 0, 0, 0, 0, 0, 0])] @ []"
proof -
  let ?run = "run_ops (fixed_send (shift_ring 8 8) (ref_endpoint producer_role fixed))
    (poll_one (shift_ring 8 8) (ref_endpoint consumer_role fixed))
    [Send ([1, 2], 2, default_meta), Send ([3], 1, default_meta), Recv, Recv, Recv] ref_segment"
  have "fst (snd ?run) = [(default_meta, [1, 2, 0, 0, 0, 0, 0, 0]), (default_meta, [3, 0, 0, 0, 0, 0, 0, 0])]"
    and "shift_q 8 (snd (snd ?run)) = []" by code_simp+
  moreover have "?run = (fst ?run, fst (snd ?run), snd (snd ?run))" by simp
  note fixed_channel_fifo [OF ref_fixed_link _ this]
  ultimately show ?thesis by (simp del: run_ops.simps)
qed

text \<open>
  C9. A variable-length channel is a lossless queue as well: in any interleaving of non-blocking sends and polls,
  what was queued followed by what was accepted, payload and metadata (with the default timestamp filled in), is
  exactly what was delivered, in that order, followed by what is still queued.
\<close>

theorem varlen_channel_fifo:
  assumes "varlen_link R pe ce max_len I q s" and "sends_valid (\<lambda>(t, d, n, meta). unat n \<le> length d) ops"
    and "run_ops (varlen_send R pe) (poll_one R ce) ops s = (accepted, delivered, s')"
  shows "q s @ map varlen_wire accepted = delivered @ q s'"
  using vl.run_ops_fifo [OF assms] by blast

lemma ref_varlen_link [simp]:
  "varlen_link (shift_ring 8 8) (ref_endpoint producer_role varlen) (ref_endpoint consumer_role varlen) 64
     (slot_inv 64) slot_q ref_segment"
  using shift_ring_varlen [of 8 8 64] by (simp add: varlen_link_def slot_inv_def ref_segment_def zero_spsc_cb_def)

lemma ref_segment_varlen [simp]: "slot_q ref_segment = []"
  by (simp add: slot_q_def ref_segment_def zero_spsc_cb_def)

theorem varlen_channel_fifo_witness:
  "map varlen_wire
     (fst (run_ops (varlen_send (shift_ring 8 8) (ref_endpoint producer_role varlen))
        (poll_one (shift_ring 8 8) (ref_endpoint consumer_role varlen))
        [Send (99, [1, 2, 3], 3, default_meta), Send (98, [4], 1, default_meta), Recv, Send (97, [5], 1, default_meta)]
        ref_segment)) =
   [(default_meta\<lparr>timestamp_ns := 99\<rparr>, [1, 2, 3])] @ [(default_meta\<lparr>timestamp_ns := 97\<rparr>, [5])]"
proof -
  let ?run = "run_ops (varlen_send (shift_ring 8 8) (ref_endpoint producer_role varlen))
    (poll_one (shift_ring 8 8) (ref_endpoint consumer_role varlen))
    [Send (99, [1, 2, 3], 3, default_meta), Send (98, [4], 1, default_meta), Recv, Send (97, [5], 1, default_meta)]
    ref_segment"
  have "fst (snd ?run) = [(default_meta\<lparr>timestamp_ns := 99\<rparr>, [1, 2, 3])]"
    and "slot_q (snd (snd ?run)) = [(default_meta\<lparr>timestamp_ns := 97\<rparr>, [5])]" by code_simp+
  moreover have "?run = (fst ?run, fst (snd ?run), snd (snd ?run))" by simp
  note varlen_channel_fifo [OF ref_varlen_link _ this]
  ultimately show ?thesis by (simp del: run_ops.simps)
qed

text \<open>
  C8. A bounded-time fixed send returns once the clock reaches its deadline, whatever the consumer does
  meanwhile: either it has appended exactly its padded payload after whatever the consumer has left, or it
  reports a timeout, has appended nothing, and the ring was full at its last attempt.
\<close>

theorem send_fixed_for_correct:
  assumes "fixed_ring R (unat (item_size (ep_opts ep))) slots I q" and "I s" and "consuming I q env"
    and "ep_role ep = producer_role" and "chan_type (ep_opts ep) = fixed" and "n \<le> item_size (ep_opts ep)"
    and "unat n \<le> length src" and "0 < j" and "now j \<ge> now 0 + timeout"
  shows "\<exists>r s' k. send_fixed_sized_for R now env ep src n timeout meta s = Some (Inr r, s') \<and> I s' \<and>
    (r = sr_ok \<and> q s' = drop k (q s) @ [zero_pad (unat (item_size (ep_opts ep))) (take (unat n) src)] \<or>
     r = sr_timeout \<and> q s' = drop k (q s) \<and> length (q s') = slots)"
proof -
  let ?w = "zero_pad (unat (item_size (ep_opts ep))) (take (unat n) src)"
  let ?body = "fixed_attempt R (item_size (ep_opts ep)) src n"
  obtain r s' where run: "retry_loop ?body now (now 0 + timeout) env 0 s = Some (r, s')"
    using retry_loop_returns [where now = now and j = j, OF assms(9,8)] by blast
  let ?P = "\<lambda>r s'. I s' \<and> (\<exists>k. r = sr_ok \<and> q s' = drop k (q s) @ [?w] \<or> r = sr_timeout \<and> q s' = drop k (q s) \<and> length (q s') = slots)"
  have att: "\<exists>s1'. ?body i s1 = (if length (q s1) < slots then Some sr_ok else None, s1') \<and> I s1' \<and>
      q s1' = (if length (q s1) < slots then q s1 @ [?w] else q s1)" if "I s1" for i s1
    using fixed_attempt_queue [OF assms(1) that assms(6,7)] .
  have "?P r s'"
  proof (rule retry_loop_rule [OF run, where Q = "\<lambda>s1. I s1 \<and> (\<exists>k. q s1 = drop k (q s))"])
    show "I s \<and> (\<exists>k. q s = drop k (q s))" using assms(2) by (auto intro: exI [of _ 0])
  next
    fix i s1 s2 assume "I s1 \<and> (\<exists>k. q s1 = drop k (q s))" and "?body i s1 = (None, s2)"
    then have "I s2 \<and> (\<exists>k. q s2 = drop k (q s))" using att [of s1 i] by (auto split: if_split_asm)
    then show "I (env i s2) \<and> (\<exists>k. q (env i s2) = drop k (q s))" using consuming_step [OF assms(3)] by blast
  next
    fix i s1 s2 assume "I s1 \<and> (\<exists>k. q s1 = drop k (q s))" and "?body i s1 = (None, s2)"
    then show "?P sr_timeout s2"
      using att [of s1 i] fixed_ring_bound [OF assms(1), of s1] by (force split: if_split_asm)
  next
    fix i s1 r s2 assume "I s1 \<and> (\<exists>k. q s1 = drop k (q s))" and "?body i s1 = (Some r, s2)"
    then show "?P r s2" using att [of s1 i] by (force split: if_split_asm)
  qed
  with run assms(4,5,6) show ?thesis by (auto simp: send_fixed_sized_for_def not_less [symmetric])
qed

lemma consuming_idle [simp]: "consuming I q (\<lambda>_ s. s)"
  by (auto simp: consuming_def intro: exI [of _ 0])

theorem send_fixed_for_correct_witness:
  "\<exists>r s' k. send_fixed_sized_for (shift_ring 8 8) (\<lambda>i. int i * 5) (\<lambda>_ s. s) (ref_endpoint producer_role fixed) [1, 2, 3] 3 20
       default_meta ref_segment = Some (Inr r, s') \<and>
     (r = sr_ok \<and> shift_q 8 s' = drop k [] @ [[1, 2, 3, 0, 0, 0, 0, 0]] \<or>
      r = sr_timeout \<and> shift_q 8 s' = drop k [] \<and> length (shift_q 8 s') = 8)"
proof -
  have "fixed_ring (shift_ring 8 8) (unat (item_size (ep_opts (ref_endpoint producer_role fixed)))) 8 (shift_inv 8 8) (shift_q 8)"
    using ref_fixed_ring by simp
  from send_fixed_for_correct [OF this ref_segment_fixed(1) consuming_idle, where n = 3 and src = "[1, 2, 3]" and j = 4
      and now = "\<lambda>i. int i * 5" and timeout = 20 and meta = default_meta]
  have "\<exists>r s' k. send_fixed_sized_for (shift_ring 8 8) (\<lambda>i. int i * 5) (\<lambda>_ s. s) (ref_endpoint producer_role fixed) [1, 2, 3] 3 20
       default_meta ref_segment = Some (Inr r, s') \<and> shift_inv 8 8 s' \<and>
     (r = sr_ok \<and> shift_q 8 s' = drop k (shift_q 8 ref_segment) @ [zero_pad 8 [1, 2, 3]] \<or>
      r = sr_timeout \<and> shift_q 8 s' = drop k (shift_q 8 ref_segment) \<and> length (shift_q 8 s') = 8)"
    by simp
  moreover have "zero_pad 8 [1, 2, 3] = [1, 2, 3, 0, 0, 0, 0, 0]" by code_simp
  ultimately show ?thesis by (metis ref_segment_fixed(2))
qed

text \<open>
  C10. A blocking fixed send returns exactly if the consumer ever makes room: with a free slot at some
  attempt it returns having appended its padded payload once, after whatever the consumer has left, and with
  no free slot at any attempt it never returns.
\<close>

theorem send_fixed_returns_iff_room:
  assumes "fixed_ring R (unat (item_size (ep_opts ep))) slots I q" and "spin_spec R" and "I s" and "consuming I q env"
    and "ep_role ep = producer_role" and "chan_type (ep_opts ep) = fixed" and "n \<le> item_size (ep_opts ep)"
    and "unat n \<le> length src"
  shows "if \<exists>m. length (q (reserve_attempt R env m s)) < slots
         then \<exists>s' k. send_fixed_sized R env ep src n meta s = Some (Inr (), s') \<and> I s' \<and>
                q s' = drop k (q s) @ [zero_pad (unat (item_size (ep_opts ep))) (take (unat n) src)]
         else send_fixed_sized R env ep src n meta s = None"
proof (cases "\<exists>m. length (q (reserve_attempt R env m s)) < slots")
  case True
  define m where "m = (LEAST m. length (q (reserve_attempt R env m s)) < slots)"
  have room: "length (q (reserve_attempt R env m s)) < slots" unfolding m_def using True by (rule LeastI_ex)
  have full: "\<forall>k < m. slots \<le> length (q (reserve_attempt R env k s))"
    unfolding m_def using not_less_Least not_le by blast
  have I: "I (reserve_attempt R env m s)" and "\<exists>k. q (reserve_attempt R env m s) = drop k (q s)"
    using reserve_attempt_queue [OF assms(1,4,3) full] by auto
  then obtain k where k: "q (reserve_attempt R env m s) = drop k (q s)" by blast
  have none: "fst (fixed_try_reserve R (reserve_attempt R env k s)) = None" if "k < m" for k
  proof -
    have "\<forall>k' < k. slots \<le> length (q (reserve_attempt R env k' s))" using full that by auto
    from reserve_attempt_queue [OF assms(1,4,3) this] reserve_attempt_result [OF assms(1)] full that
    show ?thesis by blast
  qed
  obtain off s1 where r: "fixed_try_reserve R (reserve_attempt R env m s) = (Some off, s1)"
    and fit: "off + unat (item_size (ep_opts ep)) \<le> length (data s1)"
    and c: "\<And>bs. length bs = unat (item_size (ep_opts ep)) \<Longrightarrow> I (fixed_commit R (mem_write off bs s1))"
      "\<And>bs. length bs = unat (item_size (ep_opts ep)) \<Longrightarrow>
         q (fixed_commit R (mem_write off bs s1)) = q (reserve_attempt R env m s) @ [bs]"
    using assms(1) I room by (rule fixed_ring_room) auto
  have "fixed_spin_until_reserve R env s = Some (off, s1)"
    using assms(2) none r unfolding spin_spec_def by blast
  with True assms(5,6,7) c [OF length_padded [OF assms(7,8)]] mem_write_twice [OF assms(7,8) fit] k show ?thesis
    by (auto simp: send_fixed_sized_def not_less [symmetric])
next
  case False
  then have full: "\<forall>k. slots \<le> length (q (reserve_attempt R env k s))" by (simp add: not_less)
  have "fst (fixed_try_reserve R (reserve_attempt R env k s)) = None" for k
    using reserve_attempt_queue [OF assms(1,4,3)] reserve_attempt_result [OF assms(1)] full by blast
  then have "fixed_spin_until_reserve R env s = None" using assms(2) unfolding spin_spec_def by blast
  with False assms(5,6,7) show ?thesis by (simp add: send_fixed_sized_def not_less [symmetric])
qed

theorem send_fixed_returns_iff_room_witness:
  "\<exists>s' k. send_fixed_sized (shift_ring 8 8) (\<lambda>_ s. s) (ref_endpoint producer_role fixed) [1, 2, 3] 3 default_meta ref_segment =
      Some (Inr (), s') \<and> shift_q 8 s' = drop k [] @ [[1, 2, 3, 0, 0, 0, 0, 0]]"
proof -
  have ring: "fixed_ring (shift_ring 8 8) (unat (item_size (ep_opts (ref_endpoint producer_role fixed)))) 8 (shift_inv 8 8) (shift_q 8)"
    using ref_fixed_ring by simp
  have "length (shift_q 8 (reserve_attempt (shift_ring 8 8) (\<lambda>_ s. s) 0 ref_segment)) < 8" by simp
  then have "\<exists>m. length (shift_q 8 (reserve_attempt (shift_ring 8 8) (\<lambda>_ s. s) m ref_segment)) < 8" by blast
  with send_fixed_returns_iff_room [OF ring shift_ring_spin ref_segment_fixed(1) consuming_idle, where n = 3 and src = "[1, 2, 3]"
      and meta = default_meta]
  have "\<exists>s' k. send_fixed_sized (shift_ring 8 8) (\<lambda>_ s. s) (ref_endpoint producer_role fixed) [1, 2, 3] 3 default_meta ref_segment =
      Some (Inr (), s') \<and> shift_inv 8 8 s' \<and> shift_q 8 s' = drop k (shift_q 8 ref_segment) @ [zero_pad 8 [1, 2, 3]]"
    by simp
  moreover have "zero_pad 8 [1, 2, 3] = [1, 2, 3, 0, 0, 0, 0, 0]" by code_simp
  ultimately show ?thesis by (metis ref_segment_fixed(2))
qed

text \<open>
  C11. A bounded-time variable-length send returns once the clock reaches its deadline: a message the ring can
  never hold is reported as too large at once, and otherwise the call either has appended the message once, with
  its metadata, after whatever the consumer has left, or reports a timeout and has appended nothing.
\<close>

theorem send_varlen_for_correct:
  assumes "varlen_ring R max_len I q" and "I s" and "consuming I q env" and "ep_role ep = producer_role"
    and "chan_type (ep_opts ep) = varlen" and "unat n \<le> length src" and "0 < j" and "now j \<ge> now 0 + timeout"
  shows "\<exists>r s' k t. send_varlen_for R ts now env ep src n timeout meta s = Some (Inr r, s') \<and> I s' \<and>
    (if max_len < unat n then r = sr_message_too_large \<and> q s' = q s
     else r = sr_ok \<and> q s' = drop k (q s) @ [(to_spscring_meta t meta, take (unat n) src)] \<or>
          r = sr_timeout \<and> q s' = drop k (q s) \<and> q s' \<noteq> [])"
proof -
  let ?body = "varlen_attempt R ts src n meta"
  obtain r s' where run: "retry_loop ?body now (now 0 + timeout) env 0 s = Some (r, s')"
    using retry_loop_returns [where now = now and j = j, OF assms(8,7)] by blast
  have att: "\<exists>r s1'. ?body i s1 = (r, s1') \<and> I s1' \<and>
     (if max_len < unat n then r = Some sr_message_too_large \<and> q s1' = q s1
      else r = Some sr_ok \<and> q s1' = q s1 @ [(to_spscring_meta (ts i) meta, take (unat n) src)] \<or>
           r = None \<and> q s1' = q s1 \<and> q s1 \<noteq> [])" if "I s1" for i s1
    using varlen_attempt_queue [OF assms(1) that assms(6)] .
  let ?P = "\<lambda>r s'. I s' \<and> (\<exists>k t. if max_len < unat n then r = sr_message_too_large \<and> q s' = q s
     else r = sr_ok \<and> q s' = drop k (q s) @ [(to_spscring_meta t meta, take (unat n) src)] \<or>
          r = sr_timeout \<and> q s' = drop k (q s) \<and> q s' \<noteq> [])"
  let ?Q = "\<lambda>s1. I s1 \<and> (if max_len < unat n then s1 = s else \<exists>k. q s1 = drop k (q s))"
  have "?P r s'"
  proof (rule retry_loop_rule [OF run, where Q = ?Q])
    show "?Q s" using assms(2) by (auto intro: exI [of _ 0])
  next
    fix i s1 s2 assume Q: "?Q s1" and b: "?body i s1 = (None, s2)"
    then have s2: "\<not> max_len < unat n \<and> I s2 \<and> (\<exists>k. q s2 = drop k (q s)) \<and> q s2 \<noteq> []"
      using att [of s1 i] by (auto split: if_split_asm)
    then show "?Q (env i s2)" using consuming_step [OF assms(3)] by simp blast
    show "?P sr_timeout s2" using s2 by auto
  next
    fix i s1 r s2 assume "?Q s1" and "?body i s1 = (Some r, s2)"
    then show "?P r s2" using att [of s1 i] by (auto split: if_split_asm)
  qed
  with run assms(4,5) show ?thesis by (auto simp: send_varlen_for_def split: if_split_asm)
qed

theorem send_varlen_for_correct_witness:
  "\<exists>r s' k t. send_varlen_for (shift_ring 8 8) (\<lambda>i. of_nat i + 7) (\<lambda>i. int i) (\<lambda>_ s. s) (ref_endpoint producer_role varlen)
       [1, 2, 3] 3 2 default_meta ref_segment = Some (Inr r, s') \<and>
     (r = sr_ok \<and> slot_q s' = drop k [] @ [(to_spscring_meta t default_meta, [1, 2, 3])] \<or>
      r = sr_timeout \<and> slot_q s' = drop k [] \<and> slot_q s' \<noteq> [])"
proof -
  have inv: "varlen_ring (shift_ring 8 8) 64 (slot_inv 64) slot_q" "slot_inv 64 ref_segment"
    using ref_varlen_link by (simp_all add: varlen_link_def)
  from send_varlen_for_correct [OF inv consuming_idle, where n = 3 and src = "[1, 2, 3]" and j = 2 and now = int and timeout = 2
      and meta = default_meta and ts = "\<lambda>i. of_nat i + 7" and ep = "ref_endpoint producer_role varlen"]
  show ?thesis by simp blast
qed

text \<open>
  C16. A handler that throws does not lose an item of a fixed channel: the exception reaches the caller of
  \<open>poll\<close>, the segment is unchanged, and the next poll hands out the same item.
\<close>

theorem poll_exception_keeps_item:
  assumes "fixed_link R pe ce slots I q s" and "poll R ce handler s = (Inl e, seen, s')"
  shows "\<exists>m. seen = [m] \<and> handler m = Some e \<and> s' = s \<and> fst (poll_one R ce s') = Some m"
proof -
  have pl: "poll R ce h s =
      (case q s of [] \<Rightarrow> (Inr False, [], s)
       | m # _ \<Rightarrow> (case h (default_meta, m) of
          Some e \<Rightarrow> (Inl e, [(default_meta, m)], s) | None \<Rightarrow> (Inr True, [(default_meta, m)], fixed_read_advance R s)))" for h
    using assms(1) by (intro poll_fixed [where I = I and slots = slots]) (auto simp: fixed_link_def)
  from assms(2) have "s' = s" unfolding pl by (auto split: list.split_asm option.split_asm)
  then show ?thesis
    using assms(2) by (auto simp: poll_one_def pl split: list.split_asm option.split_asm)
qed

theorem poll_exception_keeps_item_witness:
  "let s = snd (fixed_send (shift_ring 8 8) (ref_endpoint producer_role fixed) ([5], 1, default_meta) ref_segment)
   in fst (poll_one (shift_ring 8 8) (ref_endpoint consumer_role fixed)
        (snd (snd (poll (shift_ring 8 8) (ref_endpoint consumer_role fixed) (\<lambda>_. Some Bad_alloc) s)))) =
      Some (default_meta, [5, 0, 0, 0, 0, 0, 0, 0])"
proof -
  let ?s = "snd (fixed_send (shift_ring 8 8) (ref_endpoint producer_role fixed) ([5], 1, default_meta) ref_segment)"
  let ?r = "poll (shift_ring 8 8) (ref_endpoint consumer_role fixed) (\<lambda>_. Some Bad_alloc) ?s"
  have link: "fixed_link (shift_ring 8 8) (ref_endpoint producer_role fixed) (ref_endpoint consumer_role fixed) 8
     (shift_inv 8 8) (shift_q 8) ?s"
    using fx.send_inv [OF ref_fixed_link, of "([5], 1, default_meta)"] by simp
  have "fst ?r = Inl Bad_alloc" and seen: "fst (snd ?r) = [(default_meta, [5, 0, 0, 0, 0, 0, 0, 0])]" by code_simp+
  then have "?r = (Inl Bad_alloc, fst (snd ?r), snd (snd ?r))" by (simp add: prod_eq_iff)
  from poll_exception_keeps_item [OF link this] seen show ?thesis by (auto simp: Let_def)
qed

end
