(* ===== verification/Socket.thy ===== *)
theory Socket
  imports Channel
begin

text \<open>
  The TCP transport: \<open>src/ipc/socket_channel.cpp\<close> and \<open>include/xproc/ipc/socket_channel.hpp\<close>.

  The socket calls are the fields of the record \<open>sockets\<close> over an abstract network state \<open>'n\<close>. A failing call
  returns \<open>None\<close> or \<open>False\<close>; \<open>so_send\<close> returns the number of bytes taken, 0 if the call fails; \<open>so_recv\<close>
  returns the bytes received, none if the call fails or the peer has closed. An invalid handle is \<open>None\<close>, and
  \<open>so_readable\<close> is \<open>select\<close> with a zero timeout on one handle. What TCP documents of a
  connection is \<open>stream_spec\<close>: bytes arrive in the order they were sent, in pieces of any size.

  Loops that consume a finite buffer are total functions; the loops of \<open>drain\<close> and \<open>wait\<close> end only if
  the network lets them and have an \<open>option\<close> result. The platforms differ in the size of one transfer, in the
  set-up of the wake-up pair and in the treatment of an interrupted \<open>select\<close>.
\<close>

section \<open>Socket calls\<close>

record addrinfo =
  ai_ipv6 :: bool
  ai_addr :: nat

datatype sock_option = SO_NOSIGPIPE | SO_REUSEADDR | IPV6_V6ONLY_off | nonblocking

datatype select_result = sel_ready "nat list" | sel_interrupted | sel_failed

record 'n sockets =
  so_startup :: "'n \<Rightarrow> bool \<times> 'n"
  so_getaddrinfo :: "string option \<Rightarrow> string \<Rightarrow> 'n \<Rightarrow> addrinfo list option"
  so_socket :: "addrinfo \<Rightarrow> 'n \<Rightarrow> nat option \<times> 'n"
  so_setopt :: "nat \<Rightarrow> sock_option \<Rightarrow> 'n \<Rightarrow> 'n"
  so_connect :: "nat \<Rightarrow> addrinfo \<Rightarrow> 'n \<Rightarrow> bool \<times> 'n"
  so_bind :: "nat \<Rightarrow> addrinfo \<Rightarrow> 'n \<Rightarrow> bool \<times> 'n"
  so_listen :: "nat \<Rightarrow> 'n \<Rightarrow> bool \<times> 'n"
  so_bound_port :: "nat \<Rightarrow> 'n \<Rightarrow> u16 option"
  so_accept :: "nat \<Rightarrow> 'n \<Rightarrow> nat option \<times> 'n"
  so_readable :: "nat \<Rightarrow> 'n \<Rightarrow> bool"
  so_select :: "nat list \<Rightarrow> 'n \<Rightarrow> select_result \<times> 'n"
  so_send :: "nat option \<Rightarrow> byte list \<Rightarrow> 'n \<Rightarrow> nat \<times> 'n"
  so_recv :: "nat option \<Rightarrow> nat \<Rightarrow> 'n \<Rightarrow> byte list \<times> 'n"
  so_close :: "nat \<Rightarrow> 'n \<Rightarrow> 'n"
  so_socketpair :: "'n \<Rightarrow> (nat \<times> nat) option \<times> 'n"
  so_sleep_ms :: "int \<Rightarrow> 'n \<Rightarrow> 'n"

section \<open>Wire format\<close>

definition k_max_varlen :: u32 where "k_max_varlen = 16 * 1024 * 1024"

definition normalize_socket_host :: "string \<Rightarrow> string" where
  "normalize_socket_host host =
     (if length host \<ge> 2 \<and> hd host = CHR ''['' \<and> last host = CHR '']''
      then take (length host - 2) (drop 1 host) else host)"

definition load_le32 :: "byte list \<Rightarrow> u32" where
  "load_le32 b = ucast (b ! 0) OR push_bit 8 (ucast (b ! 1)) OR push_bit 16 (ucast (b ! 2)) OR push_bit 24 (ucast (b ! 3))"

definition store_le32 :: "u32 \<Rightarrow> byte list" where
  "store_le32 v = [ucast (v AND 0xff), ucast (drop_bit 8 v AND 0xff), ucast (drop_bit 16 v AND 0xff),
                   ucast (drop_bit 24 v AND 0xff)]"

section \<open>Transfers\<close>

definition INT_MAX :: nat where "INT_MAX = 2147483647"

definition transfer_chunk :: "platform \<Rightarrow> nat \<Rightarrow> nat" where
  "transfer_chunk p left = (if is_windows p then min left INT_MAX else left)"

function write_full_sock :: "platform \<Rightarrow> 'n sockets \<Rightarrow> nat option \<Rightarrow> byte list \<Rightarrow> 'n \<Rightarrow> (exn + unit) \<times> 'n" where
  "write_full_sock p N s bs n =
     (if bs = [] then (Inr (), n)
      else case so_send N s (take (transfer_chunk p (length bs)) bs) n of
             (r, n1) \<Rightarrow>
               if r = 0 then (Inl (Runtime_error ''socket send failed''), n1)
               else write_full_sock p N s (drop r bs) n1)"
  by pat_completeness auto
termination by (relation "measure (\<lambda>(p, N, s, bs, n). length bs)") auto

function read_exact_sock :: "platform \<Rightarrow> 'n sockets \<Rightarrow> nat option \<Rightarrow> nat \<Rightarrow> 'n \<Rightarrow> (exn + byte list) \<times> 'n" where
  "read_exact_sock p N s left n =
     (if left = 0 then (Inr [], n)
      else case so_recv N s (transfer_chunk p left) n of
             (bs, n1) \<Rightarrow>
               if bs = [] then (Inl (Runtime_error ''socket recv failed or closed''), n1)
               else (case read_exact_sock p N s (left - length bs) n1 of
                       (Inl e, n2) \<Rightarrow> (Inl e, n2)
                     | (Inr rest, n2) \<Rightarrow> (Inr (bs @ rest), n2)))"
  by pat_completeness auto
termination by (relation "measure (\<lambda>(p, N, s, left, n). left)") auto

declare write_full_sock.simps [simp del] read_exact_sock.simps [simp del]

definition close_handle :: "'n sockets \<Rightarrow> nat option \<Rightarrow> 'n \<Rightarrow> 'n" where
  "close_handle N s n = (case s of None \<Rightarrow> n | Some h \<Rightarrow> so_close N h n)"

definition suppress_sigpipe :: "platform \<Rightarrow> 'n sockets \<Rightarrow> nat \<Rightarrow> 'n \<Rightarrow> 'n" where
  "suppress_sigpipe p N s n = (if is_macos p then so_setopt N s SO_NOSIGPIPE n else n)"

section \<open>Connecting and listening\<close>

text \<open>One pass over the resolved addresses: \<open>want6\<close> selects the IPv6 ones or the others.\<close>

fun try_pass ::
  "platform \<Rightarrow> 'n sockets \<Rightarrow> (nat \<Rightarrow> addrinfo \<Rightarrow> 'n \<Rightarrow> bool \<times> 'n) \<Rightarrow> bool \<Rightarrow> addrinfo list \<Rightarrow> 'n \<Rightarrow> nat option \<times> 'n" where
  "try_pass p N attempt want6 [] n = (None, n)"
| "try_pass p N attempt want6 (ai # res) n =
     (if ai_ipv6 ai \<noteq> want6 then try_pass p N attempt want6 res n
      else case so_socket N ai n of
             (None, n1) \<Rightarrow> try_pass p N attempt want6 res n1
           | (Some s, n1) \<Rightarrow>
               (case attempt s ai (suppress_sigpipe p N s n1) of
                  (True, n2) \<Rightarrow> (Some s, n2)
                | (False, n2) \<Rightarrow> try_pass p N attempt want6 res (close_handle N (Some s) n2)))"

definition try_resolved_stream_socket ::
  "platform \<Rightarrow> 'n sockets \<Rightarrow> addrinfo list \<Rightarrow> (nat \<Rightarrow> addrinfo \<Rightarrow> 'n \<Rightarrow> bool \<times> 'n) \<Rightarrow> 'n \<Rightarrow> nat option \<times> 'n" where
  "try_resolved_stream_socket p N res attempt n =
     (case try_pass p N attempt True res n of
        (Some s, n1) \<Rightarrow> (Some s, n1)
      | (None, n1) \<Rightarrow> try_pass p N attempt False res n1)"

definition winsock_init :: "platform \<Rightarrow> 'n sockets \<Rightarrow> 'n \<Rightarrow> (exn + unit) \<times> 'n" where
  "winsock_init p N n =
     (if is_windows p
      then (case so_startup N n of
              (True, n1) \<Rightarrow> (Inr (), n1) | (False, n1) \<Rightarrow> (Inl (Runtime_error ''WSAStartup failed''), n1))
      else (Inr (), n))"

definition port_string :: "u16 \<Rightarrow> string" where
  "port_string port = int_to_string (uint port)"

definition tcp_connect :: "platform \<Rightarrow> 'n sockets \<Rightarrow> string \<Rightarrow> u16 \<Rightarrow> 'n \<Rightarrow> (exn + nat) \<times> 'n" where
  "tcp_connect p N host port n =
     (case winsock_init p N n of
        (Inl e, n1) \<Rightarrow> (Inl e, n1)
      | (Inr _, n1) \<Rightarrow>
          (case so_getaddrinfo N (Some (normalize_socket_host host)) (port_string port) n1 of
             None \<Rightarrow> (Inl (Runtime_error ''getaddrinfo failed for socket transport''), n1)
           | Some [] \<Rightarrow> (Inl (Runtime_error ''getaddrinfo failed for socket transport''), n1)
           | Some res \<Rightarrow>
               (case try_resolved_stream_socket p N res (so_connect N) n1 of
                  (None, n2) \<Rightarrow> (Inl (Runtime_error ''socket connect failed''), n2)
                | (Some s, n2) \<Rightarrow> (Inr s, n2))))"

definition listen_attempt :: "'n sockets \<Rightarrow> nat \<Rightarrow> addrinfo \<Rightarrow> 'n \<Rightarrow> bool \<times> 'n" where
  "listen_attempt N s ai n =
     (let n1 = so_setopt N s SO_REUSEADDR n;
          n2 = (if ai_ipv6 ai then so_setopt N s IPV6_V6ONLY_off n1 else n1)
      in case so_bind N s ai n2 of
           (False, n3) \<Rightarrow> (False, n3)
         | (True, n3) \<Rightarrow> so_listen N s n3)"

text \<open>The result is the listening handle and the port that is bound.\<close>

definition tcp_listen :: "platform \<Rightarrow> 'n sockets \<Rightarrow> u16 \<Rightarrow> 'n \<Rightarrow> (exn + nat \<times> u16) \<times> 'n" where
  "tcp_listen p N port n =
     (case winsock_init p N n of
        (Inl e, n1) \<Rightarrow> (Inl e, n1)
      | (Inr _, n1) \<Rightarrow>
          (case so_getaddrinfo N None (port_string port) n1 of
             None \<Rightarrow> (Inl (Runtime_error ''getaddrinfo(listen) failed''), n1)
           | Some [] \<Rightarrow> (Inl (Runtime_error ''getaddrinfo(listen) failed''), n1)
           | Some res \<Rightarrow>
               (case try_resolved_stream_socket p N res (listen_attempt N) n1 of
                  (None, n2) \<Rightarrow> (Inl (Runtime_error ''socket bind/listen failed''), n2)
                | (Some s, n2) \<Rightarrow>
                    let bound = (if port = 0
                                 then (case so_bound_port N s n2 of None \<Rightarrow> port | Some b \<Rightarrow> b)
                                 else port)
                    in (Inr (s, bound), n2))))"

section \<open>The wake-up pair\<close>

record wait_interruptor =
  wi_read :: "nat option"
  wi_write :: "nat option"

definition interruptor_fail ::
  "'n sockets \<Rightarrow> nat option \<Rightarrow> nat option \<Rightarrow> nat option \<Rightarrow> 'n \<Rightarrow> (exn + wait_interruptor) \<times> 'n" where
  "interruptor_fail N listener rd wr n =
     (Inl (Runtime_error ''socket wake setup failed''),
      close_handle N wr (close_handle N rd (close_handle N listener n)))"

text \<open>Windows: a loopback connection to a temporary listener. \<open>loop\<close> is the loopback address with port 0.\<close>

definition make_interruptor_win32 ::
  "platform \<Rightarrow> 'n sockets \<Rightarrow> addrinfo \<Rightarrow> (nat \<Rightarrow> addrinfo) \<Rightarrow> 'n \<Rightarrow> (exn + wait_interruptor) \<times> 'n" where
  "make_interruptor_win32 p N loop at_port n =
     (case winsock_init p N n of
        (Inl e, n0) \<Rightarrow> (Inl e, n0)
      | (Inr _, n0) \<Rightarrow>
     (case so_socket N loop n0 of
        (None, n1) \<Rightarrow> interruptor_fail N None None None n1
      | (Some l, n1) \<Rightarrow>
     (case so_bind N l loop (so_setopt N l SO_REUSEADDR (suppress_sigpipe p N l n1)) of
        (False, n2) \<Rightarrow> interruptor_fail N (Some l) None None n2
      | (True, n2) \<Rightarrow>
     (case so_listen N l n2 of
        (False, n3) \<Rightarrow> interruptor_fail N (Some l) None None n3
      | (True, n3) \<Rightarrow>
     (case so_bound_port N l n3 of
        None \<Rightarrow> interruptor_fail N (Some l) None None n3
      | Some port \<Rightarrow>
     (case so_socket N loop n3 of
        (None, n4) \<Rightarrow> interruptor_fail N (Some l) None None n4
      | (Some w, n4) \<Rightarrow>
     (case so_connect N w (at_port (unat port)) (suppress_sigpipe p N w n4) of
        (False, n5) \<Rightarrow> interruptor_fail N (Some l) None (Some w) n5
      | (True, n5) \<Rightarrow>
     (case so_accept N l n5 of
        (None, n6) \<Rightarrow> interruptor_fail N None None (Some w) (close_handle N (Some l) n6)
      | (Some r, n6) \<Rightarrow>
          let n7 = suppress_sigpipe p N r (close_handle N (Some l) n6)
          in (Inr \<lparr>wi_read = Some r, wi_write = Some w\<rparr>,
              so_setopt N w nonblocking (so_setopt N r nonblocking n7))))))))))"

definition make_interruptor_posix :: "platform \<Rightarrow> 'n sockets \<Rightarrow> 'n \<Rightarrow> (exn + wait_interruptor) \<times> 'n" where
  "make_interruptor_posix p N n =
     (case so_socketpair N n of
        (None, n1) \<Rightarrow> (Inl (Runtime_error ''socket wake setup failed''), n1)
      | (Some (r, w), n1) \<Rightarrow>
          let n2 = suppress_sigpipe p N w (suppress_sigpipe p N r n1)
          in (Inr \<lparr>wi_read = Some r, wi_write = Some w\<rparr>,
              so_setopt N w nonblocking (so_setopt N r nonblocking n2)))"

definition destroy_interruptor :: "'n sockets \<Rightarrow> wait_interruptor \<Rightarrow> 'n \<Rightarrow> 'n" where
  "destroy_interruptor N w n = close_handle N (wi_write w) (close_handle N (wi_read w) n)"

definition notify :: "'n sockets \<Rightarrow> wait_interruptor \<Rightarrow> 'n \<Rightarrow> 'n" where
  "notify N w n = (case wi_write w of None \<Rightarrow> n | Some h \<Rightarrow> snd (so_send N (Some h) [1] n))"

partial_function (option) drain_loop :: "'n sockets \<Rightarrow> nat \<Rightarrow> 'n \<Rightarrow> 'n option" where
  "drain_loop N h n = (case so_recv N (Some h) 64 n of (bs, n1) \<Rightarrow> if bs = [] then Some n1 else drain_loop N h n1)"

definition drain :: "'n sockets \<Rightarrow> wait_interruptor \<Rightarrow> 'n \<Rightarrow> 'n option" where
  "drain N w n = (case wi_read w of None \<Rightarrow> Some n | Some h \<Rightarrow> drain_loop N h n)"

section \<open>The producer\<close>

record socket_producer =
  sp_opts :: transport_options
  sp_sock :: "nat option"

definition producer_close_sock :: "'n sockets \<Rightarrow> socket_producer \<Rightarrow> 'n \<Rightarrow> socket_producer \<times> 'n" where
  "producer_close_sock N sp n = (sp\<lparr>sp_sock := None\<rparr>, close_handle N (sp_sock sp) n)"

text \<open>The retry loop with the number of attempts left, at least one.\<close>

fun connect_attempts ::
  "platform \<Rightarrow> 'n sockets \<Rightarrow> string \<Rightarrow> u16 \<Rightarrow> int \<Rightarrow> nat \<Rightarrow> 'n \<Rightarrow> (exn + nat) \<times> 'n" where
  "connect_attempts p N host port retry_ms 0 n = (Inl (Logic_error ''unreachable: no attempt''), n)"
| "connect_attempts p N host port retry_ms (Suc left) n =
     (case tcp_connect p N host port n of
        (Inr s, n1) \<Rightarrow> (Inr s, n1)
      | (Inl e, n1) \<Rightarrow>
          if left = 0 then (Inl e, n1)
          else connect_attempts p N host port retry_ms left (so_sleep_ms N retry_ms n1))"

definition max_retries :: "transport_options \<Rightarrow> nat" where
  "max_retries opts = (if socket_connect_retries opts > 0 then nat (socket_connect_retries opts) else INT_MAX)"

definition connect_with_retries ::
  "platform \<Rightarrow> 'n sockets \<Rightarrow> socket_producer \<Rightarrow> 'n \<Rightarrow> (exn + unit) \<times> socket_producer \<times> 'n" where
  "connect_with_retries p N sp n =
     (let opts = sp_opts sp;
          retry_ms = (if socket_connect_retry_ms opts > 0 then socket_connect_retry_ms opts else 10)
      in case connect_attempts p N (socket_host opts) (socket_port opts) retry_ms (max_retries opts) n of
           (Inl e, n1) \<Rightarrow> (Inl e, sp, n1)
         | (Inr s, n1) \<Rightarrow> (Inr (), sp\<lparr>sp_sock := Some s\<rparr>, n1))"

definition make_socket_producer ::
  "platform \<Rightarrow> abi \<Rightarrow> 'n sockets \<Rightarrow> transport_options \<Rightarrow> 'n \<Rightarrow> (exn + socket_producer) \<times> 'n" where
  "make_socket_producer p A N opts n =
     (case validate_producer_transport_options p A opts of
        Inl e \<Rightarrow> (Inl e, n)
      | Inr _ \<Rightarrow>
          if backend opts \<noteq> socket then (Inl (Logic_error ''socket_producer: backend must be socket''), n)
          else (case connect_with_retries p N \<lparr>sp_opts = opts, sp_sock = None\<rparr> n of
                  (Inl e, _, n1) \<Rightarrow> (Inl e, n1)
                | (Inr _, sp, n1) \<Rightarrow> (Inr sp, n1)))"

definition destroy_socket_producer :: "'n sockets \<Rightarrow> socket_producer \<Rightarrow> 'n \<Rightarrow> 'n" where
  "destroy_socket_producer N sp n = snd (producer_close_sock N sp n)"

definition producer_is_connected :: "socket_producer \<Rightarrow> bool" where
  "producer_is_connected sp \<longleftrightarrow> sp_sock sp \<noteq> None"

definition reconnect :: "platform \<Rightarrow> 'n sockets \<Rightarrow> socket_producer \<Rightarrow> 'n \<Rightarrow> (exn + unit) \<times> socket_producer \<times> 'n" where
  "reconnect p N sp n = (case producer_close_sock N sp n of (sp1, n1) \<Rightarrow> connect_with_retries p N sp1 n1)"

definition try_reconnect :: "platform \<Rightarrow> 'n sockets \<Rightarrow> socket_producer \<Rightarrow> 'n \<Rightarrow> bool \<times> socket_producer \<times> 'n" where
  "try_reconnect p N sp n =
     (case producer_close_sock N sp n of
        (sp1, n1) \<Rightarrow>
          (case connect_with_retries p N sp1 n1 of
             (Inr _, sp2, n2) \<Rightarrow> (True, sp2, n2)
           | (Inl _, sp2, n2) \<Rightarrow> (case producer_close_sock N sp2 n2 of (sp3, n3) \<Rightarrow> (False, sp3, n3))))"

definition write_full ::
  "platform \<Rightarrow> 'n sockets \<Rightarrow> byte list \<Rightarrow> socket_producer \<Rightarrow> 'n \<Rightarrow> (exn + unit) \<times> socket_producer \<times> 'n" where
  "write_full p N bs sp n =
     (case write_full_sock p N (sp_sock sp) bs n of
        (Inr _, n1) \<Rightarrow> (Inr (), sp, n1)
      | (Inl e, n1) \<Rightarrow> (case producer_close_sock N sp n1 of (sp1, n2) \<Rightarrow> (Inl e, sp1, n2)))"

definition socket_send_fixed_bytes ::
  "platform \<Rightarrow> 'n sockets \<Rightarrow> byte list \<Rightarrow> u32 \<Rightarrow> socket_producer \<Rightarrow> 'n \<Rightarrow> (exn + unit) \<times> socket_producer \<times> 'n" where
  "socket_send_fixed_bytes p N src payload_len sp n =
     (if chan_type (sp_opts sp) \<noteq> fixed
      then (Inl (Logic_error ''socket_producer: fixed_bytes requires fixed channel''), sp, n)
      else if payload_len > item_size (sp_opts sp)
      then (Inl (Invalid_argument ''socket_producer: payload_len exceeds item_size''), sp, n)
      else
        let buf = buf_write 0 (take (unat payload_len) src) (replicate (unat (item_size (sp_opts sp))) 0)
        in write_full p N buf sp n)"

definition socket_send_fixed_sized ::
  "platform \<Rightarrow> 'n sockets \<Rightarrow> byte list \<Rightarrow> u32 \<Rightarrow> socket_producer \<Rightarrow> 'n \<Rightarrow> (exn + unit) \<times> socket_producer \<times> 'n" where
  "socket_send_fixed_sized p N src byte_length sp n =
     (if chan_type (sp_opts sp) \<noteq> fixed
      then (Inl (Logic_error ''socket_producer: send_fixed_sized requires fixed channel''), sp, n)
      else if byte_length > item_size (sp_opts sp)
      then (Inl (Invalid_argument ''socket_producer: byte_length exceeds item_size''), sp, n)
      else
        let buf = buf_write 0 (take (unat byte_length) src) (replicate (unat (item_size (sp_opts sp))) 0)
        in write_full p N buf sp n)"

definition socket_send_varlen ::
  "platform \<Rightarrow> 'n sockets \<Rightarrow> byte list \<Rightarrow> u32 \<Rightarrow> socket_producer \<Rightarrow> 'n \<Rightarrow> (exn + unit) \<times> socket_producer \<times> 'n" where
  "socket_send_varlen p N src len sp n =
     (if chan_type (sp_opts sp) \<noteq> varlen
      then (Inl (Logic_error ''socket_producer: send_varlen requires variable channel''), sp, n)
      else if len > k_max_varlen
      then (Inl (Invalid_argument ''socket_producer: len too large''), sp, n)
      else
        (case write_full p N (store_le32 len) sp n of
           (Inl e, sp1, n1) \<Rightarrow> (Inl e, sp1, n1)
         | (Inr _, sp1, n1) \<Rightarrow>
             if len > 0 then write_full p N (take (unat len) src) sp1 n1 else (Inr (), sp1, n1)))"

section \<open>The consumer\<close>

record socket_consumer =
  sc_opts :: transport_options
  sc_wake :: "wait_interruptor option"
  sc_listen :: "nat option"
  sc_sock :: "nat option"

definition consumer_close_listen :: "'n sockets \<Rightarrow> socket_consumer \<Rightarrow> 'n \<Rightarrow> socket_consumer \<times> 'n" where
  "consumer_close_listen N sc n = (sc\<lparr>sc_listen := None\<rparr>, close_handle N (sc_listen sc) n)"

definition consumer_close_sock :: "'n sockets \<Rightarrow> socket_consumer \<Rightarrow> 'n \<Rightarrow> socket_consumer \<times> 'n" where
  "consumer_close_sock N sc n = (sc\<lparr>sc_sock := None\<rparr>, close_handle N (sc_sock sc) n)"

text \<open>The wake-up pair is a member built before the body runs, and destroyed when the body throws.\<close>

definition make_socket_consumer ::
  "platform \<Rightarrow> abi \<Rightarrow> 'n sockets \<Rightarrow> ('n \<Rightarrow> (exn + wait_interruptor) \<times> 'n) \<Rightarrow> transport_options \<Rightarrow> 'n
   \<Rightarrow> (exn + socket_consumer) \<times> 'n" where
  "make_socket_consumer p A N mk_wake opts n =
     (case mk_wake n of
        (Inl e, n1) \<Rightarrow> (Inl e, n1)
      | (Inr w, n1) \<Rightarrow>
          (case validate_consumer_transport_options p A opts of
             Inl e \<Rightarrow> (Inl e, destroy_interruptor N w n1)
           | Inr _ \<Rightarrow>
               if backend opts \<noteq> socket
               then (Inl (Logic_error ''socket_consumer: backend must be socket''), destroy_interruptor N w n1)
               else (case tcp_listen p N (socket_port opts) n1 of
                       (Inl e, n2) \<Rightarrow> (Inl e, destroy_interruptor N w n2)
                     | (Inr (l, bound), n2) \<Rightarrow>
                         (Inr \<lparr>sc_opts = opts\<lparr>socket_port := bound\<rparr>, sc_wake = Some w, sc_listen = Some l,
                               sc_sock = None\<rparr>, n2))))"

definition destroy_socket_consumer :: "'n sockets \<Rightarrow> socket_consumer \<Rightarrow> 'n \<Rightarrow> 'n" where
  "destroy_socket_consumer N sc n =
     (case consumer_close_sock N sc n of
        (sc1, n1) \<Rightarrow>
          (case consumer_close_listen N sc1 n1 of
             (sc2, n2) \<Rightarrow> (case sc_wake sc2 of None \<Rightarrow> n2 | Some w \<Rightarrow> destroy_interruptor N w n2)))"

definition consumer_is_connected :: "socket_consumer \<Rightarrow> bool" where
  "consumer_is_connected sc \<longleftrightarrow> sc_sock sc \<noteq> None"

definition ensure_peer_connected ::
  "platform \<Rightarrow> 'n sockets \<Rightarrow> socket_consumer \<Rightarrow> 'n \<Rightarrow> bool \<times> socket_consumer \<times> 'n" where
  "ensure_peer_connected p N sc n =
     (if sc_sock sc \<noteq> None then (True, sc, n)
      else case sc_listen sc of
             None \<Rightarrow> (False, sc, n)
           | Some l \<Rightarrow>
               if \<not> so_readable N l n then (False, sc, n)
               else (case so_accept N l n of
                       (None, n1) \<Rightarrow> (False, sc, n1)
                     | (Some c, n1) \<Rightarrow>
                         let n2 = suppress_sigpipe p N c n1;
                             n3 = (if sc_sock sc \<noteq> None then close_handle N (sc_sock sc) n2 else n2)
                         in (True, sc\<lparr>sc_sock := Some c\<rparr>, n3)))"

text \<open>\<open>wait\<close> blocks in \<open>select\<close>; on POSIX an interrupted call is repeated. \<open>None\<close>: it does not return.\<close>

definition after_select :: "'n sockets \<Rightarrow> socket_consumer \<Rightarrow> nat option \<Rightarrow> select_result \<Rightarrow> 'n \<Rightarrow> 'n option" where
  "after_select N sc wake r n =
     (case (r, wake, sc_wake sc) of
        (sel_ready hs, Some w, Some wi) \<Rightarrow> if w \<in> set hs then drain N wi n else Some n
      | _ \<Rightarrow> Some n)"

partial_function (option) wait_loop ::
  "'n sockets \<Rightarrow> socket_consumer \<Rightarrow> nat option \<Rightarrow> nat list \<Rightarrow> 'n \<Rightarrow> 'n option" where
  "wait_loop N sc wake handles n =
     (case so_select N handles n of
        (r, n1) \<Rightarrow> if r = sel_interrupted then wait_loop N sc wake handles n1 else after_select N sc wake r n1)"

definition socket_wait :: "platform \<Rightarrow> 'n sockets \<Rightarrow> socket_consumer \<Rightarrow> 'n \<Rightarrow> 'n option" where
  "socket_wait p N sc n =
     (let wake = (case sc_wake sc of None \<Rightarrow> None | Some w \<Rightarrow> wi_read w);
          ready = (if consumer_is_connected sc then sc_sock sc else sc_listen sc);
          handles = (case wake of None \<Rightarrow> [] | Some w \<Rightarrow> [w]) @ (case ready of None \<Rightarrow> [] | Some r \<Rightarrow> [r])
      in if wake = None \<and> ready = None then Some n
         else if is_windows p then (case so_select N handles n of (r, n1) \<Rightarrow> after_select N sc wake r n1)
         else wait_loop N sc wake handles n)"

definition interrupt_wait :: "'n sockets \<Rightarrow> socket_consumer \<Rightarrow> 'n \<Rightarrow> 'n" where
  "interrupt_wait N sc n = (case sc_wake sc of None \<Rightarrow> n | Some w \<Rightarrow> notify N w n)"

text \<open>\<open>catch (const std::runtime_error\&)\<close> catches these.\<close>

fun is_runtime_error :: "exn \<Rightarrow> bool" where
  "is_runtime_error (Runtime_error _) = True"
| "is_runtime_error (Layout_exception _ _) = True"
| "is_runtime_error _ = False"

definition read_frame :: "platform \<Rightarrow> 'n sockets \<Rightarrow> transport_options \<Rightarrow> nat option \<Rightarrow> 'n \<Rightarrow> (exn + byte list) \<times> 'n" where
  "read_frame p N opts s n =
     (if chan_type opts = fixed then read_exact_sock p N s (unat (item_size opts)) n
      else
        (case read_exact_sock p N s 4 n of
           (Inl e, n1) \<Rightarrow> (Inl e, n1)
         | (Inr prefix, n1) \<Rightarrow>
             let len = load_le32 prefix in
             if len > k_max_varlen then (Inl (Runtime_error ''socket_consumer: varlen too large''), n1)
             else if len > 0 then read_exact_sock p N s (unat len) n1
             else (Inr [], n1)))"

definition socket_poll ::
  "platform \<Rightarrow> 'n sockets \<Rightarrow> (message \<Rightarrow> exn option) \<Rightarrow> socket_consumer \<Rightarrow> 'n
   \<Rightarrow> (exn + bool) \<times> message list \<times> socket_consumer \<times> 'n" where
  "socket_poll p N handler sc n =
     (case ensure_peer_connected p N sc n of
        (False, sc1, n1) \<Rightarrow> (Inr False, [], sc1, n1)
      | (True, sc1, n1) \<Rightarrow>
          (case sc_sock sc1 of
             None \<Rightarrow> (Inr False, [], sc1, n1)
           | Some s \<Rightarrow>
               if \<not> so_readable N s n1 then (Inr False, [], sc1, n1)
               else
                 (case read_frame p N (sc_opts sc1) (Some s) n1 of
                    (Inl e, n2) \<Rightarrow> (case consumer_close_sock N sc1 n2 of (sc2, n3) \<Rightarrow> (Inr False, [], sc2, n3))
                  | (Inr payload, n2) \<Rightarrow>
                      let m = (default_meta, payload) in
                      (case handler m of
                         None \<Rightarrow> (Inr True, [m], sc1, n2)
                       | Some e \<Rightarrow>
                           if is_runtime_error e
                           then (case consumer_close_sock N sc1 n2 of (sc2, n3) \<Rightarrow> (Inr False, [m], sc2, n3))
                           else (Inl e, [m], sc1, n2)))))"

section \<open>What a connection promises\<close>

text \<open>
  While a connection is up, \<open>pipe\<close> is what was sent and not yet received: a send takes a non-empty initial part
  of its buffer, a receive returns a non-empty initial part of the pipe of at most the size asked for, and a handle is
  readable exactly if there is something to receive.
\<close>

definition stream_spec :: "'n sockets \<Rightarrow> nat \<Rightarrow> nat \<Rightarrow> ('n \<Rightarrow> bool) \<Rightarrow> ('n \<Rightarrow> byte list) \<Rightarrow> bool" where
  "stream_spec N s c up pipe \<longleftrightarrow>
     (\<forall>bs n. up n \<and> bs \<noteq> [] \<longrightarrow>
        (\<exists>r n'. so_send N (Some s) bs n = (r, n') \<and> 0 < r \<and> r \<le> length bs \<and> up n' \<and> pipe n' = pipe n @ take r bs)) \<and>
     (\<forall>k n. up n \<and> pipe n \<noteq> [] \<and> 0 < k \<longrightarrow>
        (\<exists>bs n'. so_recv N (Some c) k n = (bs, n') \<and> bs \<noteq> [] \<and> length bs \<le> k \<and> up n' \<and> pipe n = bs @ pipe n')) \<and>
     (\<forall>n. up n \<longrightarrow> so_readable N c n = (pipe n \<noteq> []))"

text \<open>The frame of a payload, the payloads a channel can carry, and reading a stream back into payloads.\<close>

definition frame :: "transport_options \<Rightarrow> byte list \<Rightarrow> byte list" where
  "frame opts m = (if chan_type opts = fixed then m else store_le32 (of_nat (length m)) @ m)"

definition frame_ok :: "transport_options \<Rightarrow> byte list \<Rightarrow> bool" where
  "frame_ok opts m \<longleftrightarrow>
     (if chan_type opts = fixed then length m = unat (item_size opts) \<and> 0 < length m else length m \<le> unat k_max_varlen)"

function frames :: "transport_options \<Rightarrow> byte list \<Rightarrow> byte list list" where
  "frames opts bs =
     (if chan_type opts = fixed
      then (if item_size opts = 0 \<or> length bs < unat (item_size opts) then []
            else take (unat (item_size opts)) bs # frames opts (drop (unat (item_size opts)) bs))
      else (if length bs < 4 then []
            else let len = unat (load_le32 (take 4 bs)) in
                 if length bs < 4 + len then []
                 else take len (drop 4 bs) # frames opts (drop (4 + len) bs)))"
  by pat_completeness auto
termination
proof (relation "measure (\<lambda>(opts, bs). length bs)", goal_cases)
  case (2 opts bs)
  then have "0 < unat (item_size opts)" by (simp add: unat_gt_0)
  moreover have "unat (item_size opts) \<le> length bs" using 2 by simp
  ultimately show ?case by simp
qed auto

declare frames.simps [simp del]

text \<open>A producer and a consumer at the two ends of a connection.\<close>

type_synonym 'n socket_pair = "socket_producer \<times> socket_consumer \<times> 'n"

definition socket_link ::
  "platform \<Rightarrow> 'n sockets \<Rightarrow> nat \<Rightarrow> nat \<Rightarrow> ('n \<Rightarrow> bool) \<Rightarrow> ('n \<Rightarrow> byte list) \<Rightarrow> transport_options \<Rightarrow> 'n socket_pair \<Rightarrow> bool" where
  "socket_link p N s c up pipe opts st \<longleftrightarrow>
     (case st of (sp, sc, n) \<Rightarrow>
        stream_spec N s c up pipe \<and> up n \<and> sp_sock sp = Some s \<and> sc_sock sc = Some c \<and>
        sp_opts sp = opts \<and> chan_type (sc_opts sc) = chan_type opts \<and> item_size (sc_opts sc) = item_size opts \<and>
        (chan_type opts \<noteq> fixed \<or> 0 < item_size opts) \<and>
        (\<exists>ms. pipe n = concat (map (frame opts) ms) \<and> list_all (frame_ok opts) ms))"

definition socket_send :: "platform \<Rightarrow> 'n sockets \<Rightarrow> byte list \<times> u32 \<Rightarrow> 'n socket_pair \<Rightarrow> bool \<times> 'n socket_pair" where
  "socket_send p N m st =
     (case m of (src, len) \<Rightarrow>
      case st of (sp, sc, n) \<Rightarrow>
        (case (if chan_type (sp_opts sp) = fixed then socket_send_fixed_sized p N src len sp n
               else socket_send_varlen p N src len sp n) of
           (r, sp1, n1) \<Rightarrow> (r = Inr (), sp1, sc, n1)))"

definition socket_recv :: "platform \<Rightarrow> 'n sockets \<Rightarrow> 'n socket_pair \<Rightarrow> message option \<times> 'n socket_pair" where
  "socket_recv p N st =
     (case st of (sp, sc, n) \<Rightarrow>
        (case socket_poll p N (\<lambda>_. None) sc n of
           (r, ms, sc1, n1) \<Rightarrow> (if r = Inr True then Some (hd ms) else None, sp, sc1, n1)))"

definition socket_queue :: "('n \<Rightarrow> byte list) \<Rightarrow> transport_options \<Rightarrow> 'n socket_pair \<Rightarrow> message list" where
  "socket_queue pipe opts st = (case st of (sp, sc, n) \<Rightarrow> map (Pair default_meta) (frames opts (pipe n)))"

definition socket_wire :: "transport_options \<Rightarrow> byte list \<times> u32 \<Rightarrow> message" where
  "socket_wire opts m =
     (case m of (src, len) \<Rightarrow>
        (default_meta, if chan_type opts = fixed then zero_pad (unat (item_size opts)) (take (unat len) src)
                       else take (unat len) src))"

text \<open>
  A concrete network: one connection whose state is the bytes in flight, with sends of at most three bytes and
  receives of at most two. Handles are 1 (producer) and 2 (consumer).
\<close>

definition ref_sockets :: "byte list sockets" where
  "ref_sockets =
     \<lparr>so_startup = Pair True, so_getaddrinfo = (\<lambda>_ _ _. Some [\<lparr>ai_ipv6 = False, ai_addr = 0\<rparr>]),
      so_socket = (\<lambda>_ n. (Some 1, n)), so_setopt = (\<lambda>_ _ n. n), so_connect = (\<lambda>_ _ n. (True, n)),
      so_bind = (\<lambda>_ _ n. (True, n)), so_listen = (\<lambda>_ n. (True, n)), so_bound_port = (\<lambda>_ _. Some 4242),
      so_accept = (\<lambda>_ n. (Some 2, n)), so_readable = (\<lambda>s n. n \<noteq> []), so_select = (\<lambda>hs n. (sel_ready hs, n)),
      so_send = (\<lambda>s bs n. if s = Some 1 then (min 3 (length bs), n @ take 3 bs) else (0, n)),
      so_recv = (\<lambda>s k n. if s = Some 2 then (take (min 2 k) n, drop (min 2 k) n) else ([], n)),
      so_close = (\<lambda>_ n. n), so_socketpair = (\<lambda>n. (Some (3, 4), n)), so_sleep_ms = (\<lambda>_ n. n)\<rparr>"

definition ref_socket_pair :: "channel_type \<Rightarrow> byte list socket_pair" where
  "ref_socket_pair t =
     (let opts = default_options\<lparr>backend := socket, item_size := 8, chan_type := t, socket_port := 4242\<rparr>
      in (\<lparr>sp_opts = opts, sp_sock = Some 1\<rparr>,
          \<lparr>sc_opts = opts, sc_wake = None, sc_listen = Some 5, sc_sock = Some 2\<rparr>, []))"

section \<open>Little-endian prefixes\<close>

lemma length_store_le32 [simp]: "length (store_le32 v) = 4"
  by (simp add: store_le32_def)

lemma ff_mask: "(0xff :: u32) = mask 8"
  by (simp add: mask_eq_exp_minus_1)

lemma load_store_le32 [simp]: "load_le32 (store_le32 v) = v"
proof (rule bit_word_eqI)
  fix i assume "i < LENGTH(32)"
  then consider "i < 8" | "8 \<le> i" "i < 16" | "16 \<le> i" "i < 24" | "24 \<le> i" "i < 32" by fastforce
  then show "bit (load_le32 (store_le32 v)) i \<longleftrightarrow> bit v i"
    by cases (auto simp: load_le32_def store_le32_def ff_mask bit_simps)
qed

section \<open>Transfers over a connection\<close>

lemma transfer_chunk_bounds: "0 < left \<Longrightarrow> 0 < transfer_chunk p left" "transfer_chunk p left \<le> left"
  by (auto simp: transfer_chunk_def INT_MAX_def)

lemma stream_send:
  assumes "stream_spec N s c up pipe" and "up n" and "bs \<noteq> []"
  obtains r n' where "so_send N (Some s) bs n = (r, n')" and "0 < r" and "r \<le> length bs" and "up n'"
    and "pipe n' = pipe n @ take r bs"
  using assms unfolding stream_spec_def by blast

lemma stream_recv:
  assumes "stream_spec N s c up pipe" and "up n" and "pipe n \<noteq> []" and "0 < k"
  obtains bs n' where "so_recv N (Some c) k n = (bs, n')" and "bs \<noteq> []" and "length bs \<le> k" and "up n'"
    and "pipe n = bs @ pipe n'"
  using assms unfolding stream_spec_def by blast

lemma stream_readable: "stream_spec N s c up pipe \<Longrightarrow> up n \<Longrightarrow> so_readable N c n = (pipe n \<noteq> [])"
  unfolding stream_spec_def by blast

lemma write_full_sock_stream:
  assumes "stream_spec N s c up pipe" and "up n"
  shows "\<exists>n'. write_full_sock p N (Some s) bs n = (Inr (), n') \<and> up n' \<and> pipe n' = pipe n @ bs"
  using assms(2)
proof (induction "length bs" arbitrary: bs n rule: less_induct)
  case less
  show ?case
  proof (cases "bs = []")
    case True
    with less.prems show ?thesis by (simp add: write_full_sock.simps)
  next
    case False
    let ?k = "transfer_chunk p (length bs)"
    have k: "0 < ?k" "?k \<le> length bs" using False transfer_chunk_bounds by auto
    then have "take ?k bs \<noteq> []" using False by auto
    with assms(1) less.prems obtain r n1 where r: "so_send N (Some s) (take ?k bs) n = (r, n1)" "0 < r" "r \<le> length (take ?k bs)"
      "up n1" "pipe n1 = pipe n @ take r (take ?k bs)"
      by (rule stream_send)
    then have le: "r \<le> ?k" and tk: "take r (take ?k bs) = take r bs" by (auto simp: min_def split: if_split_asm)
    have "length (drop r bs) < length bs" using r(2) False by simp
    from less.hyps [OF this r(4)] obtain n2 where
      "write_full_sock p N (Some s) (drop r bs) n1 = (Inr (), n2)" "up n2" "pipe n2 = pipe n1 @ drop r bs" by blast
    with False r tk show ?thesis by (subst write_full_sock.simps) simp
  qed
qed

lemma read_exact_sock_stream:
  assumes "stream_spec N s c up pipe" and "up n" and "left \<le> length (pipe n)"
  shows "\<exists>n'. read_exact_sock p N (Some c) left n = (Inr (take left (pipe n)), n') \<and> up n' \<and> pipe n' = drop left (pipe n)"
  using assms(2,3)
proof (induction left arbitrary: n rule: less_induct)
  case (less left)
  show ?case
  proof (cases "left = 0")
    case True
    with less.prems show ?thesis by (simp add: read_exact_sock.simps)
  next
    case False
    let ?k = "transfer_chunk p left"
    have k: "0 < ?k" "?k \<le> left" using False transfer_chunk_bounds by auto
    have "pipe n \<noteq> []" using False less.prems by auto
    with assms(1) less.prems(1) k(1) obtain bs n1 where r: "so_recv N (Some c) ?k n = (bs, n1)" "bs \<noteq> []" "length bs \<le> ?k"
      "up n1" "pipe n = bs @ pipe n1"
      by (metis stream_recv)
    have "left - length bs < left" and "left - length bs \<le> length (pipe n1)"
      using r False less.prems(2) by auto
    from less.IH [OF this(1) r(4) this(2)] obtain n2 where
      "read_exact_sock p N (Some c) (left - length bs) n1 = (Inr (take (left - length bs) (pipe n1)), n2)"
      "up n2" "pipe n2 = drop (left - length bs) (pipe n1)" by blast
    with False r k show ?thesis by (subst read_exact_sock.simps) simp
  qed
qed

section \<open>Frames\<close>

lemma k_max_varlen_unat: "unat k_max_varlen = 16777216"
  by (simp add: k_max_varlen_def)

lemma frame_len:
  assumes "length m \<le> unat k_max_varlen"
  shows "unat (of_nat (length m) :: u32) = length m" and "of_nat (length m) \<le> k_max_varlen"
proof -
  have "length m < 2 ^ 32" using assms by (simp add: k_max_varlen_unat)
  then show "unat (of_nat (length m) :: u32) = length m" by (simp add: unsigned_of_nat take_bit_nat_eq_self)
  with assms show "of_nat (length m) \<le> k_max_varlen" by (simp add: word_le_nat_alt)
qed

lemma frames_frame:
  assumes "frame_ok opts m"
  shows "frames opts (frame opts m @ rest) = m # frames opts rest"
proof (cases "chan_type opts = fixed")
  case True
  with assms have "item_size opts \<noteq> 0" and "length m = unat (item_size opts)" by (auto simp: frame_ok_def)
  with True show ?thesis by (subst frames.simps) (simp add: frame_def)
next
  case False
  with assms have "unat (of_nat (length m) :: u32) = length m" by (auto simp: frame_ok_def frame_len)
  with False show ?thesis by (subst frames.simps) (simp add: frame_def Let_def)
qed

lemma frames_Nil: "chan_type opts \<noteq> fixed \<or> 0 < item_size opts \<Longrightarrow> frames opts [] = []"
  by (subst frames.simps) (auto simp: unat_gt_0)

lemma frames_concat:
  assumes "list_all (frame_ok opts) ms" and "chan_type opts \<noteq> fixed \<or> 0 < item_size opts"
  shows "frames opts (concat (map (frame opts) ms)) = ms"
  using assms(1) by (induction ms) (auto simp: frames_frame frames_Nil [OF assms(2)])

section \<open>One message over a connection\<close>

lemma write_full_stream:
  assumes "stream_spec N s c up pipe" and "up n" and "sp_sock sp = Some s"
  shows "\<exists>n'. write_full p N bs sp n = (Inr (), sp, n') \<and> up n' \<and> pipe n' = pipe n @ bs"
  using write_full_sock_stream [OF assms(1,2), of p bs] assms(3) by (auto simp: write_full_def)

lemma padded_buffer:
  "length bs \<le> k \<Longrightarrow> buf_write 0 bs (replicate k 0) = zero_pad k bs"
  by (simp add: buf_write_def zero_pad_def)

lemma socket_send_stream:
  assumes "socket_link p N s c up pipe opts (sp, sc, n)" and "unat len \<le> length src"
  shows "\<exists>n'. socket_send p N (src, len) (sp, sc, n) =
       ((if chan_type opts = fixed then len \<le> item_size opts else len \<le> k_max_varlen), sp, sc, n') \<and> up n' \<and>
     pipe n' = pipe n @ (if (if chan_type opts = fixed then len \<le> item_size opts else len \<le> k_max_varlen)
                         then frame opts (snd (socket_wire opts (src, len))) else []) \<and>
     ((if chan_type opts = fixed then len \<le> item_size opts else len \<le> k_max_varlen) \<longrightarrow>
        frame_ok opts (snd (socket_wire opts (src, len))))"
proof (cases "if chan_type opts = fixed then len \<le> item_size opts else len \<le> k_max_varlen")
  case False
  with assms show ?thesis
    by (auto simp: socket_link_def socket_send_def socket_send_fixed_sized_def socket_send_varlen_def not_le split: if_split_asm)
next
  case True
  have link: "stream_spec N s c up pipe" "up n" "sp_sock sp = Some s" "sp_opts sp = opts"
    "chan_type opts \<noteq> fixed \<or> 0 < item_size opts"
    using assms(1) by (auto simp: socket_link_def)
  note wr = write_full_stream [OF link(1) _ link(3), of _ p]
  have len: "length (take (unat len) src) = unat len" using assms(2) by simp
  show ?thesis
  proof (cases "chan_type opts = fixed")
    case fixed: True
    have le: "unat len \<le> unat (item_size opts)" using True fixed by (simp add: word_le_nat_alt)
    let ?buf = "zero_pad (unat (item_size opts)) (take (unat len) src)"
    obtain n' where "write_full p N ?buf sp n = (Inr (), sp, n')" "up n'" "pipe n' = pipe n @ ?buf"
      using wr [OF link(2)] by blast
    with True fixed link le len show ?thesis
      by (auto simp: socket_send_def socket_send_fixed_sized_def socket_wire_def frame_def frame_ok_def padded_buffer
          unat_gt_0 not_less)
  next
    case varlen: False
    then have vt: "chan_type opts = varlen" by (cases "chan_type opts") auto
    obtain n1 where w1: "write_full p N (store_le32 len) sp n = (Inr (), sp, n1)" "up n1" "pipe n1 = pipe n @ store_le32 len"
      using wr [OF link(2)] by blast
    obtain n2 where w2: "write_full p N (take (unat len) src) sp n1 = (Inr (), sp, n2)" "up n2"
      "pipe n2 = pipe n1 @ take (unat len) src"
      using wr [OF w1(2)] by blast
    have lenw: "of_nat (length (take (unat len) src)) = len" unfolding len by simp
    have "unat len \<le> unat k_max_varlen" using True varlen by (simp add: word_le_nat_alt)
    with True vt link len lenw w1 w2 show ?thesis
      by (cases "len = 0")
         (auto simp: socket_send_def socket_send_varlen_def socket_wire_def frame_def frame_ok_def not_less word_gt_0)
  qed
qed

lemma socket_recv_stream:
  assumes "stream_spec N s c up pipe" and "up n" and "sc_sock sc = Some c" and "pipe n = frame opts m @ rest"
    and "frame_ok opts m" and "chan_type (sc_opts sc) = chan_type opts" and "item_size (sc_opts sc) = item_size opts"
  shows "\<exists>n'. socket_poll p N (\<lambda>_. None) sc n = (Inr True, [(default_meta, m)], sc, n') \<and> up n' \<and> pipe n' = rest"
proof -
  have ne: "pipe n \<noteq> []"
    using assms(4,5) by (auto simp: frame_def frame_ok_def store_le32_def split: if_split_asm)
  have "\<exists>n'. read_frame p N (sc_opts sc) (Some c) n = (Inr m, n') \<and> up n' \<and> pipe n' = rest"
  proof (cases "chan_type opts = fixed")
    case True
    with assms(4,5) have "pipe n = m @ rest" "length m = unat (item_size opts)" by (auto simp: frame_def frame_ok_def)
    with read_exact_sock_stream [OF assms(1,2), of "unat (item_size opts)" p] True assms(6,7) show ?thesis
      by (simp add: read_frame_def)
  next
    case False
    then have pipe: "pipe n = store_le32 (of_nat (length m)) @ m @ rest" and "length m \<le> unat k_max_varlen"
      using assms(4,5) by (auto simp: frame_def frame_ok_def)
    note len = frame_len [OF this(2)]
    obtain n1 where r1: "read_exact_sock p N (Some c) 4 n = (Inr (store_le32 (of_nat (length m))), n1)" "up n1"
      "pipe n1 = m @ rest"
      using read_exact_sock_stream [OF assms(1,2), of 4 p] pipe by auto
    obtain n2 where "read_exact_sock p N (Some c) (length m) n1 = (Inr m, n2)" "up n2" "pipe n2 = rest"
      using read_exact_sock_stream [OF assms(1) r1(2), of "length m" p] r1(3) by auto
    with r1 len False assms(6) show ?thesis
      by (cases "m = []") (auto simp: read_frame_def Let_def not_less word_gt_0 unat_gt_0 [symmetric])
  qed
  with assms(3) ne stream_readable [OF assms(1,2)] show ?thesis
    by (auto simp: socket_poll_def ensure_peer_connected_def Let_def)
qed

interpretation sk: fifo_transport "socket_send p N" "socket_recv p N" "socket_link p N s c up pipe opts"
    "socket_queue pipe opts" "socket_wire opts" "\<lambda>(src, len). unat len \<le> length src"
  for p N s c up pipe opts
proof -
  have send: "socket_link p N s c up pipe opts (snd (socket_send p N m st)) \<and>
      socket_queue pipe opts (snd (socket_send p N m st)) =
        (if fst (socket_send p N m st) then socket_queue pipe opts st @ [socket_wire opts m] else socket_queue pipe opts st)"
    if link: "socket_link p N s c up pipe opts st" and len: "case m of (src, len) \<Rightarrow> unat len \<le> length src" for m st
  proof -
    obtain src l where m: "m = (src, l)" by (cases m)
    obtain sp sc n where st: "st = (sp, sc, n)" by (cases st)
    from link st obtain ms where ms: "pipe n = concat (map (frame opts) ms)" "list_all (frame_ok opts) ms"
      and item: "chan_type opts \<noteq> fixed \<or> 0 < item_size opts" by (auto simp: socket_link_def)
    from socket_send_stream [OF link [unfolded st], of l src] len m obtain n' b where
      run: "socket_send p N m st = (b, sp, sc, n')" "up n'"
        "pipe n' = pipe n @ (if b then frame opts (snd (socket_wire opts m)) else [])"
        "b \<longrightarrow> frame_ok opts (snd (socket_wire opts m))" by (auto simp: st)
    define ms' where "ms' = (if b then ms @ [snd (socket_wire opts m)] else ms)"
    have ms': "pipe n' = concat (map (frame opts) ms')" "list_all (frame_ok opts) ms'"
      using run ms by (auto simp: ms'_def)
    have "socket_link p N s c up pipe opts (sp, sc, n')" using link st run(2) ms' by (auto simp: socket_link_def)
    moreover have "socket_wire opts m = (default_meta, snd (socket_wire opts m))" by (simp add: socket_wire_def m)
    ultimately show ?thesis
      using run(1) frames_concat [OF ms'(2) item] frames_concat [OF ms(2) item] ms(1) ms'(1)
      by (auto simp: socket_queue_def st ms'_def)
  qed
  have recv: "socket_link p N s c up pipe opts (snd (socket_recv p N st)) \<and>
      socket_queue pipe opts st =
        (case fst (socket_recv p N st) of None \<Rightarrow> [] | Some w \<Rightarrow> [w]) @ socket_queue pipe opts (snd (socket_recv p N st)) \<and>
      (fst (socket_recv p N st) = None \<longrightarrow> socket_queue pipe opts st = [])"
    if link: "socket_link p N s c up pipe opts st" for st
  proof -
    obtain sp sc n where st: "st = (sp, sc, n)" by (cases st)
    from link st obtain ms where ms: "pipe n = concat (map (frame opts) ms)" "list_all (frame_ok opts) ms"
      and item: "chan_type opts \<noteq> fixed \<or> 0 < item_size opts" and spec: "stream_spec N s c up pipe" "up n" "sc_sock sc = Some c"
      and opts: "chan_type (sc_opts sc) = chan_type opts" "item_size (sc_opts sc) = item_size opts" by (auto simp: socket_link_def)
    show ?thesis
    proof (cases ms)
      case Nil
      with ms spec stream_readable [OF spec(1,2)] have "socket_recv p N st = (None, st)"
        by (auto simp: socket_recv_def socket_poll_def ensure_peer_connected_def st)
      with link Nil ms(1) st item show ?thesis by (simp add: socket_queue_def frames_Nil)
    next
      case (Cons m rest)
      with ms have "pipe n = frame opts m @ concat (map (frame opts) rest)" and ok: "frame_ok opts m" "list_all (frame_ok opts) rest"
        by auto
      from socket_recv_stream [OF spec this(1,2) opts] obtain n' where
        run: "socket_poll p N (\<lambda>_. None) sc n = (Inr True, [(default_meta, m)], sc, n')" "up n'" "pipe n' = concat (map (frame opts) rest)"
        by blast
      then have "socket_recv p N st = (Some (default_meta, m), sp, sc, n')" by (simp add: socket_recv_def st)
      moreover have "socket_link p N s c up pipe opts (sp, sc, n')" using link st run ok by (auto simp: socket_link_def)
      ultimately show ?thesis
        using frames_concat [OF ms(2) item] frames_concat [OF ok(2) item] run(3) ms(1) Cons by (simp add: socket_queue_def st)
    qed
  qed
  show "fifo_transport (socket_send p N) (socket_recv p N) (socket_link p N s c up pipe opts) (socket_queue pipe opts)
    (socket_wire opts) (\<lambda>(src, len). unat len \<le> length src)"
    by unfold_locales (use send recv in \<open>(simp; fail) | blast\<close>)+
qed

section \<open>Properties\<close>

lemma store_load_le32:
  assumes "length b = 4"
  shows "store_le32 (load_le32 b) = b"
proof -
  from assms obtain w x y z where b: "b = [w, x, y, z]"
    by (auto simp: numeral_eq_Suc length_Suc_conv)
  have "ucast (load_le32 b AND 0xff) = w" and "ucast (drop_bit 8 (load_le32 b) AND 0xff) = x"
    and "ucast (drop_bit 16 (load_le32 b) AND 0xff) = y" and "ucast (drop_bit 24 (load_le32 b) AND 0xff) = z"
    by (rule bit_word_eqI, auto simp: b load_le32_def ff_mask bit_simps dest: bit_imp_le_length)+
  then show ?thesis by (simp add: store_le32_def b)
qed

text \<open>
  The length prefix of a frame is a bijection between 32-bit numbers and four bytes, least significant first:
  decoding undoes encoding, and re-encoding gives the bytes that were decoded.
\<close>

theorem le32_round_trip:
  "load_le32 (store_le32 v) = v \<and> store_le32 (load_le32 [w, x, y, z]) = [w, x, y, z] \<and> hd (store_le32 v) = ucast v"
proof -
  have "ucast (v AND 0xff) = (ucast v :: byte)" by (rule bit_word_eqI) (auto simp: ff_mask bit_simps)
  then show ?thesis by (simp add: store_load_le32, simp add: store_le32_def)
qed

text \<open>
  C18. Over a connection, the TCP transport is a lossless queue too, however the network cuts the stream into pieces:
  in any interleaving of sends and polls, the payloads in flight followed by the accepted ones (zero-padded on a fixed
  channel) are exactly those delivered, in order, followed by those still in flight. Metadata is not carried.
\<close>

theorem socket_channel_fifo:
  assumes "socket_link p N s c up pipe opts st" and "sends_valid (\<lambda>(src, len). unat len \<le> length src) ops"
    and "run_ops (socket_send p N) (socket_recv p N) ops st = (accepted, delivered, st')"
  shows "socket_queue pipe opts st @ map (socket_wire opts) accepted = delivered @ socket_queue pipe opts st'"
  using sk.run_ops_fifo [OF assms] by blast

lemma ref_stream: "stream_spec ref_sockets 1 2 (\<lambda>_. True) (\<lambda>n. n)"
proof -
  have "min 3 (length bs) \<le> length bs \<and> take 3 bs = take (min 3 (length bs)) bs" for bs :: "byte list"
    by (simp add: min_def)
  then show ?thesis by (auto simp: stream_spec_def ref_sockets_def)
qed

lemma ref_socket_link:
  "socket_link Linux ref_sockets 1 2 (\<lambda>_. True) (\<lambda>n. n) (sp_opts (fst (ref_socket_pair varlen))) (ref_socket_pair varlen)"
  using ref_stream by (simp add: socket_link_def ref_socket_pair_def Let_def exI [of _ "[]"])

theorem socket_channel_fifo_witness:
  "map (socket_wire (sp_opts (fst (ref_socket_pair varlen))))
     (fst (run_ops (socket_send Linux ref_sockets) (socket_recv Linux ref_sockets)
        [Send ([1, 2, 3], 3), Recv, Send ([4], 1)] (ref_socket_pair varlen))) =
   [(default_meta, [1, 2, 3])] @ [(default_meta, [4])]"
proof -
  let ?run = "run_ops (socket_send Linux ref_sockets) (socket_recv Linux ref_sockets)
    [Send ([1, 2, 3], 3), Recv, Send ([4], 1)] (ref_socket_pair varlen)"
  let ?opts = "sp_opts (fst (ref_socket_pair varlen))"
  have "fst (snd ?run) = [(default_meta, [1, 2, 3])]" and "socket_queue (\<lambda>n. n) ?opts (snd (snd ?run)) = [(default_meta, [4])]"
    and start: "socket_queue (\<lambda>n. n) ?opts (ref_socket_pair varlen) = []"
    by code_simp+
  moreover have "?run = (fst ?run, fst (snd ?run), snd (snd ?run))" by simp
  note socket_channel_fifo [OF ref_socket_link _ this]
  ultimately show ?thesis by (simp del: run_ops.simps)
qed

lemma write_full_failure:
  "write_full p N bs sp n = (Inl e, sp', n') \<Longrightarrow> sp_sock sp' = None \<and> sp_opts sp' = sp_opts sp"
  by (auto simp: write_full_def producer_close_sock_def split: prod.split_asm sum.split_asm)

lemma write_full_closed:
  assumes "\<forall>bs n. so_send N None bs n = (0, n)" and "sp_sock sp = None" and "bs \<noteq> []"
  shows "\<exists>e. write_full p N bs sp n = (Inl e, sp, n)"
proof -
  have "write_full_sock p N None bs n = (Inl (Runtime_error ''socket send failed''), n)"
    using assms(1,3) by (subst write_full_sock.simps) simp
  then show ?thesis using assms(2) by (simp add: write_full_def producer_close_sock_def close_handle_def)
qed



text \<open>
  C22. A handler that throws a \<open>std::runtime_error\<close> is mistaken for a broken connection: the poll reports that
  there was no message, the message is gone and the consumer has dropped the connection.
\<close>

theorem socket_poll_swallows_runtime_error:
  assumes "socket_poll p N (\<lambda>_. None) sc n = (Inr True, [m], sc1, n1)" and "handler m = Some e" and "is_runtime_error e"
  shows "socket_poll p N handler sc n = (Inr False, [m], sc1\<lparr>sc_sock := None\<rparr>, close_handle N (sc_sock sc1) n1)"
  using assms
  by (auto simp: socket_poll_def consumer_close_sock_def Let_def split: prod.split_asm bool.split_asm option.split_asm
      sum.split_asm if_split_asm)

theorem socket_poll_swallows_runtime_error_witness:
  "socket_poll Linux ref_sockets (\<lambda>_. Some (Runtime_error ''bad input'')) (fst (snd (ref_socket_pair varlen))) [1, 0, 0, 0, 7] =
     (Inr False, [(default_meta, [7])], (fst (snd (ref_socket_pair varlen)))\<lparr>sc_sock := None\<rparr>, [])"
proof -
  have "socket_poll Linux ref_sockets (\<lambda>_. None) (fst (snd (ref_socket_pair varlen))) [1, 0, 0, 0, 7] =
      (Inr True, [(default_meta, [7])], fst (snd (ref_socket_pair varlen)), [])" by code_simp
  from socket_poll_swallows_runtime_error [OF this, of "\<lambda>_. Some (Runtime_error ''bad input'')"] show ?thesis
    by (simp add: ref_socket_pair_def close_handle_def ref_sockets_def Let_def)
qed

end
