(* ===== verification/Socket_Resources.thy ===== *)
theory Socket_Resources
  imports Socket
begin

text \<open>
  The handles of the TCP transport (\<open>src/ipc/socket_channel.cpp\<close>): which connection attempts are made and in which
  order, and that no constructor leaves a handle behind when it throws.
\<close>

section \<open>What is assumed of handles\<close>

text \<open>
  What the system documents of handles: a new socket, an accepted connection and the two ends of a pair are
  handles that were not in use, \<open>close\<close> gives its handle back, and no other call changes what is open.
\<close>

definition handle_spec :: "'n sockets \<Rightarrow> ('n \<Rightarrow> nat set) \<Rightarrow> bool" where
  "handle_spec N hs \<longleftrightarrow>
     (\<forall>n. hs (snd (so_startup N n)) = hs n) \<and>
     (\<forall>ai n. case so_socket N ai n of
               (None, n') \<Rightarrow> hs n' = hs n | (Some h, n') \<Rightarrow> h \<notin> hs n \<and> hs n' = insert h (hs n)) \<and>
     (\<forall>h opt n. hs (so_setopt N h opt n) = hs n) \<and>
     (\<forall>h ai n. hs (snd (so_connect N h ai n)) = hs n) \<and>
     (\<forall>h ai n. hs (snd (so_bind N h ai n)) = hs n) \<and>
     (\<forall>h n. hs (snd (so_listen N h n)) = hs n) \<and>
     (\<forall>l n. case so_accept N l n of
               (None, n') \<Rightarrow> hs n' = hs n | (Some h, n') \<Rightarrow> h \<notin> hs n \<and> hs n' = insert h (hs n)) \<and>
     (\<forall>h n. hs (so_close N h n) = hs n - {h}) \<and>
     (\<forall>n. case so_socketpair N n of
             (None, n') \<Rightarrow> hs n' = hs n
           | (Some (r, w), n') \<Rightarrow> r \<noteq> w \<and> r \<notin> hs n \<and> w \<notin> hs n \<and> hs n' = insert r (insert w (hs n))) \<and>
     (\<forall>ms n. hs (so_sleep_ms N ms n) = hs n)"

text \<open>A call that returns a new handle, or none.\<close>

definition adds :: "('n \<Rightarrow> nat set) \<Rightarrow> 'n \<Rightarrow> nat option \<Rightarrow> 'n \<Rightarrow> bool" where
  "adds hs n r n' \<longleftrightarrow> (case r of None \<Rightarrow> hs n' = hs n | Some s \<Rightarrow> s \<notin> hs n \<and> hs n' = insert s (hs n))"

text \<open>A wake-up pair holds two new handles.\<close>

definition adds_pair :: "('n \<Rightarrow> nat set) \<Rightarrow> 'n \<Rightarrow> exn + wait_interruptor \<Rightarrow> 'n \<Rightarrow> bool" where
  "adds_pair hs n r n' \<longleftrightarrow>
     (case r of
        Inl e \<Rightarrow> hs n' = hs n
      | Inr wi \<Rightarrow> \<exists>r w. wi = \<lparr>wi_read = Some r, wi_write = Some w\<rparr> \<and> r \<noteq> w \<and> r \<notin> hs n \<and> w \<notin> hs n \<and>
          hs n' = insert r (insert w (hs n)))"

text \<open>The network state at the start of the i-th connection attempt.\<close>

fun attempt_state :: "platform \<Rightarrow> 'n sockets \<Rightarrow> string \<Rightarrow> u16 \<Rightarrow> int \<Rightarrow> 'n \<Rightarrow> nat \<Rightarrow> 'n" where
  "attempt_state p N host port ms n 0 = n"
| "attempt_state p N host port ms n (Suc i) =
     so_sleep_ms N ms (snd (tcp_connect p N host port (attempt_state p N host port ms n i)))"

text \<open>A network of handles only: the state is the set of open ones, numbered upwards; connections succeed.\<close>

definition ref_handles :: "nat list sockets" where
  "ref_handles =
     (let new = (\<lambda>n. Suc (fold max n 0)) in
     \<lparr>so_startup = Pair True, so_getaddrinfo = (\<lambda>_ _ _. Some [\<lparr>ai_ipv6 = False, ai_addr = 0\<rparr>, \<lparr>ai_ipv6 = True, ai_addr = 1\<rparr>]),
      so_socket = (\<lambda>_ n. (Some (new n), new n # n)), so_setopt = (\<lambda>_ _ n. n),
      so_connect = (\<lambda>_ ai n. (\<not> ai_ipv6 ai, n)), so_bind = (\<lambda>_ _ n. (True, n)), so_listen = (\<lambda>_ n. (True, n)),
      so_bound_port = (\<lambda>_ _. Some 4242), so_accept = (\<lambda>_ n. (Some (new n), new n # n)),
      so_readable = (\<lambda>s n. False), so_select = (\<lambda>hs n. (sel_ready hs, n)),
      so_send = (\<lambda>s bs n. (0, n)), so_recv = (\<lambda>s k n. ([], n)), so_close = (\<lambda>h n. filter (\<lambda>x. x \<noteq> h) n),
      so_socketpair = (\<lambda>n. (Some (new n, Suc (new n)), new n # Suc (new n) # n)), so_sleep_ms = (\<lambda>_ n. n)\<rparr>)"

section \<open>Handles\<close>

lemma handle_calls:
  assumes "handle_spec N hs"
  shows "hs (snd (so_startup N n)) = hs n" "hs (so_setopt N h opt n) = hs n" "hs (snd (so_connect N h ai n)) = hs n"
    "hs (snd (so_bind N h ai n)) = hs n" "hs (snd (so_listen N h n)) = hs n" "hs (so_close N h n) = hs n - {h}"
    "hs (so_sleep_ms N ms n) = hs n"
  using assms by (simp_all only: handle_spec_def)

lemma handle_helpers:
  assumes "handle_spec N hs"
  shows "hs (suppress_sigpipe p N h n) = hs n"
    "hs (close_handle N None n) = hs n" "hs (close_handle N (Some h) n) = hs n - {h}"
    "hs (snd (winsock_init p N n)) = hs n" "hs (snd (listen_attempt N h ai n)) = hs n"
proof -
  show "hs (suppress_sigpipe p N h n) = hs n" by (simp add: suppress_sigpipe_def handle_calls [OF assms])
  show "hs (close_handle N None n) = hs n" "hs (close_handle N (Some h) n) = hs n - {h}"
    by (simp_all add: close_handle_def handle_calls [OF assms])
  show "hs (snd (winsock_init p N n)) = hs n"
    using handle_calls(1) [OF assms, of n] by (cases "so_startup N n"; cases "fst (so_startup N n)") (simp_all add: winsock_init_def)
  define n2 where "n2 = (if ai_ipv6 ai then so_setopt N h IPV6_V6ONLY_off (so_setopt N h SO_REUSEADDR n) else so_setopt N h SO_REUSEADDR n)"
  have n2: "hs n2 = hs n" by (simp add: n2_def handle_calls(2) [OF assms])
  obtain b n3 where bd: "so_bind N h ai n2 = (b, n3)" by (metis surj_pair)
  have run: "listen_attempt N h ai n = (case so_bind N h ai n2 of (False, n3) \<Rightarrow> (False, n3) | (True, n3) \<Rightarrow> so_listen N h n3)"
    by (simp add: listen_attempt_def n2_def Let_def)
  have "hs n3 = hs n" using handle_calls(4) [OF assms, of h ai n2] n2 bd by simp
  then show "hs (snd (listen_attempt N h ai n)) = hs n"
    unfolding run bd by (cases b) (simp_all add: handle_calls(5) [OF assms])
qed

lemmas handle_simps = handle_calls handle_helpers

lemma handle_cases:
  assumes "handle_spec N hs"
  shows "case so_socket N ai n of
           (None, n') \<Rightarrow> hs n' = hs n | (Some h, n') \<Rightarrow> h \<notin> hs n \<and> hs n' = insert h (hs n)"
    "case so_accept N l n of
           (None, n') \<Rightarrow> hs n' = hs n | (Some h, n') \<Rightarrow> h \<notin> hs n \<and> hs n' = insert h (hs n)"
    "case so_socketpair N n of
             (None, n') \<Rightarrow> hs n' = hs n
           | (Some (r, w), n') \<Rightarrow> r \<noteq> w \<and> r \<notin> hs n \<and> w \<notin> hs n \<and> hs n' = insert r (insert w (hs n))"
  using assms by (simp_all only: handle_spec_def)

lemma handle_new:
  assumes "handle_spec N hs"
  shows "so_socket N ai n = (None, n') \<Longrightarrow> hs n' = hs n"
    and "so_socket N ai n = (Some h, n') \<Longrightarrow> h \<notin> hs n \<and> hs n' = insert h (hs n)"
    and "so_accept N l n = (None, n') \<Longrightarrow> hs n' = hs n"
    and "so_accept N l n = (Some h, n') \<Longrightarrow> h \<notin> hs n \<and> hs n' = insert h (hs n)"
    and "so_socketpair N n = (None, n') \<Longrightarrow> hs n' = hs n"
    and "so_socketpair N n = (Some (r, w), n') \<Longrightarrow> r \<noteq> w \<and> r \<notin> hs n \<and> w \<notin> hs n \<and> hs n' = insert r (insert w (hs n))"
proof -
  show "so_socket N ai n = (None, n') \<Longrightarrow> hs n' = hs n"
    and "so_socket N ai n = (Some h, n') \<Longrightarrow> h \<notin> hs n \<and> hs n' = insert h (hs n)"
    using handle_cases(1) [OF assms, where ai = ai and n = n] by simp_all
  show "so_accept N l n = (None, n') \<Longrightarrow> hs n' = hs n"
    and "so_accept N l n = (Some h, n') \<Longrightarrow> h \<notin> hs n \<and> hs n' = insert h (hs n)"
    using handle_cases(2) [OF assms, where l = l and n = n] by simp_all
  show "so_socketpair N n = (None, n') \<Longrightarrow> hs n' = hs n"
    and "so_socketpair N n = (Some (r, w), n') \<Longrightarrow> r \<noteq> w \<and> r \<notin> hs n \<and> w \<notin> hs n \<and> hs n' = insert r (insert w (hs n))"
    using handle_cases(3) [OF assms, where n = n] by simp_all
qed

lemma adds_simps [simp]:
  "adds hs n None n' \<longleftrightarrow> hs n' = hs n" "adds hs n (Some s) n' \<longleftrightarrow> s \<notin> hs n \<and> hs n' = insert s (hs n)"
  by (simp_all add: adds_def)

lemma adds_from: "hs n1 = hs n \<Longrightarrow> adds hs n1 r n' \<Longrightarrow> adds hs n r n'"
  by (cases r) auto

lemma try_pass_handles:
  assumes "handle_spec N hs" and "\<And>s ai n. hs (snd (attempt s ai n)) = hs n"
  shows "try_pass p N attempt want6 res n = (r, n') \<Longrightarrow> adds hs n r n'"
proof (induction res arbitrary: n)
  case (Cons ai res)
  show ?case
  proof (cases "ai_ipv6 ai = want6")
    case False
    then have "try_pass p N attempt want6 res n = (r, n')" using Cons.prems by simp
    then show ?thesis by (rule Cons.IH)
  next
    case True
    obtain so n1 where so: "so_socket N ai n = (so, n1)" by (metis surj_pair)
    show ?thesis
    proof (cases so)
      case None
      have "hs n1 = hs n" by (rule handle_new(1) [OF assms(1) so [unfolded None]])
      moreover have "try_pass p N attempt want6 res n1 = (r, n')" using Cons.prems True so None by simp
      ultimately show ?thesis by (rule adds_from [OF _ Cons.IH])
    next
      case (Some s)
      obtain b n2 where at: "attempt s ai (suppress_sigpipe p N s n1) = (b, n2)" by (metis surj_pair)
      have n1: "s \<notin> hs n" "hs n1 = insert s (hs n)" using handle_new(2) [OF assms(1) so [unfolded Some]] by auto
      have n2: "hs n2 = insert s (hs n)"
        using assms(2) [of s ai "suppress_sigpipe p N s n1"] at n1 by (simp add: handle_helpers(1) [OF assms(1)])
      show ?thesis
      proof (cases b)
        case True
        with Cons.prems \<open>ai_ipv6 ai = want6\<close> so Some at n1 n2 show ?thesis by auto
      next
        case False
        have "hs (close_handle N (Some s) n2) = hs n" using n1 n2 by (simp add: handle_helpers(3) [OF assms(1)])
        moreover have "try_pass p N attempt want6 res (close_handle N (Some s) n2) = (r, n')"
          using Cons.prems \<open>ai_ipv6 ai = want6\<close> so Some at False by simp
        ultimately show ?thesis by (rule adds_from [OF _ Cons.IH])
      qed
    qed
  qed
qed simp

lemma try_resolved_handles:
  assumes "handle_spec N hs" and "\<And>s ai n. hs (snd (attempt s ai n)) = hs n"
    and "try_resolved_stream_socket p N res attempt n = (r, n')"
  shows "adds hs n r n'"
proof -
  obtain r1 n1 where p1: "try_pass p N attempt True res n = (r1, n1)" by (metis surj_pair)
  note h1 = try_pass_handles [OF assms(1,2) p1]
  show ?thesis
  proof (cases r1)
    case None
    with assms(3) p1 have "try_pass p N attempt False res n1 = (r, n')" by (simp add: try_resolved_stream_socket_def)
    from try_pass_handles [OF assms(1,2) this] h1 None show ?thesis by (auto intro: adds_from)
  next
    case (Some s)
    with assms(3) p1 h1 show ?thesis by (auto simp: try_resolved_stream_socket_def)
  qed
qed

lemma tcp_connect_handles:
  assumes "handle_spec N hs" and "tcp_connect p N host port n = (r, n')"
  shows "adds hs n (case r of Inl e \<Rightarrow> None | Inr s \<Rightarrow> Some s) n'"
proof -
  obtain w n1 where w: "winsock_init p N n = (w, n1)" by (metis surj_pair)
  have n1: "hs n1 = hs n" using handle_helpers(4) [OF assms(1), of p n] w by simp
  have "adds hs n1 (case r of Inl e \<Rightarrow> None | Inr s \<Rightarrow> Some s) n'"
  proof (cases w)
    case (Inl e)
    with assms(2) w have "r = Inl e" "n' = n1" by (auto simp: tcp_connect_def)
    then show ?thesis by simp
  next
    case (Inr u)
    show ?thesis
    proof (cases "so_getaddrinfo N (Some (normalize_socket_host host)) (port_string port) n1")
      case None
      with assms(2) w Inr have "isl r" "n' = n1" by (auto simp: tcp_connect_def)
      then show ?thesis by (cases r) simp_all
    next
      case (Some res)
      show ?thesis
      proof (cases res)
        case Nil
        with assms(2) w Inr Some have "isl r" "n' = n1" by (auto simp: tcp_connect_def)
        then show ?thesis by (cases r) simp_all
      next
        case (Cons ai rest)
        obtain so n2 where so: "try_resolved_stream_socket p N res (so_connect N) n1 = (so, n2)" by (metis surj_pair)
        with assms(2) w Inr Some Cons have "n' = n2" and "(case r of Inl e \<Rightarrow> None | Inr s \<Rightarrow> Some s) = so"
          by (auto simp: tcp_connect_def Let_def split: option.split_asm)
        with try_resolved_handles [OF assms(1) handle_calls(3) [OF assms(1)] so] show ?thesis by simp
      qed
    qed
  qed
  with n1 show ?thesis by (rule adds_from)
qed

lemma tcp_listen_handles:
  assumes "handle_spec N hs" and "tcp_listen p N port n = (r, n')"
  shows "adds hs n (case r of Inl e \<Rightarrow> None | Inr (s, b) \<Rightarrow> Some s) n'"
proof -
  obtain w n1 where w: "winsock_init p N n = (w, n1)" by (metis surj_pair)
  have n1: "hs n1 = hs n" using handle_helpers(4) [OF assms(1), of p n] w by simp
  have "adds hs n1 (case r of Inl e \<Rightarrow> None | Inr (s, b) \<Rightarrow> Some s) n'"
  proof (cases w)
    case (Inl e)
    with assms(2) w have "r = Inl e" "n' = n1" by (auto simp: tcp_listen_def)
    then show ?thesis by simp
  next
    case (Inr u)
    show ?thesis
    proof (cases "so_getaddrinfo N None (port_string port) n1")
      case None
      with assms(2) w Inr have "isl r" "n' = n1" by (auto simp: tcp_listen_def)
      then show ?thesis by (cases r) simp_all
    next
      case (Some res)
      show ?thesis
      proof (cases res)
        case Nil
        with assms(2) w Inr Some have "isl r" "n' = n1" by (auto simp: tcp_listen_def)
        then show ?thesis by (cases r) simp_all
      next
        case (Cons ai rest)
        obtain so n2 where so: "try_resolved_stream_socket p N res (listen_attempt N) n1 = (so, n2)" by (metis surj_pair)
        with assms(2) w Inr Some Cons have "n' = n2" and "(case r of Inl e \<Rightarrow> None | Inr (s, b) \<Rightarrow> Some s) = so"
          by (auto simp: tcp_listen_def Let_def split: option.split_asm)
        with try_resolved_handles [OF assms(1) handle_helpers(5) [OF assms(1)] so] show ?thesis by simp
      qed
    qed
  qed
  with n1 show ?thesis by (rule adds_from)
qed

lemma interruptor_fail_handles:
  assumes "handle_spec N hs" and "interruptor_fail N l rd wr n = (r, n')"
  shows "isl r" and "hs n' = hs n - set_option l - set_option rd - set_option wr"
  using assms(2)
  by (auto simp: interruptor_fail_def close_handle_def handle_calls(6) [OF assms(1)] split: option.split_asm)

lemma posix_interruptor_handles:
  assumes "handle_spec N hs" and "make_interruptor_posix p N n = (r, n')"
  shows "adds_pair hs n r n'"
proof -
  obtain so n1 where so: "so_socketpair N n = (so, n1)" by (metis surj_pair)
  show ?thesis
  proof (cases so)
    case None
    with assms(2) so handle_new(5) [OF assms(1) so [unfolded None]] show ?thesis
      by (auto simp: make_interruptor_posix_def adds_pair_def)
  next
    case (Some rw)
    obtain rd w where rw: "rw = (rd, w)" by (cases rw)
    from handle_new(6) [OF assms(1) so [unfolded Some rw]] assms(2) so Some rw show ?thesis
      by (auto simp: make_interruptor_posix_def adds_pair_def Let_def handle_calls(2) [OF assms(1)] handle_helpers(1) [OF assms(1)])
  qed
qed

lemma win32_interruptor_handles:
  assumes "handle_spec N hs" and "make_interruptor_win32 p N loop at_port n = (r, n')"
  shows "adds_pair hs n r n'"
proof -
  note keep = handle_calls [OF assms(1)] handle_helpers [OF assms(1)]
  note new = handle_new [OF assms(1)]
  have fail: "adds_pair hs n r n'"
    if "interruptor_fail N l rd wr m = (r, n')" and "hs m - set_option l - set_option rd - set_option wr = hs n" for l rd wr m
    using interruptor_fail_handles [OF assms(1) that(1)] that(2) by (cases r) (simp_all add: adds_pair_def)
  obtain w0 n0 where w0: "winsock_init p N n = (w0, n0)" by (metis surj_pair)
  have n0: "hs n0 = hs n" using keep(11) [of p n] w0 by simp
  show ?thesis
  proof (cases w0)
    case (Inl e)
    with assms(2) w0 n0 show ?thesis by (auto simp: make_interruptor_win32_def adds_pair_def)
  next
    case (Inr u)
    obtain lo n1 where lo: "so_socket N loop n0 = (lo, n1)" by (metis surj_pair)
    show ?thesis
    proof (cases lo)
      case None
      then have "interruptor_fail N None None None n1 = (r, n')" using assms(2) w0 Inr lo by (simp add: make_interruptor_win32_def)
      then show ?thesis by (rule fail) (use new(1) [OF lo [unfolded None]] n0 in simp)
    next
      case (Some l)
      have l: "l \<notin> hs n" "hs n1 = insert l (hs n)" using new(2) [OF lo [unfolded Some]] n0 by simp_all
      obtain b2 n2 where bd: "so_bind N l loop (so_setopt N l SO_REUSEADDR (suppress_sigpipe p N l n1)) = (b2, n2)" by (metis surj_pair)
      have n2: "hs n2 = insert l (hs n)"
        using keep(4) [of l loop "so_setopt N l SO_REUSEADDR (suppress_sigpipe p N l n1)"] bd l by (simp add: keep)
      obtain b3 n3 where li: "so_listen N l n2 = (b3, n3)" by (metis surj_pair)
      have n3: "hs n3 = insert l (hs n)" using keep(5) [of l n2] li n2 by simp
      obtain wo n4 where wo: "so_socket N loop n3 = (wo, n4)" by (metis surj_pair)
      show ?thesis
      proof (cases "b2 \<and> b3 \<and> so_bound_port N l n3 \<noteq> None")
        case False
        then consider "interruptor_fail N (Some l) None None n2 = (r, n')" | "interruptor_fail N (Some l) None None n3 = (r, n')"
          using assms(2) w0 Inr lo Some bd li
          by (cases b2; cases b3; cases "so_bound_port N l n3") (auto simp: make_interruptor_win32_def)
        then show ?thesis by cases (rule fail, assumption, use n2 n3 l in simp)+
      next
        case True
        then obtain port where port: "so_bound_port N l n3 = Some port" and b: "b2" "b3" by auto
        show ?thesis
        proof (cases wo)
          case None
          then have "interruptor_fail N (Some l) None None n4 = (r, n')"
            using assms(2) w0 Inr lo Some bd li wo b port by (simp add: make_interruptor_win32_def)
          then show ?thesis by (rule fail) (use new(1) [OF wo [unfolded None]] n3 l in simp)
        next
          case wsome: (Some w)
          have w: "w \<noteq> l" "w \<notin> hs n" "hs n4 = insert w (insert l (hs n))"
            using new(2) [OF wo [unfolded wsome]] n3 by auto
          obtain b5 n5 where co: "so_connect N w (at_port (unat port)) (suppress_sigpipe p N w n4) = (b5, n5)" by (metis surj_pair)
          have n5: "hs n5 = insert w (insert l (hs n))"
            using keep(3) [of w "at_port (unat port)" "suppress_sigpipe p N w n4"] co w by (simp add: keep)
          obtain ro n6 where ac: "so_accept N l n5 = (ro, n6)" by (metis surj_pair)
          note run = assms(2) w0 Inr lo Some bd li wo wsome b port co ac
          show ?thesis
          proof (cases "b5")
            case False
            then have "interruptor_fail N (Some l) None (Some w) n5 = (r, n')" using run by (simp add: make_interruptor_win32_def)
            then show ?thesis by (rule fail) (use n5 l w in auto)
          next
            case True
            show ?thesis
            proof (cases ro)
              case None
              then have "interruptor_fail N None None (Some w) (close_handle N (Some l) n6) = (r, n')"
                using run True by (simp add: make_interruptor_win32_def)
              then show ?thesis by (rule fail) (use new(3) [OF ac [unfolded None]] n5 l w in \<open>auto simp: keep\<close>)
            next
              case rsome: (Some rd)
              have rd: "rd \<notin> hs n5" "hs n6 = insert rd (hs n5)" using new(4) [OF ac [unfolded rsome]] by simp_all
              have "hs n' = hs n6 - {l}" and "r = Inr \<lparr>wi_read = Some rd, wi_write = Some w\<rparr>"
                using run True rsome by (auto simp: make_interruptor_win32_def Let_def keep)
              then show ?thesis using rd n5 l w by (auto simp: adds_pair_def)
            qed
          qed
        qed
      qed
    qed
  qed
qed

lemma destroy_interruptor_handles:
  assumes "handle_spec N hs" and "adds_pair hs n (Inr w) n1" and "hs n2 = hs n1"
  shows "hs (destroy_interruptor N w n2) = hs n"
  using assms(2,3) by (auto simp: adds_pair_def destroy_interruptor_def handle_helpers [OF assms(1)])

section \<open>Connection attempts\<close>

lemma attempt_state_Suc:
  "attempt_state p N host port ms n (Suc i) =
     attempt_state p N host port ms (so_sleep_ms N ms (snd (tcp_connect p N host port n))) i"
  by (induction i) simp_all

lemma connect_attempts_handles:
  assumes "handle_spec N hs"
  shows "connect_attempts p N host port ms k n = (r, n') \<Longrightarrow> adds hs n (case r of Inl e \<Rightarrow> None | Inr s \<Rightarrow> Some s) n'"
proof (induction k arbitrary: n)
  case (Suc k)
  obtain c n1 where c: "tcp_connect p N host port n = (c, n1)" by (metis surj_pair)
  note c1 = tcp_connect_handles [OF assms c]
  show ?case
  proof (cases "isl c \<and> k \<noteq> 0")
    case True
    then have "connect_attempts p N host port ms k (so_sleep_ms N ms n1) = (r, n')" using Suc.prems c by (cases c) auto
    moreover have "hs (so_sleep_ms N ms n1) = hs n" using c1 True by (cases c) (simp_all add: handle_calls(7) [OF assms])
    ultimately show ?thesis by (intro adds_from [OF _ Suc.IH])
  next
    case False
    then have "r = c" "n' = n1" using Suc.prems c by (cases c; auto)+
    then show ?thesis using c1 by simp
  qed
qed auto

section \<open>Properties\<close>



text \<open>
  C19. Neither end of the TCP transport leaks a handle: a constructor that throws, at any point and on either
  platform's way of building the wake-up pair, leaves the open handles as they were, and a destructor gives back all
  that the constructor took.
\<close>

theorem socket_endpoints_no_leak:
  assumes "handle_spec N hs" and "mk_wake = make_interruptor_posix p N \<or> mk_wake = make_interruptor_win32 p N loop at_port"
    and "make_socket_consumer p A N mk_wake opts n = (rc, n1)" and "make_socket_producer p A N opts' n = (rp, n2)"
  shows "(case rc of Inl e \<Rightarrow> hs n1 = hs n | Inr sc \<Rightarrow> hs (destroy_socket_consumer N sc n1) = hs n) \<and>
         (case rp of Inl e \<Rightarrow> hs n2 = hs n | Inr sp \<Rightarrow> hs (destroy_socket_producer N sp n2) = hs n)"
proof
  obtain w m1 where w: "mk_wake n = (w, m1)" by (metis surj_pair)
  have pair: "adds_pair hs n w m1"
    using assms(2) w posix_interruptor_handles [OF assms(1)] win32_interruptor_handles [OF assms(1)] by metis
  obtain l m2 where l: "tcp_listen p N (socket_port opts) m1 = (l, m2)" by (metis surj_pair)
  note listen = tcp_listen_handles [OF assms(1) l]
  show "case rc of Inl e \<Rightarrow> hs n1 = hs n | Inr sc \<Rightarrow> hs (destroy_socket_consumer N sc n1) = hs n"
  proof (cases w)
    case (Inl e)
    with assms(3) w pair show ?thesis by (auto simp: make_socket_consumer_def adds_pair_def)
  next
    case (Inr wi)
    note undo = destroy_interruptor_handles [OF assms(1) pair [unfolded Inr]]
    show ?thesis
    proof (cases "isl rc")
      case True
      then obtain m where "n1 = destroy_interruptor N wi m" and "m = m1 \<or> isl l \<and> m = m2"
        using assms(3) w Inr l
        by (cases l) (auto simp: make_socket_consumer_def split: sum.split_asm if_split_asm)
      moreover have "hs m2 = hs m1" if "isl l" using listen that by (cases l) auto
      ultimately show ?thesis using True undo by (cases rc) auto
    next
      case False
      then obtain h b where h: "l = Inr (h, b)" and rc: "rc = Inr \<lparr>sc_opts = opts\<lparr>socket_port := b\<rparr>, sc_wake = Some wi,
          sc_listen = Some h, sc_sock = None\<rparr>" and "n1 = m2"
        using assms(3) w Inr l by (auto simp: make_socket_consumer_def split: sum.split_asm if_split_asm)
      then have "hs (close_handle N (Some h) n1) = hs m1" using listen by (auto simp: handle_helpers [OF assms(1)])
      from undo [OF this] rc show ?thesis
        by (simp add: destroy_socket_consumer_def consumer_close_sock_def consumer_close_listen_def close_handle_def)
    qed
  qed
  show "case rp of Inl e \<Rightarrow> hs n2 = hs n | Inr sp \<Rightarrow> hs (destroy_socket_producer N sp n2) = hs n"
  proof -
    define ms where "ms = (if socket_connect_retry_ms opts' > 0 then socket_connect_retry_ms opts' else 10)"
    obtain c m where c: "connect_attempts p N (socket_host opts') (socket_port opts') ms (max_retries opts') n = (c, m)"
      by (metis surj_pair)
    note adds = connect_attempts_handles [OF assms(1) c]
    consider "isl rp" "n2 = n \<or> isl c \<and> n2 = m" | s where "c = Inr s" "rp = Inr \<lparr>sp_opts = opts', sp_sock = Some s\<rparr>" "n2 = m"
      using assms(4) c by (cases c)
        (auto simp: make_socket_producer_def connect_with_retries_def Let_def ms_def split: sum.split_asm if_split_asm)
    then show ?thesis
    proof cases
      case 1
      then show ?thesis using adds by (cases rp; cases c) auto
    next
      case 2
      then show ?thesis using adds
        by (simp add: destroy_socket_producer_def producer_close_sock_def handle_helpers [OF assms(1)])
    qed
  qed
qed

lemma fold_max_bound: "x \<in> set xs \<Longrightarrow> x \<le> fold max xs (m :: nat)"
proof (induction xs arbitrary: m)
  case (Cons y ys)
  have "m' \<le> fold max ys m'" for m' by (induction ys arbitrary: m') (auto, meson max.boundedE)
  from this [of "max y m"] Cons show ?case by auto
qed simp

lemma ref_handles_spec: "handle_spec ref_handles set"
proof -
  have fresh: "Suc (fold max n 0) \<notin> set n" "Suc (Suc (fold max n 0)) \<notin> set n" for n
    using fold_max_bound [of _ n 0] by (force dest: fold_max_bound [where m = 0])+
  show ?thesis by (auto simp: handle_spec_def ref_handles_def Let_def fresh)
qed

theorem socket_endpoints_no_leak_witness:
  "let opts = default_options\<lparr>backend := socket, item_size := 8\<rparr>
   in case make_socket_consumer Linux ref_abi ref_handles (make_interruptor_posix Linux ref_handles) (opts\<lparr>socket_listen := True\<rparr>) [7] of
        (Inl e, n1) \<Rightarrow> False
      | (Inr sc, n1) \<Rightarrow> set n1 \<noteq> {7} \<and> set (destroy_socket_consumer ref_handles sc n1) = {7}"
proof -
  let ?opts = "default_options\<lparr>backend := socket, item_size := 8\<rparr>"
  let ?c = "make_socket_consumer Linux ref_abi ref_handles (make_interruptor_posix Linux ref_handles) (?opts\<lparr>socket_listen := True\<rparr>) [7]"
  have run: "case ?c of (Inl e, n1) \<Rightarrow> False | (Inr sc, n1) \<Rightarrow> n1 = [10, 8, 9, 7]" by code_simp
  obtain rc n1 where c: "?c = (rc, n1)" by (metis surj_pair)
  obtain rp n2 where pr: "make_socket_producer Linux ref_abi ref_handles ?opts [7] = (rp, n2)" by (metis surj_pair)
  from socket_endpoints_no_leak [OF ref_handles_spec disjI1 [OF refl] c pr] run show ?thesis
    unfolding Let_def c by (auto split: sum.split_asm)
qed

end
