(* ===== verification/Observer.thy ===== *)
theory Observer
  imports Channel Shm_Posix
begin

text \<open>
  Read-only observation of a channel: \<open>include/xproc/ipc/observer.hpp\<close>, \<open>inspector.hpp\<close>,
  \<open>diagnostics_tracker.hpp\<close> and \<open>src/ipc/diagnostics_tracker.cpp\<close>.

  An observer maps the segment read-only, so its constructor contains no store. As in \<open>Channel\<close>, a query
  that loads several fields takes the block at each of its loads: \<open>obs i\<close> is the block at the i-th load. Times are
  readings of the monotonic clock in nanoseconds.
\<close>

section \<open>Data\<close>

record ring_snapshot =
  sn_write_pos :: u64
  sn_read_pos :: u64
  sn_commit_pos :: u64
  sn_commit_seq :: u32
  sn_read_wake_seq :: u32
  sn_attach_count :: u32
  sn_producer_pid :: int

definition empty_snapshot :: ring_snapshot where
  "empty_snapshot = \<lparr>sn_write_pos = 0, sn_read_pos = 0, sn_commit_pos = 0, sn_commit_seq = 0, sn_read_wake_seq = 0,
                     sn_attach_count = 0, sn_producer_pid = 0\<rparr>"

record 's observer =
  ob_opts :: transport_options
  ob_shm :: 's
  ob_header :: "nat option"

section \<open>The observer\<close>

definition make_observer ::
  "platform \<Rightarrow> abi \<Rightarrow> init_fn \<Rightarrow> int \<Rightarrow> ('s, 'k) shm_backend \<Rightarrow> transport_options \<Rightarrow> 'k \<Rightarrow> (exn + 's observer) \<times> 'k" where
  "make_observer p A init pid B opts k =
     (case validate_observer_transport_options p A opts of
        Inl e \<Rightarrow> (Inl e, snd (bk_detach B (bk_fresh B) k))
      | Inr _ \<Rightarrow>
          (case bk_open B (path opts) (shm_size opts) mode_read (win32_object_namespace opts) (bk_fresh B) k of
             (False, s, k1) \<Rightarrow>
               (Inl (attach_error ''observer: '' (path opts) (bk_os_error B s)), snd (bk_detach B s k1))
           | (True, s, k1) \<Rightarrow>
               (case bk_addr B s of
                  None \<Rightarrow> (Inl (layout_exception ''observer: '' not_attached), snd (bk_detach B s k1))
                | Some a \<Rightarrow>
                    let cap = shm_data_capacity_for_size A (shm_size opts);
                        lt = layout_type_of opts;
                        al = data_align_of opts;
                        item = fixed_item_size_of opts;
                        h = hdr (bk_load B k1 a)
                    in
                    (case format A init pid True h cap False lt al item (schema_id opts)
                            (creator_timestamp_ns opts) (creator_flags opts) readonly of
                       (False, _) \<Rightarrow>
                         let err = validate_detailed A (Some (\<lambda>_. h)) cap lt al item (schema_id opts)
                         in (Inl (layout_exception ''observer: '' err), snd (bk_detach B s k1))
                     | (True, h') \<Rightarrow>
                         (Inr \<lparr>ob_opts = resolve_options A h' opts, ob_shm = s, ob_header = Some a\<rparr>, k1)))))"

definition destroy_observer :: "('s, 'k) shm_backend \<Rightarrow> 's observer \<Rightarrow> 'k \<Rightarrow> 'k" where
  "destroy_observer B ob k = snd (bk_detach B (ob_shm ob) k)"

definition snapshot :: "spscring \<Rightarrow> (nat \<Rightarrow> control_block) option \<Rightarrow> ring_snapshot" where
  "snapshot R header =
     (case header of
        None \<Rightarrow> empty_snapshot
      | Some obs \<Rightarrow>
          \<lparr>sn_write_pos = write_pos (spscring_cb (obs 0)),
           sn_read_pos = read_pos (spscring_cb (obs 1)),
           sn_commit_pos = commit_pos (spscring_cb (obs 4)),
           sn_commit_seq = notify_seq_value R (commit_seq (spscring_cb (obs 2))),
           sn_read_wake_seq = notify_seq_value R (read_wake_seq (spscring_cb (obs 3))),
           sn_attach_count = attach_count (obs 5),
           sn_producer_pid = producer_pid (obs 6)\<rparr>)"

definition observed_attach_count :: "(nat \<Rightarrow> control_block) option \<Rightarrow> u32" where
  "observed_attach_count header = (case header of None \<Rightarrow> 0 | Some obs \<Rightarrow> attach_count (obs 0))"

text \<open>
  \<open>peek\<close> hands the oldest message to the handler and consumes nothing; the result lists the messages the handler
  was called with. The reader objects exist from construction on.
\<close>

definition peek ::
  "spscring \<Rightarrow> transport_options \<Rightarrow> (message \<Rightarrow> exn option) \<Rightarrow> segment \<Rightarrow> (exn + bool) \<times> message list \<times> segment" where
  "peek R opts handler s =
     (if chan_type opts = fixed
      then
        (case fixed_try_read R s of
           None \<Rightarrow> (Inr False, [], s)
         | Some (slot, n) \<Rightarrow>
             let m = (default_meta, mem_read slot (unat n) s) in
             (case handler m of Some e \<Rightarrow> (Inl e, [m], s) | None \<Rightarrow> (Inr True, [m], s)))
      else
        (case varlen_read R (\<lambda>m. case handler m of Some e \<Rightarrow> Inl e | None \<Rightarrow> Inr False) s of
           (Inl e, ms, s1) \<Rightarrow> (Inl e, ms, s1)
         | (Inr _, ms, s1) \<Rightarrow> (Inr (ms \<noteq> []), ms, s1)))"

definition observer_used_bytes :: "(nat \<Rightarrow> control_block) option \<Rightarrow> u64" where
  "observer_used_bytes header =
     (case header of
        None \<Rightarrow> 0
      | Some obs \<Rightarrow>
          let cap = data_capacity (spscring_cb (obs 0));
              wp = write_pos (spscring_cb (obs 1));
              rp = read_pos (spscring_cb (obs 2))
          in if wp \<ge> rp then min (wp - rp) cap else 0)"

definition occupancy_ratio :: "(nat \<Rightarrow> control_block) option \<Rightarrow> rat" where
  "occupancy_ratio header =
     (case header of
        None \<Rightarrow> 0
      | Some obs \<Rightarrow>
          let cap = data_capacity (spscring_cb (obs 0))
          in if cap = 0 then 0
             else of_nat (unat (observer_used_bytes (later 1 header))) / of_nat (unat cap))"

definition occupancy_bytes :: "(nat \<Rightarrow> control_block) option \<Rightarrow> u64" where
  "occupancy_bytes header = observer_used_bytes header"

definition observer_available_bytes :: "(nat \<Rightarrow> control_block) option \<Rightarrow> u64" where
  "observer_available_bytes header =
     (case header of
        None \<Rightarrow> 0
      | Some obs \<Rightarrow> data_capacity (spscring_cb (obs 0)) - observer_used_bytes (later 1 header))"

definition consumer_lag_bytes :: "(nat \<Rightarrow> control_block) option \<Rightarrow> u64" where
  "consumer_lag_bytes header = observer_used_bytes header"

section \<open>The diagnostics tracker\<close>

record diagnostics_tracker =
  dt_prev :: ring_snapshot
  dt_curr :: ring_snapshot
  dt_data_capacity :: u64
  dt_last_progress :: int

definition make_tracker :: "ring_snapshot \<Rightarrow> u64 \<Rightarrow> int \<Rightarrow> diagnostics_tracker" where
  "make_tracker initial cap now =
     \<lparr>dt_prev = initial, dt_curr = initial, dt_data_capacity = cap, dt_last_progress = now\<rparr>"

definition tracker_update :: "ring_snapshot \<Rightarrow> int \<Rightarrow> diagnostics_tracker \<Rightarrow> diagnostics_tracker" where
  "tracker_update snap now t =
     (let t1 = t\<lparr>dt_prev := dt_curr t, dt_curr := snap\<rparr>
      in if sn_write_pos (dt_curr t1) \<noteq> sn_write_pos (dt_prev t1) \<or> sn_read_pos (dt_curr t1) \<noteq> sn_read_pos (dt_prev t1)
         then t1\<lparr>dt_last_progress := now\<rparr> else t1)"

definition producer_alive :: "diagnostics_tracker \<Rightarrow> bool" where
  "producer_alive t \<longleftrightarrow> sn_commit_seq (dt_curr t) \<noteq> sn_commit_seq (dt_prev t)"

definition idle_duration_ms :: "int \<Rightarrow> diagnostics_tracker \<Rightarrow> u64" where
  "idle_duration_ms now t = word_of_int ((now - dt_last_progress t) div 1000000)"

section \<open>Sequences of updates\<close>

text \<open>
  The reference for the tracker: of a list of snapshots with their times, the latest first and ending in the initial
  one, the time of the last change of a position, or of the initial snapshot if nothing has changed.
\<close>

fun last_change :: "(ring_snapshot \<times> int) list \<Rightarrow> int" where
  "last_change [] = 0"
| "last_change [(s, t)] = t"
| "last_change ((s, t) # (s', t') # rest) =
     (if sn_write_pos s \<noteq> sn_write_pos s' \<or> sn_read_pos s \<noteq> sn_read_pos s' then t else last_change ((s', t') # rest))"

fun tracker_run :: "u64 \<Rightarrow> (ring_snapshot \<times> int) list \<Rightarrow> diagnostics_tracker" where
  "tracker_run cap [] = make_tracker empty_snapshot cap 0"
| "tracker_run cap [(s, t)] = make_tracker s cap t"
| "tracker_run cap ((s, t) # x # rest) = tracker_update s t (tracker_run cap (x # rest))"

lemma tracker_update_fields:
  "dt_curr (tracker_update s t tr) = s" "dt_prev (tracker_update s t tr) = dt_curr tr"
  "dt_last_progress (tracker_update s t tr) =
     (if sn_write_pos s \<noteq> sn_write_pos (dt_curr tr) \<or> sn_read_pos s \<noteq> sn_read_pos (dt_curr tr)
      then t else dt_last_progress tr)"
  by (simp_all add: tracker_update_def Let_def)

lemma tracker_run_curr: "hist \<noteq> [] \<Longrightarrow> dt_curr (tracker_run cap hist) = fst (hd hist)"
  by (induction cap hist rule: tracker_run.induct) (simp_all add: make_tracker_def tracker_update_fields)

lemma tracker_run_progress: "hist \<noteq> [] \<Longrightarrow> dt_last_progress (tracker_run cap hist) = last_change hist"
proof (induction hist rule: last_change.induct)
  case (3 s t s' t' rest)
  then show ?case by (simp add: tracker_update_fields tracker_run_curr)
qed (simp_all add: make_tracker_def)

section \<open>Observation does not disturb\<close>

lemma peek_fixed:
  assumes "fixed_ring R (unat (item_size opts)) slots I q" and "I s" and "chan_type opts = fixed"
  shows "peek R opts h s =
    (case q s of
       [] \<Rightarrow> (Inr False, [], s)
     | m # _ \<Rightarrow> (case h (default_meta, m) of
          Some e \<Rightarrow> (Inl e, [(default_meta, m)], s) | None \<Rightarrow> (Inr True, [(default_meta, m)], s)))"
proof (cases "q s")
  case Nil
  with assms show ?thesis by (simp add: peek_def fixed_ring_empty)
next
  case (Cons m ms)
  from fixed_ring_front [OF assms(1,2) this]
  obtain off where "fixed_try_read R s = Some (off, of_nat (unat (item_size opts)))"
      "mem_read off (unat (item_size opts)) s = m" .
  with assms(3) Cons show ?thesis by (auto simp: peek_def Let_def split: option.split)
qed

lemma peek_varlen:
  assumes "varlen_ring R max_len I q" and "I s" and "chan_type opts = varlen"
  obtains s' where "peek R opts (\<lambda>_. None) s = (Inr (q s \<noteq> []), take 1 (q s), s')" and "I s'" and "q s' = q s"
proof (cases "q s")
  case Nil
  from varlen_ring_empty [OF assms(1,2) Nil, of False]
  obtain s' where "varlen_read R (\<lambda>_. Inr False) s = (Inr False, [], s')" "I s'" "q s' = []" .
  with assms(3) Nil that [of s'] show ?thesis by (simp add: peek_def)
next
  case (Cons m ms)
  from varlen_ring_peek [OF assms(1,2) Cons]
  obtain r s' where "varlen_read R (\<lambda>_. Inr False) s = (Inr r, [m], s')" "I s'" "q s' = m # ms" .
  with assms(3) Cons that [of s'] show ?thesis by (simp add: peek_def)
qed

section \<open>What an observer relies on\<close>

text \<open>
  A backend whose read-only opens, and whose detaches, leave alone what processes share: \<open>shared\<close> is the
  directory of names with the sizes and contents of the objects.
\<close>

locale shm_passive = shm_resources B res spec for B :: "('s, 'k) shm_backend" and res :: "'k \<Rightarrow> 'r" and spec :: "'k \<Rightarrow> bool" +
  fixes shared :: "'k \<Rightarrow> 'm"
  assumes read_open_shared: "spec k \<Longrightarrow> bk_open B nm sz mode_read ns (bk_fresh B) k = (b, s, k') \<Longrightarrow> shared k' = shared k"
    and detach_shared: "spec k0 \<Longrightarrow> shared (snd (bk_detach B s k)) = shared k"
begin

lemma make_observer_cases:
  assumes "make_observer p A init pid B opts k = (r, k')"
  obtains (bad_options) e where "r = Inl e" and "k' = snd (bk_detach B (bk_fresh B) k)"
  | (not_opened) e s k1 where "r = Inl e"
      and "bk_open B (path opts) (shm_size opts) mode_read (win32_object_namespace opts) (bk_fresh B) k = (False, s, k1)"
      and "k' = snd (bk_detach B s k1)"
  | (refused) e s k1 where "r = Inl e"
      and "bk_open B (path opts) (shm_size opts) mode_read (win32_object_namespace opts) (bk_fresh B) k = (True, s, k1)"
      and "k' = snd (bk_detach B s k1)"
  | (attached) ob s where "r = Inr ob" and "ob_shm ob = s"
      and "bk_open B (path opts) (shm_size opts) mode_read (win32_object_namespace opts) (bk_fresh B) k = (True, s, k')"
  using assms unfolding make_observer_def Let_def
  by (auto split: sum.split_asm prod.split_asm bool.split_asm option.split_asm)

lemma make_observer_shared:
  assumes "spec k" and "make_observer p A init pid B opts k = (r, k')"
  shows "shared k' = shared k"
  using assms(2)
  by (cases rule: make_observer_cases) (simp_all add: detach_shared [OF assms(1)] read_open_shared [OF assms(1)])

lemma make_observer_res:
  assumes "spec k" and "make_observer p A init pid B opts k = (r, k')"
  shows "case r of
           Inl e \<Rightarrow> res k' = res k
         | Inr ob \<Rightarrow> \<forall>k''. res k'' = res k' \<longrightarrow> res (destroy_observer B ob k'') = res k"
  using assms(2)
proof (cases rule: make_observer_cases)
  case (attached ob s)
  then show ?thesis using open_detach_res [OF assms(1)] by (simp add: destroy_observer_def)
qed (simp_all add: detach_fresh [OF assms(1)] open_fail_res [OF assms(1)] open_detach_res [OF assms(1)])

lemma destroy_observer_shared: "spec k0 \<Longrightarrow> shared (destroy_observer B ob k) = shared k"
  by (simp add: destroy_observer_def detach_shared)

end

definition shared_view :: "('k \<Rightarrow> kernel_view) \<Rightarrow> 'k \<Rightarrow> (string \<Rightarrow> nat option) \<times> (nat \<Rightarrow> u64) \<times> (nat \<Rightarrow> segment)" where
  "shared_view view k = (kdir (view k), ksize (view k), kseg (view k))"

lemma read_open_view:
  assumes "posix_spec A K view" and "shm_open p K nm sz mode_read ns new_shm k = (b, s, k')"
  shows "shared_view view k' = shared_view view k"
proof (cases b)
  case True
  then have "opened A (view k) (shm_name_for_kernel p nm) sz mode_read s (view k')"
    using shm_open_view(1) [OF assms(1) holds_nothing_new assms(2)] by simp
  then show ?thesis by (auto simp: opened_def shared_view_def split: if_split_asm)
next
  case False
  obtain r k1 where op: "open_fd K (shm_name_for_kernel p nm) sz mode_read k = (r, k1)" by (metis surj_pair)
  show ?thesis
  proof (cases r)
    case (Inl e)
    with op assms(2) open_fd_view(1) [OF assms(1)] show ?thesis by (auto simp: shm_open_def Let_def shared_view_def)
  next
    case (Inr x)
    then obtain fd where x: "r = Inr (fd, False)" using op
      by (auto simp: open_fd_def split: prod.split_asm sum.split_asm)
    from open_fd_view(3) [OF assms(1) op [unfolded x]] obtain ob where
      ob: "opened_old (view k) (shm_name_for_kernel p nm) fd ob (view k1)" by blast
    then have fd: "kfds (view k1) fd = Some ob" by (auto simp: opened_old_def)
    have "view k' = (view k1)\<lparr>kfds := (kfds (view k1))(fd := None)\<rparr>"
      using False assms(2) op x
      by (auto simp: shm_open_def new_shm_def Let_def split: sum.split_asm if_split_asm
          dest: close_and_fail_view(4) [OF assms(1)] shm_map_view(2) [OF assms(1) fd, rotated])
    with ob show ?thesis by (simp add: opened_old_def shared_view_def)
  qed
qed

interpretation ps: shm_passive "posix_backend p K" "held view" "\<lambda>_. posix_spec A K view" "shared_view view" for p K view A
proof (unfold_locales, goal_cases)
  case (1 k nm sz ns b s k')
  then show ?case by (simp add: read_open_view)
next
  case (2 k0 s k)
  from shm_detach_view(2) [OF 2 surjective_pairing, of s k] show ?case by (simp add: shared_view_def)
qed

section \<open>Peeking and polling\<close>

definition observes :: "spscring \<Rightarrow> transport_options \<Rightarrow> 's endpoint \<Rightarrow> 's endpoint \<Rightarrow> segment \<Rightarrow> bool" where
  "observes R opts pe ce s \<longleftrightarrow>
     (chan_type opts = fixed \<and> item_size opts = item_size (ep_opts ce) \<and> (\<exists>slots I q. fixed_link R pe ce slots I q s)) \<or>
     (chan_type opts = varlen \<and> (\<exists>max_len I q. varlen_link R pe ce max_len I q s))"

lemma take_1_front: "xs = (case w of None \<Rightarrow> [] | Some x \<Rightarrow> [x]) @ ys \<Longrightarrow> (w = None \<Longrightarrow> xs = []) \<Longrightarrow>
    take 1 xs = (case w of None \<Rightarrow> [] | Some x \<Rightarrow> [x]) \<and> (xs \<noteq> [] \<longleftrightarrow> w \<noteq> None)"
  by (cases w) auto

lemma peek_front:
  assumes "observes R opts pe ce s"
  obtains s' w where "peek R opts (\<lambda>_. None) s = (Inr (w \<noteq> None), case w of None \<Rightarrow> [] | Some m \<Rightarrow> [m], s')"
    and "fst (poll_one R ce s) = w" and "fst (poll_one R ce s') = w" and "observes R opts pe ce s'"
  using assms unfolding observes_def
proof (elim disjE conjE exE)
  fix slots I q
  assume o: "chan_type opts = fixed" "item_size opts = item_size (ep_opts ce)" and link: "fixed_link R pe ce slots I q s"
  have ring: "fixed_ring R (unat (item_size opts)) slots I q" and "I s" using o(2) link by (simp_all add: fixed_link_def)
  let ?w = "fst (poll_one R ce s)"
  have "take 1 (map (Pair default_meta) (q s)) = (case ?w of None \<Rightarrow> [] | Some m \<Rightarrow> [m]) \<and>
      (map (Pair default_meta) (q s) \<noteq> [] \<longleftrightarrow> ?w \<noteq> None)"
    by (rule take_1_front) (rule fx.recv_q [OF link], rule fx.recv_empty [OF link])
  then have "peek R opts (\<lambda>_. None) s = (Inr (?w \<noteq> None), case ?w of None \<Rightarrow> [] | Some m \<Rightarrow> [m], s)"
    unfolding peek_fixed [OF ring \<open>I s\<close> o(1)] by (cases "q s") (auto split: option.splits)
  with o link that [of ?w s] show ?thesis by (auto simp: observes_def)
next
  fix max_len I q
  assume o: "chan_type opts = varlen" and link: "varlen_link R pe ce max_len I q s"
  have ring: "varlen_ring R max_len I q" and "I s" using link by (simp_all add: varlen_link_def)
  from peek_varlen [OF ring \<open>I s\<close> o] obtain s' where
    pk: "peek R opts (\<lambda>_. None) s = (Inr (q s \<noteq> []), take 1 (q s), s')" and "I s'" and q': "q s' = q s" .
  have link': "varlen_link R pe ce max_len I q s'" using link \<open>I s'\<close> by (simp add: varlen_link_def)
  let ?w = "fst (poll_one R ce s)" and ?w' = "fst (poll_one R ce s')"
  have 1: "take 1 (q s) = (case ?w of None \<Rightarrow> [] | Some m \<Rightarrow> [m]) \<and> (q s \<noteq> [] \<longleftrightarrow> ?w \<noteq> None)"
    by (rule take_1_front) (rule vl.recv_q [OF link], rule vl.recv_empty [OF link])
  have 2: "take 1 (q s') = (case ?w' of None \<Rightarrow> [] | Some m \<Rightarrow> [m]) \<and> (q s' \<noteq> [] \<longleftrightarrow> ?w' \<noteq> None)"
    by (rule take_1_front) (rule vl.recv_q [OF link'], rule vl.recv_empty [OF link'])
  have "?w' = ?w" using 1 2 unfolding q' by (auto split: option.splits)
  with pk 1 o link' that [of ?w s'] show ?thesis by (auto simp: observes_def)
qed

section \<open>Properties\<close>


definition ref_observer :: "(exn + posix_shm observer) \<times> ref_kernel" where
  "ref_observer = make_observer Linux ref_abi ref_init 43 (posix_backend Linux (ref_posix ref_abi))
                    (ref_options\<lparr>create_if_missing := False\<rparr>) (snd ref_producer)"


text \<open>
  C25. Peeking shows the future of the consumer: an observer's \<open>peek\<close> hands out a message exactly if the consumer's next
  poll would, and the same message; it disturbs neither that poll nor a later \<open>peek\<close>.
\<close>

theorem peek_predicts_poll:
  assumes "observes R opts pe ce s" and "peek R opts (\<lambda>_. None) s = (r, ms, s')"
  shows "r = Inr (fst (poll_one R ce s) \<noteq> None) \<and>
    ms = (case fst (poll_one R ce s) of None \<Rightarrow> [] | Some m \<Rightarrow> [m]) \<and>
    fst (poll_one R ce s') = fst (poll_one R ce s) \<and>
    (\<exists>s''. peek R opts (\<lambda>_. None) s' = (r, ms, s''))"
proof -
  from peek_front [OF assms(1)] obtain t w where
    1: "peek R opts (\<lambda>_. None) s = (Inr (w \<noteq> None), case w of None \<Rightarrow> [] | Some m \<Rightarrow> [m], t)"
    and w: "fst (poll_one R ce s) = w" "fst (poll_one R ce t) = w" and "observes R opts pe ce t" .
  from peek_front [OF this(4)] obtain t' w' where
    "peek R opts (\<lambda>_. None) t = (Inr (w' \<noteq> None), case w' of None \<Rightarrow> [] | Some m \<Rightarrow> [m], t')"
    "fst (poll_one R ce t) = w'" .
  then have 2: "peek R opts (\<lambda>_. None) t = (Inr (w \<noteq> None), case w of None \<Rightarrow> [] | Some m \<Rightarrow> [m], t')"
    by (simp only: w(2))
  have "r = Inr (w \<noteq> None)" "ms = (case w of None \<Rightarrow> [] | Some m \<Rightarrow> [m])" "s' = t" using 1 assms(2) by simp_all
  with 2 w show ?thesis by simp
qed

theorem peek_predicts_poll_witness:
  "let s = snd (fixed_send (shift_ring 8 8) (ref_endpoint producer_role fixed) ([1, 2], 2, default_meta) ref_segment)
   in fst (poll_one (shift_ring 8 8) (ref_endpoint consumer_role fixed)
        (snd (snd (peek (shift_ring 8 8) ref_options (\<lambda>_. None) s)))) =
      Some (default_meta, [1, 2, 0, 0, 0, 0, 0, 0]) \<and>
      fst (snd (peek (shift_ring 8 8) ref_options (\<lambda>_. None) s)) = [(default_meta, [1, 2, 0, 0, 0, 0, 0, 0])]"
proof -
  let ?R = "shift_ring 8 8" and ?pe = "ref_endpoint producer_role fixed" and ?ce = "ref_endpoint consumer_role fixed"
  let ?s = "snd (fixed_send ?R ?pe ([1, 2], 2, default_meta) ref_segment)"
  have "fixed_link ?R ?pe ?ce 8 (shift_inv 8 8) (shift_q 8) ?s"
    using fx.send_inv [OF ref_fixed_link, of "([1, 2], 2, default_meta)"] by simp
  then have "observes ?R ref_options ?pe ?ce ?s" by (auto simp: observes_def ref_options_def)
  moreover have "fst (poll_one ?R ?ce ?s) = Some (default_meta, [1, 2, 0, 0, 0, 0, 0, 0])" by code_simp
  moreover obtain r ms s' where run: "peek ?R ref_options (\<lambda>_. None) ?s = (r, ms, s')" by (metis surj_pair)
  ultimately show ?thesis
    using peek_predicts_poll [OF _ run, of ?pe ?ce] by (simp add: Let_def run)
qed

text \<open>
  The observer and the channel compute the same occupancy of a block that does not change while they read it: used
  and available bytes agree, the consumer's lag is the occupancy, and both ratios are equal.
\<close>

theorem observer_occupancy_agrees:
  "occupancy_bytes (Some (\<lambda>_. h)) = used_bytes (Some (\<lambda>_. h)) \<and>
   consumer_lag_bytes (Some (\<lambda>_. h)) = used_bytes (Some (\<lambda>_. h)) \<and>
   observer_available_bytes (Some (\<lambda>_. h)) = available_bytes (Some (\<lambda>_. h)) \<and>
   occupancy_ratio (Some (\<lambda>_. h)) = fill_ratio (Some (\<lambda>_. h))"
proof -
  have used: "observer_used_bytes (Some (\<lambda>_. h)) = used_bytes (Some (\<lambda>_. h))"
    by (auto simp: observer_used_bytes_def used_bytes_def Let_def min_def not_less)
  then show ?thesis
    by (simp add: occupancy_bytes_def consumer_lag_bytes_def observer_available_bytes_def available_bytes_def
        occupancy_ratio_def fill_ratio_def capacity_bytes_def later_def Let_def)
qed

end
