(* ===== verification/Builders.thy ===== *)
theory Builders
  imports Observer Socket
begin

text \<open>
  The configuration builders: \<open>include/xproc/ipc/shm_builders.hpp\<close> and \<open>include/xproc/ipc/socket_builders.hpp\<close>.

  A builder is a record of its members, each \<open>with_\<close> method an update of it. Building validates, so \<open>options\<close>
  returns an error value or the options. An attacher finds the options in the control block of an existing segment;
  \<open>options_of_block\<close> reads that block field by field while its creator may still be writing it, so its argument \<open>obs i\<close> is the
  block at the i-th load, as in \<open>Layout\<close>.
\<close>

section \<open>Channels from options\<close>

record shm_channel_endpoints =
  se_opts :: transport_options

definition producer_options :: "shm_channel_endpoints \<Rightarrow> transport_options" where
  "producer_options se = se_opts se"

definition consumer_options :: "shm_channel_endpoints \<Rightarrow> transport_options" where
  "consumer_options se = se_opts se"

definition observer_options :: "shm_channel_endpoints \<Rightarrow> transport_options" where
  "observer_options se = (se_opts se)\<lparr>create_if_missing := False\<rparr>"

definition endpoints_open_producer ::
  "platform \<Rightarrow> abi \<Rightarrow> init_fn \<Rightarrow> int \<Rightarrow> ('s, 'k) shm_backend \<Rightarrow> shm_channel_endpoints \<Rightarrow> 'k \<Rightarrow> (exn + 's endpoint) \<times> 'k" where
  "endpoints_open_producer p A init pid B se k = make_channel p A init pid B (producer_options se) producer_role k"

definition endpoints_open_consumer ::
  "platform \<Rightarrow> abi \<Rightarrow> init_fn \<Rightarrow> int \<Rightarrow> ('s, 'k) shm_backend \<Rightarrow> shm_channel_endpoints \<Rightarrow> 'k \<Rightarrow> (exn + 's endpoint) \<times> 'k" where
  "endpoints_open_consumer p A init pid B se k = make_channel p A init pid B (consumer_options se) consumer_role k"

definition endpoints_open_observer ::
  "platform \<Rightarrow> abi \<Rightarrow> init_fn \<Rightarrow> int \<Rightarrow> ('s, 'k) shm_backend \<Rightarrow> shm_channel_endpoints \<Rightarrow> 'k \<Rightarrow> (exn + 's observer) \<times> 'k" where
  "endpoints_open_observer p A init pid B se k = make_observer p A init pid B (observer_options se) k"

section \<open>Builders of new channels\<close>

record fixed_channel_builder =
  fb_path :: string
  fb_item_size :: u32
  fb_data_align :: u32
  fb_schema_id :: u64
  fb_creator_timestamp_ns :: u64
  fb_creator_flags :: u64
  fb_win32_object_namespace :: string

definition make_fixed_channel :: "string \<Rightarrow> u32 \<Rightarrow> fixed_channel_builder" where
  "make_fixed_channel p item =
     \<lparr>fb_path = p, fb_item_size = item, fb_data_align = 0, fb_schema_id = 0, fb_creator_timestamp_ns = 0,
      fb_creator_flags = 0, fb_win32_object_namespace = ''Local''\<rparr>"

definition fixed_with_data_align :: "u32 \<Rightarrow> fixed_channel_builder \<Rightarrow> fixed_channel_builder" where
  "fixed_with_data_align x b = b\<lparr>fb_data_align := x\<rparr>"

definition fixed_with_schema_id :: "u64 \<Rightarrow> fixed_channel_builder \<Rightarrow> fixed_channel_builder" where
  "fixed_with_schema_id x b = b\<lparr>fb_schema_id := x\<rparr>"

definition fixed_with_creator_timestamp_ns :: "u64 \<Rightarrow> fixed_channel_builder \<Rightarrow> fixed_channel_builder" where
  "fixed_with_creator_timestamp_ns x b = b\<lparr>fb_creator_timestamp_ns := x\<rparr>"

definition fixed_with_creator_flags :: "u64 \<Rightarrow> fixed_channel_builder \<Rightarrow> fixed_channel_builder" where
  "fixed_with_creator_flags x b = b\<lparr>fb_creator_flags := x\<rparr>"

definition fixed_with_win32_object_namespace :: "string \<Rightarrow> fixed_channel_builder \<Rightarrow> fixed_channel_builder" where
  "fixed_with_win32_object_namespace x b = b\<lparr>fb_win32_object_namespace := x\<rparr>"

definition checked :: "(transport_options \<Rightarrow> exn + unit) \<Rightarrow> transport_options \<Rightarrow> exn + transport_options" where
  "checked validator opts = (case validator opts of Inl e \<Rightarrow> Inl e | Inr _ \<Rightarrow> Inr opts)"

definition fixed_builder_options :: "platform \<Rightarrow> abi \<Rightarrow> fixed_channel_builder \<Rightarrow> u64 \<Rightarrow> exn + transport_options" where
  "fixed_builder_options p A b cap =
     checked (validate_transport_options p A)
       (default_options\<lparr>path := fb_path b, shm_size := shm_size_for_data_capacity A cap, item_size := fb_item_size b,
          data_align := fb_data_align b, schema_id := fb_schema_id b,
          creator_timestamp_ns := fb_creator_timestamp_ns b, creator_flags := fb_creator_flags b,
          create_if_missing := True, chan_type := fixed, win32_object_namespace := fb_win32_object_namespace b\<rparr>)"

definition fixed_builder_create :: "platform \<Rightarrow> abi \<Rightarrow> fixed_channel_builder \<Rightarrow> u64 \<Rightarrow> exn + shm_channel_endpoints" where
  "fixed_builder_create p A b cap =
     (case fixed_builder_options p A b cap of Inl e \<Rightarrow> Inl e | Inr opts \<Rightarrow> Inr \<lparr>se_opts = opts\<rparr>)"

record varlen_channel_builder =
  vb_path :: string
  vb_data_align :: u32
  vb_schema_id :: u64
  vb_creator_timestamp_ns :: u64
  vb_creator_flags :: u64
  vb_win32_object_namespace :: string

definition make_varlen_channel :: "string \<Rightarrow> varlen_channel_builder" where
  "make_varlen_channel p =
     \<lparr>vb_path = p, vb_data_align = 0, vb_schema_id = 0, vb_creator_timestamp_ns = 0,
      vb_creator_flags = 0, vb_win32_object_namespace = ''Local''\<rparr>"

definition varlen_with_data_align :: "u32 \<Rightarrow> varlen_channel_builder \<Rightarrow> varlen_channel_builder" where
  "varlen_with_data_align x b = b\<lparr>vb_data_align := x\<rparr>"

definition varlen_with_schema_id :: "u64 \<Rightarrow> varlen_channel_builder \<Rightarrow> varlen_channel_builder" where
  "varlen_with_schema_id x b = b\<lparr>vb_schema_id := x\<rparr>"

definition varlen_with_creator_timestamp_ns :: "u64 \<Rightarrow> varlen_channel_builder \<Rightarrow> varlen_channel_builder" where
  "varlen_with_creator_timestamp_ns x b = b\<lparr>vb_creator_timestamp_ns := x\<rparr>"

definition varlen_with_creator_flags :: "u64 \<Rightarrow> varlen_channel_builder \<Rightarrow> varlen_channel_builder" where
  "varlen_with_creator_flags x b = b\<lparr>vb_creator_flags := x\<rparr>"

definition varlen_with_win32_object_namespace :: "string \<Rightarrow> varlen_channel_builder \<Rightarrow> varlen_channel_builder" where
  "varlen_with_win32_object_namespace x b = b\<lparr>vb_win32_object_namespace := x\<rparr>"

definition varlen_builder_options :: "platform \<Rightarrow> abi \<Rightarrow> varlen_channel_builder \<Rightarrow> u64 \<Rightarrow> exn + transport_options" where
  "varlen_builder_options p A b cap =
     checked (validate_transport_options p A)
       (default_options\<lparr>path := vb_path b, shm_size := shm_size_for_data_capacity A cap, item_size := 0,
          data_align := vb_data_align b, schema_id := vb_schema_id b,
          creator_timestamp_ns := vb_creator_timestamp_ns b, creator_flags := vb_creator_flags b,
          create_if_missing := True, chan_type := varlen, win32_object_namespace := vb_win32_object_namespace b\<rparr>)"

definition varlen_builder_create :: "platform \<Rightarrow> abi \<Rightarrow> varlen_channel_builder \<Rightarrow> u64 \<Rightarrow> exn + shm_channel_endpoints" where
  "varlen_builder_create p A b cap =
     (case varlen_builder_options p A b cap of Inl e \<Rightarrow> Inl e | Inr opts \<Rightarrow> Inr \<lparr>se_opts = opts\<rparr>)"

section \<open>Attaching to existing channels\<close>

definition read_context_block ::
  "(nat \<Rightarrow> control_block) option \<Rightarrow> u32 \<times> u32 \<times> u32 \<times> u64 \<times> u64 \<times> u64" where
  "read_context_block header =
     (case header of
        None \<Rightarrow> (0, 8, 0, 0, 0, 0)
      | Some obs \<Rightarrow>
          (layout_type (spscring_cb (obs 0)),
           (if data_alignment (spscring_cb (obs 1)) \<noteq> 0 then data_alignment (spscring_cb (obs 2)) else 8),
           fixed_item_size (spscring_cb (obs 3)), cb_schema_id (obs 4), cb_creator_timestamp_ns (obs 5),
           cb_creator_flags (obs 6)))"

text \<open>
  What is made of the mapped block: six fields, the validation of the block against them, and the capacity at a load after
  the last one the validation can make.
\<close>

definition options_of_block ::
  "platform \<Rightarrow> abi \<Rightarrow> string \<Rightarrow> string \<Rightarrow> string \<Rightarrow> (nat \<Rightarrow> control_block) option \<Rightarrow> exn + transport_options" where
  "options_of_block p A pth ns context header =
     (case read_context_block header of
        (lt, al, item, sid, ts, fl) \<Rightarrow>
          let err = validate_detailed A (later 7 header) 0 lt al item sid in
          if err \<noteq> ok then Inl (layout_exception context err)
          else if lt \<noteq> 0 \<and> lt \<noteq> 1 then Inl (layout_exception context layout_type_mismatch)
          else if lt = 0 \<and> item = 0 then Inl (layout_exception context fixed_item_size_mismatch)
          else
            let logical_shm_size = shm_size_for_data_capacity A
                  (case header of None \<Rightarrow> 0 | Some obs \<Rightarrow> data_capacity (spscring_cb (obs (8 + is_ready_spin_limit))))
            in checked (validate_transport_options p A)
                 (default_options\<lparr>path := pth, shm_size := logical_shm_size,
                    item_size := (if lt = 0 then item else 0), data_align := al, schema_id := sid,
                    creator_timestamp_ns := ts, creator_flags := fl, create_if_missing := False,
                    chan_type := (if lt = 0 then fixed else varlen), win32_object_namespace := ns\<rparr>))"

text \<open>The attempts to open the segment, on one \<open>shm\<close> object, with the number of attempts left.\<close>

fun open_retries ::
  "('s, 'k) shm_backend \<Rightarrow> string \<Rightarrow> string \<Rightarrow> ('k \<Rightarrow> 'k) \<Rightarrow> nat \<Rightarrow> 's \<Rightarrow> 'k \<Rightarrow> bool \<times> 's \<times> 'k" where
  "open_retries B pth ns sleep 0 s k = (False, s, k)"
| "open_retries B pth ns sleep (Suc n) s k =
     (case bk_open B pth infer_existing_shm_size mode_read ns s k of
        (True, s1, k1) \<Rightarrow> (True, s1, k1)
      | (False, s1, k1) \<Rightarrow> open_retries B pth ns sleep n s1 (if n \<noteq> 0 then sleep k1 else k1))"

definition read_existing_shm_options ::
  "platform \<Rightarrow> abi \<Rightarrow> ('s, 'k) shm_backend \<Rightarrow> ('k \<Rightarrow> 'k) \<Rightarrow> string \<Rightarrow> string \<Rightarrow> string \<Rightarrow> 'k \<Rightarrow> (exn + transport_options) \<times> 'k" where
  "read_existing_shm_options p A B sleep pth ns context k =
     (case open_retries B pth ns sleep 10 (bk_fresh B) k of
        (False, s, k1) \<Rightarrow> (Inl (attach_error context pth (bk_os_error B s)), snd (bk_detach B s k1))
      | (True, s, k1) \<Rightarrow>
          (options_of_block p A pth ns context (map_option (\<lambda>a _. hdr (bk_load B k1 a)) (bk_addr B s)),
           snd (bk_detach B s k1)))"

record channel_attacher =
  at_path :: string
  at_schema_id :: u64
  at_schema_id_set :: bool
  at_win32_object_namespace :: string

definition attach_fixed_channel :: "string \<Rightarrow> channel_attacher" where
  "attach_fixed_channel p =
     \<lparr>at_path = p, at_schema_id = 0, at_schema_id_set = False, at_win32_object_namespace = ''Local''\<rparr>"

definition attach_varlen_channel :: "string \<Rightarrow> channel_attacher" where
  "attach_varlen_channel p =
     \<lparr>at_path = p, at_schema_id = 0, at_schema_id_set = False, at_win32_object_namespace = ''Local''\<rparr>"

definition attacher_with_schema_id :: "u64 \<Rightarrow> channel_attacher \<Rightarrow> channel_attacher" where
  "attacher_with_schema_id x a = a\<lparr>at_schema_id := x, at_schema_id_set := True\<rparr>"

definition attacher_with_win32_object_namespace :: "string \<Rightarrow> channel_attacher \<Rightarrow> channel_attacher" where
  "attacher_with_win32_object_namespace x a = a\<lparr>at_win32_object_namespace := x\<rparr>"

definition attacher_checks :: "string \<Rightarrow> channel_type \<Rightarrow> channel_attacher \<Rightarrow> transport_options \<Rightarrow> exn + transport_options" where
  "attacher_checks context t a opts =
     (if chan_type opts \<noteq> t then Inl (layout_exception context layout_type_mismatch)
      else if at_schema_id_set a \<and> schema_id opts \<noteq> at_schema_id a
      then Inl (layout_exception context schema_id_mismatch)
      else Inr (if at_schema_id_set a then opts\<lparr>schema_id := at_schema_id a\<rparr> else opts))"

definition fixed_attacher_options ::
  "platform \<Rightarrow> abi \<Rightarrow> ('s, 'k) shm_backend \<Rightarrow> ('k \<Rightarrow> 'k) \<Rightarrow> channel_attacher \<Rightarrow> 'k \<Rightarrow> (exn + transport_options) \<times> 'k" where
  "fixed_attacher_options p A B sleep a k =
     (case read_existing_shm_options p A B sleep (at_path a) (at_win32_object_namespace a) ''attach_fixed_channel: '' k of
        (Inl e, k1) \<Rightarrow> (Inl e, k1)
      | (Inr opts, k1) \<Rightarrow> (attacher_checks ''attach_fixed_channel: '' fixed a opts, k1))"

definition varlen_attacher_options ::
  "platform \<Rightarrow> abi \<Rightarrow> ('s, 'k) shm_backend \<Rightarrow> ('k \<Rightarrow> 'k) \<Rightarrow> channel_attacher \<Rightarrow> 'k \<Rightarrow> (exn + transport_options) \<times> 'k" where
  "varlen_attacher_options p A B sleep a k =
     (case read_existing_shm_options p A B sleep (at_path a) (at_win32_object_namespace a) ''attach_varlen_channel: '' k of
        (Inl e, k1) \<Rightarrow> (Inl e, k1)
      | (Inr opts, k1) \<Rightarrow> (attacher_checks ''attach_varlen_channel: '' varlen a opts, k1))"

text \<open>\<open>open_producer\<close>, \<open>open_consumer\<close> and \<open>open_observer\<close> of both attachers, \<open>attach\<close> being their \<open>options\<close>.\<close>

definition attacher_open_channel ::
  "platform \<Rightarrow> abi \<Rightarrow> init_fn \<Rightarrow> int \<Rightarrow> ('s, 'k) shm_backend \<Rightarrow> ('k \<Rightarrow> (exn + transport_options) \<times> 'k) \<Rightarrow> role \<Rightarrow> 'k
   \<Rightarrow> (exn + 's endpoint) \<times> 'k" where
  "attacher_open_channel p A init pid B attach r k =
     (case attach k of
        (Inl e, k1) \<Rightarrow> (Inl e, k1)
      | (Inr opts, k1) \<Rightarrow> make_channel p A init pid B opts r k1)"

definition attacher_open_observer ::
  "platform \<Rightarrow> abi \<Rightarrow> init_fn \<Rightarrow> int \<Rightarrow> ('s, 'k) shm_backend \<Rightarrow> ('k \<Rightarrow> (exn + transport_options) \<times> 'k) \<Rightarrow> 'k
   \<Rightarrow> (exn + 's observer) \<times> 'k" where
  "attacher_open_observer p A init pid B attach k =
     (case attach k of
        (Inl e, k1) \<Rightarrow> (Inl e, k1)
      | (Inr opts, k1) \<Rightarrow> make_observer p A init pid B opts k1)"

section \<open>Sockets\<close>

record socket_listener_builder =
  lb_type :: channel_type
  lb_item_size :: u32
  lb_port :: u16

record socket_connector_builder =
  cb_type :: channel_type
  cb_item_size :: u32
  cb_host :: string
  cb_port :: u16
  cb_connect_retries :: int
  cb_connect_retry_ms :: int

definition make_listener :: "channel_type \<Rightarrow> u32 \<Rightarrow> socket_listener_builder" where
  "make_listener t item = \<lparr>lb_type = t, lb_item_size = item, lb_port = 0\<rparr>"

definition listen_varlen_socket :: socket_listener_builder where
  "listen_varlen_socket = make_listener varlen 0"

definition listen_fixed_socket :: "u32 \<Rightarrow> socket_listener_builder" where
  "listen_fixed_socket item = make_listener fixed item"

definition with_port :: "u16 \<Rightarrow> socket_listener_builder \<Rightarrow> socket_listener_builder" where
  "with_port x b = b\<lparr>lb_port := x\<rparr>"

definition listener_options :: "platform \<Rightarrow> abi \<Rightarrow> socket_listener_builder \<Rightarrow> exn + transport_options" where
  "listener_options p A b =
     checked (validate_consumer_transport_options p A)
       (default_options\<lparr>backend := socket, chan_type := lb_type b, item_size := lb_item_size b, socket_listen := True,
          socket_host := [], socket_port := lb_port b\<rparr>)"

definition listener_open_consumer ::
  "platform \<Rightarrow> abi \<Rightarrow> 'n sockets \<Rightarrow> ('n \<Rightarrow> (exn + wait_interruptor) \<times> 'n) \<Rightarrow> socket_listener_builder \<Rightarrow> 'n
   \<Rightarrow> (exn + socket_consumer) \<times> 'n" where
  "listener_open_consumer p A N mk_wake b n =
     (case listener_options p A b of Inl e \<Rightarrow> (Inl e, n) | Inr opts \<Rightarrow> make_socket_consumer p A N mk_wake opts n)"

definition make_connector :: "channel_type \<Rightarrow> u32 \<Rightarrow> string \<Rightarrow> u16 \<Rightarrow> socket_connector_builder" where
  "make_connector t item host port =
     \<lparr>cb_type = t, cb_item_size = item, cb_host = host, cb_port = port,
      cb_connect_retries = socket_connect_retries default_options,
      cb_connect_retry_ms = socket_connect_retry_ms default_options\<rparr>"

definition connect_varlen_socket :: "string \<Rightarrow> u16 \<Rightarrow> socket_connector_builder" where
  "connect_varlen_socket host port = make_connector varlen 0 host port"

definition connect_fixed_socket :: "string \<Rightarrow> u16 \<Rightarrow> u32 \<Rightarrow> socket_connector_builder" where
  "connect_fixed_socket host port item = make_connector fixed item host port"

definition with_connect_retries :: "int \<Rightarrow> socket_connector_builder \<Rightarrow> socket_connector_builder" where
  "with_connect_retries x b = b\<lparr>cb_connect_retries := x\<rparr>"

definition with_connect_retry_ms :: "int \<Rightarrow> socket_connector_builder \<Rightarrow> socket_connector_builder" where
  "with_connect_retry_ms x b = b\<lparr>cb_connect_retry_ms := x\<rparr>"

definition connector_options :: "platform \<Rightarrow> abi \<Rightarrow> socket_connector_builder \<Rightarrow> exn + transport_options" where
  "connector_options p A b =
     checked (validate_producer_transport_options p A)
       (default_options\<lparr>backend := socket, chan_type := cb_type b, item_size := cb_item_size b, socket_listen := False,
          socket_host := cb_host b, socket_port := cb_port b, socket_connect_retries := cb_connect_retries b,
          socket_connect_retry_ms := cb_connect_retry_ms b\<rparr>)"

definition connector_open_producer ::
  "platform \<Rightarrow> abi \<Rightarrow> 'n sockets \<Rightarrow> socket_connector_builder \<Rightarrow> 'n \<Rightarrow> (exn + socket_producer) \<times> 'n" where
  "connector_open_producer p A N b n =
     (case connector_options p A b of Inl e \<Rightarrow> (Inl e, n) | Inr opts \<Rightarrow> make_socket_producer p A N opts n)"

section \<open>Built options\<close>

lemma checked_Inr: "checked v o1 = Inr o2 \<longleftrightarrow> v o1 = Inr () \<and> o2 = o1"
  by (auto simp: checked_def split: sum.split)

text \<open>Options as either builder makes them.\<close>

definition built :: "platform \<Rightarrow> abi \<Rightarrow> u64 \<Rightarrow> transport_options \<Rightarrow> bool" where
  "built p A cap opts \<longleftrightarrow>
     (\<exists>b. fixed_builder_options p A b cap = Inr opts) \<or> (\<exists>b. varlen_builder_options p A b cap = Inr opts)"

lemma built_fields:
  assumes "built p A cap opts"
  shows "options_ok p A opts" and "shm_size opts = shm_size_for_data_capacity A cap" and "create_if_missing opts"
    and "backend opts = shared_memory" and "chan_type opts = varlen \<Longrightarrow> item_size opts = 0"
    and "opts = default_options\<lparr>path := path opts, shm_size := shm_size opts, item_size := item_size opts,
          data_align := data_align opts, schema_id := schema_id opts, creator_timestamp_ns := creator_timestamp_ns opts,
          creator_flags := creator_flags opts, chan_type := chan_type opts,
          win32_object_namespace := win32_object_namespace opts\<rparr>"
  using assms
  by (auto simp: built_def fixed_builder_options_def varlen_builder_options_def checked_Inr
      validate_transport_options_iff default_options_def)

lemma static_part_sel:
  "magic (spscring_cb (static_part h)) = magic (spscring_cb h)"
  "version_major (spscring_cb (static_part h)) = version_major (spscring_cb h)"
  "version_minor (spscring_cb (static_part h)) = version_minor (spscring_cb h)"
  "header_size (spscring_cb (static_part h)) = header_size (spscring_cb h)"
  "layout_type (spscring_cb (static_part h)) = layout_type (spscring_cb h)"
  "data_capacity (spscring_cb (static_part h)) = data_capacity (spscring_cb h)"
  "data_alignment (spscring_cb (static_part h)) = data_alignment (spscring_cb h)"
  "fixed_item_size (spscring_cb (static_part h)) = fixed_item_size (spscring_cb h)"
  "cb_schema_id (static_part h) = cb_schema_id h" "cb_creator_timestamp_ns (static_part h) = cb_creator_timestamp_ns h"
  "cb_creator_flags (static_part h) = cb_creator_flags h" "is_ready (static_part h) = is_ready h"
  by (simp_all add: static_part_def frame_of_def)

text \<open>The fields of a block that was created with the given options, at any time of its life.\<close>

lemma created_fields:
  assumes "init_spec A init"
    and "init_header A init pid h0 cap (layout_type_of opts) (data_align_of opts) (fixed_item_size_of opts)
           (schema_id opts) (creator_timestamp_ns opts) (creator_flags opts) = (True, h)"
    and "static_part h' = static_part h"
  shows "layout_type (spscring_cb h') = layout_type_of opts" "data_alignment (spscring_cb h') = data_align_of opts"
    "fixed_item_size (spscring_cb h') = fixed_item_size_of opts" "data_capacity (spscring_cb h') = cap"
    "cb_schema_id h' = schema_id opts" "cb_creator_timestamp_ns h' = creator_timestamp_ns opts"
    "cb_creator_flags h' = creator_flags opts"
proof -
  from assms(2) obtain c where
    c: "init (spscring_cb h0) cap (layout_type_of opts) (if data_align_of opts \<noteq> 0 then data_align_of opts else 8)
          (fixed_item_size_of opts) = (True, c)"
    and h: "h = h0\<lparr>spscring_cb := c\<lparr>header_size := sizeof_control_block A\<rparr>, cb_schema_id := schema_id opts,
                cb_creator_timestamp_ns := creator_timestamp_ns opts, cb_creator_flags := creator_flags opts,
                reserved_xproc := 0, producer_pid := pid, attach_count := 1, is_ready := True\<rparr>"
    by (rule init_header_TrueE)
  have al: "data_align_of opts \<noteq> 0" by (simp add: data_align_of_def)
  have "layout_type c = layout_type_of opts \<and> data_capacity c = cap \<and> data_alignment c = data_align_of opts \<and>
      fixed_item_size c = fixed_item_size_of opts"
    using assms(1) c al unfolding init_spec_def by auto
  then have "layout_type (spscring_cb h) = layout_type_of opts" "data_alignment (spscring_cb h) = data_align_of opts"
    "fixed_item_size (spscring_cb h) = fixed_item_size_of opts" "data_capacity (spscring_cb h) = cap"
    "cb_schema_id h = schema_id opts" "cb_creator_timestamp_ns h = creator_timestamp_ns opts"
    "cb_creator_flags h = creator_flags opts"
    by (simp_all add: h)
  then show "layout_type (spscring_cb h') = layout_type_of opts" "data_alignment (spscring_cb h') = data_align_of opts"
    "fixed_item_size (spscring_cb h') = fixed_item_size_of opts" "data_capacity (spscring_cb h') = cap"
    "cb_schema_id h' = schema_id opts" "cb_creator_timestamp_ns h' = creator_timestamp_ns opts"
    "cb_creator_flags h' = creator_flags opts"
    using assms(3) by (metis static_part_sel)+
qed

lemma created_validates:
  assumes "init_spec A init"
    and "init_header A init pid h0 cap (layout_type_of opts) (data_align_of opts) (fixed_item_size_of opts)
           (schema_id opts) (creator_timestamp_ns opts) (creator_flags opts) = (True, h)"
    and "static_part h' = static_part h" and "options_ok p A opts" and "need \<le> cap"
  shows "validate A (Some (\<lambda>_. h')) need (layout_type_of opts) (data_align_of opts) (fixed_item_size_of opts) (schema_id opts)"
proof -
  have "data_align_of opts = 0 \<or> is_power_of_two_uint32 (data_align_of opts)"
    using options_ok_align [OF assms(4)] by (auto simp: data_align_of_def)
  from init_header_well_formed [OF assms(1,2) this assms(5)]
  have "validate A (Some (\<lambda>_. h)) need (layout_type_of opts) (data_align_of opts) (fixed_item_size_of opts) (schema_id opts)" .
  then show ?thesis
    unfolding validate_iff_ok validate_detailed_quiescent well_formed_block_def Let_def
    using static_part_sel [of h] static_part_sel [of h'] assms(3) by simp
qed

lemma options_of_created_block:
  assumes "init_spec A init" and "built p A cap opts"
    and "init_header A init pid h0 cap (layout_type_of opts) (data_align_of opts) (fixed_item_size_of opts)
           (schema_id opts) (creator_timestamp_ns opts) (creator_flags opts) = (True, h)"
    and "static_part h' = static_part h"
  shows "options_of_block p A (path opts) (win32_object_namespace opts) context (Some (\<lambda>_. h')) =
    Inr (opts\<lparr>data_align := data_align_of opts, create_if_missing := False\<rparr>)"
proof -
  note f = created_fields [OF assms(1,3,4)]
  note b = built_fields [OF assms(2)]
  have ok: "validate_detailed A (Some (\<lambda>_. h')) 0 (layout_type_of opts) (data_align_of opts) (fixed_item_size_of opts) (schema_id opts) = ok"
    using created_validates [OF assms(1,3,4) b(1), of 0] by (simp add: validate_iff_ok)
  have al: "data_align_of opts \<noteq> 0" by (simp add: data_align_of_def)
  let ?o = "opts\<lparr>data_align := data_align_of opts, create_if_missing := False\<rparr>"
  have item: "chan_type opts = fixed \<Longrightarrow> item_size opts \<noteq> 0" using b(1) by (auto simp: options_ok_def)
  have "options_ok p A ?o"
    using b(1) options_ok_align [OF b(1)]
    by (auto simp: options_ok_def b(4) data_align_of_def is_power_of_two_uint32_iff [symmetric])
  then have v: "checked (validate_transport_options p A) ?o = Inr ?o"
    by (simp add: checked_Inr validate_transport_options_iff)
  have "?o = default_options\<lparr>path := path opts, shm_size := shm_size_for_data_capacity A cap,
      item_size := (if layout_type_of opts = 0 then fixed_item_size_of opts else 0), data_align := data_align_of opts,
      schema_id := schema_id opts, creator_timestamp_ns := creator_timestamp_ns opts, creator_flags := creator_flags opts,
      create_if_missing := False, chan_type := (if layout_type_of opts = 0 then fixed else varlen),
      win32_object_namespace := win32_object_namespace opts\<rparr>"
    using b(2,5) by (subst b(6)) (cases "chan_type opts", simp_all add: layout_type_of_def fixed_item_size_of_def default_options_def)
  with v show ?thesis
    using item by (simp add: options_of_block_def read_context_block_def later_def f al ok Let_def)
      (auto simp: layout_type_of_def fixed_item_size_of_def)
qed

section \<open>Attaching holds nothing\<close>

lemma failed_read_open_held:
  assumes "posix_spec A K view" and "holds_nothing s" and "shm_open p K nm sz mode_read ns s k = (False, s', k')"
  shows "holds_nothing s' \<and> held view k' = held view k"
  using shm_open_view(2) [OF assms(1,2,3)] by (simp add: held_def)

lemma open_retries_posix:
  assumes "posix_spec A K view" and "\<forall>k. held view (sleep k) = held view k" and "holds_nothing s"
    and "open_retries (posix_backend p K) pth ns sleep n s k = (b, s', k')"
  shows "held view (snd (shm_detach K s' k')) = held view k"
  using assms(3,4)
proof (induction n arbitrary: s k)
  case 0
  then show ?case by (simp add: shm_detach_def holds_nothing_def held_def Let_def)
next
  case (Suc n)
  obtain b1 s1 k1 where op: "shm_open p K pth infer_existing_shm_size mode_read ns s k = (b1, s1, k1)" by (metis surj_pair)
  show ?case
  proof (cases b1)
    case True
    then have op': "shm_open p K pth infer_existing_shm_size mode_read ns s k = (True, s1, k1)" using op by simp
    with Suc.prems(2) have "s' = s1" "k' = k1" by simp_all
    with opened_detach [OF assms(1) shm_open_ok [OF assms(1) Suc.prems(1) op'], of k1]
    show ?thesis by (simp add: held_def)
  next
    case False
    then have op': "shm_open p K pth infer_existing_shm_size mode_read ns s k = (False, s1, k1)" using op by simp
    let ?k2 = "if n \<noteq> 0 then sleep k1 else k1"
    from failed_read_open_held [OF assms(1) Suc.prems(1) op']
    have "holds_nothing s1" and "held view k1 = held view k" by simp_all
    moreover have "open_retries (posix_backend p K) pth ns sleep n s1 ?k2 = (b, s', k')"
      using Suc.prems(2) op' by simp
    from Suc.IH [OF \<open>holds_nothing s1\<close> this] have "held view (snd (shm_detach K s' k')) = held view ?k2" .
    ultimately show ?thesis using assms(2) by simp
  qed
qed

lemma read_existing_held:
  assumes "posix_spec A K view" and "\<forall>k. held view (sleep k) = held view k"
    and "read_existing_shm_options p A' (posix_backend p K) sleep pth ns context k = (r, k')"
  shows "held view k' = held view k"
  using assms(3) open_retries_posix [OF assms(1,2) holds_nothing_new]
  by (auto simp: read_existing_shm_options_def split: prod.split_asm bool.split_asm)

section \<open>Properties\<close>

text \<open>
  C26. Options that come out of a builder or an attacher are fit for use: those of both shared-memory builders are accepted
  by the producer, the consumer and, as the endpoints object passes them on, the observer, provided header and capacity
  together fit in \<open>size_t\<close>; those an attacher reads out of a block are accepted by all three as they are, and never create.
\<close>

theorem built_options_accepted:
  assumes "0 < unat (sizeof_control_block A)"
  shows "(built p A cap opts \<longrightarrow> unat (sizeof_control_block A) + unat cap < 2 ^ 64 \<longrightarrow>
      validate_producer_transport_options p A (producer_options \<lparr>se_opts = opts\<rparr>) = Inr () \<and>
      validate_consumer_transport_options p A (consumer_options \<lparr>se_opts = opts\<rparr>) = Inr () \<and>
      validate_observer_transport_options p A (observer_options \<lparr>se_opts = opts\<rparr>) = Inr ()) \<and>
    (options_of_block p A pth ns context header = Inr opts \<longrightarrow>
      validate_producer_transport_options p A opts = Inr () \<and> validate_consumer_transport_options p A opts = Inr () \<and>
      validate_observer_transport_options p A opts = Inr () \<and> \<not> create_if_missing opts)"
proof (intro conjI impI)
  assume b: "built p A cap opts" and fits: "unat (sizeof_control_block A) + unat cap < 2 ^ 64"
  note f = built_fields [OF b]
  have "unat (sizeof_control_block A + cap) = unat (sizeof_control_block A) + unat cap"
    using fits by (intro unat_add_no_wrap) simp
  with assms have nz: "shm_size opts \<noteq> 0" by (metis add_gr_0 f(2) less_irrefl min_shm_size_def shm_size_for_data_capacity_def unat_0)
  have ob: "options_ok p A (opts\<lparr>create_if_missing := False\<rparr>)"
    using f(1) by (simp add: options_ok_def f(4))
  show "validate_producer_transport_options p A (producer_options \<lparr>se_opts = opts\<rparr>) = Inr ()"
    and "validate_consumer_transport_options p A (consumer_options \<lparr>se_opts = opts\<rparr>) = Inr ()"
    and "validate_observer_transport_options p A (observer_options \<lparr>se_opts = opts\<rparr>) = Inr ()"
    using f(1,4) nz ob
    by (simp_all add: producer_options_def consumer_options_def observer_options_def validate_producer_iff
        validate_consumer_iff validate_observer_iff)
next
  assume "options_of_block p A pth ns context header = Inr opts"
  then have "options_ok p A opts \<and> backend opts = shared_memory \<and> \<not> create_if_missing opts"
    by (auto simp: options_of_block_def checked_Inr validate_transport_options_iff default_options_def Let_def
        split: prod.split_asm if_split_asm)
  then show "validate_producer_transport_options p A opts = Inr ()" "validate_consumer_transport_options p A opts = Inr ()"
    "validate_observer_transport_options p A opts = Inr ()" "\<not> create_if_missing opts"
    by (simp_all add: validate_producer_iff validate_consumer_iff validate_observer_iff)
qed

definition ref_built :: transport_options where
  "ref_built = default_options\<lparr>path := ''/x'', shm_size := 448, item_size := 8, schema_id := 7, chan_type := fixed\<rparr>"

lemma ref_abi_size [simp]: "unat (sizeof_control_block ref_abi) = 384"
  by (simp add: ref_abi_def)

lemma ref_built [simp]: "built Linux ref_abi 64 ref_built"
proof -
  have "fixed_builder_options Linux ref_abi (fixed_with_schema_id 7 (make_fixed_channel ''/x'' 8)) 64 = Inr ref_built"
    by code_simp
  then show ?thesis by (auto simp: built_def)
qed

theorem built_options_accepted_witness:
  "validate_producer_transport_options Linux ref_abi (producer_options \<lparr>se_opts = ref_built\<rparr>) = Inr () \<and>
   validate_observer_transport_options Linux ref_abi (observer_options \<lparr>se_opts = ref_built\<rparr>) = Inr ()"
  using built_options_accepted [of ref_abi Linux 64 ref_built] by simp

text \<open>
  C23. What a builder configures, an attacher finds. A segment formatted with built options gives back those options at any
  time of its life, whatever endpoints and ring operations have done to the block since: same path, size,
  geometry, schema, timestamp and flags, with the default alignment made explicit and creation switched off; and an endpoint that
  uses them is accepted and counted.
\<close>

theorem attachers_recover_options:
  assumes "init_spec A init" and "built p A cap opts" and "unat (sizeof_control_block A) + unat cap < 2 ^ 64"
    and "init_header A init pid h0 (shm_data_capacity_for_size A (shm_size opts)) (layout_type_of opts) (data_align_of opts)
           (fixed_item_size_of opts) (schema_id opts) (creator_timestamp_ns opts) (creator_flags opts) = (True, h)"
    and "block_life A init h (h', n)"
  defines "opts' \<equiv> opts\<lparr>data_align := data_align_of opts, create_if_missing := False\<rparr>"
  shows "options_of_block p A (path opts) (win32_object_namespace opts) context (Some (\<lambda>_. h')) = Inr opts' \<and>
    format A init pid' True h' (shm_data_capacity_for_size A (shm_size opts')) False (layout_type_of opts')
      (data_align_of opts') (fixed_item_size_of opts') (schema_id opts') (creator_timestamp_ns opts') (creator_flags opts')
      ref_count = (True, h'\<lparr>attach_count := attach_count h' + 1\<rparr>)"
proof -
  note b = built_fields [OF assms(2)]
  have cap: "shm_data_capacity_for_size A (shm_size opts) = cap"
    using shm_size_inverse [OF assms(3)] by (simp add: b(2))
  have static: "static_part h' = static_part h" using block_life_static [OF assms(5)] by simp
  note h = assms(4) [unfolded cap]
  have "validate A (Some (\<lambda>_. h')) cap (layout_type_of opts) (data_align_of opts) (fixed_item_size_of opts) (schema_id opts)"
    using created_validates [OF assms(1) h static b(1)] by simp
  moreover have "layout_type_of opts' = layout_type_of opts" "data_align_of opts' = data_align_of opts"
    "fixed_item_size_of opts' = fixed_item_size_of opts"
    by (simp_all add: opts'_def layout_type_of_def data_align_of_def fixed_item_size_of_def)
  ultimately show ?thesis
    using options_of_created_block [OF assms(1,2) h static] by (simp add: opts'_def format_attacher cap)
qed

theorem attachers_recover_options_witness:
  "options_of_block Linux ref_abi ''/x'' ''Local'' [] (Some (\<lambda>_. ref_block\<lparr>attach_count := 2\<rparr>)) =
     Inr (ref_built\<lparr>data_align := 8, create_if_missing := False\<rparr>)"
proof -
  have init: "init_header ref_abi ref_init 42 zero_block (shm_data_capacity_for_size ref_abi (shm_size ref_built))
      (layout_type_of ref_built) (data_align_of ref_built) (fixed_item_size_of ref_built) (schema_id ref_built)
      (creator_timestamp_ns ref_built) (creator_flags ref_built) = (True, ref_block)"
    using init_header_ref_block
    by (simp add: ref_built_def default_options_def layout_type_of_def data_align_of_def fixed_item_size_of_def
        shm_data_capacity_for_size_def min_shm_size_def ref_abi_def)
  have "block_step ref_abi ref_init (ref_block, 1) (ref_block\<lparr>attach_count := 2\<rparr>, Suc 1)"
    by (rule block_step.attach [where pid = 43 and cap = 64 and lt = 0 and al = 8 and item = 8 and sid = 7 and ts = 0 and fl = 0])
       (simp add: format_attacher validate_fields)
  then have life: "block_life ref_abi ref_init ref_block (ref_block\<lparr>attach_count := 2\<rparr>, 2)"
    by (auto intro: block_life.intros simp: numeral_2_eq_2)
  from attachers_recover_options [OF ref_init_spec ref_built _ init life, of "[]"]
  show ?thesis by (simp add: ref_built_def default_options_def data_align_of_def)
qed

end
