(* ===== verification/Shm_Win32.thy ===== *)
theory Shm_Win32
  imports Shm_Posix
begin

text \<open>
  Shared memory on Windows: \<open>src/core/shm_win32.cpp\<close>.

  The system calls are the fields of the record \<open>win32\<close> over an abstract kernel state; what Windows documents of
  them is \<open>win32_spec\<close>, in terms of a view of the kernel: the section behind each open handle and each mapped address. The
  two global tables of the process, \<open>g_process_views\<close> and \<open>g_canonical_shm_handle\<close>, are the record \<open>win_process\<close>; every
  access to them happens under one mutex, so an operation is one step.
\<close>

section \<open>System calls\<close>

datatype map_access = FILE_MAP_READ | FILE_MAP_READ_WRITE

record 'k win32 =
  sys_open_mapping :: "map_access \<Rightarrow> string \<Rightarrow> 'k \<Rightarrow> (int + nat) \<times> 'k"
  sys_create_mapping :: "u32 \<Rightarrow> u32 \<Rightarrow> string \<Rightarrow> 'k \<Rightarrow> (int + nat \<times> bool) \<times> 'k"
  sys_duplicate_handle :: "nat \<Rightarrow> 'k \<Rightarrow> (int + nat) \<times> 'k"
  sys_map_view :: "nat \<Rightarrow> map_access \<Rightarrow> 'k \<Rightarrow> (int + nat) \<times> 'k"
  sys_virtual_query :: "nat \<Rightarrow> 'k \<Rightarrow> int + u64"
  sys_query_section :: "(nat \<Rightarrow> 'k \<Rightarrow> int option) option"
  sys_unmap_view :: "nat \<Rightarrow> 'k \<Rightarrow> 'k"
  sys_close_handle :: "nat \<Rightarrow> 'k \<Rightarrow> 'k"
  sys_win_load :: "'k \<Rightarrow> nat \<Rightarrow> segment"
  sys_win_store :: "nat \<Rightarrow> segment \<Rightarrow> 'k \<Rightarrow> 'k"

definition ERROR_INVALID_PARAMETER :: int where "ERROR_INVALID_PARAMETER = 87"
definition ERROR_INSUFFICIENT_BUFFER :: int where "ERROR_INSUFFICIENT_BUFFER = 122"

record win_view =
  whandles :: "nat \<Rightarrow> nat option"
  wmaps :: "nat \<Rightarrow> nat option"

text \<open>
  A call that returns a handle returns an unused one and opens it; a view is placed at an unused address;
  closing and unmapping remove one entry each; a failing call and a store change neither table.
\<close>

definition new_handle :: "win_view \<Rightarrow> nat \<Rightarrow> win_view \<Rightarrow> bool" where
  "new_handle v h v' \<longleftrightarrow> whandles v h = None \<and> (\<exists>ob. v' = v\<lparr>whandles := (whandles v)(h \<mapsto> ob)\<rparr>)"

definition win32_spec :: "'k win32 \<Rightarrow> ('k \<Rightarrow> win_view) \<Rightarrow> bool" where
  "win32_spec W view \<longleftrightarrow>
     (\<forall>acc nm k e k'. sys_open_mapping W acc nm k = (Inl e, k') \<longrightarrow> view k' = view k) \<and>
     (\<forall>acc nm k h k'. sys_open_mapping W acc nm k = (Inr h, k') \<longrightarrow> new_handle (view k) h (view k')) \<and>
     (\<forall>hi lo nm k e k'. sys_create_mapping W hi lo nm k = (Inl e, k') \<longrightarrow> view k' = view k) \<and>
     (\<forall>hi lo nm k h ex k'. sys_create_mapping W hi lo nm k = (Inr (h, ex), k') \<longrightarrow> new_handle (view k) h (view k')) \<and>
     (\<forall>src k e k'. sys_duplicate_handle W src k = (Inl e, k') \<longrightarrow> view k' = view k) \<and>
     (\<forall>src k h k'. sys_duplicate_handle W src k = (Inr h, k') \<longrightarrow> new_handle (view k) h (view k')) \<and>
     (\<forall>h acc k e k'. sys_map_view W h acc k = (Inl e, k') \<longrightarrow> view k' = view k) \<and>
     (\<forall>h acc k a k'. sys_map_view W h acc k = (Inr a, k') \<longrightarrow>
        wmaps (view k) a = None \<and> (\<exists>ob. view k' = (view k)\<lparr>wmaps := (wmaps (view k))(a \<mapsto> ob)\<rparr>)) \<and>
     (\<forall>a k. view (sys_unmap_view W a k) = (view k)\<lparr>wmaps := (wmaps (view k))(a := None)\<rparr>) \<and>
     (\<forall>h k. view (sys_close_handle W h k) = (view k)\<lparr>whandles := (whandles (view k))(h := None)\<rparr>) \<and>
     (\<forall>a s k. view (sys_win_store W a s k) = view k)"

section \<open>State\<close>

record process_view_entry =
  pv_addr :: nat
  pv_section_handle :: nat
  pv_refcount :: int

record 'k win_process =
  g_process_views :: "string \<Rightarrow> process_view_entry option"
  g_canonical_shm_handle :: "string \<Rightarrow> nat option"
  wkernel :: 'k

record win_shm =
  ws_addr :: "nat option"
  ws_size :: u64
  ws_last_os_error :: int
  ws_created_this_open :: bool
  ws_mapping :: "nat option"
  ws_view_key :: string
  ws_name :: string

definition new_win_shm :: win_shm where
  "new_win_shm = \<lparr>ws_addr = None, ws_size = 0, ws_last_os_error = 0, ws_created_this_open = False,
                  ws_mapping = None, ws_view_key = [], ws_name = []\<rparr>"

definition on_kernel :: "('k \<Rightarrow> 'k) \<Rightarrow> 'k win_process \<Rightarrow> 'k win_process" where
  "on_kernel f ps = ps\<lparr>wkernel := f (wkernel ps)\<rparr>"

section \<open>Names\<close>

fun sanitized_suffix :: "nat \<Rightarrow> string \<Rightarrow> string" where
  "sanitized_suffix n [] = []"
| "sanitized_suffix 0 (c # cs) = []"
| "sanitized_suffix (Suc n) (c # cs) = (if is_alnum c then c else CHR ''_'') # sanitized_suffix n cs"

definition mapping_name_from_path :: "string \<Rightarrow> string \<Rightarrow> string" where
  "mapping_name_from_path p ns =
     (if ns \<noteq> ''Local'' \<and> ns \<noteq> ''Global'' then []
      else ns @ [CHR 0x5C] @ ''xproc_'' @ hex16 (fnv1a64 p) @ ''_'' @ sanitized_suffix 160 p)"

definition access_number :: "map_access \<Rightarrow> nat" where
  "access_number acc = (case acc of FILE_MAP_READ \<Rightarrow> 4 | FILE_MAP_READ_WRITE \<Rightarrow> 6)"

definition view_registry_key :: "string \<Rightarrow> map_access \<Rightarrow> u64 \<Rightarrow> string" where
  "view_registry_key internal_name acc sz =
     internal_name @ ''|'' @ nat_to_string (access_number acc) @ ''|'' @ nat_to_string (unat sz)"

section \<open>Opening\<close>

definition map_and_verify_size :: "'k win32 \<Rightarrow> nat \<Rightarrow> map_access \<Rightarrow> u64 \<Rightarrow> 'k \<Rightarrow> (int + nat \<times> u64) \<times> 'k" where
  "map_and_verify_size W h acc expected_bytes k =
     (case sys_map_view W h acc k of
        (Inl e, k1) \<Rightarrow> (Inl e, k1)
      | (Inr a, k1) \<Rightarrow>
          (case sys_virtual_query W a k1 of
             Inl e \<Rightarrow> (Inl e, sys_unmap_view W a k1)
           | Inr region \<Rightarrow>
               if region < expected_bytes then (Inl ERROR_INSUFFICIENT_BUFFER, sys_unmap_view W a k1)
               else (Inr (a, region), k1)))"

definition query_section_size :: "'k win32 \<Rightarrow> nat \<Rightarrow> 'k \<Rightarrow> u64 option" where
  "query_section_size W h k =
     (case sys_query_section W of
        None \<Rightarrow> None
      | Some query \<Rightarrow>
          (case query h k of
             None \<Rightarrow> None
           | Some maximum_size \<Rightarrow> if maximum_size \<le> 0 then None else Some (word_of_int maximum_size)))"

text \<open>
  The first half of \<open>open\<close>: the handle, whether the section was created, and whether it becomes the canonical handle
  of its name.
\<close>

definition create_section :: "'k win32 \<Rightarrow> string \<Rightarrow> u64 \<Rightarrow> 'k \<Rightarrow> (int + nat \<times> bool) \<times> 'k" where
  "create_section W nm sz k =
     (case sys_create_mapping W (ucast (drop_bit 32 sz AND 0xffffffff)) (ucast (sz AND 0xffffffff)) nm k of
        (Inl e, k1) \<Rightarrow> (Inl e, k1)
      | (Inr (h, already_exists), k1) \<Rightarrow> (Inr (h, \<not> already_exists), k1))"

definition open_section ::
  "'k win32 \<Rightarrow> string \<Rightarrow> u64 \<Rightarrow> shm_open_mode \<Rightarrow> map_access \<Rightarrow> 'k win_process \<Rightarrow> (int + nat \<times> bool \<times> bool) \<times> 'k" where
  "open_section W nm sz mode acc ps =
     (let k = wkernel ps in
      if mode = mode_open \<or> mode = mode_read
      then
        (case g_canonical_shm_handle ps nm of
           Some dup_src \<Rightarrow>
             (case sys_duplicate_handle W dup_src k of
                (Inl e, k1) \<Rightarrow> (Inl e, k1) | (Inr h, k1) \<Rightarrow> (Inr (h, False, False), k1))
         | None \<Rightarrow>
             (case sys_open_mapping W acc nm k of
                (Inl e, k1) \<Rightarrow> (Inl e, k1) | (Inr h, k1) \<Rightarrow> (Inr (h, False, False), k1)))
      else if mode = mode_open_create
      then
        (case sys_open_mapping W acc nm k of
           (Inr h, k1) \<Rightarrow> (Inr (h, False, True), k1)
         | (Inl _, k1) \<Rightarrow>
             if sz = 0 then (Inl ERROR_INVALID_PARAMETER, k1)
             else (case create_section W nm sz k1 of
                     (Inl e, k2) \<Rightarrow> (Inl e, k2) | (Inr (h, created), k2) \<Rightarrow> (Inr (h, created, True), k2)))
      else
        if sz = 0 then (Inl ERROR_INVALID_PARAMETER, k)
        else (case create_section W nm sz k of
                (Inl e, k1) \<Rightarrow> (Inl e, k1) | (Inr (h, created), k1) \<Rightarrow> (Inr (h, created, True), k1)))"

definition register_canonical :: "bool \<Rightarrow> string \<Rightarrow> nat \<Rightarrow> 'k win_process \<Rightarrow> 'k win_process" where
  "register_canonical wanted nm h ps =
     (if wanted \<and> g_canonical_shm_handle ps nm = None
      then ps\<lparr>g_canonical_shm_handle := (g_canonical_shm_handle ps)(nm \<mapsto> h)\<rparr> else ps)"

text \<open>Taking part in a view that is already mapped.\<close>

definition reuse_view ::
  "bool \<Rightarrow> string \<Rightarrow> process_view_entry \<Rightarrow> win_shm \<Rightarrow> 'k win_process \<Rightarrow> bool \<times> win_shm \<times> 'k win_process" where
  "reuse_view wanted vkey e s ps =
     (True, s\<lparr>ws_addr := Some (pv_addr e), ws_mapping := None, ws_view_key := vkey\<rparr>,
      register_canonical wanted (ws_name s) (pv_section_handle e)
        (ps\<lparr>g_process_views := (g_process_views ps)(vkey \<mapsto> e\<lparr>pv_refcount := pv_refcount e + 1\<rparr>)\<rparr>))"

text \<open>Registering a freshly mapped view, unless one of that size is registered already.\<close>

definition register_view ::
  "'k win32 \<Rightarrow> bool \<Rightarrow> map_access \<Rightarrow> nat \<Rightarrow> nat \<Rightarrow> win_shm \<Rightarrow> 'k win_process \<Rightarrow> bool \<times> win_shm \<times> 'k win_process" where
  "register_view W wanted acc h a s ps =
     (let actual_vkey = view_registry_key (ws_name s) acc (ws_size s) in
      case g_process_views ps actual_vkey of
        Some e \<Rightarrow>
          reuse_view wanted actual_vkey e s (on_kernel (\<lambda>k. sys_close_handle W h (sys_unmap_view W a k)) ps)
      | None \<Rightarrow>
          (True, s\<lparr>ws_addr := Some a, ws_mapping := Some h, ws_view_key := actual_vkey\<rparr>,
           register_canonical wanted (ws_name s) h
             (ps\<lparr>g_process_views := (g_process_views ps)
                (actual_vkey \<mapsto> \<lparr>pv_addr = a, pv_section_handle = h, pv_refcount = 1\<rparr>)\<rparr>)))"

definition map_new_view ::
  "'k win32 \<Rightarrow> bool \<Rightarrow> map_access \<Rightarrow> nat \<Rightarrow> win_shm \<Rightarrow> 'k win_process \<Rightarrow> bool \<times> win_shm \<times> 'k win_process" where
  "map_new_view W wanted acc h s ps =
     (case map_and_verify_size W h acc (ws_size s) (wkernel ps) of
        (Inl e, k1) \<Rightarrow> (False, s\<lparr>ws_last_os_error := e\<rparr>, ps\<lparr>wkernel := sys_close_handle W h k1\<rparr>)
      | (Inr (a, mapped_bytes), k1) \<Rightarrow>
          let s1 = (if ws_size s = 0
                    then s\<lparr>ws_size := (case query_section_size W h k1 of Some n \<Rightarrow> n | None \<Rightarrow> mapped_bytes)\<rparr> else s)
          in register_view W wanted acc h a s1 (ps\<lparr>wkernel := k1\<rparr>))"

text \<open>The second half of \<open>open\<close>, with the handle of the section.\<close>

definition attach_section ::
  "'k win32 \<Rightarrow> bool \<Rightarrow> map_access \<Rightarrow> nat \<Rightarrow> win_shm \<Rightarrow> 'k win_process \<Rightarrow> bool \<times> win_shm \<times> 'k win_process" where
  "attach_section W wanted acc h s ps =
     (let requested_vkey = view_registry_key (ws_name s) acc (ws_size s) in
      case (if ws_size s \<noteq> 0 then g_process_views ps requested_vkey else None) of
        Some e \<Rightarrow> reuse_view wanted requested_vkey e s (on_kernel (sys_close_handle W h) ps)
      | None \<Rightarrow> map_new_view W wanted acc h s ps)"

definition win_open ::
  "'k win32 \<Rightarrow> string \<Rightarrow> u64 \<Rightarrow> shm_open_mode \<Rightarrow> string \<Rightarrow> win_shm \<Rightarrow> 'k win_process \<Rightarrow> bool \<times> win_shm \<times> 'k win_process" where
  "win_open W name sz mode ns s ps =
     (let s0 = s\<lparr>ws_last_os_error := 0, ws_created_this_open := False, ws_name := mapping_name_from_path name ns\<rparr> in
      if ws_name s0 = [] then (False, s0\<lparr>ws_last_os_error := ERROR_INVALID_PARAMETER\<rparr>, ps)
      else
        let s1 = s0\<lparr>ws_size := sz\<rparr>;
            acc = (if mode = mode_read then FILE_MAP_READ else FILE_MAP_READ_WRITE)
        in
        (case open_section W (ws_name s1) sz mode acc ps of
           (Inl e, k1) \<Rightarrow> (False, s1\<lparr>ws_last_os_error := e\<rparr>, ps\<lparr>wkernel := k1\<rparr>)
         | (Inr (h, created, wanted), k1) \<Rightarrow>
             attach_section W wanted acc h (s1\<lparr>ws_created_this_open := created\<rparr>) (ps\<lparr>wkernel := k1\<rparr>)))"

section \<open>Detaching and moving\<close>

definition forget_canonical :: "string \<Rightarrow> nat \<Rightarrow> 'k win_process \<Rightarrow> 'k win_process" where
  "forget_canonical nm h ps =
     (if g_canonical_shm_handle ps nm = Some h
      then ps\<lparr>g_canonical_shm_handle := (g_canonical_shm_handle ps)(nm := None)\<rparr> else ps)"

definition release_view :: "'k win32 \<Rightarrow> string \<Rightarrow> string \<Rightarrow> 'k win_process \<Rightarrow> 'k win_process" where
  "release_view W nm vkey ps =
     (case g_process_views ps vkey of
        None \<Rightarrow> ps
      | Some e \<Rightarrow>
          if pv_refcount e - 1 \<le> 0
          then on_kernel (\<lambda>k. sys_close_handle W (pv_section_handle e) (sys_unmap_view W (pv_addr e) k))
                 (forget_canonical nm (pv_section_handle e)
                    (ps\<lparr>g_process_views := (g_process_views ps)(vkey := None)\<rparr>))
          else ps\<lparr>g_process_views := (g_process_views ps)(vkey \<mapsto> e\<lparr>pv_refcount := pv_refcount e - 1\<rparr>)\<rparr>)"

definition win_detach :: "'k win32 \<Rightarrow> win_shm \<Rightarrow> 'k win_process \<Rightarrow> win_shm \<times> 'k win_process" where
  "win_detach W s ps =
     (if ws_view_key s \<noteq> []
      then (s\<lparr>ws_addr := None, ws_mapping := None, ws_view_key := [], ws_name := [], ws_size := 0,
              ws_created_this_open := False\<rparr>,
            release_view W (ws_name s) (ws_view_key s) ps)
      else
        let ps1 = (case ws_addr s of None \<Rightarrow> ps | Some a \<Rightarrow> on_kernel (sys_unmap_view W a) ps);
            ps2 = (case ws_mapping s of
                     None \<Rightarrow> ps1
                   | Some h \<Rightarrow> on_kernel (sys_close_handle W h) (forget_canonical (ws_name s) h ps1))
        in (s\<lparr>ws_addr := None, ws_mapping := None, ws_name := [], ws_size := 0, ws_created_this_open := False\<rparr>, ps2))"

text \<open>Move assignment of two different objects: the target, the source left behind and the process.\<close>

definition win_move_assign ::
  "'k win32 \<Rightarrow> win_shm \<Rightarrow> win_shm \<Rightarrow> 'k win_process \<Rightarrow> win_shm \<times> win_shm \<times> 'k win_process" where
  "win_move_assign W self other ps =
     (let (self1, ps1) = win_detach W self ps
      in (self1\<lparr>ws_addr := ws_addr other, ws_size := ws_size other, ws_mapping := ws_mapping other,
                ws_last_os_error := ws_last_os_error other, ws_created_this_open := ws_created_this_open other,
                ws_name := ws_name other, ws_view_key := ws_view_key other\<rparr>,
          other\<lparr>ws_addr := None, ws_size := 0, ws_mapping := None, ws_last_os_error := 0,
                ws_created_this_open := False, ws_name := [], ws_view_key := []\<rparr>,
          ps1))"

definition win_unlink :: "string \<Rightarrow> 'k win_process \<Rightarrow> 'k win_process" where
  "win_unlink name ps = ps"

definition win32_backend :: "'k win32 \<Rightarrow> (win_shm, 'k win_process) shm_backend" where
  "win32_backend W =
     \<lparr>bk_fresh = new_win_shm, bk_open = win_open W, bk_detach = win_detach W, bk_addr = ws_addr,
      bk_created = ws_created_this_open, bk_os_error = ws_last_os_error,
      bk_load = (\<lambda>ps. sys_win_load W (wkernel ps)), bk_store = (\<lambda>a s. on_kernel (sys_win_store W a s))\<rparr>"

section \<open>Laws of the system calls\<close>

lemma win32_handles:
  assumes "win32_spec W view"
  shows "sys_open_mapping W acc nm k = (Inl e, k') \<Longrightarrow> view k' = view k"
    and "sys_open_mapping W acc nm k = (Inr h, k') \<Longrightarrow> new_handle (view k) h (view k')"
    and "sys_create_mapping W hi lo nm k = (Inl e, k') \<Longrightarrow> view k' = view k"
    and "sys_create_mapping W hi lo nm k = (Inr (h, ex), k') \<Longrightarrow> new_handle (view k) h (view k')"
    and "sys_duplicate_handle W src k = (Inl e, k') \<Longrightarrow> view k' = view k"
    and "sys_duplicate_handle W src k = (Inr h, k') \<Longrightarrow> new_handle (view k) h (view k')"
  using assms by (auto simp: win32_spec_def)

lemma win32_maps:
  assumes "win32_spec W view"
  shows "sys_map_view W h acc k = (Inl e, k') \<Longrightarrow> view k' = view k"
    and "sys_map_view W h acc k = (Inr a, k') \<Longrightarrow>
      wmaps (view k) a = None \<and> (\<exists>ob. view k' = (view k)\<lparr>wmaps := (wmaps (view k))(a \<mapsto> ob)\<rparr>)"
    and "view (sys_unmap_view W a k) = (view k)\<lparr>wmaps := (wmaps (view k))(a := None)\<rparr>"
    and "view (sys_close_handle W h k) = (view k)\<lparr>whandles := (whandles (view k))(h := None)\<rparr>"
    and "view (sys_win_store W a seg k) = view k"
  using assms by (auto simp: win32_spec_def)

lemma close_new_handle:
  "new_handle v h v' \<Longrightarrow> v'\<lparr>whandles := (whandles v')(h := None)\<rparr> = v"
  by (auto simp: new_handle_def fun_upd_idem)

lemma unmap_new_view:
  "wmaps v a = None \<Longrightarrow> (v\<lparr>wmaps := (wmaps v)(a \<mapsto> ob)\<rparr>)\<lparr>wmaps := (wmaps (v\<lparr>wmaps := (wmaps v)(a \<mapsto> ob)\<rparr>))(a := None)\<rparr> = v"
  by (simp add: fun_upd_idem)

lemma open_section_view:
  assumes "win32_spec W view"
  shows "open_section W nm sz mode acc ps = (Inl e, k') \<Longrightarrow> view k' = view (wkernel ps)"
    and "open_section W nm sz mode acc ps = (Inr (h, created, wanted), k') \<Longrightarrow> new_handle (view (wkernel ps)) h (view k')"
  unfolding open_section_def create_section_def Let_def
  by (auto split: if_split_asm prod.split_asm sum.split_asm option.split_asm dest!: win32_handles [OF assms])

lemma map_and_verify_view:
  assumes "win32_spec W view"
  shows "map_and_verify_size W h acc n k = (Inl e, k') \<Longrightarrow> view k' = view k"
    and "map_and_verify_size W h acc n k = (Inr (a, region), k') \<Longrightarrow>
      wmaps (view k) a = None \<and> (\<exists>ob. view k' = (view k)\<lparr>wmaps := (wmaps (view k))(a \<mapsto> ob)\<rparr>)"
  unfolding map_and_verify_size_def
  by (auto split: if_split_asm prod.split_asm sum.split_asm dest!: win32_maps(1,2) [OF assms]
      simp: win32_maps(3) [OF assms] fun_upd_idem)

section \<open>What an open does to the process\<close>

definition canonical_step :: "string \<Rightarrow> nat \<Rightarrow> 'k win_process \<Rightarrow> 'k win_process \<Rightarrow> bool" where
  "canonical_step nm h ps ps' \<longleftrightarrow>
     g_canonical_shm_handle ps' = g_canonical_shm_handle ps \<or>
     g_canonical_shm_handle ps' = (g_canonical_shm_handle ps)(nm \<mapsto> h)"

lemma register_canonical_fields:
  "g_process_views (register_canonical w nm h ps) = g_process_views ps"
  "wkernel (register_canonical w nm h ps) = wkernel ps"
  "canonical_step nm h ps (register_canonical w nm h ps)"
  by (auto simp: register_canonical_def canonical_step_def)

definition is_key :: "string \<Rightarrow> string \<Rightarrow> bool" where
  "is_key nm vkey \<longleftrightarrow> (\<exists>acc sz. vkey = view_registry_key nm acc sz)"

lemma is_key [simp]: "is_key nm (view_registry_key nm acc sz)"
  by (auto simp: is_key_def)

text \<open>The two ways to open: with a view of the process that exists, and with a new one.\<close>

definition reused ::
  "('k \<Rightarrow> win_view) \<Rightarrow> 'k win_process \<Rightarrow> win_shm \<Rightarrow> 'k win_process \<Rightarrow> process_view_entry \<Rightarrow> bool" where
  "reused view ps s ps' e \<longleftrightarrow>
     g_process_views ps (ws_view_key s) = Some e \<and> ws_addr s = Some (pv_addr e) \<and>
     g_process_views ps' = (g_process_views ps)(ws_view_key s \<mapsto> e\<lparr>pv_refcount := pv_refcount e + 1\<rparr>) \<and>
     view (wkernel ps') = view (wkernel ps) \<and> canonical_step (ws_name s) (pv_section_handle e) ps ps'"

definition adds_both :: "win_view \<Rightarrow> nat \<Rightarrow> nat \<Rightarrow> win_view \<Rightarrow> bool" where
  "adds_both v h a v' \<longleftrightarrow>
     (\<exists>ob ob'. v' = v\<lparr>whandles := (whandles v)(h \<mapsto> ob), wmaps := (wmaps v)(a \<mapsto> ob')\<rparr>)"

definition mapped ::
  "('k \<Rightarrow> win_view) \<Rightarrow> 'k win_process \<Rightarrow> win_shm \<Rightarrow> 'k win_process \<Rightarrow> process_view_entry \<Rightarrow> bool" where
  "mapped view ps s ps' e \<longleftrightarrow>
     g_process_views ps (ws_view_key s) = None \<and> ws_addr s = Some (pv_addr e) \<and> pv_refcount e = 1 \<and>
     g_process_views ps' = (g_process_views ps)(ws_view_key s \<mapsto> e) \<and>
     whandles (view (wkernel ps)) (pv_section_handle e) = None \<and> wmaps (view (wkernel ps)) (pv_addr e) = None \<and>
     adds_both (view (wkernel ps)) (pv_section_handle e) (pv_addr e) (view (wkernel ps')) \<and>
     canonical_step (ws_name s) (pv_section_handle e) ps ps'"

definition opened_as ::
  "('k \<Rightarrow> win_view) \<Rightarrow> 'k win_process \<Rightarrow> win_shm \<Rightarrow> 'k win_process \<Rightarrow> bool" where
  "opened_as view ps s ps' \<longleftrightarrow>
     is_key (ws_name s) (ws_view_key s) \<and>
     (\<exists>e. reused view ps s ps' e \<or> mapped view ps s ps' e)"

lemma register_view_result:
  assumes "win32_spec W view" and "new_handle (view (wkernel ps0)) h v1" and "wmaps v1 a = None"
    and "view (wkernel ps) = v1\<lparr>wmaps := (wmaps v1)(a \<mapsto> ob)\<rparr>"
    and "g_process_views ps = g_process_views ps0" and "g_canonical_shm_handle ps = g_canonical_shm_handle ps0"
    and "register_view W w acc h a s ps = (b, s', ps')"
  shows "b \<and> ws_name s' = ws_name s \<and> opened_as view ps0 s' ps'"
proof (cases "g_process_views ps (view_registry_key (ws_name s) acc (ws_size s))")
  case (Some e)
  have "view (sys_close_handle W h (sys_unmap_view W a (wkernel ps))) = view (wkernel ps0)"
    using close_new_handle [OF assms(2)] assms(3)
    by (simp add: win32_maps(3,4) [OF assms(1)] assms(4) fun_upd_idem)
  with Some assms(5,6,7) show ?thesis
    by (auto simp: register_view_def Let_def on_kernel_def reuse_view_def opened_as_def reused_def
        register_canonical_fields(1,2) canonical_step_def register_canonical_def)
next
  case None
  from assms(2) obtain ob1 where h: "whandles (view (wkernel ps0)) h = None"
    and v1: "v1 = (view (wkernel ps0))\<lparr>whandles := (whandles (view (wkernel ps0)))(h \<mapsto> ob1)\<rparr>"
    by (auto simp: new_handle_def)
  have "view (wkernel ps) = (view (wkernel ps0))\<lparr>whandles := (whandles (view (wkernel ps0)))(h \<mapsto> ob1),
       wmaps := (wmaps (view (wkernel ps0)))(a \<mapsto> ob)\<rparr>"
    by (simp add: assms(4) v1)
  then have "adds_both (view (wkernel ps0)) h a (view (wkernel ps))" unfolding adds_both_def by blast
  moreover have "wmaps (view (wkernel ps0)) a = None" using assms(3) v1 by simp
  ultimately have "mapped view ps0 s' ps' \<lparr>pv_addr = a, pv_section_handle = h, pv_refcount = 1\<rparr> \<and> b \<and> ws_name s' = ws_name s \<and>
      is_key (ws_name s') (ws_view_key s')"
    using h None assms(5,6,7)
    by (auto simp: register_view_def Let_def mapped_def register_canonical_fields(1,2) canonical_step_def
        register_canonical_def)
  then show ?thesis unfolding opened_as_def by blast
qed

lemma map_new_view_result:
  assumes "win32_spec W view" and "new_handle (view (wkernel ps0)) h (view (wkernel ps))"
    and "g_process_views ps = g_process_views ps0" and "g_canonical_shm_handle ps = g_canonical_shm_handle ps0"
    and "map_new_view W w acc h s ps = (b, s', ps')"
  shows "if b then ws_name s' = ws_name s \<and> opened_as view ps0 s' ps'
         else g_process_views ps' = g_process_views ps0 \<and> view (wkernel ps') = view (wkernel ps0) \<and>
              g_canonical_shm_handle ps' = g_canonical_shm_handle ps0 \<and> 
              ws_addr s' = ws_addr s \<and> ws_mapping s' = ws_mapping s \<and> ws_view_key s' = ws_view_key s"
proof -
  obtain r k1 where mv: "map_and_verify_size W h acc (ws_size s) (wkernel ps) = (r, k1)" by (metis surj_pair)
  show ?thesis
  proof (cases r)
    case (Inl e)
    with mv assms(5) have eq: "\<not> b" "s' = s\<lparr>ws_last_os_error := e\<rparr>" "ps' = ps\<lparr>wkernel := sys_close_handle W h k1\<rparr>"
      by (simp_all add: map_new_view_def)
    have "view k1 = view (wkernel ps)" using map_and_verify_view(1) [OF assms(1)] mv Inl by blast
    then have "view (sys_close_handle W h k1) = view (wkernel ps0)"
      by (simp only: win32_maps(4) [OF assms(1)] close_new_handle [OF assms(2)])
    with eq assms(3,4) show ?thesis by simp
  next
    case (Inr x)
    then obtain a region where r: "r = Inr (a, region)" by (cases x) auto
    from map_and_verify_view(2) [OF assms(1) mv [unfolded r]] obtain ob where
      a: "wmaps (view (wkernel ps)) a = None" and
      k1: "view k1 = (view (wkernel ps))\<lparr>wmaps := (wmaps (view (wkernel ps)))(a \<mapsto> ob)\<rparr>" by blast
    let ?s1 = "if ws_size s = 0
       then s\<lparr>ws_size := (case query_section_size W h k1 of Some n \<Rightarrow> n | None \<Rightarrow> region)\<rparr> else s"
    have "register_view W w acc h a ?s1 (ps\<lparr>wkernel := k1\<rparr>) = (b, s', ps')"
      using assms(5) mv r by (simp add: map_new_view_def Let_def)
    moreover have "ws_name ?s1 = ws_name s" by simp
    ultimately obtain s1 where s1: "ws_name s1 = ws_name s" "register_view W w acc h a s1 (ps\<lparr>wkernel := k1\<rparr>) = (b, s', ps')"
      by blast
    from register_view_result [OF assms(1,2) a _ _ _ s1(2)] k1 assms(3,4) s1(1) show ?thesis by simp
  qed
qed

lemma attach_section_result:
  assumes "win32_spec W view" and "new_handle (view (wkernel ps)) h (view k1)"
    and "attach_section W w acc h s (ps\<lparr>wkernel := k1\<rparr>) = (b, s', ps')"
  shows "if b then ws_name s' = ws_name s \<and> opened_as view ps s' ps'
         else g_process_views ps' = g_process_views ps \<and> view (wkernel ps') = view (wkernel ps) \<and>
              g_canonical_shm_handle ps' = g_canonical_shm_handle ps \<and> 
              ws_addr s' = ws_addr s \<and> ws_mapping s' = ws_mapping s \<and> ws_view_key s' = ws_view_key s"
proof (cases "if ws_size s \<noteq> 0 then g_process_views ps (view_registry_key (ws_name s) acc (ws_size s)) else None")
  case None
  with assms(3) have "map_new_view W w acc h s (ps\<lparr>wkernel := k1\<rparr>) = (b, s', ps')"
    by (simp add: attach_section_def split: if_split_asm)
  from map_new_view_result [OF assms(1) _ _ _ this, of ps] assms(2) show ?thesis by simp
next
  case (Some e)
  have "view (sys_close_handle W h k1) = view (wkernel ps)"
    using close_new_handle [OF assms(2)] by (simp add: win32_maps(4) [OF assms(1)])
  with assms(3) Some show ?thesis
    by (auto simp: attach_section_def Let_def on_kernel_def reuse_view_def opened_as_def reused_def
        register_canonical_fields(1,2) canonical_step_def register_canonical_def split: if_split_asm)
qed

lemma win_open_result:
  assumes "win32_spec W view" and "win_open W nm sz mode ns new_win_shm ps = (b, s, ps')"
  shows "if b then opened_as view ps s ps' \<and> ws_name s = mapping_name_from_path nm ns \<and> ws_name s \<noteq> []
         else g_process_views ps' = g_process_views ps \<and> view (wkernel ps') = view (wkernel ps) \<and>
              g_canonical_shm_handle ps' = g_canonical_shm_handle ps \<and>
              ws_addr s = None \<and> ws_mapping s = None \<and> ws_view_key s = []"
proof (cases "mapping_name_from_path nm ns = []")
  case True
  with assms(2) show ?thesis by (auto simp: win_open_def new_win_shm_def Let_def)
next
  case False
  let ?acc = "if mode = mode_read then FILE_MAP_READ else FILE_MAP_READ_WRITE"
  obtain r k1 where op: "open_section W (mapping_name_from_path nm ns) sz mode ?acc ps = (r, k1)" by (metis surj_pair)
  show ?thesis
  proof (cases r)
    case (Inl e)
    with False op assms(2) open_section_view(1) [OF assms(1) op [unfolded Inl]] show ?thesis
      by (auto simp: win_open_def new_win_shm_def Let_def)
  next
    case (Inr x)
    then obtain h created w where r: "r = Inr (h, created, w)" by (cases x) auto
    let ?s2 = "new_win_shm\<lparr>ws_name := mapping_name_from_path nm ns, ws_size := sz, ws_created_this_open := created\<rparr>"
    have "attach_section W w ?acc h ?s2 (ps\<lparr>wkernel := k1\<rparr>) = (b, s, ps')"
      using assms(2) False op r by (simp add: win_open_def new_win_shm_def Let_def)
    from attach_section_result [OF assms(1) open_section_view(2) [OF assms(1) op [unfolded r]] this] False
    show ?thesis by (cases b) (auto simp: new_win_shm_def)
  qed
qed

section \<open>The interfaces an endpoint relies on\<close>

lemma attach_section_fields:
  assumes "attach_section W w acc h s ps = (b, s', ps')"
  shows "ws_created_this_open s' = ws_created_this_open s \<and> (if b then ws_addr s' \<noteq> None else ws_addr s' = ws_addr s)"
  using assms
  by (auto simp: attach_section_def map_new_view_def register_view_def reuse_view_def Let_def
      split: if_split_asm option.split_asm prod.split_asm sum.split_asm)

lemma open_section_created:
  "open_section W nm sz mode acc ps = (Inr (h, created, w), k') \<Longrightarrow> created \<Longrightarrow>
     mode \<in> {mode_create, mode_open_create} \<and> sz \<noteq> 0"
  by (cases mode) (auto simp: open_section_def Let_def split: if_split_asm prod.split_asm sum.split_asm option.split_asm)

lemma win_open_structure:
  assumes "win_open W nm sz mode ns new_win_shm ps = (b, s, ps')"
  shows "b \<longleftrightarrow> ws_addr s \<noteq> None"
    and "b \<Longrightarrow> ws_created_this_open s \<Longrightarrow> mode \<in> {mode_create, mode_open_create} \<and> sz \<noteq> 0"
proof -
  have new: "ws_addr new_win_shm = None" by (simp add: new_win_shm_def)
  have "(b \<longleftrightarrow> ws_addr s \<noteq> None) \<and> (b \<longrightarrow> ws_created_this_open s \<longrightarrow> mode \<in> {mode_create, mode_open_create} \<and> sz \<noteq> 0)"
    using assms new
    by (auto simp: win_open_def Let_def split: if_split_asm prod.split_asm sum.split_asm
        dest!: attach_section_fields open_section_created)
  then show "b \<longleftrightarrow> ws_addr s \<noteq> None"
    and "b \<Longrightarrow> ws_created_this_open s \<Longrightarrow> mode \<in> {mode_create, mode_open_create} \<and> sz \<noteq> 0" by simp_all
qed

lemma win32_backend_fields [simp]:
  "bk_fresh (win32_backend W) = new_win_shm" "bk_open (win32_backend W) = win_open W"
  "bk_detach (win32_backend W) = win_detach W" "bk_addr (win32_backend W) = ws_addr"
  "bk_created (win32_backend W) = ws_created_this_open" "bk_os_error (win32_backend W) = ws_last_os_error"
  "bk_load (win32_backend W) = (\<lambda>ps. sys_win_load W (wkernel ps))"
  "bk_store (win32_backend W) = (\<lambda>a s. on_kernel (sys_win_store W a s))"
  by (simp_all add: win32_backend_def)

interpretation wx: shm_api "win32_backend W" for W
  by unfold_locales (auto dest: win_open_structure simp: win_detach_def Let_def)

text \<open>What the process holds: the registered views with their counts, the open handles and the mapped views.\<close>

definition win_held :: "('k \<Rightarrow> win_view) \<Rightarrow> 'k win_process \<Rightarrow> (string \<Rightarrow> process_view_entry option) \<times> win_view" where
  "win_held view ps = (g_process_views ps, view (wkernel ps))"

definition counts_positive :: "'k win_process \<Rightarrow> bool" where
  "counts_positive ps \<longleftrightarrow> (\<forall>vkey e. g_process_views ps vkey = Some e \<longrightarrow> 0 < pv_refcount e)"

lemma detach_holding_nothing:
  "ws_addr s = None \<Longrightarrow> ws_mapping s = None \<Longrightarrow> ws_view_key s = [] \<Longrightarrow> snd (win_detach W s ps) = ps"
  by (simp add: win_detach_def)

lemma view_registry_key_ne [simp]: "view_registry_key nm acc sz \<noteq> []"
  by (simp add: view_registry_key_def)

lemma is_key_ne: "is_key nm vkey \<Longrightarrow> vkey \<noteq> []"
  by (auto simp: is_key_def)

lemma forget_canonical_fields [simp]:
  "g_process_views (forget_canonical nm h ps) = g_process_views ps" "wkernel (forget_canonical nm h ps) = wkernel ps"
  by (simp_all add: forget_canonical_def)

lemma adds_both_removed:
  assumes "adds_both v h a v'" and "whandles v h = None" and "wmaps v a = None"
  shows "v'\<lparr>wmaps := (wmaps v')(a := None), whandles := (whandles v')(h := None)\<rparr> = v"
  using assms by (auto simp: adds_both_def fun_upd_idem)

lemma release_view_held:
  assumes "win32_spec W view" and "opened_as view ps s ps'" and "counts_positive ps"
    and "win_held view ps'' = win_held view ps'"
  shows "win_held view (release_view W nm (ws_view_key s) ps'') = win_held view ps"
proof -
  from assms(4) have views: "g_process_views ps'' = g_process_views ps'" and k: "view (wkernel ps'') = view (wkernel ps')"
    by (simp_all add: win_held_def)
  from assms(2) consider (reused) e where "reused view ps s ps' e" | (mapped) e where "mapped view ps s ps' e"
    by (auto simp: opened_as_def)
  then show ?thesis
  proof cases
    case reused
    then have "0 < pv_refcount e" using assms(3) by (auto simp: reused_def counts_positive_def)
    with reused show ?thesis
      by (auto simp: reused_def release_view_def views k win_held_def fun_upd_idem)
  next
    case mapped
    then have "(g_process_views ps')(ws_view_key s := None) = g_process_views ps"
      by (auto simp: mapped_def fun_upd_idem)
    with mapped show ?thesis
      using adds_both_removed [of "view (wkernel ps)" "pv_section_handle e" "pv_addr e" "view (wkernel ps')"]
      by (simp add: mapped_def release_view_def views k win_held_def on_kernel_def win32_maps(3,4) [OF assms(1)])
  qed
qed

interpretation wr: shm_resources "win32_backend W" "win_held view" "\<lambda>ps. win32_spec W view \<and> counts_positive ps" for W view
proof (unfold_locales, goal_cases)
  case (1 k)
  then show ?case by (simp add: win_detach_def new_win_shm_def)
next
  case (2 k nm sz m ns s k')
  then have "g_process_views k' = g_process_views k \<and> view (wkernel k') = view (wkernel k) \<and>
      ws_addr s = None \<and> ws_mapping s = None \<and> ws_view_key s = []"
    using win_open_result [of W view nm sz m ns k False s k'] by simp
  then show ?case by (simp add: detach_holding_nothing win_held_def)
next
  case (3 k nm sz m ns s k' k'' a seg)
  then show ?case by (simp add: win_held_def on_kernel_def win32_maps(5))
next
  case (4 k nm sz m ns s k' k'')
  then have o: "opened_as view k s k'" using win_open_result [of W view nm sz m ns k True s k'] by simp
  then have "ws_view_key s \<noteq> []" by (auto simp: opened_as_def dest: is_key_ne)
  then show ?case using release_view_held [OF _ o] 4 by (simp add: win_detach_def)
qed

section \<open>The life of the registry\<close>

text \<open>
  The process with its live \<open>shm\<close> objects: an object is opened once, fresh, and detached at the end of its life; one
  whose \<open>open\<close> failed is detached at once. Other threads and processes only change what is behind the handles.
\<close>

inductive win_run :: "'k win32 \<Rightarrow> ('k \<Rightarrow> win_view) \<Rightarrow> win_view \<Rightarrow> win_shm list \<times> 'k win_process \<Rightarrow> bool"
  for W :: "'k win32" and view :: "'k \<Rightarrow> win_view" and v0 :: win_view where
  start: "g_process_views ps = Map.empty \<Longrightarrow> g_canonical_shm_handle ps = Map.empty \<Longrightarrow> view (wkernel ps) = v0 \<Longrightarrow>
     win_run W view v0 ([], ps)"
| open_ok: "win_run W view v0 (objs, ps) \<Longrightarrow> win_open W nm sz mode ns new_win_shm ps = (True, s, ps') \<Longrightarrow>
     win_run W view v0 (s # objs, ps')"
| open_failed: "win_run W view v0 (objs, ps) \<Longrightarrow> win_open W nm sz mode ns new_win_shm ps = (False, s, ps') \<Longrightarrow>
     win_run W view v0 (objs, snd (win_detach W s ps'))"
| detached: "win_run W view v0 (objs1 @ s # objs2, ps) \<Longrightarrow> win_run W view v0 (objs1 @ objs2, snd (win_detach W s ps))"
| elsewhere: "win_run W view v0 (objs, ps) \<Longrightarrow> view k' = view (wkernel ps) \<Longrightarrow> win_run W view v0 (objs, ps\<lparr>wkernel := k'\<rparr>)"

definition uses :: "win_shm list \<Rightarrow> string \<Rightarrow> nat" where
  "uses objs vkey = length (filter (\<lambda>s. ws_view_key s = vkey) objs)"

lemma uses_simps [simp]:
  "uses [] vkey = 0" "uses (s # objs) vkey = (if ws_view_key s = vkey then 1 else 0) + uses objs vkey"
  "uses (objs @ objs') vkey = uses objs vkey + uses objs' vkey"
  by (simp_all add: uses_def)

definition count_of :: "'k win_process \<Rightarrow> string \<Rightarrow> int" where
  "count_of ps vkey = (case g_process_views ps vkey of None \<Rightarrow> 0 | Some e \<Rightarrow> pv_refcount e)"

text \<open>
  The invariant: counts are exact; live objects point at the registered view of their key; canonical handles belong to
  registered views of their name; and the handles and views of the process are those it had at the start and the registered ones.
\<close>

definition plain_name :: "string \<Rightarrow> bool" where
  "plain_name nm \<longleftrightarrow> CHR ''|'' \<notin> set nm"

definition handle_of :: "'k win_process \<Rightarrow> string \<Rightarrow> nat option" where
  "handle_of ps vkey = map_option pv_section_handle (g_process_views ps vkey)"

definition addr_of :: "'k win_process \<Rightarrow> string \<Rightarrow> nat option" where
  "addr_of ps vkey = map_option pv_addr (g_process_views ps vkey)"

definition object_ok :: "'k win_process \<Rightarrow> win_shm \<Rightarrow> bool" where
  "object_ok ps s \<longleftrightarrow> plain_name (ws_name s) \<and> is_key (ws_name s) (ws_view_key s) \<and>
     (\<exists>a. ws_addr s = Some a \<and> addr_of ps (ws_view_key s) = Some a)"

definition canonical_ok :: "'k win_process \<Rightarrow> bool" where
  "canonical_ok ps \<longleftrightarrow> (\<forall>nm h. g_canonical_shm_handle ps nm = Some h \<longrightarrow>
     plain_name nm \<and> (\<exists>vkey. is_key nm vkey \<and> handle_of ps vkey = Some h))"

definition table_ok :: "(nat \<Rightarrow> nat option) \<Rightarrow> (nat \<Rightarrow> nat option) \<Rightarrow> (string \<Rightarrow> nat option) \<Rightarrow> bool" where
  "table_ok t0 t m \<longleftrightarrow> (\<forall>x. x \<notin> ran m \<longrightarrow> t x = t0 x) \<and> (\<forall>x \<in> ran m. t0 x = None \<and> t x \<noteq> None) \<and> inj_on m (dom m)"

definition registry_ok :: "win_view \<Rightarrow> ('k \<Rightarrow> win_view) \<Rightarrow> win_shm list \<Rightarrow> 'k win_process \<Rightarrow> bool" where
  "registry_ok v0 view objs ps \<longleftrightarrow>
     counts_positive ps \<and> (\<forall>vkey. count_of ps vkey = int (uses objs vkey)) \<and>
     (\<forall>s \<in> set objs. object_ok ps s) \<and> canonical_ok ps \<and>
     table_ok (whandles v0) (whandles (view (wkernel ps))) (handle_of ps) \<and>
     table_ok (wmaps v0) (wmaps (view (wkernel ps))) (addr_of ps)"

lemma table_ok_add:
  assumes "table_ok t0 t m" and "t x = None" and "m k = None"
  shows "table_ok t0 (t(x \<mapsto> ob)) (m(k \<mapsto> x))"
proof -
  have new: "x \<notin> ran m" using assms(1,2) by (auto simp: table_ok_def)
  moreover have "inj_on (m(k \<mapsto> x)) (dom (m(k \<mapsto> x)))"
    using assms(1,3) new by (auto simp: table_ok_def inj_on_def ran_def dom_def)
  ultimately show ?thesis using assms by (auto simp: table_ok_def)
qed

lemma ran_remove: "inj_on m (dom m) \<Longrightarrow> m k = Some x \<Longrightarrow> ran (m(k := None)) = ran m - {x}"
  by (auto simp: ran_def inj_on_def dom_def) (metis option.inject)

lemma table_ok_remove:
  assumes "table_ok t0 t m" and "m k = Some x"
  shows "table_ok t0 (t(x := None)) (m(k := None))"
proof -
  have inj: "inj_on m (dom m)" using assms(1) by (simp add: table_ok_def)
  then have "inj_on (m(k := None)) (dom (m(k := None)))" by (auto simp: inj_on_def dom_def)
  moreover have "x \<in> ran m" using assms(2) by (rule ranI)
  ultimately show ?thesis using assms(1) ran_remove [OF inj assms(2)] by (auto simp: table_ok_def)
qed

lemma table_ok_empty: "table_ok t0 t Map.empty \<longleftrightarrow> t = t0"
  by (auto simp: table_ok_def)

lemma key_name: "plain_name nm \<Longrightarrow> plain_name nm' \<Longrightarrow> is_key nm vkey \<Longrightarrow> is_key nm' vkey \<Longrightarrow> nm = nm'"
proof -
  have "takeWhile (\<lambda>c. c \<noteq> CHR ''|'') (view_registry_key n acc sz) = n" if "plain_name n" for n acc sz
    using that by (auto simp: view_registry_key_def plain_name_def takeWhile_append2 takeWhile_append)
  then show "plain_name nm \<Longrightarrow> plain_name nm' \<Longrightarrow> is_key nm vkey \<Longrightarrow> is_key nm' vkey \<Longrightarrow> nm = nm'"
    unfolding is_key_def by metis
qed

lemma hex_digit_plain: "hex_digit (n mod 16) \<noteq> CHR ''|''"
proof -
  have "n mod 16 < 16" by simp
  then have "of_char (hex_digit (n mod 16)) \<noteq> (of_char (CHR ''|'') :: nat)" by (auto simp: hex_digit_def)
  then show ?thesis by metis
qed

lemma sanitized_plain: "CHR ''|'' \<notin> set (sanitized_suffix n cs)"
  by (induction n cs rule: sanitized_suffix.induct) (auto simp: is_alnum_def)

lemma plain_mapping_name: "plain_name (mapping_name_from_path p ns)"
  using sanitized_plain by (auto simp: plain_name_def mapping_name_from_path_def hex16_def hex_digit_plain [THEN not_sym])

lemma reused_tables:
  assumes "reused view ps s ps' e"
  shows "handle_of ps' = handle_of ps" "addr_of ps' = addr_of ps"
    "count_of ps' = (count_of ps)(ws_view_key s := count_of ps (ws_view_key s) + 1)"
  using assms by (auto simp: reused_def handle_of_def addr_of_def count_of_def fun_eq_iff)

lemma mapped_tables:
  assumes "mapped view ps s ps' e"
  shows "handle_of ps' = (handle_of ps)(ws_view_key s \<mapsto> pv_section_handle e)"
    "addr_of ps' = (addr_of ps)(ws_view_key s \<mapsto> pv_addr e)"
    "count_of ps' = (count_of ps)(ws_view_key s := count_of ps (ws_view_key s) + 1)"
  using assms by (auto simp: mapped_def handle_of_def addr_of_def count_of_def fun_eq_iff)

lemma canonical_ok_step:
  assumes "canonical_ok ps" and "canonical_step nm h ps ps'" and "plain_name nm"
    and "is_key nm vkey" and "handle_of ps' vkey = Some h"
    and "\<forall>k x. handle_of ps k = Some x \<longrightarrow> handle_of ps' k = Some x"
  shows "canonical_ok ps'"
  unfolding canonical_ok_def
proof (intro allI impI)
  fix n x assume "g_canonical_shm_handle ps' n = Some x"
  then have "n = nm \<and> x = h \<or> g_canonical_shm_handle ps n = Some x"
    using assms(2) unfolding canonical_step_def by (metis fun_upd_apply option.inject)
  then show "plain_name n \<and> (\<exists>vkey. is_key n vkey \<and> handle_of ps' vkey = Some x)"
    using assms(1,3,4,5,6) unfolding canonical_ok_def by metis
qed

lemma opened_registry:
  assumes "registry_ok v0 view objs ps" and "opened_as view ps s ps'" and "plain_name (ws_name s)"
  shows "registry_ok v0 view (s # objs) ps'"
proof -
  have key: "is_key (ws_name s) (ws_view_key s)" using assms(2) by (simp add: opened_as_def)
  have old: "counts_positive ps" "\<forall>vkey. count_of ps vkey = int (uses objs vkey)" "\<forall>s \<in> set objs. object_ok ps s"
    "canonical_ok ps" "table_ok (whandles v0) (whandles (view (wkernel ps))) (handle_of ps)"
    "table_ok (wmaps v0) (wmaps (view (wkernel ps))) (addr_of ps)"
    using assms(1) by (simp_all add: registry_ok_def)
  from assms(2) consider (reused) e where "reused view ps s ps' e" | (mapped) e where "mapped view ps s ps' e"
    by (auto simp: opened_as_def)
  then show ?thesis
  proof cases
    case reused
    note t = reused_tables [OF reused]
    have h: "handle_of ps' (ws_view_key s) = Some (pv_section_handle e)" and a: "addr_of ps (ws_view_key s) = Some (pv_addr e)"
      "ws_addr s = Some (pv_addr e)"
      using reused by (simp_all add: reused_def handle_of_def addr_of_def)
    have "0 < pv_refcount e" using old(1) reused unfolding counts_positive_def reused_def by blast
    then have "counts_positive ps'" using old(1) reused by (auto simp: counts_positive_def reused_def)
    moreover have "canonical_ok ps'"
      using reused by (intro canonical_ok_step [OF old(4) _ assms(3) key h]) (auto simp: reused_def t(1))
    moreover have "object_ok ps' s' = object_ok ps s'" for s' by (simp add: object_ok_def t(2))
    then have "\<forall>s' \<in> set objs. object_ok ps' s'" using old(3) by simp
    moreover have "object_ok ps' s" using assms(3) key a by (simp add: object_ok_def t(2))
    ultimately show ?thesis
      using old reused by (simp add: registry_ok_def t) (simp add: reused_def)
  next
    case mapped
    note t = mapped_tables [OF mapped]
    let ?h = "pv_section_handle e" and ?a = "pv_addr e" and ?k = "ws_view_key s"
    have none: "handle_of ps ?k = None" "addr_of ps ?k = None" and addr: "ws_addr s = Some ?a"
      using mapped by (simp_all add: mapped_def handle_of_def addr_of_def)
    from mapped obtain ob ob' where v: "whandles (view (wkernel ps')) = (whandles (view (wkernel ps)))(?h \<mapsto> ob)"
      "wmaps (view (wkernel ps')) = (wmaps (view (wkernel ps)))(?a \<mapsto> ob')"
      by (auto simp: mapped_def adds_both_def)
    have free: "whandles (view (wkernel ps)) ?h = None" "wmaps (view (wkernel ps)) ?a = None"
      using mapped by (simp_all add: mapped_def)
    have "counts_positive ps'" using old(1) mapped by (auto simp: counts_positive_def mapped_def)
    moreover have "canonical_ok ps'"
      using mapped none by (intro canonical_ok_step [OF old(4) _ assms(3) key]) (auto simp: mapped_def t(1))
    moreover have "object_ok ps' s'" if "object_ok ps s'" for s'
    proof -
      have "ws_view_key s' \<noteq> ?k" using that none(2) by (auto simp: object_ok_def)
      then show ?thesis using that by (auto simp: object_ok_def t(2))
    qed
    then have "\<forall>s' \<in> set objs. object_ok ps' s'" using old(3) by blast
    moreover have "object_ok ps' s" using assms(3) key addr by (simp add: object_ok_def t(2))
    ultimately show ?thesis
      using old table_ok_add [OF old(5) free(1) none(1)] table_ok_add [OF old(6) free(2) none(2)]
      by (simp add: registry_ok_def t v)
  qed
qed

lemma detached_registry:
  assumes "win32_spec W view" and "registry_ok v0 view (objs1 @ s # objs2) ps"
  shows "registry_ok v0 view (objs1 @ objs2) (snd (win_detach W s ps))"
proof -
  let ?k = "ws_view_key s"
  have old: "counts_positive ps" "\<forall>vkey. count_of ps vkey = int (uses (objs1 @ s # objs2) vkey)"
    "\<forall>s \<in> set (objs1 @ s # objs2). object_ok ps s"
    "canonical_ok ps" "table_ok (whandles v0) (whandles (view (wkernel ps))) (handle_of ps)"
    "table_ok (wmaps v0) (wmaps (view (wkernel ps))) (addr_of ps)"
    using assms(2) by (simp_all add: registry_ok_def)
  have "object_ok ps s" using old(3) by simp
  then have s: "plain_name (ws_name s)" "is_key (ws_name s) ?k" "addr_of ps ?k \<noteq> None"
    by (auto simp: object_ok_def)
  then obtain e where e: "g_process_views ps ?k = Some e" by (auto simp: addr_of_def)
  have d: "snd (win_detach W s ps) = release_view W (ws_name s) ?k ps"
    using is_key_ne [OF s(2)] by (simp add: win_detach_def)
  have count: "pv_refcount e = 1 + int (uses (objs1 @ objs2) ?k)" using old(2) e by (auto simp: count_of_def dest: spec [of _ ?k])
  show ?thesis
  proof (cases "uses (objs1 @ objs2) ?k = 0")
    case False
    let ?ps = "ps\<lparr>g_process_views := (g_process_views ps)(?k \<mapsto> e\<lparr>pv_refcount := pv_refcount e - 1\<rparr>)\<rparr>"
    have "\<not> pv_refcount e - 1 \<le> 0" using False count by linarith
    then have "release_view W (ws_name s) ?k ps = ?ps" using e by (simp add: release_view_def)
    moreover have h: "handle_of ?ps = handle_of ps" and a: "addr_of ?ps = addr_of ps"
      using e by (auto simp: handle_of_def addr_of_def fun_eq_iff)
    moreover have "counts_positive ?ps" using old(1) False count by (auto simp: counts_positive_def)
    moreover have "count_of ?ps vkey = int (uses (objs1 @ objs2) vkey)" for vkey
      using old(2) count by (auto simp: count_of_def dest: spec [of _ vkey])
    moreover have "object_ok ?ps s' = object_ok ps s'" for s' by (simp add: object_ok_def a)
    moreover have "canonical_ok ?ps" using old(4) by (simp add: canonical_ok_def h)
    ultimately show ?thesis using old(3,5,6) by (simp add: d registry_ok_def)
  next
    case True
    let ?ps = "release_view W (ws_name s) ?k ps"
    have views: "g_process_views ?ps = (g_process_views ps)(?k := None)"
      and v: "whandles (view (wkernel ?ps)) = (whandles (view (wkernel ps)))(pv_section_handle e := None)"
        "wmaps (view (wkernel ?ps)) = (wmaps (view (wkernel ps)))(pv_addr e := None)"
      and canon: "g_canonical_shm_handle ?ps = (if g_canonical_shm_handle ps (ws_name s) = Some (pv_section_handle e)
        then (g_canonical_shm_handle ps)(ws_name s := None) else g_canonical_shm_handle ps)"
      using True count e
      by (simp_all add: release_view_def on_kernel_def win32_maps(3,4) [OF assms(1)] forget_canonical_def)
    have t: "handle_of ?ps = (handle_of ps)(?k := None)" "addr_of ?ps = (addr_of ps)(?k := None)"
      by (auto simp: handle_of_def addr_of_def views)
    have "counts_positive ?ps" using old(1) by (auto simp: counts_positive_def views)
    moreover have "count_of ?ps vkey = int (uses (objs1 @ objs2) vkey)" for vkey
      using old(2) True by (auto simp: count_of_def views dest: spec [of _ vkey])
    moreover have "object_ok ?ps s'" if "s' \<in> set (objs1 @ objs2)" for s'
    proof -
      have "ws_view_key s' \<noteq> ?k" using that True by (auto simp: uses_def filter_empty_conv)
      then show ?thesis using old(3) that by (auto simp: object_ok_def t)
    qed
    moreover have "canonical_ok ?ps"
      unfolding canonical_ok_def
    proof (intro allI impI)
      fix nm h assume "g_canonical_shm_handle ?ps nm = Some h"
      then have c: "g_canonical_shm_handle ps nm = Some h" "nm = ws_name s \<Longrightarrow> h \<noteq> pv_section_handle e"
        unfolding canon by (auto split: if_split_asm)
      with old(4) obtain vkey where k: "plain_name nm" "is_key nm vkey" "handle_of ps vkey = Some h"
        by (auto simp: canonical_ok_def)
      have "vkey \<noteq> ?k"
      proof
        assume "vkey = ?k"
        with k s have "nm = ws_name s" by (intro key_name) simp_all
        with c(2) k(3) \<open>vkey = ?k\<close> e show False by (simp add: handle_of_def)
      qed
      with k show "plain_name nm \<and> (\<exists>vkey. is_key nm vkey \<and> handle_of ?ps vkey = Some h)" by (auto simp: t)
    qed
    moreover have "handle_of ps ?k = Some (pv_section_handle e)" "addr_of ps ?k = Some (pv_addr e)"
      using e by (simp_all add: handle_of_def addr_of_def)
    ultimately show ?thesis
      using table_ok_remove [OF old(5)] table_ok_remove [OF old(6)] by (simp add: d registry_ok_def t v)
  qed
qed

lemma registry_ok_cong:
  assumes "g_process_views ps' = g_process_views ps" and "g_canonical_shm_handle ps' = g_canonical_shm_handle ps"
    and "view (wkernel ps') = view (wkernel ps)"
  shows "registry_ok v0 view objs ps' = registry_ok v0 view objs ps"
proof -
  have "handle_of ps' = handle_of ps" "addr_of ps' = addr_of ps" "count_of ps' = count_of ps"
    using assms(1) by (simp_all add: fun_eq_iff handle_of_def addr_of_def count_of_def)
  with assms show ?thesis by (simp add: registry_ok_def counts_positive_def object_ok_def canonical_ok_def)
qed

lemma run_registry_ok:
  assumes "win32_spec W view" and "win_run W view v0 x"
  shows "registry_ok v0 view (fst x) (snd x)"
  using assms(2)
proof (induction rule: win_run.induct)
  case (start ps)
  then have "handle_of ps = Map.empty" "addr_of ps = Map.empty" by (simp_all add: handle_of_def addr_of_def fun_eq_iff)
  with start show ?case
    by (simp add: registry_ok_def counts_positive_def count_of_def canonical_ok_def table_ok_def)
next
  case (open_ok objs ps nm sz mode ns s ps')
  from win_open_result [OF assms(1) open_ok(2)] have "opened_as view ps s ps'" "plain_name (ws_name s)"
    by (simp_all add: plain_mapping_name)
  with open_ok(3) show ?case by (simp add: opened_registry)
next
  case (open_failed objs ps nm sz mode ns s ps')
  from win_open_result [OF assms(1) open_failed(2)] open_failed(3) show ?case
    by (simp add: detach_holding_nothing registry_ok_cong [of ps' ps])
next
  case (detached objs1 s objs2 ps)
  then show ?case using detached_registry [OF assms(1)] by simp
next
  case (elsewhere objs ps k')
  then show ?case by (simp add: registry_ok_cong [of "ps\<lparr>wkernel := k'\<rparr>" ps])
qed

section \<open>A concrete kernel\<close>

text \<open>Sections numbered by their position, with one counter for handles and addresses.\<close>

record ref_win =
  rw_names :: "(string \<times> nat) list"
  rw_handles :: "(nat \<times> nat) list"
  rw_maps :: "(nat \<times> nat) list"
  rw_segs :: "segment list"
  rw_next :: nat

definition rw_view :: "ref_win \<Rightarrow> win_view" where
  "rw_view k = \<lparr>whandles = map_of (rw_handles k), wmaps = map_of (rw_maps k)\<rparr>"

definition rw_handle :: "nat \<Rightarrow> ref_win \<Rightarrow> (int + nat) \<times> ref_win" where
  "rw_handle ob k =
     (if map_of (rw_handles k) (rw_next k) = None
      then (Inr (rw_next k), k\<lparr>rw_next := Suc (rw_next k), rw_handles := (rw_next k, ob) # rw_handles k\<rparr>)
      else (Inl 8, k))"

definition ref_win32 :: "ref_win win32" where
  "ref_win32 =
     \<lparr>sys_open_mapping = (\<lambda>acc nm k. case map_of (rw_names k) nm of None \<Rightarrow> (Inl 2, k) | Some ob \<Rightarrow> rw_handle ob k),
      sys_create_mapping = (\<lambda>hi lo nm k.
        case map_of (rw_names k) nm of
          Some ob \<Rightarrow> (case rw_handle ob k of (Inl e, k1) \<Rightarrow> (Inl e, k1) | (Inr h, k1) \<Rightarrow> (Inr (h, True), k1))
        | None \<Rightarrow>
            (case rw_handle (length (rw_segs k)) k of
               (Inl e, k1) \<Rightarrow> (Inl e, k1)
             | (Inr h, k1) \<Rightarrow> (Inr (h, False), k1\<lparr>rw_names := (nm, length (rw_segs k)) # rw_names k,
                                     rw_segs := rw_segs k @ [zero_segment ref_abi (ucast lo)]\<rparr>))),
      sys_duplicate_handle = (\<lambda>src k. case map_of (rw_handles k) src of None \<Rightarrow> (Inl 6, k) | Some ob \<Rightarrow> rw_handle ob k),
      sys_map_view = (\<lambda>h acc k.
        case map_of (rw_handles k) h of
          None \<Rightarrow> (Inl 6, k)
        | Some ob \<Rightarrow>
            if map_of (rw_maps k) (rw_next k) = None
            then (Inr (rw_next k), k\<lparr>rw_next := Suc (rw_next k), rw_maps := (rw_next k, ob) # rw_maps k\<rparr>)
            else (Inl 8, k)),
      sys_virtual_query = (\<lambda>a k. Inr 4096),
      sys_query_section = Some (\<lambda>h k. Some 4096),
      sys_unmap_view = (\<lambda>a k. k\<lparr>rw_maps := AList.delete a (rw_maps k)\<rparr>),
      sys_close_handle = (\<lambda>h k. k\<lparr>rw_handles := AList.delete h (rw_handles k)\<rparr>),
      sys_win_load = (\<lambda>k a. case map_of (rw_maps k) a of None \<Rightarrow> zero_segment ref_abi 0 | Some ob \<Rightarrow> rw_segs k ! ob),
      sys_win_store = (\<lambda>a s k.
        case map_of (rw_maps k) a of None \<Rightarrow> k | Some ob \<Rightarrow> k\<lparr>rw_segs := (rw_segs k)[ob := s]\<rparr>)\<rparr>"

definition empty_process :: "ref_win win_process" where
  "empty_process = \<lparr>g_process_views = (\<lambda>_. None), g_canonical_shm_handle = (\<lambda>_. None),
     wkernel = \<lparr>rw_names = [], rw_handles = [], rw_maps = [], rw_segs = [], rw_next = 10\<rparr>\<rparr>"

lemma new_handle_ref: "rw_handle ob k = (Inr h, k') \<Longrightarrow> new_handle (rw_view k) h (rw_view k')"
  by (auto simp: rw_handle_def new_handle_def rw_view_def split: if_split_asm)

lemma rw_handle_failed: "rw_handle ob k = (Inl e, k') \<Longrightarrow> rw_view k' = rw_view k"
  by (auto simp: rw_handle_def split: if_split_asm)

lemma rw_view_names [simp]: "rw_view (k\<lparr>rw_names := ns\<rparr>) = rw_view k" "rw_view (k\<lparr>rw_segs := ss\<rparr>) = rw_view k"
  by (simp_all add: rw_view_def)

lemma ref_win32_spec: "win32_spec ref_win32 rw_view"
  unfolding win32_spec_def
proof (intro conjI allI impI, goal_cases)
  case (8 h acc k a k')
  then show ?case by (auto simp: ref_win32_def rw_view_def split: option.split_asm if_split_asm)
next
  case (9 h acc k a k')
  then show ?case by (auto simp: ref_win32_def rw_view_def split: option.split_asm if_split_asm)
next
  case (10 a k)
  then show ?case by (simp add: ref_win32_def rw_view_def delete_conv')
next
  case (11 h k)
  then show ?case by (simp add: ref_win32_def rw_view_def delete_conv')
next
  case (12 a s k)
  then show ?case by (simp add: ref_win32_def split: option.split)
qed (auto simp: ref_win32_def dest: new_handle_ref rw_handle_failed
       split: option.split_asm prod.split_asm sum.split_asm if_split_asm)

section \<open>Properties\<close>

text \<open>
  C27. On Windows the objects of a process share views by reference counting, and the counts are exact. Whatever objects a
  process has opened and detached in whatever order, failed opens included: a registered view is counted once per live object that uses it;
  objects with the same name, access and size are at the same address; a canonical handle, from which later opens are duplicated, is
  an open handle; and when no object is left, the process has the handles and mapped views it started with.
\<close>

theorem win32_registry_exact:
  assumes "win32_spec W view" and "win_run W view v0 (objs, ps)"
  shows "(\<forall>vkey. count_of ps vkey = int (uses objs vkey)) \<and>
    (\<forall>s \<in> set objs. \<forall>s' \<in> set objs. ws_view_key s = ws_view_key s' \<longrightarrow> ws_addr s \<noteq> None \<and> ws_addr s = ws_addr s') \<and>
    (\<forall>nm h. g_canonical_shm_handle ps nm = Some h \<longrightarrow> whandles (view (wkernel ps)) h \<noteq> None) \<and>
    (objs = [] \<longrightarrow> whandles (view (wkernel ps)) = whandles v0 \<and> wmaps (view (wkernel ps)) = wmaps v0)"
proof -
  from run_registry_ok [OF assms] have ok: "registry_ok v0 view objs ps" by simp
  then have count: "count_of ps vkey = int (uses objs vkey)" for vkey by (simp add: registry_ok_def)
  have "ws_addr s \<noteq> None \<and> ws_addr s = ws_addr s'"
    if "s \<in> set objs" "s' \<in> set objs" "ws_view_key s = ws_view_key s'" for s s'
  proof -
    have "object_ok ps s" "object_ok ps s'" using ok that by (simp_all add: registry_ok_def)
    then show ?thesis using that(3) by (auto simp: object_ok_def)
  qed
  moreover have "whandles (view (wkernel ps)) h \<noteq> None" if "g_canonical_shm_handle ps nm = Some h" for nm h
  proof -
    from ok have "canonical_ok ps" by (simp add: registry_ok_def)
    with that obtain vkey where "handle_of ps vkey = Some h" unfolding canonical_ok_def by blast
    then have "h \<in> ran (handle_of ps)" by (rule ranI)
    then show ?thesis using ok by (simp add: registry_ok_def table_ok_def)
  qed
  moreover have "whandles (view (wkernel ps)) = whandles v0 \<and> wmaps (view (wkernel ps)) = wmaps v0" if "objs = []"
  proof -
    have "g_process_views ps vkey = None" for vkey
    proof (rule ccontr)
      assume "g_process_views ps vkey \<noteq> None"
      moreover have "counts_positive ps" using ok by (simp add: registry_ok_def)
      ultimately have "0 < count_of ps vkey" by (auto simp: counts_positive_def count_of_def)
      with count [of vkey] that show False by simp
    qed
    then have "handle_of ps = Map.empty" "addr_of ps = Map.empty" by (simp_all add: handle_of_def addr_of_def fun_eq_iff)
    then show ?thesis using ok by (simp add: registry_ok_def table_ok_empty)
  qed
  ultimately show ?thesis using count by blast
qed

definition ref_win_first :: "bool \<times> win_shm \<times> ref_win win_process" where
  "ref_win_first = win_open ref_win32 ''/x'' 448 mode_open_create ''Local'' new_win_shm empty_process"

definition ref_win_second :: "bool \<times> win_shm \<times> ref_win win_process" where
  "ref_win_second = win_open ref_win32 ''/x'' 448 mode_open ''Local'' new_win_shm (snd (snd ref_win_first))"

definition ref_win_name :: string where
  "ref_win_name = mapping_name_from_path ''/x'' ''Local''"

definition ref_win_key :: string where
  "ref_win_key = view_registry_key ref_win_name FILE_MAP_READ_WRITE 448"

lemma ref_win_name_ne [simp]: "ref_win_name \<noteq> []"
  by (simp add: ref_win_name_def mapping_name_from_path_def)

lemmas win_open_defs = win_open_def open_section_def create_section_def attach_section_def map_new_view_def
  map_and_verify_size_def register_view_def reuse_view_def register_canonical_def on_kernel_def Let_def
  ref_win32_def rw_handle_def ref_win_name_def [symmetric] ref_win_key_def [symmetric]

lemma ref_win_first:
  "ref_win_first =
     (True,
      \<lparr>ws_addr = Some 11, ws_size = 448, ws_last_os_error = 0, ws_created_this_open = True, ws_mapping = Some 10,
       ws_view_key = ref_win_key, ws_name = ref_win_name\<rparr>,
      \<lparr>g_process_views = [ref_win_key \<mapsto> \<lparr>pv_addr = 11, pv_section_handle = 10, pv_refcount = 1\<rparr>],
       g_canonical_shm_handle = [ref_win_name \<mapsto> 10],
       wkernel = \<lparr>rw_names = [(ref_win_name, 0)], rw_handles = [(10, 0)], rw_maps = [(11, 0)],
                   rw_segs = [zero_segment ref_abi 448], rw_next = 12\<rparr>\<rparr>)"
  unfolding ref_win_first_def by (simp add: win_open_defs empty_process_def new_win_shm_def)

lemma ref_win_second:
  "ref_win_second =
     (True,
      \<lparr>ws_addr = Some 11, ws_size = 448, ws_last_os_error = 0, ws_created_this_open = False, ws_mapping = None,
       ws_view_key = ref_win_key, ws_name = ref_win_name\<rparr>,
      \<lparr>g_process_views = [ref_win_key \<mapsto> \<lparr>pv_addr = 11, pv_section_handle = 10, pv_refcount = 2\<rparr>],
       g_canonical_shm_handle = [ref_win_name \<mapsto> 10],
       wkernel = \<lparr>rw_names = [(ref_win_name, 0)], rw_handles = [(10, 0)], rw_maps = [(11, 0)],
                   rw_segs = [zero_segment ref_abi 448], rw_next = 13\<rparr>\<rparr>)"
  unfolding ref_win_second_def by (simp add: win_open_defs ref_win_first new_win_shm_def)

theorem win32_registry_exact_witness:
  "ws_addr (fst (snd ref_win_first)) \<noteq> None \<and> ws_addr (fst (snd ref_win_first)) = ws_addr (fst (snd ref_win_second)) \<and>
   count_of (snd (snd ref_win_second)) (ws_view_key (fst (snd ref_win_first))) = 2 \<and>
   rw_handles (wkernel (snd (snd ref_win_second))) = [(10, 0)]"
proof -
  let ?s1 = "fst (snd ref_win_first)" and ?s2 = "fst (snd ref_win_second)" and ?ps = "snd (snd ref_win_second)"
  have 1: "ref_win_first = (True, ?s1, snd (snd ref_win_first))" and 2: "ref_win_second = (True, ?s2, ?ps)"
    and keys: "ws_view_key ?s1 = ws_view_key ?s2" and h: "rw_handles (wkernel ?ps) = [(10, 0)]"
    by (simp_all add: ref_win_first ref_win_second)
  have "win_run ref_win32 rw_view (rw_view (wkernel empty_process)) ([], empty_process)"
    by (rule win_run.start) (simp_all add: empty_process_def)
  from win_run.open_ok [OF win_run.open_ok [OF this trans [OF ref_win_first_def [symmetric] 1]]
      trans [OF ref_win_second_def [symmetric] 2]]
  have "win_run ref_win32 rw_view (rw_view (wkernel empty_process)) ([?s2, ?s1], ?ps)" .
  note r = win32_registry_exact [OF ref_win32_spec this]
  have "count_of ?ps (ws_view_key ?s1) = int (uses [?s2, ?s1] (ws_view_key ?s1))" using r by blast
  moreover have "ws_addr ?s1 \<noteq> None \<and> ws_addr ?s1 = ws_addr ?s2"
    by (rule r [THEN conjunct2, THEN conjunct1, THEN bspec, THEN bspec, THEN mp, OF _ _ keys]) simp_all
  moreover have "int (uses [?s2, ?s1] (ws_view_key ?s1)) = 2" using keys by (simp add: uses_def)
  ultimately show ?thesis using h by (metis (no_types))
qed

text \<open>
  C28. On Windows, too, endpoints give back what they take: a constructor that throws, at any point, leaves the
  registered views, their counts, the handles and the mapped views as they were, and so does construction followed by
  destruction, provided the counts of the registry are positive, which they always are.
\<close>

theorem win32_endpoint_no_leak:
  assumes "win32_spec W view" and "win_run W view v0 (objs, ps)"
    and "establish_connection p A init pid (win32_backend W) r opts ps = (res, ps')"
  shows "case res of
           Inl e \<Rightarrow> win_held view ps' = win_held view ps
         | Inr ep \<Rightarrow> \<forall>ps''. win_held view ps'' = win_held view ps' \<longrightarrow>
             win_held view (destroy_endpoint (win32_backend W) ep ps'') = win_held view ps"
proof -
  have spec: "win32_spec W view \<and> counts_positive ps"
    using run_registry_ok [OF assms(1,2)] assms(1) by (simp add: registry_ok_def)
  show ?thesis
  proof (cases res)
    case (Inl e)
    show ?thesis unfolding Inl sum.case by (rule wr.establish_failure_releases [OF spec assms(3) [unfolded Inl]])
  next
    case (Inr ep)
    show ?thesis
      unfolding Inr sum.case by (intro allI impI) (rule wr.establish_destroy_releases [OF spec assms(3) [unfolded Inr]])
  qed
qed

theorem win32_endpoint_no_leak_witness:
  "case establish_connection Windows ref_abi ref_init 42 (win32_backend ref_win32) producer_role ref_options empty_process of
     (Inl e, ps) \<Rightarrow> False
   | (Inr ep, ps) \<Rightarrow> rw_handles (wkernel ps) = [(10, 0)] \<and>
       win_held rw_view (destroy_endpoint (win32_backend ref_win32) ep ps) = win_held rw_view empty_process"
proof -
  let ?run = "establish_connection Windows ref_abi ref_init 42 (win32_backend ref_win32) producer_role ref_options empty_process"
  have v: "validate_for_role Windows ref_abi producer_role ref_options = Inr ()" by code_simp
  have "path ref_options = ''/x''" "shm_size ref_options = 448" "create_if_missing ref_options"
    "win32_object_namespace ref_options = ''Local''"
    by (simp_all add: ref_options_def default_options_def)
  note opts = this
  have geometry: "shm_data_capacity_for_size ref_abi 448 = 64" "layout_type_of ref_options = 0" "data_align_of ref_options = 8"
    "fixed_item_size_of ref_options = 8" "schema_id ref_options = 7" "creator_timestamp_ns ref_options = 0"
    "creator_flags ref_options = 0"
    by code_simp+
  have block: "hdr (zero_segment ref_abi 448) = zero_block" by (simp add: zero_segment_def)
  have load: "sys_win_load ref_win32 (wkernel (snd (snd ref_win_first))) 11 = zero_segment ref_abi 448"
    by (simp add: ref_win_first ref_win32_def)
  obtain ep ps where run: "?run = (Inr ep, ps)" and "rw_handles (wkernel ps) = [(10, 0)]"
  proof -
    have "\<exists>ep ps. ?run = (Inr ep, ps) \<and> rw_handles (wkernel ps) = [(10, 0)]"
      using load unfolding establish_connection_def
      by (simp add: v opts geometry trans [OF ref_win_first_def [symmetric] ref_win_first] ref_win_first Let_def block
          init_header_ref_block)
         (simp add: on_kernel_def ref_win32_def)
    then show ?thesis using that by blast
  qed
  moreover have "win_run ref_win32 rw_view (rw_view (wkernel empty_process)) ([], empty_process)"
    by (rule win_run.start) (simp_all add: empty_process_def)
  note win32_endpoint_no_leak [OF ref_win32_spec this run, unfolded sum.case, rule_format, OF refl]
  ultimately show ?thesis unfolding run prod.case sum.case by (intro conjI)
qed

end
