(* ===== verification/Transport.thy ===== *)
theory Transport
  imports Socket
begin

text \<open>
  The common interface of the two transports: \<open>include/xproc/ipc/channel_interface.hpp\<close>, \<open>shm_channel.hpp\<close>,
  \<open>transport_factory.hpp\<close> and \<open>src/ipc/shm_interface.cpp\<close>.

  A virtual call is a case distinction over the two implementations. Both ends of a transport act on a medium: the mapped
  segment and the network. The overloads without metadata pass \<open>default_meta\<close>. \<open>wait_change\<close> stands for
  \<open>spscring::wait_for_seq_change\<close>: from the value to wait for and the segment it returns the segment at the time
  it returns, or \<open>None\<close> if it never does.
\<close>

section \<open>Data\<close>

datatype 's producer_transport = Shm_producer "'s endpoint" | Socket_producer socket_producer

datatype 's consumer_transport = Shm_consumer "'s endpoint" | Socket_consumer socket_consumer

record 'n medium =
  md_seg :: segment
  md_net :: 'n

section \<open>The factory\<close>

text \<open>The role classes \<open>producer\<close> and \<open>consumer\<close> are channels opened with their role.\<close>

definition make_producer ::
  "platform \<Rightarrow> abi \<Rightarrow> init_fn \<Rightarrow> int \<Rightarrow> ('s, 'k) shm_backend \<Rightarrow> transport_options \<Rightarrow> 'k \<Rightarrow> (exn + 's endpoint) \<times> 'k" where
  "make_producer p A init pid B opts k = make_channel p A init pid B opts producer_role k"

definition make_consumer ::
  "platform \<Rightarrow> abi \<Rightarrow> init_fn \<Rightarrow> int \<Rightarrow> ('s, 'k) shm_backend \<Rightarrow> transport_options \<Rightarrow> 'k \<Rightarrow> (exn + 's endpoint) \<times> 'k" where
  "make_consumer p A init pid B opts k = make_channel p A init pid B opts consumer_role k"

definition create_producer_transport ::
  "platform \<Rightarrow> abi \<Rightarrow> init_fn \<Rightarrow> int \<Rightarrow> ('s, 'k) shm_backend \<Rightarrow> 'n sockets \<Rightarrow> transport_options \<Rightarrow> 'k \<Rightarrow> 'n
   \<Rightarrow> (exn + 's producer_transport) \<times> 'k \<times> 'n" where
  "create_producer_transport p A init pid B N opts k n =
     (case validate_producer_transport_options p A opts of
        Inl e \<Rightarrow> (Inl e, k, n)
      | Inr _ \<Rightarrow>
          (case backend opts of
             shared_memory \<Rightarrow>
               (case make_producer p A init pid B opts k of
                  (Inl e, k1) \<Rightarrow> (Inl e, k1, n) | (Inr ep, k1) \<Rightarrow> (Inr (Shm_producer ep), k1, n))
           | socket \<Rightarrow>
               (case make_socket_producer p A N opts n of
                  (Inl e, n1) \<Rightarrow> (Inl e, k, n1) | (Inr sp, n1) \<Rightarrow> (Inr (Socket_producer sp), k, n1))))"

definition create_consumer_transport ::
  "platform \<Rightarrow> abi \<Rightarrow> init_fn \<Rightarrow> int \<Rightarrow> ('s, 'k) shm_backend \<Rightarrow> 'n sockets \<Rightarrow> ('n \<Rightarrow> (exn + wait_interruptor) \<times> 'n)
   \<Rightarrow> transport_options \<Rightarrow> 'k \<Rightarrow> 'n \<Rightarrow> (exn + 's consumer_transport) \<times> 'k \<times> 'n" where
  "create_consumer_transport p A init pid B N mk_wake opts k n =
     (case validate_consumer_transport_options p A opts of
        Inl e \<Rightarrow> (Inl e, k, n)
      | Inr _ \<Rightarrow>
          (case backend opts of
             shared_memory \<Rightarrow>
               (case make_consumer p A init pid B opts k of
                  (Inl e, k1) \<Rightarrow> (Inl e, k1, n) | (Inr ep, k1) \<Rightarrow> (Inr (Shm_consumer ep), k1, n))
           | socket \<Rightarrow>
               (case make_socket_consumer p A N mk_wake opts n of
                  (Inl e, n1) \<Rightarrow> (Inl e, k, n1) | (Inr sc, n1) \<Rightarrow> (Inr (Socket_consumer sc), k, n1))))"

section \<open>The producer side\<close>

definition producer_transport_options :: "'s producer_transport \<Rightarrow> transport_options" where
  "producer_transport_options pt = (case pt of Shm_producer ep \<Rightarrow> ep_opts ep | Socket_producer sp \<Rightarrow> sp_opts sp)"

definition producer_shared_header :: "'s producer_transport \<Rightarrow> nat option" where
  "producer_shared_header pt = (case pt of Shm_producer ep \<Rightarrow> ep_header ep | Socket_producer sp \<Rightarrow> None)"

definition on_seg :: "'n medium \<Rightarrow> 'p \<Rightarrow> 'r \<times> segment \<Rightarrow> 'r \<times> 'p \<times> 'n medium" where
  "on_seg md pt x = (case x of (r, s) \<Rightarrow> (r, pt, md\<lparr>md_seg := s\<rparr>))"

definition on_net :: "'n medium \<Rightarrow> ('q \<Rightarrow> 'p) \<Rightarrow> 'r \<times> 'q \<times> 'n \<Rightarrow> 'r \<times> 'p \<times> 'n medium" where
  "on_net md mk x = (case x of (r, sp, n) \<Rightarrow> (r, mk sp, md\<lparr>md_net := n\<rparr>))"

definition transport_send_fixed_bytes ::
  "platform \<Rightarrow> spscring \<Rightarrow> 'n sockets \<Rightarrow> (nat \<Rightarrow> segment \<Rightarrow> segment) \<Rightarrow> byte list \<Rightarrow> u32 \<Rightarrow> message_meta
   \<Rightarrow> 's producer_transport \<Rightarrow> 'n medium \<Rightarrow> ((exn + unit) \<times> 's producer_transport \<times> 'n medium) option" where
  "transport_send_fixed_bytes p R N env src payload_len meta pt md =
     (case pt of
        Shm_producer ep \<Rightarrow> map_option (on_seg md pt) (send_fixed_bytes R env ep src payload_len meta (md_seg md))
      | Socket_producer sp \<Rightarrow> Some (on_net md Socket_producer (socket_send_fixed_bytes p N src payload_len sp (md_net md))))"

definition transport_send_fixed_sized ::
  "platform \<Rightarrow> spscring \<Rightarrow> 'n sockets \<Rightarrow> (nat \<Rightarrow> segment \<Rightarrow> segment) \<Rightarrow> byte list \<Rightarrow> u32 \<Rightarrow> message_meta
   \<Rightarrow> 's producer_transport \<Rightarrow> 'n medium \<Rightarrow> ((exn + unit) \<times> 's producer_transport \<times> 'n medium) option" where
  "transport_send_fixed_sized p R N env src byte_length meta pt md =
     (case pt of
        Shm_producer ep \<Rightarrow> map_option (on_seg md pt) (send_fixed_sized R env ep src byte_length meta (md_seg md))
      | Socket_producer sp \<Rightarrow> Some (on_net md Socket_producer (socket_send_fixed_sized p N src byte_length sp (md_net md))))"

definition transport_send_varlen ::
  "platform \<Rightarrow> spscring \<Rightarrow> 'n sockets \<Rightarrow> u64 \<Rightarrow> byte list \<Rightarrow> u32 \<Rightarrow> message_meta
   \<Rightarrow> 's producer_transport \<Rightarrow> 'n medium \<Rightarrow> (exn + unit) \<times> 's producer_transport \<times> 'n medium" where
  "transport_send_varlen p R N ts src len meta pt md =
     (case pt of
        Shm_producer ep \<Rightarrow> on_seg md pt (send_varlen R ts ep src len meta (md_seg md))
      | Socket_producer sp \<Rightarrow> on_net md Socket_producer (socket_send_varlen p N src len sp (md_net md)))"

text \<open>The template \<open>send_fixed\<close>: \<open>src\<close> are the bytes of the value.\<close>

definition transport_send_fixed ::
  "platform \<Rightarrow> spscring \<Rightarrow> 'n sockets \<Rightarrow> (nat \<Rightarrow> segment \<Rightarrow> segment) \<Rightarrow> byte list \<Rightarrow> message_meta
   \<Rightarrow> 's producer_transport \<Rightarrow> 'n medium \<Rightarrow> ((exn + unit) \<times> 's producer_transport \<times> 'n medium) option" where
  "transport_send_fixed p R N env src meta pt md =
     (if chan_type (producer_transport_options pt) \<noteq> fixed
      then Some (Inl (Logic_error ''producer_channel_interface::send_fixed requires fixed channel''), pt, md)
      else if length src > unat (item_size (producer_transport_options pt))
      then Some (Inl (Invalid_argument ''producer_channel_interface::send_fixed: sizeof(T) exceeds item_size''), pt, md)
      else transport_send_fixed_sized p R N env src (of_nat (length src)) meta pt md)"

section \<open>The consumer side\<close>

definition consumer_transport_options :: "'s consumer_transport \<Rightarrow> transport_options" where
  "consumer_transport_options ct = (case ct of Shm_consumer ep \<Rightarrow> ep_opts ep | Socket_consumer sc \<Rightarrow> sc_opts sc)"

definition consumer_shared_header :: "'s consumer_transport \<Rightarrow> nat option" where
  "consumer_shared_header ct = (case ct of Shm_consumer ep \<Rightarrow> ep_header ep | Socket_consumer sc \<Rightarrow> None)"

definition transport_poll ::
  "platform \<Rightarrow> spscring \<Rightarrow> 'n sockets \<Rightarrow> (message \<Rightarrow> exn option) \<Rightarrow> 's consumer_transport \<Rightarrow> 'n medium
   \<Rightarrow> (exn + bool) \<times> message list \<times> 's consumer_transport \<times> 'n medium" where
  "transport_poll p R N handler ct md =
     (case ct of
        Shm_consumer ep \<Rightarrow>
          (case poll R ep handler (md_seg md) of (r, ms, s) \<Rightarrow> (r, ms, ct, md\<lparr>md_seg := s\<rparr>))
      | Socket_consumer sc \<Rightarrow>
          (case socket_poll p N handler sc (md_net md) of (r, ms, sc1, n) \<Rightarrow> (r, ms, Socket_consumer sc1, md\<lparr>md_net := n\<rparr>)))"

definition shm_wait :: "(u32 \<Rightarrow> segment \<Rightarrow> segment option) \<Rightarrow> 's endpoint \<Rightarrow> segment \<Rightarrow> segment option" where
  "shm_wait wait_change ep s =
     (case ep_header ep of
        None \<Rightarrow> Some s
      | Some _ \<Rightarrow> let last = commit_seq (spscring_cb (hdr s)) in wait_change last s)"

definition transport_wait ::
  "platform \<Rightarrow> 'n sockets \<Rightarrow> (u32 \<Rightarrow> segment \<Rightarrow> segment option) \<Rightarrow> 's consumer_transport \<Rightarrow> 'n medium \<Rightarrow> 'n medium option" where
  "transport_wait p N wait_change ct md =
     (case ct of
        Shm_consumer ep \<Rightarrow> map_option (\<lambda>s. md\<lparr>md_seg := s\<rparr>) (shm_wait wait_change ep (md_seg md))
      | Socket_consumer sc \<Rightarrow> map_option (\<lambda>n. md\<lparr>md_net := n\<rparr>) (socket_wait p N sc (md_net md)))"

definition transport_interrupt_wait :: "'n sockets \<Rightarrow> 's consumer_transport \<Rightarrow> 'n medium \<Rightarrow> 'n medium" where
  "transport_interrupt_wait N ct md =
     (case ct of Shm_consumer ep \<Rightarrow> md | Socket_consumer sc \<Rightarrow> md\<lparr>md_net := interrupt_wait N sc (md_net md)\<rparr>)"

section \<open>What a consumer promises to its clients\<close>

text \<open>
  \<open>holds ct md ms\<close> says that the messages \<open>ms\<close> wait for the consumer \<open>ct\<close>. A poll delivers the first of them, and
  nothing if there is none. The clients of the interface rely on no more than this.
\<close>

locale polled_queue =
  fixes p :: platform and R :: spscring and N :: "'n sockets"
    and holds :: "'s consumer_transport \<Rightarrow> 'n medium \<Rightarrow> message list \<Rightarrow> bool"
  assumes poll_none: "holds ct md [] \<Longrightarrow>
      \<exists>ct1 md1. transport_poll p R N (\<lambda>_. None) ct md = (Inr False, [], ct1, md1) \<and> holds ct1 md1 []"
    and poll_next: "holds ct md (m # ms) \<Longrightarrow>
      \<exists>ct1 md1. transport_poll p R N (\<lambda>_. None) ct md = (Inr True, [m], ct1, md1) \<and> holds ct1 md1 ms"
    and holds_short: "holds ct md ms \<Longrightarrow> m \<in> set ms \<Longrightarrow> length (snd m) < 2 ^ 32"

definition holds_fixed :: "spscring \<Rightarrow> 's consumer_transport \<Rightarrow> 'n medium \<Rightarrow> message list \<Rightarrow> bool" where
  "holds_fixed R ct md ms \<longleftrightarrow>
     (\<exists>ce pe slots I q. ct = Shm_consumer ce \<and> fixed_link R (pe :: 's endpoint) ce slots I q (md_seg md) \<and>
        ms = map (Pair default_meta) (q (md_seg md)))"

definition holds_varlen :: "spscring \<Rightarrow> 's consumer_transport \<Rightarrow> 'n medium \<Rightarrow> message list \<Rightarrow> bool" where
  "holds_varlen R ct md ms \<longleftrightarrow>
     (\<exists>ce pe max_len I q. ct = Shm_consumer ce \<and> varlen_link R (pe :: 's endpoint) ce max_len I q (md_seg md) \<and>
        ms = q (md_seg md) \<and> (\<forall>m\<in>set ms. length (snd m) < 2 ^ 32))"

definition holds_socket :: "platform \<Rightarrow> 'n sockets \<Rightarrow> 's consumer_transport \<Rightarrow> 'n medium \<Rightarrow> message list \<Rightarrow> bool" where
  "holds_socket p N ct md ms \<longleftrightarrow>
     (\<exists>sc sp s c up pipe opts. ct = Socket_consumer sc \<and> socket_link p N s c up pipe opts (sp, sc, md_net md) \<and>
        ms = map (Pair default_meta) (frames opts (pipe (md_net md))))"

definition consumer_holds ::
  "platform \<Rightarrow> spscring \<Rightarrow> 'n sockets \<Rightarrow> 's consumer_transport \<Rightarrow> 'n medium \<Rightarrow> message list \<Rightarrow> bool" where
  "consumer_holds p R N ct md ms \<longleftrightarrow> holds_fixed R ct md ms \<or> holds_varlen R ct md ms \<or> holds_socket p N ct md ms"

definition poll_correct ::
  "platform \<Rightarrow> spscring \<Rightarrow> 'n sockets \<Rightarrow> ('s consumer_transport \<Rightarrow> 'n medium \<Rightarrow> message list \<Rightarrow> bool)
   \<Rightarrow> 's consumer_transport \<Rightarrow> 'n medium \<Rightarrow> message list \<Rightarrow> bool" where
  "poll_correct p R N holds ct md ms \<longleftrightarrow>
     (\<exists>ct1 md1. transport_poll p R N (\<lambda>_. None) ct md = (Inr (ms \<noteq> []), take 1 ms, ct1, md1) \<and> holds ct1 md1 (tl ms))"

lemma holds_intros:
  "fixed_link R pe ce slots I q (md_seg md) \<Longrightarrow> holds_fixed R (Shm_consumer ce) md (map (Pair default_meta) (q (md_seg md)))"
  "varlen_link R pe ce max_len I qv (md_seg md) \<Longrightarrow> \<forall>m\<in>set (qv (md_seg md)). length (snd m) < 2 ^ 32
     \<Longrightarrow> holds_varlen R (Shm_consumer ce) md (qv (md_seg md))"
  "socket_link p N s c up pipe opts (sp, sc, md_net md)
     \<Longrightarrow> holds_socket p N (Socket_consumer sc) md (map (Pair default_meta) (frames opts (pipe (md_net md))))"
  unfolding holds_fixed_def holds_varlen_def holds_socket_def by blast+

lemma poll_fixed_correct:
  assumes "holds_fixed R ct md ms"
  shows "poll_correct p R N (holds_fixed R) ct md ms"
proof -
  from assms obtain ce pe slots I q where ct: "ct = Shm_consumer ce" and link: "fixed_link R pe ce slots I q (md_seg md)"
    and ms: "ms = map (Pair default_meta) (q (md_seg md))" by (auto simp: holds_fixed_def)
  have ring: "fixed_ring R (unat (item_size (ep_opts ce))) slots I q" "I (md_seg md)" "ep_role ce = consumer_role"
    "chan_type (ep_opts ce) = fixed" using link by (auto simp: fixed_link_def)
  define s1 where "s1 = snd (snd (poll R ce (\<lambda>_. None) (md_seg md)))"
  have one: "poll_one R ce (md_seg md) = (if q (md_seg md) = [] then None else Some (default_meta, hd (q (md_seg md))), s1)"
    using poll_fixed [OF ring(3,4,1,2), of "\<lambda>_. None"] by (simp add: poll_one_def s1_def split: list.split)
  have "fixed_link R pe ce slots I q s1" "map (Pair default_meta) (q s1) = tl ms"
    using fx.recv_inv [OF link] fx.recv_q [OF link] one ms by (auto split: if_split_asm)
  moreover have "poll R ce (\<lambda>_. None) (md_seg md) = (Inr (ms \<noteq> []), take 1 ms, s1)"
    using poll_fixed [OF ring(3,4,1,2), of "\<lambda>_. None"] by (auto simp: ms s1_def split: list.split)
  ultimately have "transport_poll p R N (\<lambda>_. None) ct md = (Inr (ms \<noteq> []), take 1 ms, ct, md\<lparr>md_seg := s1\<rparr>)"
    and "holds_fixed R ct (md\<lparr>md_seg := s1\<rparr>) (tl ms)"
    using holds_intros(1) [of R pe ce slots I q "md\<lparr>md_seg := s1\<rparr>"] by (simp_all add: ct transport_poll_def)
  then show ?thesis unfolding poll_correct_def by blast
qed

lemma poll_varlen_correct:
  assumes "holds_varlen R ct md ms"
  shows "poll_correct p R N (holds_varlen R) ct md ms"
proof -
  from assms obtain ce pe max_len I q where ct: "ct = Shm_consumer ce" and link: "varlen_link R pe ce max_len I q (md_seg md)"
    and ms: "ms = q (md_seg md)" and short: "\<forall>m\<in>set ms. length (snd m) < 2 ^ 32" by (auto simp: holds_varlen_def)
  have ring: "varlen_ring R max_len I q" "I (md_seg md)" using link by (auto simp: varlen_link_def)
  have "\<exists>s1. varlen_read R (\<lambda>_. Inr True) (md_seg md) = (Inr (ms \<noteq> []), take 1 ms, s1) \<and> I s1 \<and> q s1 = tl ms"
  proof (cases ms)
    case Nil
    with ms have "q (md_seg md) = []" by simp
    with ring obtain s1 where "varlen_read R (\<lambda>_. Inr True) (md_seg md) = (Inr False, [], s1)" "I s1" "q s1 = []"
      by (rule varlen_ring_empty)
    with Nil show ?thesis by simp
  next
    case (Cons m rest)
    with ms have "q (md_seg md) = m # rest" by simp
    with ring obtain s1 where "varlen_read R (\<lambda>_. Inr True) (md_seg md) = (Inr True, [m], s1)" "I s1" "q s1 = rest"
      by (rule varlen_ring_consume)
    with Cons show ?thesis by simp
  qed
  then obtain s1 where s1: "poll R ce (\<lambda>_. None) (md_seg md) = (Inr (ms \<noteq> []), take 1 ms, s1)" "I s1" "q s1 = tl ms"
    using link by (auto simp: poll_def varlen_link_def)
  have "\<forall>m\<in>set (q s1). length (snd m) < 2 ^ 32" using short s1(3) by (cases ms) auto
  moreover have "varlen_link R pe ce max_len I q s1" using link s1(2) by (simp add: varlen_link_def)
  ultimately have "holds_varlen R ct (md\<lparr>md_seg := s1\<rparr>) (tl ms)"
    using holds_intros(2) [of R pe ce max_len I q "md\<lparr>md_seg := s1\<rparr>"] s1(3) by (simp add: ct)
  moreover have "transport_poll p R N (\<lambda>_. None) ct md = (Inr (ms \<noteq> []), take 1 ms, ct, md\<lparr>md_seg := s1\<rparr>)"
    by (simp add: transport_poll_def ct s1(1))
  ultimately show ?thesis unfolding poll_correct_def by blast
qed

lemma socket_poll_one:
  assumes "socket_poll p N (\<lambda>_. None) sc n = (r, ps, sc1, n1)"
  shows "r = Inr True \<and> (\<exists>m. ps = [m]) \<or> r = Inr False \<and> ps = []"
  using assms by (auto simp: socket_poll_def split: prod.splits bool.splits option.splits sum.splits if_split_asm)

lemma poll_socket_correct:
  assumes "holds_socket p N ct md ms"
  shows "poll_correct p R N (holds_socket p N) ct md ms"
proof -
  from assms obtain sc sp s c up pipe opts where ct: "ct = Socket_consumer sc"
    and link: "socket_link p N s c up pipe opts (sp, sc, md_net md)"
    and ms: "ms = map (Pair default_meta) (frames opts (pipe (md_net md)))" by (auto simp: holds_socket_def)
  obtain r ps sc1 n1 where poll: "socket_poll p N (\<lambda>_. None) sc (md_net md) = (r, ps, sc1, n1)" by (metis surj_pair)
  have recv: "socket_recv p N (sp, sc, md_net md) = (if r = Inr True then Some (hd ps) else None, sp, sc1, n1)"
    by (simp add: socket_recv_def poll)
  have ms_q: "ms = socket_queue pipe opts (sp, sc, md_net md)" by (simp add: ms socket_queue_def)
  have link1: "socket_link p N s c up pipe opts (sp, sc1, n1)" using sk.recv_inv [OF link] recv by simp
  have rest: "ms = (if r = Inr True then [hd ps] else []) @ socket_queue pipe opts (sp, sc1, n1)"
    and empty: "r \<noteq> Inr True \<longrightarrow> ms = []"
    using sk.recv_q [OF link] sk.recv_empty [OF link] recv by (auto simp: ms_q)
  have "r = Inr (ms \<noteq> []) \<and> ps = take 1 ms \<and> socket_queue pipe opts (sp, sc1, n1) = tl ms"
    using rest empty socket_poll_one [OF poll] by (cases "r = Inr True") auto
  then have "transport_poll p R N (\<lambda>_. None) ct md = (Inr (ms \<noteq> []), take 1 ms, Socket_consumer sc1, md\<lparr>md_net := n1\<rparr>)"
    and "holds_socket p N (Socket_consumer sc1) (md\<lparr>md_net := n1\<rparr>) (tl ms)"
    using holds_intros(3) [of p N s c up pipe opts sp sc1 "md\<lparr>md_net := n1\<rparr>"] link1
    by (simp_all add: ct transport_poll_def poll socket_queue_def)
  then show ?thesis unfolding poll_correct_def by blast
qed

lemma consumer_holds_short:
  assumes "consumer_holds p R N ct md ms" and "m \<in> set ms"
  shows "length (snd m) < 2 ^ 32"
proof -
  have item: "unat (item_size (o' :: transport_options)) < 2 ^ 32" for o'
    using unsigned_less [of "item_size o'"] by simp
  consider "holds_fixed R ct md ms" | "holds_varlen R ct md ms" | "holds_socket p N ct md ms"
    using assms(1) by (auto simp: consumer_holds_def)
  then show ?thesis
  proof cases
    case 1
    then obtain item_o :: transport_options and slots I q where ring: "fixed_ring R (unat (item_size item_o)) slots I q" "I (md_seg md)"
      and ms: "ms = map (Pair default_meta) (q (md_seg md))" unfolding holds_fixed_def fixed_link_def by blast
    from ms assms(2) obtain x where "m = (default_meta, x)" "x \<in> set (q (md_seg md))" by auto
    with fixed_ring_item_length [OF ring] item [of item_o] show ?thesis by simp
  next
    case 2
    with assms(2) show ?thesis by (auto simp: holds_varlen_def)
  next
    case 3
    then obtain sc sp s c up pipe opts where link: "socket_link p N s c up pipe opts (sp, sc, md_net md)"
      and ms: "ms = map (Pair default_meta) (frames opts (pipe (md_net md)))" by (auto simp: holds_socket_def)
    then obtain fs where fs: "list_all (frame_ok opts) fs" "frames opts (pipe (md_net md)) = fs"
      using frames_concat by (auto simp: socket_link_def)
    with ms assms(2) have "frame_ok opts (snd m)" by (auto simp: list_all_iff)
    then show ?thesis using item [of opts] by (auto simp: frame_ok_def k_max_varlen_unat split: if_split_asm)
  qed
qed

lemma consumer_holds_poll: "consumer_holds p R N ct md ms \<Longrightarrow> poll_correct p R N (consumer_holds p R N) ct md ms"
  using poll_fixed_correct [of R ct md ms p N] poll_varlen_correct [of R ct md ms p N] poll_socket_correct [of p N ct md ms R]
  unfolding consumer_holds_def poll_correct_def by blast

interpretation cq: polled_queue p R N "consumer_holds p R N" for p R N
  by unfold_locales
    (use consumer_holds_poll in \<open>fastforce simp: poll_correct_def\<close>, use consumer_holds_poll in \<open>fastforce simp: poll_correct_def\<close>,
     rule consumer_holds_short)

end
