(* ===== verification/Runtime.thy ===== *)
theory Runtime
  imports Transport
begin

text \<open>
  The blocking consumer loop: \<open>include/xproc/ipc/runtime.hpp\<close>.

  The executor is a parameter: \<open>exec buf task e\<close> is its call with a task while the reuse buffer holds \<open>buf\<close>, \<open>e\<close> its own
  state; it returns or throws. A task is the closure the code builds, and \<open>task_message\<close> what its handler is called with
  when it runs. What other threads do between two iterations of a loop is the parameter \<open>env\<close>, which may change the medium and clear
  the running flag. The loops end only if they are stopped, so their result is an option. The interleaving of \<open>stop\<close>
  with a loop that is about to wait are the step relations \<open>loop_step\<close> and \<open>other_step\<close>; atomic operations are taken to be sequentially consistent.
\<close>

section \<open>Data\<close>

datatype copy_policy = reuse_buffer | zero_copy | sbo

datatype task =
    Task_reuse message_meta nat
  | Task_ring message
  | Task_inline message_meta "byte list" nat
  | Task_heap message_meta "byte list"

datatype 's source = From_channel "'s endpoint" | From_interface "'s consumer_transport"

record 's runtime =
  rt_source :: "'s source"
  rt_running :: bool
  rt_reuse_buf :: "byte list"

definition make_runtime :: "'s source \<Rightarrow> 's runtime" where
  "make_runtime src = \<lparr>rt_source = src, rt_running = False, rt_reuse_buf = []\<rparr>"

definition k_sbo_threshold :: nat where
  "k_sbo_threshold = 256"

section \<open>Dispatch\<close>

text \<open>The closure made of a message, and the reuse buffer afterwards.\<close>

definition stage :: "copy_policy \<Rightarrow> byte list \<Rightarrow> message \<Rightarrow> task \<times> byte list" where
  "stage policy buf m =
     (case m of (meta, d) \<Rightarrow>
        let n = length d in
        (case policy of
           reuse_buffer \<Rightarrow>
             let buf1 = (if length buf < n then buf @ replicate (n - length buf) 0 else buf)
             in (Task_reuse meta n, buf_write 0 d buf1)
         | zero_copy \<Rightarrow> (Task_ring (meta, d), buf)
         | sbo \<Rightarrow>
             if n \<le> k_sbo_threshold
             then (Task_inline meta (buf_write 0 d (replicate k_sbo_threshold 0)) n, buf)
             else (Task_heap meta d, buf)))"

definition task_message :: "byte list \<Rightarrow> task \<Rightarrow> message" where
  "task_message buf t =
     (case t of
        Task_reuse meta n \<Rightarrow> (meta, buf_read 0 n buf)
      | Task_ring m \<Rightarrow> m
      | Task_inline meta b n \<Rightarrow> (meta, buf_read 0 n b)
      | Task_heap meta d \<Rightarrow> (meta, d))"

definition source_poll ::
  "platform \<Rightarrow> spscring \<Rightarrow> 'n sockets \<Rightarrow> (message \<Rightarrow> exn option) \<Rightarrow> 's source \<Rightarrow> 'n medium
   \<Rightarrow> (exn + bool) \<times> message list \<times> 's source \<times> 'n medium" where
  "source_poll p R N handler src md =
     (case src of
        From_channel ep \<Rightarrow>
          (case poll R ep handler (md_seg md) of (r, ms, s) \<Rightarrow> (r, ms, src, md\<lparr>md_seg := s\<rparr>))
      | From_interface ct \<Rightarrow>
          (case transport_poll p R N handler ct md of (r, ms, ct1, md1) \<Rightarrow> (r, ms, From_interface ct1, md1)))"

definition submit ::
  "copy_policy \<Rightarrow> (byte list \<Rightarrow> task \<Rightarrow> 'e \<Rightarrow> exn option \<times> 'e) \<Rightarrow> message \<Rightarrow> byte list \<times> 'e \<Rightarrow> exn option \<times> byte list \<times> 'e" where
  "submit policy exec m x =
     (case x of (buf, e) \<Rightarrow>
        (case stage policy buf m of (t, buf1) \<Rightarrow> (case exec buf1 t e of (r, e1) \<Rightarrow> (r, buf1, e1))))"

definition dispatch_poll ::
  "platform \<Rightarrow> spscring \<Rightarrow> 'n sockets \<Rightarrow> copy_policy \<Rightarrow> (byte list \<Rightarrow> task \<Rightarrow> 'e \<Rightarrow> exn option \<times> 'e)
   \<Rightarrow> 's runtime \<Rightarrow> 'e \<Rightarrow> 'n medium \<Rightarrow> (exn + bool) \<times> 's runtime \<times> 'e \<times> 'n medium" where
  "dispatch_poll p R N policy exec rt e md =
     (case source_poll p R N (\<lambda>m. fst (submit policy exec m (rt_reuse_buf rt, e))) (rt_source rt) md of
        (r, ms, src1, md1) \<Rightarrow>
          (case foldl (\<lambda>x m. snd (submit policy exec m x)) (rt_reuse_buf rt, e) ms of
             (buf1, e1) \<Rightarrow> (r, rt\<lparr>rt_source := src1, rt_reuse_buf := buf1\<rparr>, e1, md1)))"

section \<open>Waiting and the loops\<close>

definition wait_for_shared_header :: "(u32 \<Rightarrow> segment \<Rightarrow> segment option) \<Rightarrow> bool \<Rightarrow> segment \<Rightarrow> segment option" where
  "wait_for_shared_header wait_change running s =
     (let last_commit = commit_seq (spscring_cb (hdr s))
      in if \<not> running then Some s else wait_change last_commit s)"

definition wait_for_data ::
  "platform \<Rightarrow> 'n sockets \<Rightarrow> (u32 \<Rightarrow> segment \<Rightarrow> segment option) \<Rightarrow> 's runtime \<Rightarrow> 'n medium \<Rightarrow> 'n medium option" where
  "wait_for_data p N wait_change rt md =
     (let shared = (\<lambda>md. map_option (\<lambda>s. md\<lparr>md_seg := s\<rparr>) (wait_for_shared_header wait_change (rt_running rt) (md_seg md))) in
      case rt_source rt of
        From_channel ep \<Rightarrow> if ep_header ep \<noteq> None then shared md else Some md
      | From_interface ct \<Rightarrow>
          if consumer_shared_header ct \<noteq> None then shared md
          else if \<not> rt_running rt then Some md
          else transport_wait p N wait_change ct md)"

text \<open>The other threads, between two iterations.\<close>

definition others :: "(bool \<times> 'n medium \<Rightarrow> bool \<times> 'n medium) \<Rightarrow> 's runtime \<Rightarrow> 'n medium \<Rightarrow> 's runtime \<times> 'n medium" where
  "others f rt md = (case f (rt_running rt, md) of (b, md1) \<Rightarrow> (rt\<lparr>rt_running := b\<rparr>, md1))"

partial_function (option) run_loop ::
  "platform \<Rightarrow> spscring \<Rightarrow> 'n sockets \<Rightarrow> (u32 \<Rightarrow> segment \<Rightarrow> segment option) \<Rightarrow> copy_policy
   \<Rightarrow> (byte list \<Rightarrow> task \<Rightarrow> 'e \<Rightarrow> exn option \<times> 'e) \<Rightarrow> (nat \<Rightarrow> bool \<times> 'n medium \<Rightarrow> bool \<times> 'n medium) \<Rightarrow> nat
   \<Rightarrow> 's runtime \<Rightarrow> 'e \<Rightarrow> 'n medium \<Rightarrow> ((exn + unit) \<times> 's runtime \<times> 'e \<times> 'n medium) option" where
  "run_loop p R N wait_change policy exec env i rt e md =
     (if \<not> rt_running rt then Some (Inr (), rt, e, md)
      else
        (case dispatch_poll p R N policy exec rt e md of
           (Inl ex, rt1, e1, md1) \<Rightarrow> Some (Inl ex, rt1, e1, md1)
         | (Inr has_data, rt1, e1, md1) \<Rightarrow>
             (case (if has_data then Some md1 else wait_for_data p N wait_change rt1 md1) of
                None \<Rightarrow> None
              | Some md2 \<Rightarrow>
                  (case others (env i) rt1 md2 of
                     (rt2, md3) \<Rightarrow> run_loop p R N wait_change policy exec env (Suc i) rt2 e1 md3))))"

definition run ::
  "platform \<Rightarrow> spscring \<Rightarrow> 'n sockets \<Rightarrow> (u32 \<Rightarrow> segment \<Rightarrow> segment option) \<Rightarrow> copy_policy
   \<Rightarrow> (byte list \<Rightarrow> task \<Rightarrow> 'e \<Rightarrow> exn option \<times> 'e) \<Rightarrow> (nat \<Rightarrow> bool \<times> 'n medium \<Rightarrow> bool \<times> 'n medium)
   \<Rightarrow> 's runtime \<Rightarrow> 'e \<Rightarrow> 'n medium \<Rightarrow> ((exn + unit) \<times> 's runtime \<times> 'e \<times> 'n medium) option" where
  "run p R N wait_change policy exec env rt e md =
     run_loop p R N wait_change policy exec env 0 (rt\<lparr>rt_running := True\<rparr>) e md"

text \<open>The variant with a backpressure callback also returns the arguments the callback was called with.\<close>

partial_function (option) run_backpressure_loop ::
  "platform \<Rightarrow> spscring \<Rightarrow> 'n sockets \<Rightarrow> (u32 \<Rightarrow> segment \<Rightarrow> segment option) \<Rightarrow> copy_policy
   \<Rightarrow> (byte list \<Rightarrow> task \<Rightarrow> 'e \<Rightarrow> exn option \<times> 'e) \<Rightarrow> (nat \<Rightarrow> bool \<times> 'n medium \<Rightarrow> bool \<times> 'n medium) \<Rightarrow> nat \<Rightarrow> nat \<Rightarrow> nat list
   \<Rightarrow> 's runtime \<Rightarrow> 'e \<Rightarrow> 'n medium \<Rightarrow> ((exn + nat list) \<times> 's runtime \<times> 'e \<times> 'n medium) option" where
  "run_backpressure_loop p R N wait_change policy exec env i queued bps rt e md =
     (if \<not> rt_running rt then Some (Inr (if queued > 0 then bps @ [queued] else bps), rt, e, md)
      else
        (case dispatch_poll p R N policy exec rt e md of
           (Inl ex, rt1, e1, md1) \<Rightarrow> Some (Inl ex, rt1, e1, md1)
         | (Inr has_data, rt1, e1, md1) \<Rightarrow>
             (case (if has_data then Some md1 else wait_for_data p N wait_change rt1 md1) of
                None \<Rightarrow> None
              | Some md2 \<Rightarrow>
                  (case others (env i) rt1 md2 of
                     (rt2, md3) \<Rightarrow>
                       run_backpressure_loop p R N wait_change policy exec env (Suc i) (if has_data then Suc queued else 0)
                         (if \<not> has_data \<and> queued > 0 then bps @ [queued] else bps) rt2 e1 md3))))"

definition run_backpressure ::
  "platform \<Rightarrow> spscring \<Rightarrow> 'n sockets \<Rightarrow> (u32 \<Rightarrow> segment \<Rightarrow> segment option) \<Rightarrow> copy_policy
   \<Rightarrow> (byte list \<Rightarrow> task \<Rightarrow> 'e \<Rightarrow> exn option \<times> 'e) \<Rightarrow> (nat \<Rightarrow> bool \<times> 'n medium \<Rightarrow> bool \<times> 'n medium)
   \<Rightarrow> 's runtime \<Rightarrow> 'e \<Rightarrow> 'n medium \<Rightarrow> ((exn + nat list) \<times> 's runtime \<times> 'e \<times> 'n medium) option" where
  "run_backpressure p R N wait_change policy exec env rt e md =
     run_backpressure_loop p R N wait_change policy exec env 0 0 [] (rt\<lparr>rt_running := True\<rparr>) e md"

text \<open>The inner loop of \<open>run_batched\<close>, with the number of messages it may still dispatch: the batch count.\<close>

fun batch_loop ::
  "platform \<Rightarrow> spscring \<Rightarrow> 'n sockets \<Rightarrow> copy_policy \<Rightarrow> (byte list \<Rightarrow> task \<Rightarrow> 'e \<Rightarrow> exn option \<times> 'e)
   \<Rightarrow> (nat \<Rightarrow> bool \<times> 'n medium \<Rightarrow> bool \<times> 'n medium) \<Rightarrow> nat \<Rightarrow> nat \<Rightarrow> 's runtime \<Rightarrow> 'e \<Rightarrow> 'n medium
   \<Rightarrow> (exn + nat) \<times> nat \<times> 's runtime \<times> 'e \<times> 'n medium" where
  "batch_loop p R N policy exec env i 0 rt e md = (Inr 0, i, rt, e, md)"
| "batch_loop p R N policy exec env i (Suc n) rt e md =
     (case dispatch_poll p R N policy exec rt e md of
        (Inl ex, rt1, e1, md1) \<Rightarrow> (Inl ex, i, rt1, e1, md1)
      | (Inr False, rt1, e1, md1) \<Rightarrow> (Inr 0, i, rt1, e1, md1)
      | (Inr True, rt1, e1, md1) \<Rightarrow>
          (case others (env i) rt1 md1 of
             (rt2, md2) \<Rightarrow>
               (case batch_loop p R N policy exec env (Suc i) n rt2 e1 md2 of
                  (Inl ex, x) \<Rightarrow> (Inl ex, x) | (Inr c, x) \<Rightarrow> (Inr (Suc c), x))))"

partial_function (option) run_batched_loop ::
  "platform \<Rightarrow> spscring \<Rightarrow> 'n sockets \<Rightarrow> (u32 \<Rightarrow> segment \<Rightarrow> segment option) \<Rightarrow> copy_policy
   \<Rightarrow> (byte list \<Rightarrow> task \<Rightarrow> 'e \<Rightarrow> exn option \<times> 'e) \<Rightarrow> (nat \<Rightarrow> bool \<times> 'n medium \<Rightarrow> bool \<times> 'n medium) \<Rightarrow> nat \<Rightarrow> nat
   \<Rightarrow> 's runtime \<Rightarrow> 'e \<Rightarrow> 'n medium \<Rightarrow> ((exn + unit) \<times> 's runtime \<times> 'e \<times> 'n medium) option" where
  "run_batched_loop p R N wait_change policy exec env max_batch_size i rt e md =
     (if \<not> rt_running rt then Some (Inr (), rt, e, md)
      else
        (case batch_loop p R N policy exec env i max_batch_size rt e md of
           (Inl ex, i1, rt1, e1, md1) \<Rightarrow> Some (Inl ex, rt1, e1, md1)
         | (Inr batch_count, i1, rt1, e1, md1) \<Rightarrow>
             (case (if batch_count = 0 then wait_for_data p N wait_change rt1 md1 else Some md1) of
                None \<Rightarrow> None
              | Some md2 \<Rightarrow>
                  (case others (env i1) rt1 md2 of
                     (rt2, md3) \<Rightarrow> run_batched_loop p R N wait_change policy exec env max_batch_size (Suc i1) rt2 e1 md3))))"

definition run_batched ::
  "platform \<Rightarrow> spscring \<Rightarrow> 'n sockets \<Rightarrow> (u32 \<Rightarrow> segment \<Rightarrow> segment option) \<Rightarrow> copy_policy
   \<Rightarrow> (byte list \<Rightarrow> task \<Rightarrow> 'e \<Rightarrow> exn option \<times> 'e) \<Rightarrow> (nat \<Rightarrow> bool \<times> 'n medium \<Rightarrow> bool \<times> 'n medium) \<Rightarrow> nat
   \<Rightarrow> 's runtime \<Rightarrow> 'e \<Rightarrow> 'n medium \<Rightarrow> ((exn + unit) \<times> 's runtime \<times> 'e \<times> 'n medium) option" where
  "run_batched p R N wait_change policy exec env max_batch_size rt e md =
     run_batched_loop p R N wait_change policy exec env max_batch_size 0 (rt\<lparr>rt_running := True\<rparr>) e md"

section \<open>Stopping\<close>

definition bump_commit_seq :: "spscring \<Rightarrow> segment \<Rightarrow> segment" where
  "bump_commit_seq R s = set_ring (\<lambda>c. c\<lparr>commit_seq := snd (bump_notify_word R (commit_seq c))\<rparr>) s"

definition stop :: "spscring \<Rightarrow> 'n sockets \<Rightarrow> 's runtime \<Rightarrow> 'n medium \<Rightarrow> 's runtime \<times> 'n medium" where
  "stop R N rt md =
     (let bump = (\<lambda>header md. if header \<noteq> None then md\<lparr>md_seg := bump_commit_seq R (md_seg md)\<rparr> else md)
      in (rt\<lparr>rt_running := False\<rparr>,
          case rt_source rt of
            From_channel ep \<Rightarrow> bump (ep_header ep) md
          | From_interface ct \<Rightarrow> transport_interrupt_wait N ct (bump (consumer_shared_header ct) md)))"

text \<open>
  A loop on a shared header and a concurrent \<open>stop\<close>, one atomic operation per step: the program counter of the loop (with the
  value loaded from \<open>commit_seq\<close>), that of \<open>stop\<close>, the flag, the notify word, and the number of times the word was bumped since
  the loop loaded it.
\<close>

datatype loop_pc = L_top | L_poll | L_load | L_check u32 | L_wait u32 | L_done
datatype stop_pc = S_idle | S_bump | S_done

record wake_state =
  wk_word :: u32
  wk_running :: bool
  wk_loop :: loop_pc
  wk_stop :: stop_pc
  wk_bumps :: nat

definition bumped :: "spscring \<Rightarrow> wake_state \<Rightarrow> wake_state" where
  "bumped R st = st\<lparr>wk_word := snd (bump_notify_word R (wk_word st)), wk_bumps := Suc (wk_bumps st)\<rparr>"

inductive loop_step :: "spscring \<Rightarrow> wake_state \<Rightarrow> wake_state \<Rightarrow> bool" for R :: spscring where
  go_on: "wk_loop st = L_top \<Longrightarrow> wk_running st \<Longrightarrow> loop_step R st (st\<lparr>wk_loop := L_poll\<rparr>)"
| leave: "wk_loop st = L_top \<Longrightarrow> \<not> wk_running st \<Longrightarrow> loop_step R st (st\<lparr>wk_loop := L_done\<rparr>)"
| has_data: "wk_loop st = L_poll \<Longrightarrow> loop_step R st (st\<lparr>wk_loop := L_top\<rparr>)"
| no_data: "wk_loop st = L_poll \<Longrightarrow> loop_step R st (st\<lparr>wk_loop := L_load\<rparr>)"
| load: "wk_loop st = L_load \<Longrightarrow> loop_step R st (st\<lparr>wk_loop := L_check (wk_word st), wk_bumps := 0\<rparr>)"
| stopped: "wk_loop st = L_check seen \<Longrightarrow> \<not> wk_running st \<Longrightarrow> loop_step R st (st\<lparr>wk_loop := L_top\<rparr>)"
| begin_wait: "wk_loop st = L_check seen \<Longrightarrow> wk_running st \<Longrightarrow> loop_step R st (st\<lparr>wk_loop := L_wait seen\<rparr>)"
| woken: "wk_loop st = L_wait seen \<Longrightarrow> notify_seq_value R (wk_word st) \<noteq> notify_seq_value R seen \<Longrightarrow>
     loop_step R st (st\<lparr>wk_loop := L_top\<rparr>)"

inductive other_step :: "spscring \<Rightarrow> wake_state \<Rightarrow> wake_state \<Rightarrow> bool" for R :: spscring where
  commit: "other_step R st (bumped R st)"
| waiter_flag: "notify_seq_value R w = notify_seq_value R (wk_word st) \<Longrightarrow> other_step R st (st\<lparr>wk_word := w\<rparr>)"
| stop_store: "wk_stop st = S_idle \<Longrightarrow> other_step R st (st\<lparr>wk_running := False, wk_stop := S_bump\<rparr>)"
| stop_bump: "wk_stop st = S_bump \<Longrightarrow> other_step R st ((bumped R st)\<lparr>wk_stop := S_done\<rparr>)"

inductive wake_run :: "spscring \<Rightarrow> wake_state \<Rightarrow> bool" for R :: spscring where
  started: "wake_run R \<lparr>wk_word = w, wk_running = True, wk_loop = L_top, wk_stop = S_idle, wk_bumps = 0\<rparr>"
| loop: "wake_run R st \<Longrightarrow> loop_step R st st' \<Longrightarrow> wake_run R st'"
| other: "wake_run R st \<Longrightarrow> other_step R st st' \<Longrightarrow> wake_run R st'"

inductive_cases loop_stepE: "loop_step R st st'"

definition loop_rank :: "loop_pc \<Rightarrow> nat" where
  "loop_rank pc = (case pc of L_done \<Rightarrow> 0 | L_top \<Rightarrow> 1 | L_wait _ \<Rightarrow> 2 | L_check _ \<Rightarrow> 3 | L_load \<Rightarrow> 4 | L_poll \<Rightarrow> 5)"

text \<open>
  What is relied on of the notify word: its counter has 31 bits and a bump increments it.
\<close>

definition notify_spec :: "spscring \<Rightarrow> bool" where
  "notify_spec R \<longleftrightarrow>
     (\<forall>w. unat (notify_seq_value R w) < 2 ^ 31 \<and>
          unat (notify_seq_value R (snd (bump_notify_word R w))) = (unat (notify_seq_value R w) + 1) mod 2 ^ 31)"

definition wake_inv :: "spscring \<Rightarrow> wake_state \<Rightarrow> bool" where
  "wake_inv R st \<longleftrightarrow>
     (wk_running st \<longleftrightarrow> wk_stop st = S_idle) \<and>
     (\<forall>seen. wk_loop st = L_check seen \<or> wk_loop st = L_wait seen \<longrightarrow>
        unat (notify_seq_value R (wk_word st)) = (unat (notify_seq_value R seen) + wk_bumps st) mod 2 ^ 31) \<and>
     (\<forall>seen. wk_loop st = L_wait seen \<longrightarrow> wk_stop st = S_done \<longrightarrow> 0 < wk_bumps st)"

lemma bumped_seq:
  assumes "notify_spec R" and "unat (notify_seq_value R (wk_word st)) = (a + wk_bumps st) mod 2 ^ 31"
  shows "unat (notify_seq_value R (wk_word (bumped R st))) = (a + wk_bumps (bumped R st)) mod 2 ^ 31"
  using assms by (simp add: notify_spec_def bumped_def mod_Suc_eq)

lemma wake_run_inv:
  assumes "notify_spec R" and "wake_run R st"
  shows "wake_inv R st"
  using assms(2)
proof (induction rule: wake_run.induct)
  case (started w)
  then show ?case by (simp add: wake_inv_def)
next
  case (loop st st')
  have lt: "unat (notify_seq_value R w) mod 2 ^ 31 = unat (notify_seq_value R w)" for w
    using assms(1) by (simp add: notify_spec_def)
  from loop(2,3) show ?case by (cases rule: loop_step.cases) (auto simp: wake_inv_def lt [simplified])
next
  case (other st st')
  from other(2) show ?case
  proof cases
    case commit
    with other(3) bumped_seq [OF assms(1), of st] show ?thesis by (auto simp: wake_inv_def bumped_def)
  next
    case (waiter_flag w)
    with other(3) show ?thesis by (auto simp: wake_inv_def)
  next
    case stop_store
    with other(3) show ?thesis by (auto simp: wake_inv_def)
  next
    case stop_bump
    with other(3) bumped_seq [OF assms(1), of st] show ?thesis by (auto simp: wake_inv_def bumped_def)
  qed
qed

lemma wrap_neq:
  fixes a :: nat
  assumes "a < m" and "0 < b" and "b < m"
  shows "(a + b) mod m \<noteq> a"
proof (cases "a + b < m")
  case False
  then have "(a + b) mod m = a + b - m" using assms by (simp add: le_mod_geq)
  then show ?thesis using assms False by linarith
qed (use assms in simp)

lemma woken_after_stop:
  assumes spec: "notify_spec R" and inv: "wake_inv R st" and "wk_stop st = S_done" and few: "wk_bumps st < 2 ^ 31"
    and w: "wk_loop st = L_wait seen"
  shows "notify_seq_value R (wk_word st) \<noteq> notify_seq_value R seen"
proof
  assume eq: "notify_seq_value R (wk_word st) = notify_seq_value R seen"
  let ?a = "unat (notify_seq_value R seen)"
  have a: "?a < 2 ^ 31" using spec by (simp add: notify_spec_def)
  have "?a = (?a + wk_bumps st) mod 2 ^ 31" and pos: "0 < wk_bumps st"
    using inv w assms(3) eq by (auto simp: wake_inv_def)
  then show False using wrap_neq [of ?a "2 ^ 31" "wk_bumps st"] a few by simp
qed

lemma loop_step_enabled:
  assumes "notify_spec R" and "wake_inv R st" and "wk_stop st = S_done" and "wk_bumps st < 2 ^ 31" and "wk_loop st \<noteq> L_done"
  shows "\<exists>st'. loop_step R st st'"
proof (cases "wk_loop st")
  case (L_wait seen)
  then show ?thesis using woken_after_stop [OF assms(1-4)] loop_step.woken by blast
next
  case (L_check seen)
  then show ?thesis using loop_step.stopped loop_step.begin_wait by blast
qed (use assms(5) loop_step.intros(1-5) in \<open>metis\<close>)+

lemma shift_ring_word [simp]:
  "notify_seq_value (shift_ring a b) w = w AND 0x7FFFFFFF"
  "bump_notify_word (shift_ring a b) w = (bit w 31, (w + 1) AND 0x7FFFFFFF)"
  by (simp_all add: shift_ring_def Let_def)

lemma unat_and_31: "unat (w AND 0x7FFFFFFF :: u32) = unat w mod 2 ^ 31"
proof -
  have "w AND 0x7FFFFFFF = take_bit 31 w" by (simp add: take_bit_eq_mask mask_eq_exp_minus_1)
  then show ?thesis by (simp only: unsigned_take_bit_eq) (simp only: take_bit_eq_mod)
qed

lemma shift_ring_notify: "notify_spec (shift_ring a b)"
proof -
  have "unat (w + 1) mod 2 ^ 31 = (unat w + 1) mod 2 ^ 31" for w :: u32
    by (simp add: unat_word_ariths mod_mod_cancel)
  then have "unat ((w + 1) AND 0x7FFFFFFF AND 0x7FFFFFFF) = (unat (w AND 0x7FFFFFFF) + 1) mod 2 ^ 31" for w :: u32
    by (simp add: unat_and_31 mod_Suc_eq)
  then show ?thesis by (simp add: notify_spec_def unat_and_31)
qed


lemma stopped_in_wait:
  "wake_run (shift_ring a b)
     \<lparr>wk_word = 1, wk_running = False, wk_loop = L_wait 0, wk_stop = S_done, wk_bumps = 1\<rparr>"
proof -
  let ?R = "shift_ring a b"
  let ?st = "\<lambda>w r l s n. \<lparr>wk_word = w, wk_running = r, wk_loop = l, wk_stop = s, wk_bumps = n\<rparr>"
  have "wake_run ?R (?st 0 True L_top S_idle 0)" by (rule wake_run.started)
  from wake_run.loop [OF this loop_step.go_on] have "wake_run ?R (?st 0 True L_poll S_idle 0)" by simp
  from wake_run.loop [OF this loop_step.no_data] have "wake_run ?R (?st 0 True L_load S_idle 0)" by simp
  from wake_run.loop [OF this loop_step.load] have "wake_run ?R (?st 0 True (L_check 0) S_idle 0)" by simp
  from wake_run.loop [OF this loop_step.begin_wait] have "wake_run ?R (?st 0 True (L_wait 0) S_idle 0)" by simp
  from wake_run.other [OF this other_step.stop_store] have "wake_run ?R (?st 0 False (L_wait 0) S_bump 0)" by simp
  from wake_run.other [OF this other_step.stop_bump] show ?thesis by (simp add: bumped_def)
qed


section \<open>Copy policies\<close>

lemma staged_message_now: "task_message (snd (stage policy buf m)) (fst (stage policy buf m)) = m"
  by (cases m; cases policy) (simp_all add: stage_def task_message_def Let_def)

lemma staged_sbo_later: "task_message buf2 (fst (stage sbo buf m)) = m"
  by (cases m) (simp add: stage_def task_message_def Let_def)

text \<open>The executor that runs each task in the poll, with a handler that appends what it is called with to a log.\<close>

definition run_inline :: "byte list \<Rightarrow> task \<Rightarrow> message list \<Rightarrow> exn option \<times> message list" where
  "run_inline buf t seen = (None, seen @ [task_message buf t])"

lemma submit_run_inline:
  "submit policy run_inline m (buf, seen) = (None, snd (stage policy buf m), seen @ [m])"
  using staged_message_now [of policy buf m] by (cases "stage policy buf m") (simp add: submit_def run_inline_def)

lemma submits_run_inline:
  "snd (foldl (\<lambda>x m. snd (submit policy run_inline m x)) (buf, seen) ms) = seen @ ms"
  by (induction ms arbitrary: buf seen) (simp_all add: submit_run_inline)

text \<open>
  C30. The copy policies do not change what is delivered: for every policy, source and reuse buffer, a dispatch whose executor runs
  its tasks at once has the result, the effect on the channel and the sequence of handled messages of a plain poll of the
  source, for which the handler sees the messages themselves. A task of the \<open>sbo\<close> policy sees its message also when it runs later,
  whatever the reuse buffer then holds.
\<close>

theorem copy_policies_deliver:
  "(case dispatch_poll p R N policy run_inline rt seen md of (r, rt1, seen1, md1) \<Rightarrow> (r, seen1, rt_source rt1, md1)) =
   (case source_poll p R N (\<lambda>_. None) (rt_source rt) md of (r, ms, src1, md1) \<Rightarrow> (r, seen @ ms, src1, md1)) \<and>
   task_message buf2 (fst (stage sbo buf m)) = m"
proof -
  have "(\<lambda>m. fst (submit policy run_inline m (rt_reuse_buf rt, seen))) = (\<lambda>_. None)"
    by (simp add: submit_run_inline)
  then show ?thesis
    using submits_run_inline [of policy "rt_reuse_buf rt" seen] staged_sbo_later [of buf2 buf m]
    by (auto simp: dispatch_poll_def split: prod.split) (metis snd_conv)
qed

end
