(* ===== verification/Capi.thy ===== *)
theory Capi
  imports Builders Transport
begin

text \<open>
  The C interface: \<open>capi/xproc_c.h\<close> and \<open>capi/xproc_c.cpp\<close>.

  A pointer argument is an option, \<open>None\<close> for the null pointer; an out parameter is passed with the value it has before the call
  and returned with the one it has afterwards. A handle is the object it points to, and the function returns the object as it is
  left. The thread-local variables are the record \<open>capi\<close>. The result of a function that may block, or that may run into behaviour
  C++ leaves undefined, is an option. Allocations do not fail, and borrowed strings are still alive when they are read. Enumerations
  that the caller passes are numbers, because C does not check them.
\<close>

section \<open>Types\<close>

datatype xproc_c_status =
    STATUS_OK | STATUS_AGAIN | STATUS_BUFFER_TOO_SMALL | STATUS_INVALID_ARGUMENT | STATUS_LOGIC_ERROR
  | STATUS_LAYOUT_ERROR | STATUS_RUNTIME_ERROR | STATUS_NO_MEMORY | STATUS_INTERNAL_ERROR

datatype xproc_c_layout_error =
    LAYOUT_ERROR_NONE | LAYOUT_ERROR_NOT_ATTACHED | LAYOUT_ERROR_BAD_MAGIC | LAYOUT_ERROR_NOT_READY_TIMEOUT
  | LAYOUT_ERROR_VERSION_MISMATCH | LAYOUT_ERROR_HEADER_SIZE_MISMATCH | LAYOUT_ERROR_LAYOUT_TYPE_MISMATCH
  | LAYOUT_ERROR_FIXED_ITEM_SIZE_MISMATCH | LAYOUT_ERROR_SCHEMA_ID_MISMATCH | LAYOUT_ERROR_ALIGNMENT_INVALID
  | LAYOUT_ERROR_CAPACITY_INSUFFICIENT | LAYOUT_ERROR_FIXED_ITEM_SIZE_INCOMPATIBLE

definition ENDPOINT_PRODUCER :: int where "ENDPOINT_PRODUCER = 0"
definition ENDPOINT_CONSUMER :: int where "ENDPOINT_CONSUMER = 1"
definition ENDPOINT_OBSERVER :: int where "ENDPOINT_OBSERVER = 2"
definition BACKEND_SHARED_MEMORY :: int where "BACKEND_SHARED_MEMORY = 0"
definition BACKEND_SOCKET :: int where "BACKEND_SOCKET = 1"
definition CHANNEL_FIXED :: int where "CHANNEL_FIXED = 0"
definition CHANNEL_VARLEN :: int where "CHANNEL_VARLEN = 1"

lemmas c_enum_defs = ENDPOINT_PRODUCER_def ENDPOINT_CONSUMER_def ENDPOINT_OBSERVER_def BACKEND_SHARED_MEMORY_def
  BACKEND_SOCKET_def CHANNEL_FIXED_def CHANNEL_VARLEN_def

record xproc_c_options =
  c_backend :: int
  c_path :: "string option"
  c_shm_size :: u64
  c_item_size :: u32
  c_data_align :: u32
  c_schema_id :: u64
  c_creator_timestamp_ns :: u64
  c_creator_flags :: u64
  c_create_if_missing :: int
  c_channel_type :: int
  c_win32_object_namespace :: "string option"
  c_socket_host :: "string option"
  c_socket_port :: u16
  c_socket_listen :: int
  c_socket_connect_retries :: int
  c_socket_connect_retry_ms :: int

record xproc_c_message_meta =
  cm_user_data :: u64
  cm_timestamp_ns :: u64
  cm_schema_id :: u32
  cm_flags :: u32

record xproc_c_snapshot =
  cs_write_pos :: u64
  cs_read_pos :: u64
  cs_commit_pos :: u64
  cs_commit_seq :: u32
  cs_read_wake_seq :: u32
  cs_attach_count :: u32
  cs_producer_pid :: int

record 's xproc_c_producer =
  cp_impl :: "'s producer_transport option"

record 's xproc_c_consumer =
  cc_impl :: "'s consumer_transport option"
  cc_pending :: "byte list"

record 's xproc_c_observer =
  cv_impl :: "'s observer option"

record 's xproc_c_diagnostics_tracker =
  ct_impl :: "diagnostics_tracker option"
  ct_owner :: "'s xproc_c_observer"

record owned_option_strings =
  os_path :: string
  os_win32_object_namespace :: string
  os_socket_host :: string

record capi =
  g_last_error :: string
  g_last_layout_error :: xproc_c_layout_error
  g_read_existing_option_strings :: owned_option_strings

section \<open>Errors\<close>

definition clear_last_error :: "capi \<Rightarrow> capi" where
  "clear_last_error g = g\<lparr>g_last_error := [], g_last_layout_error := LAYOUT_ERROR_NONE\<rparr>"

fun to_c_layout_error :: "validate_error \<Rightarrow> xproc_c_layout_error" where
  "to_c_layout_error ok = LAYOUT_ERROR_NONE"
| "to_c_layout_error not_attached = LAYOUT_ERROR_NOT_ATTACHED"
| "to_c_layout_error bad_magic = LAYOUT_ERROR_BAD_MAGIC"
| "to_c_layout_error not_ready_timeout = LAYOUT_ERROR_NOT_READY_TIMEOUT"
| "to_c_layout_error version_mismatch = LAYOUT_ERROR_VERSION_MISMATCH"
| "to_c_layout_error header_size_mismatch = LAYOUT_ERROR_HEADER_SIZE_MISMATCH"
| "to_c_layout_error layout_type_mismatch = LAYOUT_ERROR_LAYOUT_TYPE_MISMATCH"
| "to_c_layout_error fixed_item_size_mismatch = LAYOUT_ERROR_FIXED_ITEM_SIZE_MISMATCH"
| "to_c_layout_error schema_id_mismatch = LAYOUT_ERROR_SCHEMA_ID_MISMATCH"
| "to_c_layout_error alignment_invalid = LAYOUT_ERROR_ALIGNMENT_INVALID"
| "to_c_layout_error capacity_insufficient = LAYOUT_ERROR_CAPACITY_INSUFFICIENT"
| "to_c_layout_error fixed_item_size_incompatible = LAYOUT_ERROR_FIXED_ITEM_SIZE_INCOMPATIBLE"

definition set_last_error :: "xproc_c_status \<Rightarrow> string \<Rightarrow> xproc_c_layout_error \<Rightarrow> capi \<Rightarrow> xproc_c_status \<times> capi" where
  "set_last_error status message layout_error g =
     (status, g\<lparr>g_last_error := message, g_last_layout_error := layout_error\<rparr>)"

text \<open>The handlers of \<open>catch_status\<close>, in the order the code tries them.\<close>

fun catch_status :: "exn \<Rightarrow> capi \<Rightarrow> (xproc_c_status \<times> capi) option" where
  "catch_status (Layout_exception what code) g = Some (set_last_error STATUS_LAYOUT_ERROR what (to_c_layout_error code) g)"
| "catch_status (Invalid_argument what) g = Some (set_last_error STATUS_INVALID_ARGUMENT what LAYOUT_ERROR_NONE g)"
| "catch_status (Logic_error what) g = Some (set_last_error STATUS_LOGIC_ERROR what LAYOUT_ERROR_NONE g)"
| "catch_status (Runtime_error what) g = Some (set_last_error STATUS_RUNTIME_ERROR what LAYOUT_ERROR_NONE g)"
| "catch_status Bad_alloc g = Some (set_last_error STATUS_NO_MEMORY ''xproc_c: allocation failed'' LAYOUT_ERROR_NONE g)"
| "catch_status (Undefined_behavior _) g = None"

definition invalid_argument :: "string \<Rightarrow> capi \<Rightarrow> xproc_c_status \<times> capi" where
  "invalid_argument message g = set_last_error STATUS_INVALID_ARGUMENT message LAYOUT_ERROR_NONE g"

text \<open>Checks of arguments, with what follows a failed and a passed check.\<close>

definition validate_handle :: "'i option \<Rightarrow> string \<Rightarrow> capi \<Rightarrow> (xproc_c_status \<times> capi \<Rightarrow> 'r) \<Rightarrow> ('i \<Rightarrow> 'r) \<Rightarrow> 'r" where
  "validate_handle impl message g failed passed =
     (case impl of None \<Rightarrow> failed (invalid_argument message g) | Some i \<Rightarrow> passed i)"

definition validate_out_pointer :: "'a option \<Rightarrow> string \<Rightarrow> capi \<Rightarrow> (xproc_c_status \<times> capi \<Rightarrow> 'r) \<Rightarrow> 'r \<Rightarrow> 'r" where
  "validate_out_pointer ptr message g failed passed =
     (if ptr = None then failed (invalid_argument message g) else passed)"

definition validate_copy_args ::
  "byte list option \<Rightarrow> u32 \<Rightarrow> u32 option \<Rightarrow> string \<Rightarrow> capi \<Rightarrow> xproc_c_status \<times> u32 option \<times> capi" where
  "validate_copy_args buffer buffer_capacity out_len out_len_message g =
     (if out_len = None then (case invalid_argument out_len_message g of (st, g1) \<Rightarrow> (st, None, g1))
      else if buffer = None \<and> buffer_capacity \<noteq> 0
      then (case invalid_argument ''xproc_c: buffer is null while buffer_capacity is non-zero'' g of (st, g1) \<Rightarrow> (st, Some 0, g1))
      else (STATUS_OK, out_len, g))"

fun status_code :: "xproc_c_status \<Rightarrow> int" where
  "status_code STATUS_OK = 0"
| "status_code STATUS_AGAIN = 1"
| "status_code STATUS_BUFFER_TOO_SMALL = 2"
| "status_code STATUS_INVALID_ARGUMENT = 3"
| "status_code STATUS_LOGIC_ERROR = 4"
| "status_code STATUS_LAYOUT_ERROR = 5"
| "status_code STATUS_RUNTIME_ERROR = 6"
| "status_code STATUS_NO_MEMORY = 7"
| "status_code STATUS_INTERNAL_ERROR = 8"

fun layout_error_code :: "xproc_c_layout_error \<Rightarrow> int" where
  "layout_error_code LAYOUT_ERROR_NONE = 0"
| "layout_error_code LAYOUT_ERROR_NOT_ATTACHED = 1"
| "layout_error_code LAYOUT_ERROR_BAD_MAGIC = 2"
| "layout_error_code LAYOUT_ERROR_NOT_READY_TIMEOUT = 3"
| "layout_error_code LAYOUT_ERROR_VERSION_MISMATCH = 4"
| "layout_error_code LAYOUT_ERROR_HEADER_SIZE_MISMATCH = 5"
| "layout_error_code LAYOUT_ERROR_LAYOUT_TYPE_MISMATCH = 6"
| "layout_error_code LAYOUT_ERROR_FIXED_ITEM_SIZE_MISMATCH = 7"
| "layout_error_code LAYOUT_ERROR_SCHEMA_ID_MISMATCH = 8"
| "layout_error_code LAYOUT_ERROR_ALIGNMENT_INVALID = 9"
| "layout_error_code LAYOUT_ERROR_CAPACITY_INSUFFICIENT = 10"
| "layout_error_code LAYOUT_ERROR_FIXED_ITEM_SIZE_INCOMPATIBLE = 11"

definition xproc_c_status_string :: "int \<Rightarrow> string" where
  "xproc_c_status_string status =
     (if status = 0 then ''ok''
      else if status = 1 then ''again''
      else if status = 2 then ''buffer_too_small''
      else if status = 3 then ''invalid_argument''
      else if status = 4 then ''logic_error''
      else if status = 5 then ''layout_error''
      else if status = 6 then ''runtime_error''
      else if status = 7 then ''no_memory''
      else if status = 8 then ''internal_error''
      else ''unknown_status'')"

definition xproc_c_layout_error_string :: "int \<Rightarrow> string" where
  "xproc_c_layout_error_string e =
     (if e = 0 then ''none''
      else if e = 1 then ''not_attached''
      else if e = 2 then ''bad_magic''
      else if e = 3 then ''not_ready_timeout''
      else if e = 4 then ''version_mismatch''
      else if e = 5 then ''header_size_mismatch''
      else if e = 6 then ''layout_type_mismatch''
      else if e = 7 then ''fixed_item_size_mismatch''
      else if e = 8 then ''schema_id_mismatch''
      else if e = 9 then ''alignment_invalid''
      else if e = 10 then ''capacity_insufficient''
      else if e = 11 then ''fixed_item_size_incompatible''
      else ''unknown_layout_error'')"

definition xproc_c_last_error_message :: "capi \<Rightarrow> string" where
  "xproc_c_last_error_message g = g_last_error g"

definition xproc_c_last_layout_error :: "capi \<Rightarrow> xproc_c_layout_error" where
  "xproc_c_last_layout_error g = g_last_layout_error g"

definition bytes_of :: "string \<Rightarrow> byte list" where
  "bytes_of s = map (\<lambda>c. of_nat (of_char c)) s"

definition xproc_c_last_error_copy ::
  "byte list option \<Rightarrow> u32 \<Rightarrow> u32 option \<Rightarrow> capi \<Rightarrow> xproc_c_status \<times> byte list option \<times> u32 option \<times> capi" where
  "xproc_c_last_error_copy buffer buffer_capacity out_len g =
     (if out_len = None
      then (case invalid_argument ''xproc_c_last_error_copy: out_len must not be null'' g of (st, g1) \<Rightarrow> (st, buffer, None, g1))
      else if buffer = None \<and> buffer_capacity \<noteq> 0
      then (case invalid_argument ''xproc_c_last_error_copy: buffer is null while buffer_capacity is non-zero'' g of
              (st, g1) \<Rightarrow> (st, buffer, Some 0, g1))
      else
        let n = of_nat (length (g_last_error g)) in
        if buffer_capacity < n then (STATUS_BUFFER_TOO_SMALL, buffer, Some n, g)
        else (STATUS_OK,
              if n \<noteq> 0 then map_option (buf_write 0 (take (unat n) (bytes_of (g_last_error g)))) buffer else buffer,
              Some n, g))"

section \<open>Options\<close>

text \<open>What a string is for a reader of its \<open>c_str\<close>.\<close>

definition c_str :: "string \<Rightarrow> string" where
  "c_str s = takeWhile (\<lambda>c. c \<noteq> CHR 0x00) s"

definition to_cpp_options :: "xproc_c_options \<Rightarrow> transport_options" where
  "to_cpp_options options =
     \<lparr>backend = (if c_backend options = BACKEND_SOCKET then socket else shared_memory),
      path = (case c_path options of None \<Rightarrow> [] | Some s \<Rightarrow> s),
      shm_size = c_shm_size options, item_size = c_item_size options, data_align = c_data_align options,
      schema_id = c_schema_id options, creator_timestamp_ns = c_creator_timestamp_ns options,
      creator_flags = c_creator_flags options, create_if_missing = (c_create_if_missing options \<noteq> 0),
      chan_type = (if c_channel_type options = CHANNEL_VARLEN then varlen else fixed),
      win32_object_namespace = (case c_win32_object_namespace options of None \<Rightarrow> ''Local'' | Some s \<Rightarrow> s),
      socket_host = (case c_socket_host options of None \<Rightarrow> ''127.0.0.1'' | Some s \<Rightarrow> s),
      socket_port = c_socket_port options, socket_listen = (c_socket_listen options \<noteq> 0),
      socket_connect_retries = c_socket_connect_retries options,
      socket_connect_retry_ms = c_socket_connect_retry_ms options\<rparr>"

definition fill_borrowed_options :: "transport_options \<Rightarrow> xproc_c_options" where
  "fill_borrowed_options options =
     \<lparr>c_backend = (if backend options = socket then BACKEND_SOCKET else BACKEND_SHARED_MEMORY),
      c_path = (if path options = [] then None else Some (c_str (path options))),
      c_shm_size = shm_size options, c_item_size = item_size options, c_data_align = data_align options,
      c_schema_id = schema_id options, c_creator_timestamp_ns = creator_timestamp_ns options,
      c_creator_flags = creator_flags options, c_create_if_missing = (if create_if_missing options then 1 else 0),
      c_channel_type = (if chan_type options = varlen then CHANNEL_VARLEN else CHANNEL_FIXED),
      c_win32_object_namespace =
        (if win32_object_namespace options = [] then None else Some (c_str (win32_object_namespace options))),
      c_socket_host = (if socket_host options = [] then None else Some (c_str (socket_host options))),
      c_socket_port = socket_port options, c_socket_listen = (if socket_listen options then 1 else 0),
      c_socket_connect_retries = socket_connect_retries options,
      c_socket_connect_retry_ms = socket_connect_retry_ms options\<rparr>"

definition fill_owned_options ::
  "transport_options \<Rightarrow> owned_option_strings \<Rightarrow> owned_option_strings \<times> xproc_c_options" where
  "fill_owned_options options storage =
     (let out = fill_borrowed_options options;
          storage = storage\<lparr>os_path := path options, os_win32_object_namespace := win32_object_namespace options,
                            os_socket_host := socket_host options\<rparr>
      in (storage,
          out\<lparr>c_path := (if os_path storage = [] then None else Some (c_str (os_path storage))),
              c_win32_object_namespace :=
                (if os_win32_object_namespace storage = [] then None else Some (c_str (os_win32_object_namespace storage))),
              c_socket_host := (if os_socket_host storage = [] then None else Some (c_str (os_socket_host storage)))\<rparr>))"

definition xproc_c_options_init :: xproc_c_options where
  "xproc_c_options_init =
     \<lparr>c_backend = BACKEND_SHARED_MEMORY, c_path = None, c_shm_size = 0, c_item_size = 0, c_data_align = 0, c_schema_id = 0,
      c_creator_timestamp_ns = 0, c_creator_flags = 0, c_create_if_missing = 1, c_channel_type = CHANNEL_FIXED,
      c_win32_object_namespace = Some ''Local'', c_socket_host = Some ''127.0.0.1'', c_socket_port = 0,
      c_socket_listen = 0, c_socket_connect_retries = 200, c_socket_connect_retry_ms = 10\<rparr>"

text \<open>Options of zero bytes, as the bindings hand them over to be filled.\<close>

definition c_options_zero :: xproc_c_options where
  "c_options_zero =
     \<lparr>c_backend = 0, c_path = None, c_shm_size = 0, c_item_size = 0, c_data_align = 0, c_schema_id = 0, c_creator_timestamp_ns = 0,
      c_creator_flags = 0, c_create_if_missing = 0, c_channel_type = 0, c_win32_object_namespace = None, c_socket_host = None,
      c_socket_port = 0, c_socket_listen = 0, c_socket_connect_retries = 0, c_socket_connect_retry_ms = 0\<rparr>"

definition xproc_c_shm_size_for_data_capacity :: "abi \<Rightarrow> u64 \<Rightarrow> u64" where
  "xproc_c_shm_size_for_data_capacity A n = shm_size_for_data_capacity A n"

definition xproc_c_shm_data_capacity_for_size :: "abi \<Rightarrow> u64 \<Rightarrow> u64" where
  "xproc_c_shm_data_capacity_for_size A n = shm_data_capacity_for_size A n"

definition validate_endpoint_kind :: "int \<Rightarrow> capi \<Rightarrow> xproc_c_status \<times> capi" where
  "validate_endpoint_kind kind g =
     (if kind = ENDPOINT_PRODUCER \<or> kind = ENDPOINT_CONSUMER \<or> kind = ENDPOINT_OBSERVER then (STATUS_OK, g)
      else invalid_argument ''xproc_c: unknown endpoint kind'' g)"

definition validate_options_for_kind ::
  "platform \<Rightarrow> abi \<Rightarrow> int \<Rightarrow> xproc_c_options option \<Rightarrow> capi \<Rightarrow> (xproc_c_status \<times> capi) option" where
  "validate_options_for_kind p A kind options g =
     (case validate_endpoint_kind kind g of
        (st, g1) \<Rightarrow>
          if st \<noteq> STATUS_OK then Some (st, g1)
          else
            (case options of
               None \<Rightarrow> Some (invalid_argument ''xproc_c_validate_options_for: options must not be null'' g1)
             | Some opts \<Rightarrow>
                 (let cpp_options = to_cpp_options opts in
                  case (if kind = ENDPOINT_PRODUCER then validate_producer_transport_options p A cpp_options
                        else if kind = ENDPOINT_CONSUMER then validate_consumer_transport_options p A cpp_options
                        else validate_observer_transport_options p A cpp_options) of
                    Inl e \<Rightarrow> catch_status e g1
                  | Inr _ \<Rightarrow> Some (STATUS_OK, clear_last_error g1))))"

definition xproc_c_validate_options_for ::
  "platform \<Rightarrow> abi \<Rightarrow> int \<Rightarrow> xproc_c_options option \<Rightarrow> capi \<Rightarrow> (xproc_c_status \<times> capi) option" where
  "xproc_c_validate_options_for p A kind options g = validate_options_for_kind p A kind options g"

definition validate_options_query_args ::
  "transport_options option \<Rightarrow> xproc_c_options option \<Rightarrow> string \<Rightarrow> string \<Rightarrow> capi
   \<Rightarrow> (xproc_c_status \<times> capi \<Rightarrow> 'r) \<Rightarrow> (transport_options \<Rightarrow> 'r) \<Rightarrow> 'r" where
  "validate_options_query_args impl out_options handle_message out_message g failed passed =
     validate_out_pointer out_options out_message g failed (validate_handle impl handle_message g failed passed)"

definition copy_options_from_handle ::
  "transport_options option \<Rightarrow> xproc_c_options option \<Rightarrow> string \<Rightarrow> string \<Rightarrow> capi
   \<Rightarrow> xproc_c_status \<times> xproc_c_options option \<times> capi" where
  "copy_options_from_handle impl out_options handle_message out_message g =
     validate_options_query_args impl out_options handle_message out_message g
       (\<lambda>(st, g1). (st, out_options, g1))
       (\<lambda>opts. (STATUS_OK, Some (fill_borrowed_options opts), clear_last_error g))"

definition producer_socket_port_impl ::
  "transport_options option \<Rightarrow> u16 option \<Rightarrow> string \<Rightarrow> capi \<Rightarrow> xproc_c_status \<times> u16 option \<times> capi" where
  "producer_socket_port_impl impl out_port invalid_message g =
     validate_out_pointer out_port ''xproc_c: out_port must not be null'' g (\<lambda>(st, g1). (st, None, g1))
       (validate_handle impl invalid_message g
          (\<lambda>(st, g1). (st, Some 0, g1))
          (\<lambda>opts. (STATUS_OK, Some (socket_port opts), clear_last_error g)))"

definition to_cpp_meta :: "xproc_c_message_meta option \<Rightarrow> message_meta" where
  "to_cpp_meta m =
     (case m of
        None \<Rightarrow> default_meta
      | Some x \<Rightarrow> \<lparr>user_data = cm_user_data x, timestamp_ns = cm_timestamp_ns x, meta_schema_id = cm_schema_id x, flags = cm_flags x\<rparr>)"

definition to_c_meta :: "message_meta \<Rightarrow> xproc_c_message_meta option \<Rightarrow> xproc_c_message_meta option" where
  "to_c_meta m out =
     (case out of
        None \<Rightarrow> None
      | Some _ \<Rightarrow> Some \<lparr>cm_user_data = user_data m, cm_timestamp_ns = timestamp_ns m, cm_schema_id = meta_schema_id m, cm_flags = flags m\<rparr>)"

section \<open>Shared memory\<close>

definition xproc_c_shm_read_existing_options ::
  "platform \<Rightarrow> abi \<Rightarrow> ('s, 'k) shm_backend \<Rightarrow> ('k \<Rightarrow> 'k) \<Rightarrow> string option \<Rightarrow> string option \<Rightarrow> xproc_c_options option \<Rightarrow> 'k \<Rightarrow> capi
   \<Rightarrow> (xproc_c_status \<times> xproc_c_options option \<times> 'k \<times> capi) option" where
  "xproc_c_shm_read_existing_options p A B sleep pth ns out_options k g =
     (case pth of
        None \<Rightarrow>
          (case invalid_argument ''xproc_c_shm_read_existing_options: path must not be null'' g of
             (st, g1) \<Rightarrow> Some (st, out_options, k, g1))
      | Some pa \<Rightarrow>
          validate_out_pointer out_options ''xproc_c_shm_read_existing_options: out_options must not be null'' g
            (\<lambda>(st, g1). Some (st, None, k, g1))
            (case read_existing_shm_options p A B sleep pa (case ns of None \<Rightarrow> ''Local'' | Some x \<Rightarrow> x)
                    ''xproc_c_shm_read_existing_options: '' k of
               (Inl e, k1) \<Rightarrow> map_option (\<lambda>(st, g1). (st, out_options, k1, g1)) (catch_status e g)
             | (Inr options, k1) \<Rightarrow>
                 (case fill_owned_options options (g_read_existing_option_strings g) of
                    (storage, out) \<Rightarrow>
                      Some (STATUS_OK, Some out, k1, clear_last_error (g\<lparr>g_read_existing_option_strings := storage\<rparr>)))))"

definition xproc_c_shm_unlink :: "(string \<Rightarrow> 'k \<Rightarrow> 'k) \<Rightarrow> string option \<Rightarrow> 'k \<Rightarrow> capi \<Rightarrow> xproc_c_status \<times> 'k \<times> capi" where
  "xproc_c_shm_unlink unlink pth k g =
     (case pth of
        None \<Rightarrow> (case invalid_argument ''xproc_c_shm_unlink: path must not be null'' g of (st, g1) \<Rightarrow> (st, k, g1))
      | Some pa \<Rightarrow> (STATUS_OK, unlink pa k, clear_last_error g))"

section \<open>Producers\<close>

definition xproc_c_producer_open ::
  "platform \<Rightarrow> abi \<Rightarrow> init_fn \<Rightarrow> int \<Rightarrow> ('s, 'k) shm_backend \<Rightarrow> 'n sockets \<Rightarrow> xproc_c_options option \<Rightarrow> 's xproc_c_producer option option \<Rightarrow> 'k \<Rightarrow> 'n \<Rightarrow> capi
   \<Rightarrow> (xproc_c_status \<times> 's xproc_c_producer option option \<times> 'k \<times> 'n \<times> capi) option" where
  "xproc_c_producer_open p A init pid B N options out_producer k n g =
     validate_out_pointer out_producer ''xproc_c_producer_open: out_producer must not be null'' g (\<lambda>(st, g1). Some (st, None, k, n, g1))
       (case options of
          None \<Rightarrow>
            (case invalid_argument ''xproc_c_producer_open: options must not be null'' g of (st, g1) \<Rightarrow> Some (st, Some None, k, n, g1))
        | Some opts \<Rightarrow>
            (case validate_options_for_kind p A ENDPOINT_PRODUCER options g of
               None \<Rightarrow> None
             | Some (st, g1) \<Rightarrow>
                 if st \<noteq> STATUS_OK then Some (st, Some None, k, n, g1)
                 else
                   (case create_producer_transport p A init pid B N (to_cpp_options opts) k n of
                      (Inl e, k1, n1) \<Rightarrow> map_option (\<lambda>(st, g2). (st, Some None, k1, n1, g2)) (catch_status e g1)
                    | (Inr impl, k1, n1) \<Rightarrow> Some (STATUS_OK, Some (Some \<lparr>cp_impl = Some impl\<rparr>), k1, n1, clear_last_error g1))))"

definition xproc_c_producer_close ::
  "('s, 'k) shm_backend \<Rightarrow> 'n sockets \<Rightarrow> 's xproc_c_producer option \<Rightarrow> 'k \<Rightarrow> 'n \<Rightarrow> 'k \<times> 'n" where
  "xproc_c_producer_close B N producer k n =
     (case Option.bind producer cp_impl of
        None \<Rightarrow> (k, n)
      | Some (Shm_producer ep) \<Rightarrow> (destroy_endpoint B ep k, n)
      | Some (Socket_producer sp) \<Rightarrow> (k, destroy_socket_producer N sp n))"

definition xproc_c_producer_options ::
  "'s xproc_c_producer option \<Rightarrow> xproc_c_options option \<Rightarrow> capi \<Rightarrow> xproc_c_status \<times> xproc_c_options option \<times> capi" where
  "xproc_c_producer_options producer out_options g =
     copy_options_from_handle (map_option producer_transport_options (Option.bind producer cp_impl)) out_options
       ''xproc_c_producer_options: producer is null'' ''xproc_c_producer_options: out_options must not be null'' g"

definition xproc_c_producer_socket_port ::
  "'s xproc_c_producer option \<Rightarrow> u16 option \<Rightarrow> capi \<Rightarrow> xproc_c_status \<times> u16 option \<times> capi" where
  "xproc_c_producer_socket_port producer out_port g =
     producer_socket_port_impl (map_option producer_transport_options (Option.bind producer cp_impl)) out_port
       ''xproc_c_producer_socket_port: producer is null'' g"

text \<open>The body of \<open>catch_status\<close> in a send: the status of its result, and the handle as the send leaves it.\<close>

definition sent ::
  "capi \<Rightarrow> (exn + unit) \<times> 's producer_transport \<times> 'n medium
   \<Rightarrow> (xproc_c_status \<times> 's xproc_c_producer option \<times> 'n medium \<times> capi) option" where
  "sent g x =
     (case x of (r, pt, md) \<Rightarrow>
        map_option (\<lambda>(st, g1). (st, Some \<lparr>cp_impl = Some pt\<rparr>, md, g1))
          (case r of Inl e \<Rightarrow> catch_status e g | Inr _ \<Rightarrow> Some (STATUS_OK, clear_last_error g)))"

definition data_bytes :: "byte list option \<Rightarrow> byte list" where
  "data_bytes src = (case src of None \<Rightarrow> [] | Some d \<Rightarrow> d)"

definition xproc_c_producer_send_fixed_bytes ::
  "platform \<Rightarrow> spscring \<Rightarrow> 'n sockets \<Rightarrow> (nat \<Rightarrow> segment \<Rightarrow> segment) \<Rightarrow> 's xproc_c_producer option \<Rightarrow> byte list option \<Rightarrow> u32 \<Rightarrow> 'n medium \<Rightarrow> capi
   \<Rightarrow> (xproc_c_status \<times> 's xproc_c_producer option \<times> 'n medium \<times> capi) option" where
  "xproc_c_producer_send_fixed_bytes p R N env producer src payload_len md g =
     validate_handle (Option.bind producer cp_impl) ''xproc_c_producer_send_fixed_bytes: producer is null'' g
       (\<lambda>(st, g1). Some (st, producer, md, g1))
       (\<lambda>pt.
          if src = None \<and> payload_len \<noteq> 0
          then (case invalid_argument ''xproc_c_producer_send_fixed_bytes: data is null while payload_len is non-zero'' g of
                  (st, g1) \<Rightarrow> Some (st, producer, md, g1))
          else Option.bind (transport_send_fixed_bytes p R N env (data_bytes src) payload_len default_meta pt md) (sent g))"

definition xproc_c_producer_send_fixed_sized ::
  "platform \<Rightarrow> spscring \<Rightarrow> 'n sockets \<Rightarrow> (nat \<Rightarrow> segment \<Rightarrow> segment) \<Rightarrow> 's xproc_c_producer option \<Rightarrow> byte list option \<Rightarrow> u32 \<Rightarrow> 'n medium \<Rightarrow> capi
   \<Rightarrow> (xproc_c_status \<times> 's xproc_c_producer option \<times> 'n medium \<times> capi) option" where
  "xproc_c_producer_send_fixed_sized p R N env producer src byte_length md g =
     validate_handle (Option.bind producer cp_impl) ''xproc_c_producer_send_fixed_sized: producer is null'' g
       (\<lambda>(st, g1). Some (st, producer, md, g1))
       (\<lambda>pt.
          if src = None \<and> byte_length \<noteq> 0
          then (case invalid_argument ''xproc_c_producer_send_fixed_sized: data is null while byte_length is non-zero'' g of
                  (st, g1) \<Rightarrow> Some (st, producer, md, g1))
          else Option.bind (transport_send_fixed_sized p R N env (data_bytes src) byte_length default_meta pt md) (sent g))"

definition xproc_c_producer_send_fixed_sized_with_meta ::
  "platform \<Rightarrow> spscring \<Rightarrow> 'n sockets \<Rightarrow> (nat \<Rightarrow> segment \<Rightarrow> segment) \<Rightarrow> 's xproc_c_producer option \<Rightarrow> byte list option \<Rightarrow> u32 \<Rightarrow> xproc_c_message_meta option \<Rightarrow> 'n medium \<Rightarrow> capi
   \<Rightarrow> (xproc_c_status \<times> 's xproc_c_producer option \<times> 'n medium \<times> capi) option" where
  "xproc_c_producer_send_fixed_sized_with_meta p R N env producer src byte_length meta md g =
     validate_handle (Option.bind producer cp_impl) ''xproc_c_producer_send_fixed_sized_with_meta: producer is null'' g
       (\<lambda>(st, g1). Some (st, producer, md, g1))
       (\<lambda>pt.
          if src = None \<and> byte_length \<noteq> 0
          then (case invalid_argument ''xproc_c_producer_send_fixed_sized_with_meta: data is null while byte_length is non-zero'' g of
                  (st, g1) \<Rightarrow> Some (st, producer, md, g1))
          else Option.bind (transport_send_fixed_sized p R N env (data_bytes src) byte_length (to_cpp_meta meta) pt md) (sent g))"

definition xproc_c_producer_send_varlen ::
  "platform \<Rightarrow> spscring \<Rightarrow> 'n sockets \<Rightarrow> u64 \<Rightarrow> 's xproc_c_producer option \<Rightarrow> byte list option \<Rightarrow> u32 \<Rightarrow> 'n medium \<Rightarrow> capi
   \<Rightarrow> (xproc_c_status \<times> 's xproc_c_producer option \<times> 'n medium \<times> capi) option" where
  "xproc_c_producer_send_varlen p R N ts producer src len md g =
     validate_handle (Option.bind producer cp_impl) ''xproc_c_producer_send_varlen: producer is null'' g
       (\<lambda>(st, g1). Some (st, producer, md, g1))
       (\<lambda>pt.
          if src = None \<and> len \<noteq> 0
          then (case invalid_argument ''xproc_c_producer_send_varlen: data is null while len is non-zero'' g of
                  (st, g1) \<Rightarrow> Some (st, producer, md, g1))
          else sent g (transport_send_varlen p R N ts (data_bytes src) len default_meta pt md))"

definition xproc_c_producer_send_varlen_with_meta ::
  "platform \<Rightarrow> spscring \<Rightarrow> 'n sockets \<Rightarrow> u64 \<Rightarrow> 's xproc_c_producer option \<Rightarrow> byte list option \<Rightarrow> u32 \<Rightarrow> xproc_c_message_meta option \<Rightarrow> 'n medium \<Rightarrow> capi
   \<Rightarrow> (xproc_c_status \<times> 's xproc_c_producer option \<times> 'n medium \<times> capi) option" where
  "xproc_c_producer_send_varlen_with_meta p R N ts producer src byte_length meta md g =
     validate_handle (Option.bind producer cp_impl) ''xproc_c_producer_send_varlen_with_meta: producer is null'' g
       (\<lambda>(st, g1). Some (st, producer, md, g1))
       (\<lambda>pt.
          if src = None \<and> byte_length \<noteq> 0
          then (case invalid_argument ''xproc_c_producer_send_varlen_with_meta: data is null while byte_length is non-zero'' g of
                  (st, g1) \<Rightarrow> Some (st, producer, md, g1))
          else sent g (transport_send_varlen p R N ts (data_bytes src) byte_length (to_cpp_meta meta) pt md))"

section \<open>Consumers\<close>

definition xproc_c_consumer_open ::
  "platform \<Rightarrow> abi \<Rightarrow> init_fn \<Rightarrow> int \<Rightarrow> ('s, 'k) shm_backend \<Rightarrow> 'n sockets \<Rightarrow> ('n \<Rightarrow> (exn + wait_interruptor) \<times> 'n) \<Rightarrow> xproc_c_options option \<Rightarrow> 's xproc_c_consumer option option \<Rightarrow> 'k \<Rightarrow> 'n \<Rightarrow> capi
   \<Rightarrow> (xproc_c_status \<times> 's xproc_c_consumer option option \<times> 'k \<times> 'n \<times> capi) option" where
  "xproc_c_consumer_open p A init pid B N mk_wake options out_consumer k n g =
     validate_out_pointer out_consumer ''xproc_c_consumer_open: out_consumer must not be null'' g (\<lambda>(st, g1). Some (st, None, k, n, g1))
       (case options of
          None \<Rightarrow>
            (case invalid_argument ''xproc_c_consumer_open: options must not be null'' g of (st, g1) \<Rightarrow> Some (st, Some None, k, n, g1))
        | Some opts \<Rightarrow>
            (case validate_options_for_kind p A ENDPOINT_CONSUMER options g of
               None \<Rightarrow> None
             | Some (st, g1) \<Rightarrow>
                 if st \<noteq> STATUS_OK then Some (st, Some None, k, n, g1)
                 else
                   (case create_consumer_transport p A init pid B N mk_wake (to_cpp_options opts) k n of
                      (Inl e, k1, n1) \<Rightarrow> map_option (\<lambda>(st, g2). (st, Some None, k1, n1, g2)) (catch_status e g1)
                    | (Inr impl, k1, n1) \<Rightarrow> Some (STATUS_OK, Some (Some \<lparr>cc_impl = Some impl, cc_pending = []\<rparr>), k1, n1, clear_last_error g1))))"

definition xproc_c_consumer_close ::
  "('s, 'k) shm_backend \<Rightarrow> 'n sockets \<Rightarrow> 's xproc_c_consumer option \<Rightarrow> 'k \<Rightarrow> 'n \<Rightarrow> 'k \<times> 'n" where
  "xproc_c_consumer_close B N consumer k n =
     (case Option.bind consumer cc_impl of
        None \<Rightarrow> (k, n)
      | Some (Shm_consumer ep) \<Rightarrow> (destroy_endpoint B ep k, n)
      | Some (Socket_consumer sc) \<Rightarrow> (k, destroy_socket_consumer N sc n))"

definition xproc_c_consumer_options ::
  "'s xproc_c_consumer option \<Rightarrow> xproc_c_options option \<Rightarrow> capi \<Rightarrow> xproc_c_status \<times> xproc_c_options option \<times> capi" where
  "xproc_c_consumer_options consumer out_options g =
     copy_options_from_handle (map_option consumer_transport_options (Option.bind consumer cc_impl)) out_options
       ''xproc_c_consumer_options: consumer is null'' ''xproc_c_consumer_options: out_options must not be null'' g"

definition xproc_c_consumer_socket_port ::
  "'s xproc_c_consumer option \<Rightarrow> u16 option \<Rightarrow> capi \<Rightarrow> xproc_c_status \<times> u16 option \<times> capi" where
  "xproc_c_consumer_socket_port consumer out_port g =
     producer_socket_port_impl (map_option consumer_transport_options (Option.bind consumer cc_impl)) out_port
       ''xproc_c_consumer_socket_port: consumer is null'' g"

definition xproc_c_consumer_pending_len ::
  "'s xproc_c_consumer option \<Rightarrow> u32 option \<Rightarrow> capi \<Rightarrow> xproc_c_status \<times> u32 option \<times> capi" where
  "xproc_c_consumer_pending_len consumer out_len g =
     validate_out_pointer out_len ''xproc_c_consumer_pending_len: out_len must not be null'' g (\<lambda>(st, g1). (st, None, g1))
       (case consumer of
          None \<Rightarrow> (case invalid_argument ''xproc_c_consumer_pending_len: consumer is null'' g of (st, g1) \<Rightarrow> (st, Some 0, g1))
        | Some c \<Rightarrow>
            validate_handle (cc_impl c) ''xproc_c_consumer_pending_len: consumer is null'' g
              (\<lambda>(st, g1). (st, Some 0, g1))
              (\<lambda>_. (STATUS_OK, Some (of_nat (length (cc_pending c))), clear_last_error g)))"

text \<open>
  What the handler of \<open>poll_copy\<close> does with the message it is called with: \<open>Inl\<close> is the message kept because the buffer is too
  small, \<open>Inr\<close> the buffer it was copied to; with the length.
\<close>

definition copy_message :: "u32 \<Rightarrow> byte list option \<Rightarrow> byte list \<Rightarrow> u32 \<times> (byte list + byte list option)" where
  "copy_message buffer_capacity buffer d =
     (let len = of_nat (length d) in
      (len, if buffer_capacity < len then Inl d
            else Inr (if len \<noteq> 0 then map_option (buf_write 0 d) buffer else buffer)))"

type_synonym ('s, 'n) poll_copy_result =
  "(xproc_c_status \<times> byte list option \<times> u32 option \<times> 's xproc_c_consumer option \<times> 'n medium \<times> capi) option"

definition deliver_pending ::
  "byte list option \<Rightarrow> u32 \<Rightarrow> 's xproc_c_consumer \<Rightarrow> 'n medium \<Rightarrow> capi \<Rightarrow> ('s, 'n) poll_copy_result" where
  "deliver_pending buffer buffer_capacity c md g =
     (let n = of_nat (length (cc_pending c)) in
      if buffer_capacity < n
      then (case set_last_error STATUS_BUFFER_TOO_SMALL ''xproc_c_consumer_poll_copy: buffer too small'' LAYOUT_ERROR_NONE g of
              (st, g1) \<Rightarrow> Some (st, buffer, Some n, Some c, md, g1))
      else Some (STATUS_OK, if n \<noteq> 0 then map_option (buf_write 0 (cc_pending c)) buffer else buffer, Some n,
                 Some (c\<lparr>cc_pending := []\<rparr>), md, clear_last_error g))"

definition poll_and_copy ::
  "platform \<Rightarrow> spscring \<Rightarrow> 'n sockets \<Rightarrow> byte list option \<Rightarrow> u32 \<Rightarrow> u32 option \<Rightarrow> 's consumer_transport \<Rightarrow> 'n medium \<Rightarrow> capi
   \<Rightarrow> ('s, 'n) poll_copy_result" where
  "poll_and_copy p R N buffer buffer_capacity out_len ct md g =
     (case transport_poll p R N (\<lambda>_. None) ct md of
        (Inl e, ms, ct1, md1) \<Rightarrow>
          map_option (\<lambda>(st, g1). (st, buffer, out_len, Some \<lparr>cc_impl = Some ct1, cc_pending = []\<rparr>, md1, g1)) (catch_status e g)
      | (Inr has_message, ms, ct1, md1) \<Rightarrow>
          (case (has_message, ms) of
             (True, m # _) \<Rightarrow>
               (case copy_message buffer_capacity buffer (snd m) of
                  (n, Inl pending) \<Rightarrow>
                    (case set_last_error STATUS_BUFFER_TOO_SMALL ''xproc_c_consumer_poll_copy: buffer too small'' LAYOUT_ERROR_NONE g of
                       (st, g1) \<Rightarrow> Some (st, buffer, Some n, Some \<lparr>cc_impl = Some ct1, cc_pending = pending\<rparr>, md1, g1))
                | (n, Inr buffer1) \<Rightarrow>
                    Some (STATUS_OK, buffer1, Some n, Some \<lparr>cc_impl = Some ct1, cc_pending = []\<rparr>, md1, clear_last_error g))
           | _ \<Rightarrow> Some (STATUS_AGAIN, buffer, Some 0, Some \<lparr>cc_impl = Some ct1, cc_pending = []\<rparr>, md1, clear_last_error g)))"

definition xproc_c_consumer_poll_copy ::
  "platform \<Rightarrow> spscring \<Rightarrow> 'n sockets \<Rightarrow> 's xproc_c_consumer option \<Rightarrow> byte list option \<Rightarrow> u32 \<Rightarrow> u32 option \<Rightarrow> 'n medium \<Rightarrow> capi
   \<Rightarrow> ('s, 'n) poll_copy_result" where
  "xproc_c_consumer_poll_copy p R N consumer buffer buffer_capacity out_len md g =
     (case validate_copy_args buffer buffer_capacity out_len ''xproc_c_consumer_poll_copy: out_len must not be null'' g of
        (st, out_len1, g1) \<Rightarrow>
          if st \<noteq> STATUS_OK then Some (st, buffer, out_len1, consumer, md, g1)
          else
            (case consumer of
               None \<Rightarrow>
                 (case invalid_argument ''xproc_c_consumer_poll_copy: consumer is null'' g1 of
                    (st, g2) \<Rightarrow> Some (st, buffer, Some 0, consumer, md, g2))
             | Some c \<Rightarrow>
                 validate_handle (cc_impl c) ''xproc_c_consumer_poll_copy: consumer is null'' g1
                   (\<lambda>(st, g2). Some (st, buffer, Some 0, consumer, md, g2))
                   (\<lambda>ct.
                      if cc_pending c \<noteq> [] then deliver_pending buffer buffer_capacity c md g1
                      else poll_and_copy p R N buffer buffer_capacity out_len1 ct md g1)))"

definition xproc_c_consumer_wait ::
  "platform \<Rightarrow> 'n sockets \<Rightarrow> (u32 \<Rightarrow> segment \<Rightarrow> segment option) \<Rightarrow> 's xproc_c_consumer option \<Rightarrow> 'n medium \<Rightarrow> capi
   \<Rightarrow> (xproc_c_status \<times> 'n medium \<times> capi) option" where
  "xproc_c_consumer_wait p N wait_change consumer md g =
     (case consumer of
        None \<Rightarrow> (case invalid_argument ''xproc_c_consumer_wait: consumer is null'' g of (st, g1) \<Rightarrow> Some (st, md, g1))
      | Some c \<Rightarrow>
          validate_handle (cc_impl c) ''xproc_c_consumer_wait: consumer is null'' g
            (\<lambda>(st, g1). Some (st, md, g1))
            (\<lambda>ct.
               if cc_pending c \<noteq> [] then Some (STATUS_OK, md, clear_last_error g)
               else map_option (\<lambda>md1. (STATUS_OK, md1, clear_last_error g)) (transport_wait p N wait_change ct md)))"

section \<open>Observers\<close>

text \<open>
  The memory an observer reads is \<open>mem\<close>, the successive values of the control block, and the segment it peeks into.
\<close>

definition observed :: "(nat \<Rightarrow> control_block) \<Rightarrow> 's observer \<Rightarrow> (nat \<Rightarrow> control_block) option" where
  "observed mem ob = map_option (\<lambda>_. mem) (ob_header ob)"

definition xproc_c_observer_open ::
  "platform \<Rightarrow> abi \<Rightarrow> init_fn \<Rightarrow> int \<Rightarrow> ('s, 'k) shm_backend \<Rightarrow> xproc_c_options option \<Rightarrow> 's xproc_c_observer option option \<Rightarrow> 'k \<Rightarrow> capi
   \<Rightarrow> (xproc_c_status \<times> 's xproc_c_observer option option \<times> 'k \<times> capi) option" where
  "xproc_c_observer_open p A init pid B options out_observer k g =
     validate_out_pointer out_observer ''xproc_c_observer_open: out_observer must not be null'' g (\<lambda>(st, g1). Some (st, None, k, g1))
       (case options of
          None \<Rightarrow>
            (case invalid_argument ''xproc_c_observer_open: options must not be null'' g of (st, g1) \<Rightarrow> Some (st, Some None, k, g1))
        | Some opts \<Rightarrow>
            (case validate_options_for_kind p A ENDPOINT_OBSERVER options g of
               None \<Rightarrow> None
             | Some (st, g1) \<Rightarrow>
                 if st \<noteq> STATUS_OK then Some (st, Some None, k, g1)
                 else
                   (case make_observer p A init pid B (to_cpp_options opts) k of
                      (Inl e, k1) \<Rightarrow> map_option (\<lambda>(st, g2). (st, Some None, k1, g2)) (catch_status e g1)
                    | (Inr impl, k1) \<Rightarrow> Some (STATUS_OK, Some (Some \<lparr>cv_impl = Some impl\<rparr>), k1, clear_last_error g1))))"

definition xproc_c_observer_close :: "('s, 'k) shm_backend \<Rightarrow> 's xproc_c_observer option \<Rightarrow> 'k \<Rightarrow> 'k" where
  "xproc_c_observer_close B observer k =
     (case Option.bind observer cv_impl of None \<Rightarrow> k | Some ob \<Rightarrow> destroy_observer B ob k)"

definition xproc_c_observer_options ::
  "'s xproc_c_observer option \<Rightarrow> xproc_c_options option \<Rightarrow> capi \<Rightarrow> xproc_c_status \<times> xproc_c_options option \<times> capi" where
  "xproc_c_observer_options observer out_options g =
     copy_options_from_handle (map_option ob_opts (Option.bind observer cv_impl)) out_options
       ''xproc_c_observer_options: observer is null'' ''xproc_c_observer_options: out_options must not be null'' g"

text \<open>The shape of every query: the out pointer, the handle, and then the value.\<close>

definition handle_query ::
  "string \<Rightarrow> string \<Rightarrow> 'i option \<Rightarrow> ('i \<Rightarrow> 'a) \<Rightarrow> 'a option \<Rightarrow> capi \<Rightarrow> xproc_c_status \<times> 'a option \<times> capi" where
  "handle_query out_message handle_message impl f out g =
     validate_out_pointer out out_message g (\<lambda>(st, g1). (st, None, g1))
       (validate_handle impl handle_message g
          (\<lambda>(st, g1). (st, out, g1))
          (\<lambda>i. (STATUS_OK, Some (f i), clear_last_error g)))"

definition to_c_snapshot :: "ring_snapshot \<Rightarrow> xproc_c_snapshot" where
  "to_c_snapshot s =
     \<lparr>cs_write_pos = sn_write_pos s, cs_read_pos = sn_read_pos s, cs_commit_pos = sn_commit_pos s, cs_commit_seq = sn_commit_seq s,
      cs_read_wake_seq = sn_read_wake_seq s, cs_attach_count = sn_attach_count s, cs_producer_pid = sn_producer_pid s\<rparr>"

definition xproc_c_observer_snapshot ::
  "spscring \<Rightarrow> (nat \<Rightarrow> control_block) \<Rightarrow> 's xproc_c_observer option \<Rightarrow> xproc_c_snapshot option \<Rightarrow> capi
   \<Rightarrow> xproc_c_status \<times> xproc_c_snapshot option \<times> capi" where
  "xproc_c_observer_snapshot R mem observer out_snapshot g =
     handle_query ''xproc_c_observer_snapshot: out_snapshot must not be null'' ''xproc_c_observer_snapshot: observer is null''
       (Option.bind observer cv_impl) (\<lambda>ob. to_c_snapshot (snapshot R (observed mem ob))) out_snapshot g"

definition xproc_c_observer_occupancy_ratio ::
  "(nat \<Rightarrow> control_block) \<Rightarrow> 's xproc_c_observer option \<Rightarrow> rat option \<Rightarrow> capi \<Rightarrow> xproc_c_status \<times> rat option \<times> capi" where
  "xproc_c_observer_occupancy_ratio mem observer out g =
     handle_query ''xproc_c_observer_occupancy_ratio: out must not be null'' ''xproc_c_observer_occupancy_ratio: observer is null''
       (Option.bind observer cv_impl) (\<lambda>ob. occupancy_ratio (observed mem ob)) out g"

definition xproc_c_observer_occupancy_bytes ::
  "(nat \<Rightarrow> control_block) \<Rightarrow> 's xproc_c_observer option \<Rightarrow> u64 option \<Rightarrow> capi \<Rightarrow> xproc_c_status \<times> u64 option \<times> capi" where
  "xproc_c_observer_occupancy_bytes mem observer out g =
     handle_query ''xproc_c_observer_occupancy_bytes: out must not be null'' ''xproc_c_observer_occupancy_bytes: observer is null''
       (Option.bind observer cv_impl) (\<lambda>ob. occupancy_bytes (observed mem ob)) out g"

definition xproc_c_observer_available_bytes ::
  "(nat \<Rightarrow> control_block) \<Rightarrow> 's xproc_c_observer option \<Rightarrow> u64 option \<Rightarrow> capi \<Rightarrow> xproc_c_status \<times> u64 option \<times> capi" where
  "xproc_c_observer_available_bytes mem observer out g =
     handle_query ''xproc_c_observer_available_bytes: out must not be null'' ''xproc_c_observer_available_bytes: observer is null''
       (Option.bind observer cv_impl) (\<lambda>ob. observer_available_bytes (observed mem ob)) out g"

definition xproc_c_observer_consumer_lag_bytes ::
  "(nat \<Rightarrow> control_block) \<Rightarrow> 's xproc_c_observer option \<Rightarrow> u64 option \<Rightarrow> capi \<Rightarrow> xproc_c_status \<times> u64 option \<times> capi" where
  "xproc_c_observer_consumer_lag_bytes mem observer out g =
     handle_query ''xproc_c_observer_consumer_lag_bytes: out must not be null'' ''xproc_c_observer_consumer_lag_bytes: observer is null''
       (Option.bind observer cv_impl) (\<lambda>ob. consumer_lag_bytes (observed mem ob)) out g"

text \<open>
  The two peeks differ in the names of their messages and in \<open>out_meta\<close>, which is written with the message, whether or not it fits.
\<close>

definition peek_and_copy ::
  "spscring \<Rightarrow> string \<Rightarrow> 's observer \<Rightarrow> xproc_c_message_meta option \<Rightarrow> byte list option \<Rightarrow> u32 \<Rightarrow> u32 option \<Rightarrow> segment \<Rightarrow> capi
   \<Rightarrow> (xproc_c_status \<times> xproc_c_message_meta option \<times> byte list option \<times> u32 option \<times> segment \<times> capi) option" where
  "peek_and_copy R too_small_message ob out_meta buffer buffer_capacity out_len s g =
     (case peek R (ob_opts ob) (\<lambda>_. None) s of
        (Inl e, ms, s1) \<Rightarrow> map_option (\<lambda>(st, g1). (st, out_meta, buffer, out_len, s1, g1)) (catch_status e g)
      | (Inr has_message, ms, s1) \<Rightarrow>
          (case (has_message, ms) of
             (True, m # _) \<Rightarrow>
               (case copy_message buffer_capacity buffer (snd m) of
                  (n, Inl _) \<Rightarrow>
                    (case set_last_error STATUS_BUFFER_TOO_SMALL too_small_message LAYOUT_ERROR_NONE g of
                       (st, g1) \<Rightarrow> Some (st, to_c_meta (fst m) out_meta, buffer, Some n, s1, g1))
                | (n, Inr buffer1) \<Rightarrow>
                    Some (STATUS_OK, to_c_meta (fst m) out_meta, buffer1, Some n, s1, clear_last_error g))
           | _ \<Rightarrow> Some (STATUS_AGAIN, out_meta, buffer, Some 0, s1, clear_last_error g)))"

definition xproc_c_observer_peek_copy_with_meta ::
  "spscring \<Rightarrow> 's xproc_c_observer option \<Rightarrow> xproc_c_message_meta option \<Rightarrow> byte list option \<Rightarrow> u32 \<Rightarrow> u32 option \<Rightarrow> segment \<Rightarrow> capi
   \<Rightarrow> (xproc_c_status \<times> xproc_c_message_meta option \<times> byte list option \<times> u32 option \<times> segment \<times> capi) option" where
  "xproc_c_observer_peek_copy_with_meta R observer out_meta buffer buffer_capacity out_len s g =
     (case validate_copy_args buffer buffer_capacity out_len ''xproc_c_observer_peek_copy_with_meta: out_len must not be null'' g of
        (st, out_len1, g1) \<Rightarrow>
          if st \<noteq> STATUS_OK then Some (st, out_meta, buffer, out_len1, s, g1)
          else
            validate_handle (Option.bind observer cv_impl) ''xproc_c_observer_peek_copy_with_meta: observer is null'' g1
              (\<lambda>(st, g2). Some (st, out_meta, buffer, Some 0, s, g2))
              (\<lambda>ob. peek_and_copy R ''xproc_c_observer_peek_copy_with_meta: buffer too small''
                      ob out_meta buffer buffer_capacity out_len1 s g1))"

definition xproc_c_observer_peek_copy ::
  "spscring \<Rightarrow> 's xproc_c_observer option \<Rightarrow> byte list option \<Rightarrow> u32 \<Rightarrow> u32 option \<Rightarrow> segment \<Rightarrow> capi
   \<Rightarrow> (xproc_c_status \<times> byte list option \<times> u32 option \<times> segment \<times> capi) option" where
  "xproc_c_observer_peek_copy R observer buffer buffer_capacity out_len s g =
     (case validate_copy_args buffer buffer_capacity out_len ''xproc_c_observer_peek_copy: out_len must not be null'' g of
        (st, out_len1, g1) \<Rightarrow>
          if st \<noteq> STATUS_OK then Some (st, buffer, out_len1, s, g1)
          else
            validate_handle (Option.bind observer cv_impl) ''xproc_c_observer_peek_copy: observer is null'' g1
              (\<lambda>(st, g2). Some (st, buffer, Some 0, s, g2))
              (\<lambda>ob. map_option (\<lambda>(st, _, x). (st, x))
                      (peek_and_copy R ''xproc_c_observer_peek_copy: buffer too small''
                         ob None buffer buffer_capacity out_len1 s g1)))"

section \<open>Diagnostics\<close>

definition xproc_c_diagnostics_tracker_create ::
  "spscring \<Rightarrow> (nat \<Rightarrow> control_block) \<Rightarrow> int \<Rightarrow> 's xproc_c_observer option \<Rightarrow> 's xproc_c_diagnostics_tracker option option \<Rightarrow> capi
   \<Rightarrow> (xproc_c_status \<times> 's xproc_c_diagnostics_tracker option option \<times> capi) option" where
  "xproc_c_diagnostics_tracker_create R mem now observer out g =
     validate_out_pointer out ''xproc_c_diagnostics_tracker_create: out must not be null'' g (\<lambda>(st, g1). Some (st, None, g1))
       (case observer of
          None \<Rightarrow>
            (case invalid_argument ''xproc_c_diagnostics_tracker_create: observer is null'' g of (st, g1) \<Rightarrow> Some (st, Some None, g1))
        | Some ob \<Rightarrow>
            validate_handle (cv_impl ob) ''xproc_c_diagnostics_tracker_create: observer is null'' g
              (\<lambda>(st, g1). Some (st, Some None, g1))
              (\<lambda>impl.
                 (case observed mem impl of
                    None \<Rightarrow> None
                  | Some h \<Rightarrow>
                      (let snap = snapshot R (Some h); cap = data_capacity (spscring_cb (h 7))
                       in Some (STATUS_OK, Some (Some \<lparr>ct_impl = Some (make_tracker snap cap now), ct_owner = ob\<rparr>), clear_last_error g)))))"

definition xproc_c_diagnostics_tracker_update ::
  "spscring \<Rightarrow> (nat \<Rightarrow> control_block) \<Rightarrow> int \<Rightarrow> 's xproc_c_diagnostics_tracker option \<Rightarrow> capi
   \<Rightarrow> (xproc_c_status \<times> 's xproc_c_diagnostics_tracker option \<times> capi) option" where
  "xproc_c_diagnostics_tracker_update R mem now tracker g =
     (case tracker of
        None \<Rightarrow>
          (case invalid_argument ''xproc_c_diagnostics_tracker_update: tracker is null'' g of (st, g1) \<Rightarrow> Some (st, None, g1))
      | Some t \<Rightarrow>
          validate_handle (ct_impl t) ''xproc_c_diagnostics_tracker_update: tracker is null'' g
            (\<lambda>(st, g1). Some (st, tracker, g1))
            (\<lambda>impl.
               (case cv_impl (ct_owner t) of
                  None \<Rightarrow> None
                | Some ob \<Rightarrow>
                    Some (STATUS_OK, Some (t\<lparr>ct_impl := Some (tracker_update (snapshot R (observed mem ob)) now impl)\<rparr>),
                          clear_last_error g))))"

definition xproc_c_diagnostics_tracker_producer_alive ::
  "'s xproc_c_diagnostics_tracker option \<Rightarrow> bool option \<Rightarrow> capi \<Rightarrow> xproc_c_status \<times> bool option \<times> capi" where
  "xproc_c_diagnostics_tracker_producer_alive tracker out g =
     handle_query ''xproc_c_diagnostics_tracker_producer_alive: out must not be null''
       ''xproc_c_diagnostics_tracker_producer_alive: tracker is null'' (Option.bind tracker ct_impl) producer_alive out g"

definition xproc_c_diagnostics_tracker_idle_ms ::
  "int \<Rightarrow> 's xproc_c_diagnostics_tracker option \<Rightarrow> u64 option \<Rightarrow> capi \<Rightarrow> xproc_c_status \<times> u64 option \<times> capi" where
  "xproc_c_diagnostics_tracker_idle_ms now tracker out g =
     handle_query ''xproc_c_diagnostics_tracker_idle_ms: out must not be null''
       ''xproc_c_diagnostics_tracker_idle_ms: tracker is null'' (Option.bind tracker ct_impl) (idle_duration_ms now) out g"

section \<open>Options survive the conversions\<close>

lemma c_str_id [simp]: "CHR 0x00 \<notin> set s \<Longrightarrow> c_str s = s"
  by (auto simp: c_str_def takeWhile_eq_all_conv)

text \<open>
  C31. The options a C caller reads from a handle, or from an existing segment, are the options of the endpoint: converted back
  they are equal in every field, so that a second endpoint opened with them is opened with the same options. The strings
  must be ones a C string can hold, and the two strings with a default must not be empty.
\<close>

theorem capi_options_round_trip:
  assumes "CHR 0x00 \<notin> set (path opts)" and "CHR 0x00 \<notin> set (win32_object_namespace opts)"
    and "CHR 0x00 \<notin> set (socket_host opts)" and "win32_object_namespace opts \<noteq> []" and "socket_host opts \<noteq> []"
  shows "to_cpp_options (fill_borrowed_options opts) = opts \<and>
         to_cpp_options (snd (fill_owned_options opts storage)) = opts"
proof -
  have eqs: "(if backend opts = socket then socket else shared_memory) = backend opts"
    "(if chan_type opts = varlen then varlen else fixed) = chan_type opts"
    by (cases "backend opts"; simp) (cases "chan_type opts"; simp)
  have "to_cpp_options (fill_borrowed_options opts) = opts"
    using assms eqs by (cases opts) (auto simp: to_cpp_options_def fill_borrowed_options_def c_enum_defs)
  moreover have "snd (fill_owned_options opts storage) = fill_borrowed_options opts"
    by (simp add: fill_owned_options_def fill_borrowed_options_def Let_def)
  ultimately show ?thesis by simp
qed

theorem capi_options_round_trip_witness:
  "to_cpp_options (fill_borrowed_options (default_options\<lparr>path := ''/seg''\<rparr>)) = default_options\<lparr>path := ''/seg''\<rparr>"
  using capi_options_round_trip [of "default_options\<lparr>path := ''/seg''\<rparr>"] by (simp add: default_options_def)

section \<open>Copying messages out\<close>

text \<open>
  A sequence of calls of \<open>xproc_c_consumer_poll_copy\<close> with buffers of the given capacities, and the messages that the calls with
  status OK stored in them.
\<close>

fun poll_copies ::
  "platform \<Rightarrow> spscring \<Rightarrow> 'n sockets \<Rightarrow> u32 list \<Rightarrow> 's xproc_c_consumer option \<Rightarrow> 'n medium \<Rightarrow> capi
   \<Rightarrow> (byte list list \<times> 's xproc_c_consumer option \<times> 'n medium \<times> capi) option" where
  "poll_copies p R N [] c md g = Some ([], c, md, g)"
| "poll_copies p R N (cap # caps) c md g =
     (case xproc_c_consumer_poll_copy p R N c (Some (replicate (unat cap) 0)) cap (Some 0) md g of
        None \<Rightarrow> None
      | Some (st, buf, n, c1, md1, g1) \<Rightarrow>
          map_option (\<lambda>(del, x). (if st = STATUS_OK then take (unat (the n)) (the buf) # del else del, x))
            (poll_copies p R N caps c1 md1 g1))"

definition waiting :: "byte list \<Rightarrow> message list \<Rightarrow> byte list list" where
  "waiting pending ms = (if pending = [] then [] else [pending]) @ map snd ms"

lemma copy_fits:
  assumes "length d < 2 ^ 32"
  shows "(cap < (of_nat (length d) :: u32)) = (unat cap < length d)"
    and "unat (of_nat (length d) :: u32) = length d"
    and "((of_nat (length d) :: u32) = 0) = (d = [])"
proof -
  show len: "unat (of_nat (length d) :: u32) = length d"
    using assms by (simp add: unsigned_of_nat take_bit_nat_eq_self)
  then show "(cap < (of_nat (length d) :: u32)) = (unat cap < length d)" by (simp add: word_less_nat_alt)
  show "((of_nat (length d) :: u32) = 0) = (d = [])" using len by (metis length_0_conv unat_0 unat_eq_zero)
qed

context polled_queue
begin

text \<open>One call, on every branch, with a buffer of the stated capacity or with none.\<close>

lemma poll_copy_call:
  assumes "holds ct md ms" and "length pending < 2 ^ 32"
    and "case buffer of None \<Rightarrow> cap = 0 | Some b \<Rightarrow> length b = unat cap"
  shows "\<exists>st buf n ct1 pending1 md1 ms1 g1.
     xproc_c_consumer_poll_copy p R N (Some \<lparr>cc_impl = Some ct, cc_pending = pending\<rparr>) buffer cap (Some l) md g =
       Some (st, buf, Some n, Some \<lparr>cc_impl = Some ct1, cc_pending = pending1\<rparr>, md1, g1) \<and>
     holds ct1 md1 ms1 \<and> length pending1 < 2 ^ 32 \<and>
     (case waiting pending ms of
        [] \<Rightarrow> st = STATUS_AGAIN \<and> n = 0 \<and> buf = buffer \<and> waiting pending1 ms1 = []
      | d # ds \<Rightarrow> unat n = length d \<and>
          (if length d \<le> unat cap then st = STATUS_OK \<and> buf = map_option (buf_write 0 d) buffer \<and> waiting pending1 ms1 = ds
           else st = STATUS_BUFFER_TOO_SMALL \<and> buf = buffer \<and> waiting pending1 ms1 = d # ds))"
proof (cases "pending = []")
  case False
  then show ?thesis
    using assms copy_fits [OF assms(2)]
    by (auto simp: xproc_c_consumer_poll_copy_def validate_copy_args_def validate_handle_def deliver_pending_def waiting_def
        set_last_error_def Let_def split: option.splits)
next
  case pend: True
  have args: "\<not> (buffer = None \<and> cap \<noteq> 0)" using assms(3) by (auto split: option.splits)
  show ?thesis
  proof (cases ms)
    case Nil
    with poll_none assms(1) obtain ct1 md1 where
      "transport_poll p R N (\<lambda>_. None) ct md = (Inr False, [], ct1, md1)" "holds ct1 md1 []" by blast
    with Nil pend args show ?thesis
      by (auto simp: xproc_c_consumer_poll_copy_def validate_copy_args_def validate_handle_def poll_and_copy_def waiting_def)
  next
    case (Cons m rest)
    with poll_next assms(1) obtain ct1 md1 where
      poll: "transport_poll p R N (\<lambda>_. None) ct md = (Inr True, [m], ct1, md1)" "holds ct1 md1 rest" by blast
    have short: "length (snd m) < 2 ^ 32" using holds_short [OF assms(1)] Cons by simp
    have none: "map_option (buf_write 0 []) buffer = buffer" by (cases buffer) auto
    show ?thesis
      using pend Cons poll copy_fits [OF short] short args none
      by (auto simp: xproc_c_consumer_poll_copy_def validate_copy_args_def validate_handle_def poll_and_copy_def
          copy_message_def set_last_error_def waiting_def Let_def)
  qed
qed

lemma poll_copy_step:
  assumes "holds ct md ms" and "length pending < 2 ^ 32"
  shows "\<exists>st buf n ct1 pending1 md1 ms1 g1.
     xproc_c_consumer_poll_copy p R N (Some \<lparr>cc_impl = Some ct, cc_pending = pending\<rparr>)
       (Some (replicate (unat cap) 0)) cap (Some 0) md g =
       Some (st, Some buf, Some n, Some \<lparr>cc_impl = Some ct1, cc_pending = pending1\<rparr>, md1, g1) \<and>
     holds ct1 md1 ms1 \<and> length pending1 < 2 ^ 32 \<and>
     (case waiting pending ms of
        [] \<Rightarrow> st = STATUS_AGAIN \<and> n = 0 \<and> waiting pending1 ms1 = []
      | d # ds \<Rightarrow> unat n = length d \<and>
          (if length d \<le> unat cap then st = STATUS_OK \<and> take (unat n) buf = d \<and> waiting pending1 ms1 = ds
           else st = STATUS_BUFFER_TOO_SMALL \<and> waiting pending1 ms1 = d # ds))"
proof -
  let ?b = "replicate (unat cap) 0 :: byte list"
  have copied: "take (length d) (buf_write 0 d ?b) = d" for d by (simp add: buf_write_def)
  have "case Some ?b of None \<Rightarrow> cap = 0 | Some b \<Rightarrow> length b = unat cap" by simp
  from poll_copy_call [OF assms this, of 0 g] obtain st buf n ct1 pending1 md1 ms1 g1 where
    call: "xproc_c_consumer_poll_copy p R N (Some \<lparr>cc_impl = Some ct, cc_pending = pending\<rparr>) (Some ?b) cap (Some 0) md g =
       Some (st, buf, Some n, Some \<lparr>cc_impl = Some ct1, cc_pending = pending1\<rparr>, md1, g1)"
      "holds ct1 md1 ms1" "length pending1 < 2 ^ 32"
    and out: "case waiting pending ms of
        [] \<Rightarrow> st = STATUS_AGAIN \<and> n = 0 \<and> buf = Some ?b \<and> waiting pending1 ms1 = []
      | d # ds \<Rightarrow> unat n = length d \<and>
          (if length d \<le> unat cap then st = STATUS_OK \<and> buf = map_option (buf_write 0 d) (Some ?b) \<and> waiting pending1 ms1 = ds
           else st = STATUS_BUFFER_TOO_SMALL \<and> buf = Some ?b \<and> waiting pending1 ms1 = d # ds)" by blast
  from out obtain buf1 where buf: "buf = Some buf1" by (auto split: list.splits if_splits)
  have "case waiting pending ms of
        [] \<Rightarrow> st = STATUS_AGAIN \<and> n = 0 \<and> waiting pending1 ms1 = []
      | d # ds \<Rightarrow> unat n = length d \<and>
          (if length d \<le> unat cap then st = STATUS_OK \<and> take (unat n) buf1 = d \<and> waiting pending1 ms1 = ds
           else st = STATUS_BUFFER_TOO_SMALL \<and> waiting pending1 ms1 = d # ds)"
    using out copied buf by (auto split: list.splits if_splits)
  with call buf show ?thesis by blast
qed

lemma poll_copies_run:
  assumes "holds ct md ms" and "length pending < 2 ^ 32"
  shows "\<exists>del ct' pending' md' ms' g'.
     poll_copies p R N caps (Some \<lparr>cc_impl = Some ct, cc_pending = pending\<rparr>) md g =
       Some (del, Some \<lparr>cc_impl = Some ct', cc_pending = pending'\<rparr>, md', g') \<and>
     holds ct' md' ms' \<and> length pending' < 2 ^ 32 \<and> waiting pending ms = del @ waiting pending' ms' \<and>
     (list_all (\<lambda>cap. list_all (\<lambda>d. length d \<le> unat cap) (waiting pending ms)) caps \<longrightarrow>
        del = take (length caps) (waiting pending ms))"
  using assms
proof (induction caps arbitrary: ct pending md ms g)
  case Nil
  then show ?case by auto
next
  case (Cons cap caps)
  from poll_copy_step [OF Cons.prems, of cap g] obtain st buf n ct1 pending1 md1 ms1 g1 where
    step: "xproc_c_consumer_poll_copy p R N (Some \<lparr>cc_impl = Some ct, cc_pending = pending\<rparr>)
       (Some (replicate (unat cap) 0)) cap (Some 0) md g =
       Some (st, Some buf, Some n, Some \<lparr>cc_impl = Some ct1, cc_pending = pending1\<rparr>, md1, g1)"
    and next1: "holds ct1 md1 ms1" "length pending1 < 2 ^ 32"
    and out: "case waiting pending ms of
        [] \<Rightarrow> st = STATUS_AGAIN \<and> n = 0 \<and> waiting pending1 ms1 = []
      | d # ds \<Rightarrow> unat n = length d \<and>
          (if length d \<le> unat cap then st = STATUS_OK \<and> take (unat n) buf = d \<and> waiting pending1 ms1 = ds
           else st = STATUS_BUFFER_TOO_SMALL \<and> waiting pending1 ms1 = d # ds)" by blast
  from Cons.IH [OF next1, of g1] obtain del ct' pending' md' ms' g' where
    rest: "poll_copies p R N caps (Some \<lparr>cc_impl = Some ct1, cc_pending = pending1\<rparr>) md1 g1 =
       Some (del, Some \<lparr>cc_impl = Some ct', cc_pending = pending'\<rparr>, md', g')"
    "holds ct' md' ms'" "length pending' < 2 ^ 32" "waiting pending1 ms1 = del @ waiting pending' ms'"
    "list_all (\<lambda>cap. list_all (\<lambda>d. length d \<le> unat cap) (waiting pending1 ms1)) caps \<longrightarrow>
        del = take (length caps) (waiting pending1 ms1)" by blast
  let ?del = "if st = STATUS_OK then take (unat n) buf # del else del"
  have "poll_copies p R N (cap # caps) (Some \<lparr>cc_impl = Some ct, cc_pending = pending\<rparr>) md g =
      Some (?del, Some \<lparr>cc_impl = Some ct', cc_pending = pending'\<rparr>, md', g')"
    by (simp add: step rest(1))
  moreover have "waiting pending ms = ?del @ waiting pending' ms'"
    using out rest(4) by (auto split: list.split_asm if_split_asm)
  moreover have "list_all (\<lambda>cap. list_all (\<lambda>d. length d \<le> unat cap) (waiting pending ms)) (cap # caps) \<longrightarrow>
      ?del = take (length (cap # caps)) (waiting pending ms)"
    using out rest(5) by (auto simp: list_all_iff split: list.split_asm if_split_asm)
  ultimately show ?case using rest(2,3) by blast
qed

end

text \<open>
  C4. The C consumer never loses, duplicates or reorders a message, whatever buffers its caller offers. For every transport
  (shared memory with fixed or variable-length messages, or a connected socket) and every sequence of capacities, the
  calls all return; the messages they copied out, followed by the one kept back because a buffer was too small and by
  the messages still in the transport, are exactly the messages that were waiting before; and buffers that are large enough
  receive one message each until none is left.
\<close>

theorem poll_copy_exact:
  assumes "consumer_holds p R N ct md ms" and "length pending < 2 ^ 32"
  shows "\<exists>del ct' pending' md' ms' g'.
     poll_copies p R N caps (Some \<lparr>cc_impl = Some ct, cc_pending = pending\<rparr>) md g =
       Some (del, Some \<lparr>cc_impl = Some ct', cc_pending = pending'\<rparr>, md', g') \<and>
     consumer_holds p R N ct' md' ms' \<and> waiting pending ms = del @ waiting pending' ms' \<and>
     (list_all (\<lambda>cap. list_all (\<lambda>d. length d \<le> unat cap) (waiting pending ms)) caps \<longrightarrow>
        del = take (length caps) (waiting pending ms))"
  using cq.poll_copies_run [OF assms] by blast

lemma ref_one_waiting:
  "\<exists>seg. consumer_holds Linux (shift_ring 8 8) N (Shm_consumer (ref_endpoint consumer_role fixed)) \<lparr>md_seg = seg, md_net = n\<rparr>
     [(default_meta, [1, 2, 3, 0, 0, 0, 0, 0])]"
proof -
  let ?m = "([1, 2, 3], 3, default_meta)"
  let ?s = "snd (fixed_send (shift_ring 8 8) (ref_endpoint producer_role fixed) ?m ref_segment)"
  have sent: "fst (fixed_send (shift_ring 8 8) (ref_endpoint producer_role fixed) ?m ref_segment)" by code_simp
  have pad: "zero_pad 8 [1, 2, 3] = [1, 2, 3, 0, 0, 0, 0, 0]" by code_simp
  have "map (Pair default_meta) (shift_q 8 ?s) = [(default_meta, [1, 2, 3, 0, 0, 0, 0, 0])]"
    using fx.send_q [OF ref_fixed_link, of ?m] sent pad by (simp add: fixed_wire_def)
  moreover have "fixed_link (shift_ring 8 8) (ref_endpoint producer_role fixed) (ref_endpoint consumer_role fixed) 8
     (shift_inv 8 8) (shift_q 8) ?s" using fx.send_inv [OF ref_fixed_link, of ?m] by simp
  ultimately have "holds_fixed (shift_ring 8 8) (Shm_consumer (ref_endpoint consumer_role fixed)) \<lparr>md_seg = ?s, md_net = n\<rparr>
     [(default_meta, [1, 2, 3, 0, 0, 0, 0, 0])]"
    using holds_intros(1) [where md = "\<lparr>md_seg = ?s, md_net = n\<rparr>"] by fastforce
  then show ?thesis by (auto simp: consumer_holds_def)
qed

theorem poll_copy_exact_witness:
  "\<exists>seg x. poll_copies Linux (shift_ring 8 8) ref_sockets [8, 8]
     (Some \<lparr>cc_impl = Some (Shm_consumer (ref_endpoint consumer_role fixed)), cc_pending = [9, 9]\<rparr>)
     \<lparr>md_seg = seg, md_net = []\<rparr>
     \<lparr>g_last_error = [], g_last_layout_error = LAYOUT_ERROR_NONE,
      g_read_existing_option_strings = \<lparr>os_path = [], os_win32_object_namespace = [], os_socket_host = []\<rparr>\<rparr>
     = Some ([[9, 9], [1, 2, 3, 0, 0, 0, 0, 0]], x)"
proof -
  obtain seg where "consumer_holds Linux (shift_ring 8 8) ref_sockets (Shm_consumer (ref_endpoint consumer_role fixed))
      \<lparr>md_seg = seg, md_net = []\<rparr> [(default_meta, [1, 2, 3, 0, 0, 0, 0, 0])]"
    using ref_one_waiting [of ref_sockets "[]"] by blast
  from poll_copy_exact [OF this, of "[9, 9]" "[8, 8]"] show ?thesis by (fastforce simp: waiting_def)
qed

section \<open>New channels\<close>

text \<open>The options of a new channel, of either type.\<close>

definition create_transport :: "abi \<Rightarrow> channel_type \<Rightarrow> string \<Rightarrow> u64 \<Rightarrow> u32 \<Rightarrow> u32 \<Rightarrow> u64 \<Rightarrow> u64 \<Rightarrow> u64 \<Rightarrow> string \<Rightarrow> transport_options" where
  "create_transport A ch pth cap item align schema ts fl ns =
     default_options\<lparr>path := pth, shm_size := shm_size_for_data_capacity A cap, item_size := item, data_align := align,
       schema_id := schema, creator_timestamp_ns := ts, creator_flags := fl, create_if_missing := True, chan_type := ch,
       win32_object_namespace := ns\<rparr>"

text \<open>For the options of a new channel with a size, both roles are checked alike.\<close>

lemma create_transport_valid:
  assumes "shm_size_for_data_capacity A cap \<noteq> 0"
  shows "validate_producer_transport_options p A (create_transport A ch pth cap item align schema ts fl ns) =
      validate_transport_options p A (create_transport A ch pth cap item align schema ts fl ns)"
    and "validate_consumer_transport_options p A (create_transport A ch pth cap item align schema ts fl ns) =
      validate_transport_options p A (create_transport A ch pth cap item align schema ts fl ns)"
  using assms
  by (auto simp: validate_producer_transport_options_def validate_consumer_transport_options_def create_transport_def default_options_def
      infer_existing_shm_size_def split: sum.split)

lemma validate_error: "validate_transport_options p A opts = Inl e \<Longrightarrow> \<exists>m. e = Invalid_argument m"
  by (auto simp: validate_transport_options_def split: if_splits transport_backend.splits)

lemma validate_options_status:
  assumes "kind = ENDPOINT_PRODUCER \<or> kind = ENDPOINT_CONSUMER"
    and "validate_producer_transport_options p A (to_cpp_options c) = validate_transport_options p A (to_cpp_options c)"
    and "validate_consumer_transport_options p A (to_cpp_options c) = validate_transport_options p A (to_cpp_options c)"
  shows "\<exists>st g'. xproc_c_validate_options_for p A kind (Some c) g = Some (st, g') \<and>
    st = (case validate_transport_options p A (to_cpp_options c) of Inl e \<Rightarrow> STATUS_INVALID_ARGUMENT | Inr _ \<Rightarrow> STATUS_OK)"
  using assms(1) validate_error [of p A "to_cpp_options c"]
  by (auto simp: xproc_c_validate_options_for_def validate_options_for_kind_def validate_endpoint_kind_def assms(2,3) Let_def
      set_last_error_def c_enum_defs split: sum.split)

end
