(* ===== verification/Subprocess.thy ===== *)
theory Subprocess
  imports Layout
begin

text \<open>
  Child processes on Linux and macOS: \<open>include/xproc/platform/subprocess.hpp\<close> and \<open>src/platform/subprocess_posix.cpp\<close>.

  The system calls of the parent are the record \<open>proc_os\<close>, those of the child between \<open>fork\<close> and \<open>execvp\<close> the record
  \<open>child_os\<close>. A descriptor that is not open (\<open>-1\<close> in the code) is \<open>None\<close>. A call of \<open>waitpid\<close> that blocks for ever
  returns \<open>None\<close>, and so does what calls it.
\<close>

section \<open>Data\<close>

type_synonym pipe_handle = "nat option"

datatype stdio_mode = inherit | piped | null_dev

record process_options =
  po_env :: "(string \<times> string) list"
  po_cwd :: string
  po_stdin_mode :: stdio_mode
  po_stdout_mode :: stdio_mode
  po_stderr_mode :: stdio_mode

definition default_process_options :: process_options where
  "default_process_options =
     \<lparr>po_env = [], po_cwd = [], po_stdin_mode = inherit, po_stdout_mode = inherit, po_stderr_mode = inherit\<rparr>"

record process =
  pr_finished :: bool
  pr_stdin :: pipe_handle
  pr_stdout :: pipe_handle
  pr_stderr :: pipe_handle
  pr_pid :: int
  pr_raw_status :: int

definition new_process :: process where
  "new_process = \<lparr>pr_finished = False, pr_stdin = None, pr_stdout = None, pr_stderr = None, pr_pid = - 1, pr_raw_status = 0\<rparr>"

record 'o proc_os =
  os_pipe :: "'o \<Rightarrow> (nat \<times> nat) option \<times> 'o"
  os_open_null :: "'o \<Rightarrow> nat option \<times> 'o"
  os_fork :: "'o \<Rightarrow> int \<times> 'o"
  os_close :: "nat \<Rightarrow> 'o \<Rightarrow> 'o"
  os_write :: "nat \<Rightarrow> byte list \<Rightarrow> 'o \<Rightarrow> int \<times> 'o"
  os_read :: "nat \<Rightarrow> nat \<Rightarrow> 'o \<Rightarrow> int \<times> byte list \<times> 'o"
  os_waitpid :: "int \<Rightarrow> bool \<Rightarrow> 'o \<Rightarrow> (int \<times> int \<times> 'o) option"
  os_kill :: "int \<Rightarrow> int \<Rightarrow> 'o \<Rightarrow> 'o"
  os_readlink_self :: "'o \<Rightarrow> int \<times> string"

section \<open>Pipe ends\<close>

definition close_fd :: "'o proc_os \<Rightarrow> nat option \<Rightarrow> 'o \<Rightarrow> 'o" where
  "close_fd P fd w = (case fd of None \<Rightarrow> w | Some f \<Rightarrow> os_close P f w)"

definition pipe_close :: "'o proc_os \<Rightarrow> pipe_handle \<Rightarrow> 'o \<Rightarrow> pipe_handle \<times> 'o" where
  "pipe_close P h w = (None, close_fd P h w)"

definition pipe_valid :: "pipe_handle \<Rightarrow> bool" where
  "pipe_valid h \<longleftrightarrow> h \<noteq> None"

text \<open>Move assignment of two different objects: the target and the source afterwards.\<close>

definition pipe_move_assign :: "'o proc_os \<Rightarrow> pipe_handle \<Rightarrow> pipe_handle \<Rightarrow> 'o \<Rightarrow> pipe_handle \<times> pipe_handle \<times> 'o" where
  "pipe_move_assign P this other w = (case pipe_close P this w of (_, w1) \<Rightarrow> (other, None, w1))"

definition pipe_move :: "pipe_handle \<Rightarrow> pipe_handle \<times> pipe_handle" where
  "pipe_move other = (other, None)"

definition pipe_write :: "'o proc_os \<Rightarrow> pipe_handle \<Rightarrow> byte list option \<Rightarrow> nat \<Rightarrow> 'o \<Rightarrow> nat \<times> 'o" where
  "pipe_write P h src len w =
     (case (h, src) of
        (Some fd, Some d) \<Rightarrow>
          if len = 0 then (0, w)
          else (case os_write P fd (take len d) w of (n, w1) \<Rightarrow> (if n > 0 then nat n else 0, w1))
      | _ \<Rightarrow> (0, w))"

definition pipe_read :: "'o proc_os \<Rightarrow> pipe_handle \<Rightarrow> byte list option \<Rightarrow> nat \<Rightarrow> 'o \<Rightarrow> nat \<times> byte list option \<times> 'o" where
  "pipe_read P h buf len w =
     (case (h, buf) of
        (Some fd, Some b) \<Rightarrow>
          if len = 0 then (0, buf, w)
          else (case os_read P fd len w of (n, d, w1) \<Rightarrow> (if n > 0 then nat n else 0, Some (buf_write 0 d b), w1))
      | _ \<Rightarrow> (0, buf, w))"

section \<open>Spawning\<close>

definition spawn_pipe :: "'o proc_os \<Rightarrow> stdio_mode \<Rightarrow> 'o \<Rightarrow> (nat \<times> nat) option option \<times> 'o" where
  "spawn_pipe P mode w =
     (if mode = piped
      then (case os_pipe P w of (None, w1) \<Rightarrow> (None, w1) | (Some rw, w1) \<Rightarrow> (Some (Some rw), w1))
      else (Some None, w))"

definition close_pair :: "'o proc_os \<Rightarrow> (nat \<times> nat) option \<Rightarrow> 'o \<Rightarrow> 'o" where
  "close_pair P fds w = (case fds of None \<Rightarrow> w | Some (r, wr) \<Rightarrow> os_close P wr (os_close P r w))"

definition cleanup_pipes ::
  "'o proc_os \<Rightarrow> (nat \<times> nat) option \<Rightarrow> (nat \<times> nat) option \<Rightarrow> (nat \<times> nat) option \<Rightarrow> nat option \<Rightarrow> 'o \<Rightarrow> 'o" where
  "cleanup_pipes P stdin_fds stdout_fds stderr_fds null_fd w =
     close_fd P null_fd (close_pair P stderr_fds (close_pair P stdout_fds (close_pair P stdin_fds w)))"

definition need_null :: "process_options \<Rightarrow> bool" where
  "need_null opts \<longleftrightarrow>
     po_stdin_mode opts = null_dev \<or> po_stdout_mode opts = null_dev \<or> po_stderr_mode opts = null_dev"

text \<open>The three pipes, the null device and the child, or the exception after the cleanup.\<close>

definition open_null :: "'o proc_os \<Rightarrow> process_options \<Rightarrow> 'o \<Rightarrow> nat option option \<times> 'o" where
  "open_null P opts w =
     (if need_null opts then (case os_open_null P w of (None, w1) \<Rightarrow> (None, w1) | (Some fd, w1) \<Rightarrow> (Some (Some fd), w1))
      else (Some None, w))"

definition parent_process ::
  "'o proc_os \<Rightarrow> (nat \<times> nat) option \<Rightarrow> (nat \<times> nat) option \<Rightarrow> (nat \<times> nat) option \<Rightarrow> nat option \<Rightarrow> int \<Rightarrow> 'o \<Rightarrow> process \<times> 'o" where
  "parent_process P stdin_fds stdout_fds stderr_fds null_fd pid w =
     (let w1 = close_fd P (map_option fst stdin_fds) w;
          w2 = close_fd P (map_option snd stdout_fds) w1;
          w3 = close_fd P (map_option snd stderr_fds) w2;
          w4 = close_fd P null_fd w3
      in (new_process\<lparr>pr_pid := pid, pr_stdin := map_option snd stdin_fds, pr_stdout := map_option fst stdout_fds,
                      pr_stderr := map_option fst stderr_fds\<rparr>, w4))"

definition spawn :: "'o proc_os \<Rightarrow> string list \<Rightarrow> process_options \<Rightarrow> 'o \<Rightarrow> (exn + process) \<times> 'o" where
  "spawn P argv opts w =
     (if argv = [] then (Inl (Invalid_argument ''process::spawn requires a non-empty argv''), w)
      else
        (case spawn_pipe P (po_stdin_mode opts) w of
           (None, w1) \<Rightarrow> (Inl (Runtime_error ''pipe(stdin) failed''), cleanup_pipes P None None None None w1)
         | (Some stdin_fds, w1) \<Rightarrow>
        (case spawn_pipe P (po_stdout_mode opts) w1 of
           (None, w2) \<Rightarrow> (Inl (Runtime_error ''pipe(stdout) failed''), cleanup_pipes P stdin_fds None None None w2)
         | (Some stdout_fds, w2) \<Rightarrow>
        (case spawn_pipe P (po_stderr_mode opts) w2 of
           (None, w3) \<Rightarrow> (Inl (Runtime_error ''pipe(stderr) failed''), cleanup_pipes P stdin_fds stdout_fds None None w3)
         | (Some stderr_fds, w3) \<Rightarrow>
        (case open_null P opts w3 of
           (None, w4) \<Rightarrow> (Inl (Runtime_error ''open(/dev/null) failed''), cleanup_pipes P stdin_fds stdout_fds stderr_fds None w4)
         | (Some null_fd, w4) \<Rightarrow>
        (case os_fork P w4 of
           (pid, w5) \<Rightarrow>
             if pid < 0
             then (Inl (Runtime_error ''fork failed''), cleanup_pipes P stdin_fds stdout_fds stderr_fds null_fd w5)
             else (case parent_process P stdin_fds stdout_fds stderr_fds null_fd pid w5 of (pr, w6) \<Rightarrow> (Inr pr, w6))))))))"

section \<open>The child\<close>

record 'c child_os =
  ch_close :: "nat \<Rightarrow> 'c \<Rightarrow> 'c"
  ch_dup2 :: "nat \<Rightarrow> nat \<Rightarrow> 'c \<Rightarrow> 'c"
  ch_chdir :: "string \<Rightarrow> 'c \<Rightarrow> bool \<times> 'c"
  ch_execvp :: "string list \<Rightarrow> string list option \<Rightarrow> 'c \<Rightarrow> bool"

datatype child_end = Child_exec "string list" "string list option" | Child_exit int

definition redirect_in :: "'c child_os \<Rightarrow> (nat \<times> nat) option \<Rightarrow> stdio_mode \<Rightarrow> nat option \<Rightarrow> nat \<Rightarrow> 'c \<Rightarrow> 'c" where
  "redirect_in H fds mode null_fd std c =
     (case (fds, null_fd) of
        (Some (r, wr), _) \<Rightarrow> ch_close H r (ch_dup2 H r std (ch_close H wr c))
      | (None, Some nf) \<Rightarrow> if mode = null_dev then ch_dup2 H nf std c else c
      | (None, None) \<Rightarrow> c)"

definition redirect_out :: "'c child_os \<Rightarrow> (nat \<times> nat) option \<Rightarrow> stdio_mode \<Rightarrow> nat option \<Rightarrow> nat \<Rightarrow> 'c \<Rightarrow> 'c" where
  "redirect_out H fds mode null_fd std c =
     (case (fds, null_fd) of
        (Some (r, wr), _) \<Rightarrow> ch_close H wr (ch_dup2 H wr std (ch_close H r c))
      | (None, Some nf) \<Rightarrow> if mode = null_dev then ch_dup2 H nf std c else c
      | (None, None) \<Rightarrow> c)"

text \<open>
  The environment the child is given. \<open>env_ptrs\<close> holds the address of each string at the time it is appended to \<open>env_strings\<close>; a string of
  at most \<open>sso\<close> characters is stored inside its \<open>std::string\<close> object, and moves when the vector of strings reallocates. With
  \<open>regrows j\<close> for \<open>appending element j reallocates\<close>, the pointer of such a string dangles if a later append reallocates; what
  the child then sees is undefined (\<open>None\<close>).
\<close>

definition env_strings :: "(string \<times> string) list \<Rightarrow> string list" where
  "env_strings env = map (\<lambda>(key, val). key @ ''='' @ val) env"

definition child_environ :: "(nat \<Rightarrow> bool) \<Rightarrow> nat \<Rightarrow> (string \<times> string) list \<Rightarrow> string list option" where
  "child_environ regrows sso env =
     (let ss = env_strings env in
      if list_ex (\<lambda>i. length (ss ! i) \<le> sso \<and> list_ex regrows [Suc i..<length ss]) [0..<length ss] then None
      else Some ss)"

text \<open>What the child does; \<open>None\<close> is undefined behaviour.\<close>

definition child_main ::
  "'c child_os \<Rightarrow> (nat \<Rightarrow> bool) \<Rightarrow> nat \<Rightarrow> string list \<Rightarrow> process_options \<Rightarrow> (nat \<times> nat) option \<Rightarrow> (nat \<times> nat) option
   \<Rightarrow> (nat \<times> nat) option \<Rightarrow> nat option \<Rightarrow> 'c \<Rightarrow> (child_end \<times> 'c) option" where
  "child_main H regrows sso argv opts stdin_fds stdout_fds stderr_fds null_fd c =
     (let c1 = redirect_in H stdin_fds (po_stdin_mode opts) null_fd 0 c;
          c2 = redirect_out H stdout_fds (po_stdout_mode opts) null_fd 1 c1;
          c3 = redirect_out H stderr_fds (po_stderr_mode opts) null_fd 2 c2;
          c4 = (case null_fd of None \<Rightarrow> c3 | Some nf \<Rightarrow> ch_close H nf c3);
          (ok, c5) = (if po_cwd opts \<noteq> [] then ch_chdir H (po_cwd opts) c4 else (True, c4))
      in if \<not> ok then Some (Child_exit 127, c5)
         else
           (case (if po_env opts \<noteq> [] then map_option Some (child_environ regrows sso (po_env opts)) else Some None) of
              None \<Rightarrow> None
            | Some env \<Rightarrow> Some (if ch_execvp H argv env c5 then Child_exec argv env else Child_exit 127, c5)))"

section \<open>The life of a process object\<close>

definition process_pid :: "process \<Rightarrow> u64" where
  "process_pid pr = (if pr_pid pr > 0 then word_of_int (pr_pid pr) else 0)"

definition process_valid :: "process \<Rightarrow> bool" where
  "process_valid pr \<longleftrightarrow> pr_pid pr > 0"

definition wait_child :: "'o proc_os \<Rightarrow> bool \<Rightarrow> process \<Rightarrow> 'o \<Rightarrow> (int \<times> process \<times> 'o) option" where
  "wait_child P nohang pr w =
     (case os_waitpid P (pr_pid pr) nohang w of
        None \<Rightarrow> None
      | Some (rc, status, w1) \<Rightarrow> Some (rc, if rc > 0 then pr\<lparr>pr_raw_status := status\<rparr> else pr, w1))"

definition poll_exit :: "'o proc_os \<Rightarrow> process \<Rightarrow> 'o \<Rightarrow> (bool \<times> process \<times> 'o) option" where
  "poll_exit P pr w =
     (if \<not> process_valid pr \<or> pr_finished pr then Some (pr_finished pr, pr, w)
      else
        (case wait_child P True pr w of
           None \<Rightarrow> None
         | Some (rc, pr1, w1) \<Rightarrow> if rc = pr_pid pr then Some (True, pr1\<lparr>pr_finished := True\<rparr>, w1) else Some (False, pr1, w1)))"

definition wifexited :: "int \<Rightarrow> bool" where
  "wifexited status \<longleftrightarrow> status mod 128 = 0"

definition wexitstatus :: "int \<Rightarrow> int" where
  "wexitstatus status = status div 256 mod 256"

definition exit_code :: "process \<Rightarrow> int" where
  "exit_code pr = (if \<not> wifexited (pr_raw_status pr) then 1 else wexitstatus (pr_raw_status pr))"

definition process_wait :: "'o proc_os \<Rightarrow> process \<Rightarrow> 'o \<Rightarrow> (int \<times> process \<times> 'o) option" where
  "process_wait P pr w =
     (if \<not> process_valid pr then Some (1, pr, w)
      else if pr_finished pr then Some (exit_code pr, pr, w)
      else
        (case wait_child P False pr w of
           None \<Rightarrow> None
         | Some (_, pr1, w1) \<Rightarrow> let pr2 = pr1\<lparr>pr_finished := True\<rparr> in Some (exit_code pr2, pr2, w1)))"

definition terminate :: "'o proc_os \<Rightarrow> process \<Rightarrow> 'o \<Rightarrow> (process \<times> 'o) option" where
  "terminate P pr w =
     (if \<not> process_valid pr \<or> pr_finished pr then Some (pr, w)
      else
        (case poll_exit P pr w of
           None \<Rightarrow> None
         | Some (True, pr1, w1) \<Rightarrow> Some (pr1, w1)
         | Some (False, pr1, w1) \<Rightarrow>
             (case wait_child P False pr1 (os_kill P (pr_pid pr1) 9 w1) of
                None \<Rightarrow> None
              | Some (_, pr2, w2) \<Rightarrow> Some (pr2\<lparr>pr_finished := True\<rparr>, w2))))"

definition send_signal :: "'o proc_os \<Rightarrow> int \<Rightarrow> process \<Rightarrow> 'o \<Rightarrow> 'o" where
  "send_signal P sig pr w = (if \<not> process_valid pr \<or> pr_finished pr then w else os_kill P (pr_pid pr) sig w)"

definition process_reset :: "'o proc_os \<Rightarrow> process \<Rightarrow> 'o \<Rightarrow> (process \<times> 'o) option" where
  "process_reset P pr w =
     (case (if process_valid pr \<and> \<not> pr_finished pr then terminate P pr w else Some (pr, w)) of
        None \<Rightarrow> None
      | Some (pr1, w1) \<Rightarrow>
          Some (new_process, close_fd P (pr_stderr pr1) (close_fd P (pr_stdout pr1) (close_fd P (pr_stdin pr1) w1))))"

text \<open>\<open>move_from\<close> into an object that was reset or default-constructed; the target and the source afterwards.\<close>

definition move_from :: "'o proc_os \<Rightarrow> process \<Rightarrow> process \<Rightarrow> 'o \<Rightarrow> process \<times> process \<times> 'o" where
  "move_from P this other w =
     (case pipe_move_assign P (pr_stdin this) (pr_stdin other) w of
        (i, i', w1) \<Rightarrow>
     (case pipe_move_assign P (pr_stdout this) (pr_stdout other) w1 of
        (ou, ou', w2) \<Rightarrow>
     (case pipe_move_assign P (pr_stderr this) (pr_stderr other) w2 of
        (er, er', w3) \<Rightarrow>
          (\<lparr>pr_finished = pr_finished other, pr_stdin = i, pr_stdout = ou, pr_stderr = er, pr_pid = pr_pid other,
            pr_raw_status = pr_raw_status other\<rparr>,
           \<lparr>pr_finished = False, pr_stdin = i', pr_stdout = ou', pr_stderr = er', pr_pid = - 1, pr_raw_status = 0\<rparr>, w3))))"

definition process_move_assign :: "'o proc_os \<Rightarrow> process \<Rightarrow> process \<Rightarrow> 'o \<Rightarrow> (process \<times> process \<times> 'o) option" where
  "process_move_assign P this other w =
     (case process_reset P this w of None \<Rightarrow> None | Some (this1, w1) \<Rightarrow> Some (move_from P this1 other w1))"

definition self_exe :: "'o proc_os \<Rightarrow> 'o \<Rightarrow> exn + string" where
  "self_exe P w =
     (case os_readlink_self P w of
        (n, buf) \<Rightarrow> if n \<le> 0 then Inl (Runtime_error ''readlink(/proc/self/exe) failed'')
                    else Inr (takeWhile (\<lambda>c. c \<noteq> CHR 0x00) (take (nat n) buf)))"

section \<open>No leaks\<close>

text \<open>
  What is relied on of the system calls, over two abstractions of its state: the open descriptors of the parent and its children that
  have not been waited for. A new descriptor was not open before, a new child has a new positive identifier, \<open>waitpid\<close> on a
  child that has not been waited for either collects it or, only if asked not to block, returns 0, and it returns
  after the child was killed. Signals do not interrupt \<open>waitpid\<close>.
\<close>

definition fresh_fds :: "nat set \<Rightarrow> nat list \<Rightarrow> nat set \<Rightarrow> bool" where
  "fresh_fds F new F' \<longleftrightarrow> distinct new \<and> set new \<inter> F = {} \<and> F' = F \<union> set new"

definition proc_spec :: "'o proc_os \<Rightarrow> ('o \<Rightarrow> nat set) \<Rightarrow> ('o \<Rightarrow> int set) \<Rightarrow> bool" where
  "proc_spec P fds kids \<longleftrightarrow>
     (\<forall>w. kids (snd (os_pipe P w)) = kids w \<and>
        fresh_fds (fds w) (case fst (os_pipe P w) of None \<Rightarrow> [] | Some (a, b) \<Rightarrow> [a, b]) (fds (snd (os_pipe P w)))) \<and>
     (\<forall>w. kids (snd (os_open_null P w)) = kids w \<and>
        fresh_fds (fds w) (case fst (os_open_null P w) of None \<Rightarrow> [] | Some a \<Rightarrow> [a]) (fds (snd (os_open_null P w)))) \<and>
     (\<forall>w. fds (snd (os_fork P w)) = fds w \<and>
        (if fst (os_fork P w) < 0 then kids (snd (os_fork P w)) = kids w
         else fst (os_fork P w) > 0 \<and> fst (os_fork P w) \<notin> kids w \<and>
              kids (snd (os_fork P w)) = insert (fst (os_fork P w)) (kids w))) \<and>
     (\<forall>f w. fds (os_close P f w) = fds w - {f} \<and> kids (os_close P f w) = kids w) \<and>
     (\<forall>f d w. fds (snd (os_write P f d w)) = fds w \<and> kids (snd (os_write P f d w)) = kids w) \<and>
     (\<forall>f n w. fds (snd (snd (os_read P f n w))) = fds w \<and> kids (snd (snd (os_read P f n w))) = kids w) \<and>
     (\<forall>pid sig w. fds (os_kill P pid sig w) = fds w \<and> kids (os_kill P pid sig w) = kids w) \<and>
     (\<forall>pid nohang w rc st w'. pid \<in> kids w \<and> os_waitpid P pid nohang w = Some (rc, st, w') \<longrightarrow>
        fds w' = fds w \<and> (rc = pid \<and> kids w' = kids w - {pid} \<or> nohang \<and> rc = 0 \<and> kids w' = kids w)) \<and>
     (\<forall>pid w. pid \<in> kids w \<longrightarrow> os_waitpid P pid True w \<noteq> None \<and> os_waitpid P pid False (os_kill P pid 9 w) \<noteq> None)"

definition fd_list :: "nat option \<Rightarrow> nat list" where
  "fd_list h = (case h of None \<Rightarrow> [] | Some f \<Rightarrow> [f])"

definition pair_list :: "(nat \<times> nat) option \<Rightarrow> nat list" where
  "pair_list x = (case x of None \<Rightarrow> [] | Some (a, b) \<Rightarrow> [a, b])"

definition process_fds :: "process \<Rightarrow> nat list" where
  "process_fds pr = fd_list (pr_stdin pr) @ fd_list (pr_stdout pr) @ fd_list (pr_stderr pr)"

text \<open>The object owns its pipe ends and, until it has finished, its child; everything else is as it was.\<close>

definition owns :: "('o \<Rightarrow> nat set) \<Rightarrow> ('o \<Rightarrow> int set) \<Rightarrow> nat set \<Rightarrow> int set \<Rightarrow> process \<Rightarrow> 'o \<Rightarrow> bool" where
  "owns fds kids F K pr w \<longleftrightarrow>
     fresh_fds F (process_fds pr) (fds w) \<and> pr_pid pr \<notin> K \<and>
     kids w = K \<union> (if process_valid pr \<and> \<not> pr_finished pr then {pr_pid pr} else {})"

datatype proc_op = Poll_exit | Wait | Terminate | Send_signal int | Close_stdin | Close_stdout | Close_stderr
  | Write_stdin "byte list" | Read_stdout nat

fun proc_step :: "'o proc_os \<Rightarrow> proc_op \<Rightarrow> process \<Rightarrow> 'o \<Rightarrow> (process \<times> 'o) option" where
  "proc_step P Poll_exit pr w = map_option snd (poll_exit P pr w)"
| "proc_step P Wait pr w = map_option snd (process_wait P pr w)"
| "proc_step P Terminate pr w = terminate P pr w"
| "proc_step P (Send_signal sig) pr w = Some (pr, send_signal P sig pr w)"
| "proc_step P Close_stdin pr w = (case pipe_close P (pr_stdin pr) w of (h, w1) \<Rightarrow> Some (pr\<lparr>pr_stdin := h\<rparr>, w1))"
| "proc_step P Close_stdout pr w = (case pipe_close P (pr_stdout pr) w of (h, w1) \<Rightarrow> Some (pr\<lparr>pr_stdout := h\<rparr>, w1))"
| "proc_step P Close_stderr pr w = (case pipe_close P (pr_stderr pr) w of (h, w1) \<Rightarrow> Some (pr\<lparr>pr_stderr := h\<rparr>, w1))"
| "proc_step P (Write_stdin d) pr w = Some (pr, snd (pipe_write P (pr_stdin pr) (Some d) (length d) w))"
| "proc_step P (Read_stdout n) pr w = Some (pr, snd (snd (pipe_read P (pr_stdout pr) (Some (replicate n 0)) n w)))"

fun proc_run :: "'o proc_os \<Rightarrow> proc_op list \<Rightarrow> process \<Rightarrow> 'o \<Rightarrow> (process \<times> 'o) option" where
  "proc_run P [] pr w = Some (pr, w)"
| "proc_run P (x # xs) pr w =
     (case proc_step P x pr w of None \<Rightarrow> None | Some (pr1, w1) \<Rightarrow> proc_run P xs pr1 w1)"

lemma proc_calls:
  assumes "proc_spec P fds kids"
  shows "fds (os_close P f w) = fds w - {f}" "kids (os_close P f w) = kids w"
    "fds (snd (os_write P f d w)) = fds w" "kids (snd (os_write P f d w)) = kids w"
    "fds (snd (snd (os_read P f n w))) = fds w" "kids (snd (snd (os_read P f n w))) = kids w"
    "fds (os_kill P pid sig w) = fds w" "kids (os_kill P pid sig w) = kids w"
  using assms by (simp_all add: proc_spec_def)

lemma proc_closes:
  assumes "proc_spec P fds kids"
  shows "fds (close_fd P h w) = fds w - set (fd_list h)" "kids (close_fd P h w) = kids w"
    "fds (close_pair P x w) = fds w - set (pair_list x)" "kids (close_pair P x w) = kids w"
  using assms by (auto simp: close_fd_def fd_list_def close_pair_def pair_list_def proc_calls split: option.split)

lemma proc_wait:
  assumes "proc_spec P fds kids" and "pr_pid pr \<in> kids w" and "wait_child P nohang pr w = Some (rc, pr1, w1)"
  shows "fds w1 = fds w" "rc = pr_pid pr \<and> kids w1 = kids w - {pr_pid pr} \<or> nohang \<and> rc = 0 \<and> kids w1 = kids w"
    "process_fds pr1 = process_fds pr" "pr_pid pr1 = pr_pid pr" "pr_finished pr1 = pr_finished pr"
proof -
  from assms(3) obtain st where "os_waitpid P (pr_pid pr) nohang w = Some (rc, st, w1)"
    and "pr1 = (if rc > 0 then pr\<lparr>pr_raw_status := st\<rparr> else pr)" by (auto simp: wait_child_def split: option.split_asm)
  with assms(1,2) show "fds w1 = fds w" "rc = pr_pid pr \<and> kids w1 = kids w - {pr_pid pr} \<or> nohang \<and> rc = 0 \<and> kids w1 = kids w"
    "process_fds pr1 = process_fds pr" "pr_pid pr1 = pr_pid pr" "pr_finished pr1 = pr_finished pr"
    unfolding proc_spec_def by (metis, metis, simp_all add: process_fds_def)
qed

lemma process_fds_upd [simp]:
  "process_fds (pr\<lparr>pr_finished := b\<rparr>) = process_fds pr" "process_valid (pr\<lparr>pr_finished := b\<rparr>) = process_valid pr"
  by (simp_all add: process_fds_def process_valid_def)

lemma wait_child_returns:
  "os_waitpid P (pr_pid pr) nohang w \<noteq> None \<Longrightarrow> \<exists>rc pr1 w1. wait_child P nohang pr w = Some (rc, pr1, w1)"
  by (auto simp: wait_child_def)

lemma pipe_io_keeps:
  assumes "proc_spec P fds kids"
  shows "fds (snd (pipe_write P h d n w)) = fds w" "kids (snd (pipe_write P h d n w)) = kids w"
    "fds (snd (snd (pipe_read P h b m w))) = fds w" "kids (snd (snd (pipe_read P h b m w))) = kids w"
  using assms by (simp_all add: pipe_write_def pipe_read_def case_prod_beta proc_calls split: option.split)

lemma poll_exit_owns:
  assumes "proc_spec P fds kids" and "owns fds kids F K pr w" and "poll_exit P pr w = Some (b, pr1, w1)"
  shows "owns fds kids F K pr1 w1" "b = pr_finished pr1" "process_valid pr1 = process_valid pr" "pr_pid pr1 = pr_pid pr"
proof -
  have "owns fds kids F K pr1 w1 \<and> b = pr_finished pr1 \<and> process_valid pr1 = process_valid pr \<and> pr_pid pr1 = pr_pid pr"
  proof (cases "\<not> process_valid pr \<or> pr_finished pr")
    case True
    with assms(2,3) show ?thesis by (auto simp: poll_exit_def)
  next
    case False
    with assms(3) obtain rc prx where wc: "wait_child P True pr w = Some (rc, prx, w1)"
      and b: "b = (rc = pr_pid pr)" "pr1 = (if rc = pr_pid pr then prx\<lparr>pr_finished := True\<rparr> else prx)"
      by (auto simp: poll_exit_def split: option.split_asm if_split_asm)
    have "pr_pid pr \<in> kids w" and pos: "pr_pid pr > 0" using assms(2) False by (auto simp: owns_def process_valid_def)
    note wait = proc_wait [OF assms(1) this(1) wc]
    show ?thesis using assms(2) False wait b pos by (auto simp: owns_def process_valid_def)
  qed
  then show "owns fds kids F K pr1 w1" "b = pr_finished pr1" "process_valid pr1 = process_valid pr" "pr_pid pr1 = pr_pid pr" by auto
qed

lemma wait_owns:
  assumes "proc_spec P fds kids" and "owns fds kids F K pr w" and "process_wait P pr w = Some (c, pr1, w1)"
  shows "owns fds kids F K pr1 w1"
proof (cases "\<not> process_valid pr \<or> pr_finished pr")
  case True
  with assms(2,3) show ?thesis by (auto simp: process_wait_def split: if_split_asm)
next
  case False
  with assms(3) obtain rc prx where wc: "wait_child P False pr w = Some (rc, prx, w1)" and pr1: "pr1 = prx\<lparr>pr_finished := True\<rparr>"
    by (auto simp: process_wait_def Let_def split: option.split_asm if_split_asm)
  have "pr_pid pr \<in> kids w" using assms(2) False by (auto simp: owns_def)
  note wait = proc_wait [OF assms(1) this wc]
  show ?thesis using assms(2) False wait pr1 by (auto simp: owns_def process_valid_def)
qed

lemma terminate_owns:
  assumes spec: "proc_spec P fds kids" and own: "owns fds kids F K pr w"
  shows "\<exists>pr1 w1. terminate P pr w = Some (pr1, w1) \<and> owns fds kids F K pr1 w1 \<and> (process_valid pr1 \<longrightarrow> pr_finished pr1)"
proof (cases "\<not> process_valid pr \<or> pr_finished pr")
  case True
  with own show ?thesis by (auto simp: terminate_def)
next
  case False
  then have kid: "pr_pid pr \<in> kids w" using own by (auto simp: owns_def)
  with spec have "os_waitpid P (pr_pid pr) True w \<noteq> None" by (simp add: proc_spec_def)
  from wait_child_returns [OF this] False have "poll_exit P pr w \<noteq> None" by (auto simp: poll_exit_def)
  then obtain b pr1 w1 where poll: "poll_exit P pr w = Some (b, pr1, w1)" by auto
  note p1 = poll_exit_owns [OF spec own poll]
  show ?thesis
  proof (cases b)
    case True
    with False poll p1 show ?thesis by (auto simp: terminate_def)
  next
    case running: False
    let ?w = "os_kill P (pr_pid pr1) 9 w1"
    have kid1: "pr_pid pr1 \<in> kids w1" using p1 running False by (auto simp: owns_def)
    with spec have "os_waitpid P (pr_pid pr1) False ?w \<noteq> None" by (simp add: proc_spec_def)
    from wait_child_returns [OF this] obtain rc pr2 w2 where wc: "wait_child P False pr1 ?w = Some (rc, pr2, w2)" by blast
    have "pr_pid pr1 \<in> kids ?w" using kid1 proc_calls(8) [OF spec] by simp
    note wait = proc_wait [OF spec this wc]
    have "terminate P pr w = Some (pr2\<lparr>pr_finished := True\<rparr>, w2)" using False poll running wc by (simp add: terminate_def)
    moreover have "owns fds kids F K (pr2\<lparr>pr_finished := True\<rparr>) w2"
      using p1 wait running False proc_calls(7,8) [OF spec] by (auto simp: owns_def process_valid_def)
    ultimately show ?thesis by auto
  qed
qed

lemma closed_owns:
  assumes "proc_spec P fds kids" and "owns fds kids F K pr w" and "process_fds pr = as @ fd_list h @ bs"
    and "process_fds pr1 = as @ bs" and "pr_pid pr1 = pr_pid pr" and "pr_finished pr1 = pr_finished pr"
  shows "owns fds kids F K pr1 (close_fd P h w)"
  using assms by (auto simp: owns_def fresh_fds_def proc_closes process_valid_def)

lemma proc_step_owns:
  assumes spec: "proc_spec P fds kids" and own: "owns fds kids F K pr w" and step: "proc_step P x pr w = Some (pr1, w1)"
  shows "owns fds kids F K pr1 w1"
proof (cases x)
  case Poll_exit
  with step poll_exit_owns(1) [OF spec own] show ?thesis by auto
next
  case Wait
  with step wait_owns [OF spec own] show ?thesis by auto
next
  case Terminate
  with step terminate_owns [OF spec own] show ?thesis by auto
next
  case (Send_signal sig)
  with step own proc_calls(7,8) [OF spec] show ?thesis by (auto simp: send_signal_def owns_def)
next
  case Close_stdin
  with step closed_owns [OF spec own, of "[]" "pr_stdin pr"] show ?thesis by (auto simp: pipe_close_def process_fds_def fd_list_def)
next
  case Close_stdout
  with step closed_owns [OF spec own, of "fd_list (pr_stdin pr)" "pr_stdout pr"] show ?thesis
    by (auto simp: pipe_close_def process_fds_def) (simp add: fd_list_def)
next
  case Close_stderr
  with step closed_owns [OF spec own, of "fd_list (pr_stdin pr) @ fd_list (pr_stdout pr)" "pr_stderr pr"] show ?thesis
    by (auto simp: pipe_close_def process_fds_def) (simp add: fd_list_def)
next
  case (Write_stdin d)
  with step own pipe_io_keeps [OF spec] show ?thesis by (auto simp: owns_def)
next
  case (Read_stdout n)
  with step own pipe_io_keeps [OF spec] show ?thesis by (auto simp: owns_def)
qed

lemma proc_run_owns:
  assumes "proc_spec P fds kids" and "owns fds kids F K pr w" and "proc_run P xs pr w = Some (pr1, w1)"
  shows "owns fds kids F K pr1 w1"
  using assms(2,3)
proof (induction xs arbitrary: pr w)
  case Nil
  then show ?case by simp
next
  case (Cons x xs)
  from Cons.prems(2) obtain pr2 w2 where "proc_step P x pr w = Some (pr2, w2)" "proc_run P xs pr2 w2 = Some (pr1, w1)"
    by (auto split: option.split_asm)
  with Cons.IH proc_step_owns [OF assms(1) Cons.prems(1)] show ?case by blast
qed

lemma reset_owns:
  assumes spec: "proc_spec P fds kids" and own: "owns fds kids F K pr w"
  shows "\<exists>w1. process_reset P pr w = Some (new_process, w1) \<and> fds w1 = F \<and> kids w1 = K"
proof -
  obtain pr1 w1 where t: "(if process_valid pr \<and> \<not> pr_finished pr then terminate P pr w else Some (pr, w)) = Some (pr1, w1)"
    and o1: "owns fds kids F K pr1 w1" "process_valid pr1 \<longrightarrow> pr_finished pr1"
    using terminate_owns [OF spec own] own by (cases "process_valid pr \<and> \<not> pr_finished pr") auto
  then have "fds w1 = F \<union> set (process_fds pr1)" "set (process_fds pr1) \<inter> F = {}" "kids w1 = K"
    by (auto simp: owns_def fresh_fds_def)
  with t show ?thesis by (auto simp: process_reset_def proc_closes [OF spec] process_fds_def)
qed

lemma spawn_pipe_fresh:
  assumes "proc_spec P fds kids" and "spawn_pipe P mode w = (r, w1)"
  shows "kids w1 = kids w" "fresh_fds (fds w) (case r of None \<Rightarrow> [] | Some x \<Rightarrow> pair_list x) (fds w1)"
proof -
  obtain x w' where p: "os_pipe P w = (x, w')" by fastforce
  from assms(1) p have "kids w' = kids w" "fresh_fds (fds w) (pair_list x) (fds w')"
    unfolding proc_spec_def pair_list_def by (metis fst_conv snd_conv)+
  with assms(2) p show "kids w1 = kids w" "fresh_fds (fds w) (case r of None \<Rightarrow> [] | Some x \<Rightarrow> pair_list x) (fds w1)"
    by (auto simp: spawn_pipe_def pair_list_def fresh_fds_def split: if_split_asm option.split_asm)
qed

lemma open_null_fresh:
  assumes "proc_spec P fds kids" and "open_null P opts w = (r, w1)"
  shows "kids w1 = kids w" "fresh_fds (fds w) (case r of None \<Rightarrow> [] | Some x \<Rightarrow> fd_list x) (fds w1)"
proof -
  obtain x w' where p: "os_open_null P w = (x, w')" by fastforce
  from assms(1) p have "kids w' = kids w" "fresh_fds (fds w) (fd_list x) (fds w')"
    unfolding proc_spec_def fd_list_def by (metis fst_conv snd_conv)+
  with assms(2) p show "kids w1 = kids w" "fresh_fds (fds w) (case r of None \<Rightarrow> [] | Some x \<Rightarrow> fd_list x) (fds w1)"
    by (auto simp: open_null_def fd_list_def fresh_fds_def split: if_split_asm option.split_asm)
qed

lemma fresh_fds_trans:
  "fresh_fds F as F1 \<Longrightarrow> fresh_fds F1 bs F2 \<Longrightarrow> fresh_fds F (as @ bs) F2"
  by (auto simp: fresh_fds_def)

lemma cleanup_view:
  assumes "proc_spec P fds kids" and "fresh_fds F (pair_list a @ pair_list b @ pair_list c @ fd_list n) (fds w)"
  shows "fds (cleanup_pipes P a b c n w) = F" "kids (cleanup_pipes P a b c n w) = kids w"
  using assms(2) by (auto simp: cleanup_pipes_def proc_closes [OF assms(1)] fresh_fds_def)

lemma parent_owns:
  assumes spec: "proc_spec P fds kids" and "fresh_fds F (pair_list a @ pair_list b @ pair_list c @ fd_list n) (fds w)"
    and "kids w = insert pid K" and "pid > 0" and "pid \<notin> K"
  shows "owns fds kids F K (fst (parent_process P a b c n pid w)) (snd (parent_process P a b c n pid w))"
  using assms(2-) by (auto simp: parent_process_def Let_def owns_def proc_closes [OF spec] fresh_fds_def process_fds_def
      process_valid_def new_process_def pair_list_def fd_list_def split: option.splits)

lemma spawn_owns:
  assumes spec: "proc_spec P fds kids" and run: "spawn P argv opts w = (r, w')"
  shows "case r of Inl e \<Rightarrow> fds w' = fds w \<and> kids w' = kids w | Inr pr \<Rightarrow> owns fds kids (fds w) (kids w) pr w'"
proof (cases "argv = []")
  case True
  with run show ?thesis by (auto simp: spawn_def)
next
  case False
  note clean = cleanup_view [OF spec]
  have nil [simp]: "pair_list None = []" "fd_list None = []" by (simp_all add: pair_list_def fd_list_def)
  obtain a w1 where 1: "spawn_pipe P (po_stdin_mode opts) w = (a, w1)" by fastforce
  note f1 = spawn_pipe_fresh [OF spec 1]
  show ?thesis
  proof (cases a)
    case None
    with False run 1 f1 clean [of "fds w" None None None None w1] show ?thesis by (auto simp: spawn_def)
  next
    case a: (Some a')
    obtain b w2 where 2: "spawn_pipe P (po_stdout_mode opts) w1 = (b, w2)" by fastforce
    note f2 = spawn_pipe_fresh [OF spec 2] fresh_fds_trans [OF f1(2) spawn_pipe_fresh(2) [OF spec 2]]
    show ?thesis
    proof (cases b)
      case None
      with False run a 1 2 f1 f2 clean [of "fds w" a' None None None w2] show ?thesis by (auto simp: spawn_def)
    next
      case b: (Some b')
      obtain c w3 where 3: "spawn_pipe P (po_stderr_mode opts) w2 = (c, w3)" by fastforce
      note f3 = spawn_pipe_fresh(1) [OF spec 3] fresh_fds_trans [OF f2(3) spawn_pipe_fresh(2) [OF spec 3]]
      show ?thesis
      proof (cases c)
        case None
        with False run a b 1 2 3 f1 f2 f3 clean [of "fds w" a' b' None None w3] show ?thesis by (auto simp: spawn_def)
      next
        case c: (Some c')
        obtain n w4 where 4: "open_null P opts w3 = (n, w4)" by fastforce
        note f4 = open_null_fresh(1) [OF spec 4] fresh_fds_trans [OF f3(2) open_null_fresh(2) [OF spec 4]]
        show ?thesis
        proof (cases n)
          case None
          with False run a b c 1 2 3 4 f1 f2 f3 f4 clean [of "fds w" a' b' c' None w4] show ?thesis by (auto simp: spawn_def)
        next
          case n: (Some n')
          obtain pid w5 where 5: "os_fork P w4 = (pid, w5)" by fastforce
          have f5: "fds w5 = fds w4" "if pid < 0 then kids w5 = kids w4 else pid > 0 \<and> pid \<notin> kids w4 \<and> kids w5 = insert pid (kids w4)"
            using spec 5 unfolding proc_spec_def by (metis fst_conv snd_conv)+
          have fr: "fresh_fds (fds w) (pair_list a' @ pair_list b' @ pair_list c' @ fd_list n') (fds w5)"
            using f4(2) f5(1) a b c n by simp
          have ks: "kids w4 = kids w" using f1(1) f2(1) f3(1) f4(1) by simp
          show ?thesis
            using False run a b c n 1 2 3 4 5 f5(2) ks clean [OF fr] parent_owns [OF spec fr, of pid "kids w"]
            by (cases "pid < 0") (auto simp: spawn_def split: prod.split_asm)
        qed
      qed
    qed
  qed
qed


text \<open>A small system with the assumed behaviour: the open descriptors and the children; a child runs until it is waited for.\<close>

definition new_number :: "nat list \<Rightarrow> nat" where
  "new_number xs = Suc (sum_list xs)"

definition ref_proc_os :: "(nat list \<times> nat list) proc_os" where
  "ref_proc_os =
     \<lparr>os_pipe = (\<lambda>(fs, ks). let a = new_number fs in (Some (a, Suc a), (a # Suc a # fs, ks))),
      os_open_null = (\<lambda>(fs, ks). let a = new_number fs in (Some a, (a # fs, ks))),
      os_fork = (\<lambda>(fs, ks). let k = new_number ks in (int k, (fs, k # ks))),
      os_close = (\<lambda>f (fs, ks). (removeAll f fs, ks)),
      os_write = (\<lambda>f d w. (int (length d), w)),
      os_read = (\<lambda>f n w. (0, [], w)),
      os_waitpid = (\<lambda>pid nohang (fs, ks). if nohang then Some (0, 0, (fs, ks)) else Some (pid, 9, (fs, removeAll (nat pid) ks))),
      os_kill = (\<lambda>pid sig w. w),
      os_readlink_self = (\<lambda>w. (0, []))\<rparr>"

definition ref_fds :: "nat list \<times> nat list \<Rightarrow> nat set" where
  "ref_fds w = set (fst w)"

definition ref_kids :: "nat list \<times> nat list \<Rightarrow> int set" where
  "ref_kids w = int ` set (snd w)"

lemma new_number_bound: "x \<in> set xs \<Longrightarrow> x < new_number xs"
  using member_le_sum_list [of x xs] by (simp add: new_number_def)

lemma new_number_fresh [simp]: "new_number xs \<notin> set xs" "Suc (new_number xs) \<notin> set xs"
  using new_number_bound by fastforce+

lemma new_number_pos [simp]: "0 < new_number xs"
  by (simp add: new_number_def)

lemma ref_proc_spec: "proc_spec ref_proc_os ref_fds ref_kids"
proof -
  have neg: "\<not> int k < 0" for k by simp
  have img: "int ` (A - {x}) = int ` A - {int x}" for A x by auto
  show ?thesis
    unfolding proc_spec_def
    by (auto simp: ref_proc_os_def ref_fds_def ref_kids_def fresh_fds_def Let_def neg img split: prod.splits if_split_asm)
qed


text \<open>
  Two variables are enough to give the child an undefined environment with the growth of the usual standard library, which
  reallocates when it appends to a vector of 0, 1, 2, 4, ... elements and stores strings of up to 15 characters in place.
\<close>

lemma environment_dangles:
  "child_environ (\<lambda>j. j \<in> {0, 1, 2, 4, 8, 16}) 15 [(''A'', ''1''), (''B'', ''2'')] = None"
  by (simp add: child_environ_def env_strings_def Let_def upt_rec)

end
