(* ===== verification/Subprocess_Win32.thy ===== *)
theory Subprocess_Win32
  imports Subprocess
begin

text \<open>
  Child processes on Windows: \<open>src/platform/subprocess_win32.cpp\<close>.

  The calls into the system are the record \<open>win_os\<close>; a handle that is invalid or null is \<open>None\<close>. The counter of
  backslashes is a natural number: a command line has at most 32767 characters.
\<close>

section \<open>The command line\<close>

text \<open>The loop over the characters of an argument that needs quotes, with the number of backslashes just read.\<close>

fun quote_chars :: "nat \<Rightarrow> string \<Rightarrow> string" where
  "quote_chars backslashes [] = replicate (backslashes * 2) CHR 0x5C"
| "quote_chars backslashes (ch # rest) =
     (if ch = CHR 0x5C then quote_chars (Suc backslashes) rest
      else if ch = CHR 0x22 then replicate (backslashes * 2 + 1) CHR 0x5C @ CHR 0x22 # quote_chars 0 rest
      else replicate backslashes CHR 0x5C @ ch # quote_chars 0 rest)"

definition special_char :: "char \<Rightarrow> bool" where
  "special_char c \<longleftrightarrow> c = CHR '' '' \<or> c = CHR 0x09 \<or> c = CHR 0x22"

definition quote_arg :: "string \<Rightarrow> string" where
  "quote_arg arg = (if \<not> list_ex special_char arg then arg else CHR 0x22 # quote_chars 0 arg @ [CHR 0x22])"

fun join_args :: "string list \<Rightarrow> string" where
  "join_args [] = []"
| "join_args [a] = quote_arg a"
| "join_args (a # b # rest) = quote_arg a @ CHR '' '' # join_args (b # rest)"

definition command_line :: "string list \<Rightarrow> string" where
  "command_line argv = join_args argv @ [CHR 0x00]"

definition env_block :: "(string \<times> string) list \<Rightarrow> string option" where
  "env_block env =
     (if env = [] then None
      else Some (concat (map (\<lambda>(key, val). key @ ''='' @ val @ [CHR 0x00]) env) @ [CHR 0x00]))"

section \<open>The system\<close>

record win_process_info =
  pi_process :: "nat option"
  pi_thread :: "nat option"
  pi_id :: u32

record 'o win_os =
  wo_create_pipe :: "'o \<Rightarrow> (nat \<times> nat) option \<times> 'o"
  wo_no_inherit :: "nat \<Rightarrow> 'o \<Rightarrow> 'o"
  wo_open_nul :: "'o \<Rightarrow> nat option \<times> 'o"
  wo_std_handle :: "nat \<Rightarrow> 'o \<Rightarrow> nat option"
  wo_create_process :: "string \<Rightarrow> string option \<Rightarrow> string option \<Rightarrow> nat option \<times> nat option \<times> nat option \<Rightarrow> 'o \<Rightarrow> win_process_info option \<times> 'o"
  wo_close :: "nat \<Rightarrow> 'o \<Rightarrow> 'o"
  wo_write :: "nat \<Rightarrow> byte list \<Rightarrow> 'o \<Rightarrow> u32 option \<times> 'o"
  wo_read :: "nat \<Rightarrow> u32 \<Rightarrow> 'o \<Rightarrow> (u32 \<times> byte list) option \<times> 'o"
  wo_wait :: "nat \<Rightarrow> bool \<Rightarrow> 'o \<Rightarrow> (bool \<times> 'o) option"
  wo_exit_code :: "nat \<Rightarrow> 'o \<Rightarrow> u32 option"
  wo_terminate :: "nat \<Rightarrow> 'o \<Rightarrow> 'o"
  wo_ctrl_c :: "u32 \<Rightarrow> 'o \<Rightarrow> 'o"
  wo_module_file_name :: "nat \<Rightarrow> 'o \<Rightarrow> nat \<times> string"

record win_child =
  wc_finished :: bool
  wc_stdin :: "nat option"
  wc_stdout :: "nat option"
  wc_stderr :: "nat option"
  wc_info :: win_process_info
  wc_exit_code :: u32

definition no_info :: win_process_info where
  "no_info = \<lparr>pi_process = None, pi_thread = None, pi_id = 0\<rparr>"

definition new_win_child :: win_child where
  "new_win_child = \<lparr>wc_finished = False, wc_stdin = None, wc_stdout = None, wc_stderr = None, wc_info = no_info, wc_exit_code = 1\<rparr>"

section \<open>Pipe ends\<close>

definition win_close_handle :: "'o win_os \<Rightarrow> nat option \<Rightarrow> 'o \<Rightarrow> 'o" where
  "win_close_handle W h w = (case h of None \<Rightarrow> w | Some x \<Rightarrow> wo_close W x w)"

definition win_pipe_close :: "'o win_os \<Rightarrow> nat option \<Rightarrow> 'o \<Rightarrow> nat option \<times> 'o" where
  "win_pipe_close W h w = (None, win_close_handle W h w)"

definition win_pipe_move_assign :: "'o win_os \<Rightarrow> nat option \<Rightarrow> nat option \<Rightarrow> 'o \<Rightarrow> nat option \<times> nat option \<times> 'o" where
  "win_pipe_move_assign W this other w = (case win_pipe_close W this w of (_, w1) \<Rightarrow> (other, None, w1))"

text \<open>The length is cast to 32 bits.\<close>

definition win_pipe_write :: "'o win_os \<Rightarrow> nat option \<Rightarrow> byte list option \<Rightarrow> u64 \<Rightarrow> 'o \<Rightarrow> u64 \<times> 'o" where
  "win_pipe_write W h src len w =
     (case (h, src) of
        (Some x, Some d) \<Rightarrow>
          if len = 0 then (0, w)
          else (case wo_write W x (take (unat (ucast len :: u32)) d) w of
                  (None, w1) \<Rightarrow> (0, w1) | (Some written, w1) \<Rightarrow> (ucast written, w1))
      | _ \<Rightarrow> (0, w))"

definition win_pipe_read :: "'o win_os \<Rightarrow> nat option \<Rightarrow> byte list option \<Rightarrow> u64 \<Rightarrow> 'o \<Rightarrow> u64 \<times> byte list option \<times> 'o" where
  "win_pipe_read W h buf len w =
     (case (h, buf) of
        (Some x, Some b) \<Rightarrow>
          if len = 0 then (0, buf, w)
          else (case wo_read W x (ucast len) w of
                  (None, w1) \<Rightarrow> (0, buf, w1) | (Some (n, d), w1) \<Rightarrow> (ucast n, Some (buf_write 0 d b), w1))
      | _ \<Rightarrow> (0, buf, w))"

section \<open>Spawning\<close>

definition win_spawn_pipe :: "'o win_os \<Rightarrow> stdio_mode \<Rightarrow> bool \<Rightarrow> 'o \<Rightarrow> (nat \<times> nat) option option \<times> 'o" where
  "win_spawn_pipe W mode parent_writes w =
     (if mode = piped
      then
        (case wo_create_pipe W w of
           (None, w1) \<Rightarrow> (None, w1)
         | (Some (r, wr), w1) \<Rightarrow> (Some (Some (r, wr)), wo_no_inherit W (if parent_writes then wr else r) w1))
      else (Some None, w))"

definition win_cleanup ::
  "'o win_os \<Rightarrow> (nat \<times> nat) option \<Rightarrow> (nat \<times> nat) option \<Rightarrow> (nat \<times> nat) option \<Rightarrow> nat option \<Rightarrow> 'o \<Rightarrow> 'o" where
  "win_cleanup W si so se null_handle w =
     win_close_handle W null_handle
       (win_close_handle W (map_option snd se) (win_close_handle W (map_option fst se)
       (win_close_handle W (map_option snd so) (win_close_handle W (map_option fst so)
       (win_close_handle W (map_option snd si) (win_close_handle W (map_option fst si) w))))))"

definition win_open_nul :: "'o win_os \<Rightarrow> process_options \<Rightarrow> 'o \<Rightarrow> nat option option \<times> 'o" where
  "win_open_nul W opts w =
     (if need_null opts then (case wo_open_nul W w of (None, w1) \<Rightarrow> (None, w1) | (Some h, w1) \<Rightarrow> (Some (Some h), w1))
      else (Some None, w))"

definition startup_handle :: "'o win_os \<Rightarrow> stdio_mode \<Rightarrow> nat option \<Rightarrow> nat option \<Rightarrow> nat \<Rightarrow> 'o \<Rightarrow> nat option" where
  "startup_handle W mode child_end null_handle std w =
     (if mode = piped then child_end else if mode = null_dev then null_handle else wo_std_handle W std w)"

text \<open>From \<open>CreateProcessA\<close> on: the child-side handles are closed whether or not it succeeds.\<close>

definition win_launch ::
  "'o win_os \<Rightarrow> string list \<Rightarrow> process_options \<Rightarrow> (nat \<times> nat) option \<Rightarrow> (nat \<times> nat) option \<Rightarrow> (nat \<times> nat) option \<Rightarrow> nat option
   \<Rightarrow> 'o \<Rightarrow> (exn + win_child) \<times> 'o" where
  "win_launch W argv opts si so se null_handle w =
     (case wo_create_process W (command_line argv) (env_block (po_env opts)) (if po_cwd opts = [] then None else Some (po_cwd opts))
             (startup_handle W (po_stdin_mode opts) (map_option fst si) null_handle 0 w,
              startup_handle W (po_stdout_mode opts) (map_option snd so) null_handle 1 w,
              startup_handle W (po_stderr_mode opts) (map_option snd se) null_handle 2 w) w of
        (created, w1) \<Rightarrow>
          (let w2 = win_close_handle W null_handle (win_close_handle W (map_option snd se)
                      (win_close_handle W (map_option snd so) (win_close_handle W (map_option fst si) w1)))
           in case created of
                None \<Rightarrow>
                  (Inl (Runtime_error ''CreateProcessA failed''),
                   win_close_handle W (map_option fst se) (win_close_handle W (map_option fst so) (win_close_handle W (map_option snd si) w2)))
              | Some pi \<Rightarrow>
                  (Inr (new_win_child\<lparr>wc_info := pi, wc_stdin := map_option snd si, wc_stdout := map_option fst so,
                                      wc_stderr := map_option fst se\<rparr>),
                   win_close_handle W (pi_thread pi) w2)))"

definition win_spawn :: "'o win_os \<Rightarrow> string list \<Rightarrow> process_options \<Rightarrow> 'o \<Rightarrow> (exn + win_child) \<times> 'o" where
  "win_spawn W argv opts w =
     (if argv = [] then (Inl (Invalid_argument ''process::spawn requires a non-empty argv''), w)
      else
        (case win_spawn_pipe W (po_stdin_mode opts) True w of
           (None, w1) \<Rightarrow> (Inl (Runtime_error ''CreatePipe(stdin) failed''), win_cleanup W None None None None w1)
         | (Some si, w1) \<Rightarrow>
        (case win_spawn_pipe W (po_stdout_mode opts) False w1 of
           (None, w2) \<Rightarrow> (Inl (Runtime_error ''CreatePipe(stdout) failed''), win_cleanup W si None None None w2)
         | (Some so, w2) \<Rightarrow>
        (case win_spawn_pipe W (po_stderr_mode opts) False w2 of
           (None, w3) \<Rightarrow> (Inl (Runtime_error ''CreatePipe(stderr) failed''), win_cleanup W si so None None w3)
         | (Some se, w3) \<Rightarrow>
        (case win_open_nul W opts w3 of
           (None, w4) \<Rightarrow> (Inl (Runtime_error ''CreateFile(NUL) failed''), win_cleanup W si so se None w4)
         | (Some null_handle, w4) \<Rightarrow> win_launch W argv opts si so se null_handle w4)))))"

section \<open>The life of a process object\<close>

definition win_pid :: "win_child \<Rightarrow> u64" where
  "win_pid c = ucast (pi_id (wc_info c))"

definition win_valid :: "win_child \<Rightarrow> bool" where
  "win_valid c \<longleftrightarrow> pi_process (wc_info c) \<noteq> None"

definition fetch_exit_code :: "'o win_os \<Rightarrow> nat \<Rightarrow> win_child \<Rightarrow> 'o \<Rightarrow> win_child" where
  "fetch_exit_code W h c w = (case wo_exit_code W h w of None \<Rightarrow> c | Some code \<Rightarrow> c\<lparr>wc_exit_code := code\<rparr>)"

definition win_poll_exit :: "'o win_os \<Rightarrow> win_child \<Rightarrow> 'o \<Rightarrow> (bool \<times> win_child \<times> 'o) option" where
  "win_poll_exit W c w =
     (case pi_process (wc_info c) of
        None \<Rightarrow> Some (wc_finished c, c, w)
      | Some h \<Rightarrow>
          if wc_finished c then Some (True, c, w)
          else
            (case wo_wait W h True w of
               None \<Rightarrow> None
             | Some (True, w1) \<Rightarrow> Some (True, fetch_exit_code W h (c\<lparr>wc_finished := True\<rparr>) w1, w1)
             | Some (False, w1) \<Rightarrow> Some (False, c, w1)))"

definition win_wait :: "'o win_os \<Rightarrow> win_child \<Rightarrow> 'o \<Rightarrow> (int \<times> win_child \<times> 'o) option" where
  "win_wait W c w =
     (case pi_process (wc_info c) of
        None \<Rightarrow> Some (1, c, w)
      | Some h \<Rightarrow>
          if wc_finished c then Some (sint (wc_exit_code c), c, w)
          else
            (case wo_wait W h False w of
               None \<Rightarrow> None
             | Some (_, w1) \<Rightarrow>
                 let c1 = (fetch_exit_code W h c w1)\<lparr>wc_finished := True\<rparr> in Some (sint (wc_exit_code c1), c1, w1)))"

definition win_terminate :: "'o win_os \<Rightarrow> win_child \<Rightarrow> 'o \<Rightarrow> (win_child \<times> 'o) option" where
  "win_terminate W c w =
     (case pi_process (wc_info c) of
        None \<Rightarrow> Some (c, w)
      | Some h \<Rightarrow>
          if wc_finished c then Some (c, w)
          else
            (case win_poll_exit W c w of
               None \<Rightarrow> None
             | Some (True, c1, w1) \<Rightarrow> Some (c1, w1)
             | Some (False, c1, w1) \<Rightarrow>
                 (case wo_wait W h False (wo_terminate W h w1) of
                    None \<Rightarrow> None
                  | Some (_, w2) \<Rightarrow> Some ((fetch_exit_code W h c1 w2)\<lparr>wc_finished := True\<rparr>, w2))))"

definition win_send_signal :: "'o win_os \<Rightarrow> int \<Rightarrow> win_child \<Rightarrow> 'o \<Rightarrow> (win_child \<times> 'o) option" where
  "win_send_signal W sig c w =
     (if \<not> win_valid c \<or> wc_finished c then Some (c, w)
      else if sig = 2 \<or> sig = 3 then Some (c, wo_ctrl_c W (pi_id (wc_info c)) w)
      else win_terminate W c w)"

definition win_reset :: "'o win_os \<Rightarrow> win_child \<Rightarrow> 'o \<Rightarrow> (win_child \<times> 'o) option" where
  "win_reset W c w =
     (case (if win_valid c \<and> \<not> wc_finished c then win_terminate W c w else Some (c, w)) of
        None \<Rightarrow> None
      | Some (c1, w1) \<Rightarrow>
          (let w2 = win_close_handle W (wc_stderr c1) (win_close_handle W (wc_stdout c1) (win_close_handle W (wc_stdin c1) w1));
               w3 = win_close_handle W (pi_process (wc_info c1)) (win_close_handle W (pi_thread (wc_info c1)) w2)
           in Some (new_win_child\<lparr>wc_info := no_info\<lparr>pi_id := pi_id (wc_info c1)\<rparr>\<rparr>, w3)))"

definition win_move_from :: "'o win_os \<Rightarrow> win_child \<Rightarrow> win_child \<Rightarrow> 'o \<Rightarrow> win_child \<times> win_child \<times> 'o" where
  "win_move_from W this other w =
     (case win_pipe_move_assign W (wc_stdin this) (wc_stdin other) w of
        (i, i', w1) \<Rightarrow>
     (case win_pipe_move_assign W (wc_stdout this) (wc_stdout other) w1 of
        (ou, ou', w2) \<Rightarrow>
     (case win_pipe_move_assign W (wc_stderr this) (wc_stderr other) w2 of
        (er, er', w3) \<Rightarrow>
          (\<lparr>wc_finished = wc_finished other, wc_stdin = i, wc_stdout = ou, wc_stderr = er, wc_info = wc_info other,
            wc_exit_code = wc_exit_code other\<rparr>,
           \<lparr>wc_finished = False, wc_stdin = i', wc_stdout = ou', wc_stderr = er', wc_info = no_info, wc_exit_code = 1\<rparr>, w3))))"

definition win_process_move_assign :: "'o win_os \<Rightarrow> win_child \<Rightarrow> win_child \<Rightarrow> 'o \<Rightarrow> (win_child \<times> win_child \<times> 'o) option" where
  "win_process_move_assign W this other w =
     (case win_reset W this w of None \<Rightarrow> None | Some (this1, w1) \<Rightarrow> Some (win_move_from W this1 other w1))"

definition win_self_exe :: "'o win_os \<Rightarrow> 'o \<Rightarrow> exn + string" where
  "win_self_exe W w =
     (case wo_module_file_name W 260 w of
        (n, buf) \<Rightarrow> if n = 0 \<or> 260 \<le> n then Inl (Runtime_error ''GetModuleFileNameA failed'') else Inr (take n buf))"

section \<open>What the child reads\<close>

text \<open>
  The documented rules by which the C runtime of Windows splits a command line into arguments, as a reference: outside quotes, spaces and
  tabs separate; \<open>2n\<close> backslashes before a quote are \<open>n\<close> backslashes and the quote is a delimiter; \<open>2n + 1\<close> are
  \<open>n\<close> backslashes and a literal quote; a delimiting quote inside quotes that is followed by a quote is a literal quote;
  other backslashes are literal. The program name, which comes first, ends at the first space or tab outside quotes and
  gives backslashes no meaning. \<open>inq\<close> is whether a quote is open, \<open>n\<close> the number of backslashes just read, \<open>cur\<close> the argument read
  so far (\<open>None\<close> between arguments).
\<close>

definition so_far :: "nat \<Rightarrow> string option \<Rightarrow> string" where
  "so_far n cur = (case cur of None \<Rightarrow> [] | Some a \<Rightarrow> a) @ replicate n CHR 0x5C"

fun parse_args :: "bool \<Rightarrow> nat \<Rightarrow> string option \<Rightarrow> string \<Rightarrow> string list" where
  "parse_args inq n cur [] = (if cur = None \<and> n = 0 then [] else [so_far n cur])"
| "parse_args inq n cur (c # cs) =
     (if c = CHR 0x5C then parse_args inq (Suc n) cur cs
      else if c = CHR 0x22 then
        (if odd n then parse_args inq 0 (Some (so_far (n div 2) cur @ [CHR 0x22])) cs
         else if inq \<and> cs \<noteq> [] \<and> hd cs = CHR 0x22 then parse_args inq 0 (Some (so_far (n div 2) cur @ [CHR 0x22])) (tl cs)
         else parse_args (\<not> inq) 0 (Some (so_far (n div 2) cur)) cs)
      else if (c = CHR '' '' \<or> c = CHR 0x09) \<and> \<not> inq then
        (if cur = None \<and> n = 0 then parse_args inq 0 None cs else so_far n cur # parse_args inq 0 None cs)
      else parse_args inq 0 (Some (so_far n cur @ [c])) cs)"

fun parse_program :: "bool \<Rightarrow> string \<Rightarrow> string \<Rightarrow> string \<times> string" where
  "parse_program inq name [] = (name, [])"
| "parse_program inq name (c # cs) =
     (if c = CHR 0x22 then parse_program (\<not> inq) name cs
      else if (c = CHR '' '' \<or> c = CHR 0x09) \<and> \<not> inq then (name, cs)
      else parse_program inq (name @ [c]) cs)"

definition child_args :: "string list \<Rightarrow> string list" where
  "child_args argv =
     (case parse_program False [] (takeWhile (\<lambda>c. c \<noteq> CHR 0x00) (command_line argv)) of
        (program, rest) \<Rightarrow> program # parse_args False 0 None rest)"

lemma parse_backslashes: "parse_args inq n cur (replicate k CHR 0x5C @ cs) = parse_args inq (k + n) cur cs"
  by (induction k arbitrary: n) simp_all

lemma so_far_Some [simp]: "so_far n (Some a) = a @ replicate n CHR 0x5C"
  by (simp add: so_far_def)

lemma so_far_None [simp]: "so_far n None = replicate n CHR 0x5C"
  by (simp add: so_far_def)

lemma parse_quoted:
  assumes "rest = [] \<or> hd rest \<noteq> CHR 0x22"
  shows "parse_args True 0 (Some a) (quote_chars b cs @ CHR 0x22 # rest) = parse_args False 0 (Some (a @ replicate b CHR 0x5C @ cs)) rest"
proof (induction cs arbitrary: a b)
  case Nil
  then show ?case using assms by (auto simp: parse_backslashes)
next
  case (Cons c cs)
  show ?case using Cons [of _ "Suc b"] Cons [of _ 0]
    by (simp add: parse_backslashes replicate_append_same [symmetric] del: replicate_Suc) (simp add: replicate_app_Cons_same)
qed

lemma parse_plain:
  assumes "list_all (\<lambda>c. \<not> special_char c) cs" and "cs \<noteq> [] \<or> n > 0 \<or> cur \<noteq> None"
  shows "parse_args False n cur cs = [so_far n cur @ cs]"
    and "parse_args False n cur (cs @ CHR '' '' # rest) = (so_far n cur @ cs) # parse_args False 0 None rest"
  using assms
proof (induction cs arbitrary: n cur)
  case (Cons c cs)
  case 1
  with Cons.IH(1) show ?case by (auto simp: special_char_def so_far_def replicate_append_same [symmetric])
next
  case (Cons c cs)
  case 2
  with Cons.IH(2) show ?case by (auto simp: special_char_def so_far_def replicate_append_same [symmetric])
qed auto

lemma parse_quote_arg:
  assumes "arg \<noteq> []"
  shows "parse_args False 0 None (quote_arg arg) = [arg]"
    and "parse_args False 0 None (quote_arg arg @ CHR '' '' # rest) = arg # parse_args False 0 None rest"
proof -
  have "parse_args False 0 None (quote_arg arg) = [arg] \<and>
      parse_args False 0 None (quote_arg arg @ CHR '' '' # rest) = arg # parse_args False 0 None rest"
  proof (cases "list_ex special_char arg")
    case True
    then show ?thesis
      using parse_quoted [of "[]" "[]" 0 arg] parse_quoted [of "CHR '' '' # rest" "[]" 0 arg] by (simp add: quote_arg_def)
  next
    case False
    then have "list_all (\<lambda>c. \<not> special_char c) arg" by (simp add: list_ex_iff list_all_iff)
    with False assms parse_plain [of arg 0 None] show ?thesis by (simp add: quote_arg_def)
  qed
  then show "parse_args False 0 None (quote_arg arg) = [arg]"
    "parse_args False 0 None (quote_arg arg @ CHR '' '' # rest) = arg # parse_args False 0 None rest" by simp_all
qed

lemma parse_join: "list_all (\<lambda>a. a \<noteq> []) argv \<Longrightarrow> parse_args False 0 None (join_args argv) = argv"
  by (induction argv rule: join_args.induct) (simp_all add: parse_quote_arg)

lemma quote_chars_plain:
  "CHR 0x22 \<notin> set cs \<Longrightarrow> (if cs = [] then b = 0 else last cs \<noteq> CHR 0x5C) \<Longrightarrow> quote_chars b cs = replicate b CHR 0x5C @ cs"
proof (induction cs arbitrary: b)
  case (Cons c cs)
  then show ?case
    using Cons.IH [of "Suc b"] Cons.IH [of 0] by (auto simp: replicate_app_Cons_same split: if_split_asm)
qed simp

lemma parse_program_chars:
  "CHR 0x22 \<notin> set cs \<Longrightarrow> parse_program True name (cs @ rest) = parse_program True (name @ cs) rest"
  "list_all (\<lambda>c. \<not> special_char c) cs \<Longrightarrow> parse_program False name (cs @ rest) = parse_program False (name @ cs) rest"
  by (induction cs arbitrary: name) (auto simp: special_char_def)

lemma parse_program_quote_arg:
  assumes "CHR 0x22 \<notin> set a" and "a \<noteq> []" and "last a \<noteq> CHR 0x5C"
  shows "parse_program False [] (quote_arg a @ rest) = parse_program False a rest"
proof (cases "list_ex special_char a")
  case True
  with assms parse_program_chars(1) [of a "[]" "CHR 0x22 # rest"] quote_chars_plain [of a 0] show ?thesis
    by (simp add: quote_arg_def)
next
  case False
  then have "list_all (\<lambda>c. \<not> special_char c) a" by (simp add: list_ex_iff list_all_iff)
  with False parse_program_chars(2) [of a "[]" rest] show ?thesis by (simp add: quote_arg_def)
qed

lemma parse_command:
  assumes "CHR 0x22 \<notin> set a" and "a \<noteq> []" and "last a \<noteq> CHR 0x5C" and "list_all (\<lambda>x. x \<noteq> []) args"
  shows "(case parse_program False [] (join_args (a # args)) of (p, rest) \<Rightarrow> p # parse_args False 0 None rest) = a # args"
  using parse_program_quote_arg [OF assms(1-3), of "[]"]
    parse_program_quote_arg [OF assms(1-3), of "CHR '' '' # join_args args"] parse_join [OF assms(4)]
  by (cases args) simp_all

lemma quote_chars_set: "set (quote_chars b cs) \<subseteq> set cs \<union> {CHR 0x5C, CHR 0x22}"
proof (induction cs arbitrary: b)
  case (Cons c cs)
  from Cons [of 0] Cons [of "Suc b"] show ?case by (auto split: if_split_asm)
qed auto

lemma takeWhile_terminated: "z \<notin> set xs \<Longrightarrow> takeWhile (\<lambda>c. c \<noteq> z) (xs @ [z]) = xs"
  by (induction xs) auto

lemma join_args_set: "set (join_args argv) \<subseteq> \<Union> (set (map set argv)) \<union> {CHR 0x5C, CHR 0x22, CHR '' ''}"
proof (induction argv rule: join_args.induct)
  case (2 a)
  then show ?case using quote_chars_set [of 0 a] by (auto simp: quote_arg_def split: if_split_asm)
next
  case (3 a b rest)
  then show ?case using quote_chars_set [of 0 a] by (auto simp: quote_arg_def split: if_split_asm)
qed simp

text \<open>
  C33. The command line that \<open>process::spawn\<close> builds on Windows is read back by the child as the arguments it was built from: whatever
  spaces, tabs, quotes and runs of backslashes they contain, also before a quote or at the end. The arguments must not be
  empty and not contain the null character, and the program name not contain a quote or end in a backslash (no file name does).
\<close>

theorem command_line_round_trip:
  assumes "list_all (\<lambda>a. a \<noteq> [] \<and> CHR 0x00 \<notin> set a) (program # args)"
    and "CHR 0x22 \<notin> set program" and "last program \<noteq> CHR 0x5C"
  shows "child_args (program # args) = program # args"
proof -
  have "CHR 0x00 \<notin> set (join_args (program # args))"
    using join_args_set [of "program # args"] assms(1) by (fastforce simp: list_all_iff)
  then have "takeWhile (\<lambda>c. c \<noteq> CHR 0x00) (command_line (program # args)) = join_args (program # args)"
    unfolding command_line_def by (rule takeWhile_terminated)
  then show ?thesis
    using parse_command [of program args] assms by (simp add: child_args_def list_all_iff del: join_args.simps)
qed

theorem command_line_round_trip_witness:
  "child_args [''run.exe'', ''a b'', [CHR 0x22, CHR 0x5C, CHR 0x5C], [CHR 0x5C, CHR 0x22]] =
     [''run.exe'', ''a b'', [CHR 0x22, CHR 0x5C, CHR 0x5C], [CHR 0x5C, CHR 0x22]]"
  by (rule command_line_round_trip) simp_all

text \<open>An empty argument is not quoted, and is lost.\<close>

lemma empty_argument_lost: "child_args [''run.exe'', [], ''x''] = [''run.exe'', ''x'']"
  by code_simp

text \<open>
  The object that a successful \<open>win_spawn\<close> returns still holds the thread handle that was closed before it returned, and its reset
  closes it again.
\<close>

lemma spawned_thread_handle_stale:
  assumes "win_launch W argv opts si so se null_handle w = (Inr c, w1)" and "\<And>h w. h \<notin> handles (wo_close W h w)"
    and "pi_thread (wc_info c) = Some h"
  shows "h \<notin> handles w1"
  using assms by (auto simp: win_launch_def Let_def new_win_child_def win_close_handle_def split: prod.split_asm option.split_asm)

end
