(* ===== verification/Queue_Refinement.thy ===== *)
theory Queue_Refinement
  imports Channel Socket
begin

text \<open>
  An abstract specification of the channels, and that they implement it: a queue of bounded or unbounded capacity that takes a message
  if it is acceptable and there is room. The locale \<open>queue_refinement\<close> extends the contract of \<open>Fifo\<close> by
  when a send succeeds; its lemma is the simulation. Variable-length messages in shared memory are not an instance: whether
  they fit depends on how the ring buffer lays them out.
\<close>

definition room :: "nat option \<Rightarrow> 'w list \<Rightarrow> bool" where
  "room cap q \<longleftrightarrow> (case cap of None \<Rightarrow> True | Some c \<Rightarrow> length q < c)"

definition bq_send :: "nat option \<Rightarrow> ('m \<Rightarrow> bool) \<Rightarrow> ('m \<Rightarrow> 'w) \<Rightarrow> 'm \<Rightarrow> 'w list \<Rightarrow> bool \<times> 'w list" where
  "bq_send cap fits wire m q = (if fits m \<and> room cap q then (True, q @ [wire m]) else (False, q))"

definition bq_recv :: "'w list \<Rightarrow> 'w option \<times> 'w list" where
  "bq_recv q = (case q of [] \<Rightarrow> (None, []) | w # ws \<Rightarrow> (Some w, ws))"

locale queue_refinement = fifo_transport send recv inv q wire valid
  for send :: "'m \<Rightarrow> 's \<Rightarrow> bool \<times> 's" and recv :: "'s \<Rightarrow> 'w option \<times> 's"
    and inv :: "'s \<Rightarrow> bool" and q :: "'s \<Rightarrow> 'w list" and wire :: "'m \<Rightarrow> 'w" and valid :: "'m \<Rightarrow> bool" +
  fixes cap :: "nat option" and fits :: "'m \<Rightarrow> bool"
  assumes accepts: "inv s \<Longrightarrow> valid m \<Longrightarrow> fst (send m s) \<longleftrightarrow> fits m \<and> room cap (q s)"
begin

lemma send_refines:
  assumes "inv s" and "valid m"
  shows "bq_send cap fits wire m (q s) = (fst (send m s), q (snd (send m s)))"
  using accepts [OF assms] send_q [OF assms] by (auto simp: bq_send_def)

lemma recv_refines:
  assumes "inv s"
  shows "bq_recv (q s) = (fst (recv s), q (snd (recv s)))"
proof (cases "fst (recv s)")
  case None
  with recv_empty [OF assms] recv_q [OF assms] show ?thesis by (simp add: bq_recv_def)
next
  case (Some w)
  with recv_q [OF assms] show ?thesis by (simp add: bq_recv_def)
qed

lemma run_refines:
  assumes "inv s" and "sends_valid valid ops"
  shows "run_ops (bq_send cap fits wire) bq_recv ops (q s) = (case run_ops send recv ops s of (acc, del, s') \<Rightarrow> (acc, del, q s'))"
  using assms
proof (induction ops arbitrary: s)
  case Nil
  then show ?case by simp
next
  case (Cons x ops)
  show ?case
  proof (cases x)
    case (Send m)
    with Cons send_inv send_refines show ?thesis by (simp add: Let_def split: prod.split)
  next
    case Recv
    with Cons recv_inv recv_refines show ?thesis by (simp add: Let_def split: prod.split)
  qed
qed

end

lemma fixed_accepts:
  assumes "fixed_link R pe ce slots I q s" and "unat n \<le> length d"
  shows "fst (fixed_send R pe (d, n, meta) s) \<longleftrightarrow> n \<le> item_size (ep_opts pe) \<and> length (q s) < slots"
proof (cases "n \<le> item_size (ep_opts pe)")
  case True
  with fixed_attempt_queue [of R "item_size (ep_opts pe)" slots I q s n d 0] assms
  obtain s' where "fixed_attempt R (item_size (ep_opts pe)) d n 0 s = (if length (q s) < slots then Some sr_ok else None, s')"
    by (auto simp: fixed_link_def)
  with True assms(1) show ?thesis by (simp add: fixed_link_def fixed_send_def try_send_is_attempt)
next
  case False
  with assms(1) show ?thesis by (simp add: fixed_link_def fixed_send_def try_send_fixed_sized_def not_le)
qed

interpretation fxr: queue_refinement "fixed_send R pe" "poll_one R ce" "fixed_link R pe ce slots I q"
    "\<lambda>s. map (Pair default_meta) (q s)" "fixed_wire pe" "\<lambda>(d, n, meta). unat n \<le> length d"
    "Some slots" "\<lambda>(d, n, meta). n \<le> item_size (ep_opts pe)"
  for R pe ce slots I q
  by unfold_locales (auto simp: fixed_accepts room_def)

definition socket_accepts :: "transport_options \<Rightarrow> byte list \<times> u32 \<Rightarrow> bool" where
  "socket_accepts opts m = (case m of (src, len) \<Rightarrow> if chan_type opts = fixed then len \<le> item_size opts else len \<le> k_max_varlen)"

interpretation skr: queue_refinement "socket_send p N" "socket_recv p N" "socket_link p N s c up pipe opts"
    "socket_queue pipe opts" "socket_wire opts" "\<lambda>(src, len). unat len \<le> length src" None "socket_accepts opts"
  for p N s c up pipe opts
proof -
  have "fst (socket_send p N (src, len) st) = socket_accepts opts (src, len)"
    if "socket_link p N s c up pipe opts st" and "unat len \<le> length src" for src len st
    using socket_send_stream [of p N s c up pipe opts "fst st" "fst (snd st)" "snd (snd st)" len src] that
    by (auto simp: socket_accepts_def)
  then show "queue_refinement (socket_send p N) (socket_recv p N) (socket_link p N s c up pipe opts)
    (socket_queue pipe opts) (socket_wire opts) (\<lambda>(src, len). unat len \<le> length src) None (socket_accepts opts)"
    by unfold_locales (auto simp: room_def)
qed

section \<open>Two queues\<close>

text \<open>A bounded queue with enough room behaves like an unbounded one.\<close>

lemma bq_unbounded:
  assumes "length q + length ops \<le> c"
  shows "run_ops (bq_send (Some c) fits wire) bq_recv ops q = run_ops (bq_send None fits wire) bq_recv ops q"
  using assms
proof (induction ops arbitrary: q)
  case (Cons x ops)
  then show ?case by (cases x; cases q) (auto simp: bq_send_def bq_recv_def room_def Let_def)
qed simp

text \<open>Messages of one kind sent as messages of another.\<close>

lemma bq_map:
  "run_ops (bq_send cap fits wire) bq_recv (map (map_op f) ops) q =
     (case run_ops (bq_send cap (fits \<circ> f) (wire \<circ> f)) bq_recv ops q of (acc, del, q') \<Rightarrow> (map f acc, del, q'))"
proof (induction ops arbitrary: q)
  case (Cons x ops)
  then show ?case by (cases x; cases q) (auto simp: bq_send_def bq_recv_def Let_def split: prod.split)
qed simp

lemma sends_valid_map: "sends_valid valid (map (map_op f) ops) \<longleftrightarrow> sends_valid (valid \<circ> f) ops"
proof (induction ops)
  case (Cons x ops)
  then show ?case by (cases x) simp_all
qed simp

end
