(* ===== verification/Node_Values.thy ===== *)
theory Node_Values
  imports Capi
begin

text \<open>
  The values that pass between JavaScript and the native module of the Node.js package: the first part of
  \<open>node/src/node_binding.cpp\<close>.

  A JavaScript value is a \<open>js\<close>: objects are association lists of their properties, a string is its UTF-8 encoding, a number is a
  rational or not finite, views and buffers are the bytes they show. A thrown exception is \<open>Inl\<close> of a \<open>js_error\<close>. What the
  binding uses of Node-API is the record \<open>napi\<close>; its documented behaviour is \<open>napi_spec\<close>.
\<close>

section \<open>Values\<close>

datatype js_number = Finite rat | Not_finite

datatype js =
    JUndefined | JNull | JBoolean bool | JNumber js_number | JBigInt int | JString string
  | JBuffer "byte list" | JTypedArray "byte list" nat nat | JArrayBuffer "byte list"
  | JArray "js list" | JObject "(string \<times> js) list" | JPromise

record xproc_error =
  xe_message :: string
  xe_status :: int
  xe_status_code :: string
  xe_layout_error :: int
  xe_layout_error_code :: string
  xe_required_length :: "u32 option"

datatype js_error = Type_error string | Range_error string | Plain_error string | Xproc_error xproc_error

record napi =
  utf8_new :: "string \<Rightarrow> string"
  uint32_value :: "js_number \<Rightarrow> u32"
  buffer_new :: "nat \<Rightarrow> byte list"

text \<open>
  Node-API: a string made from ASCII text is that text, the \<open>Uint32Value\<close> of a number in range is the number, and a new
  buffer has the length asked for (its contents are not initialised).
\<close>

definition napi_spec :: "napi \<Rightarrow> bool" where
  "napi_spec E \<longleftrightarrow>
     (\<forall>s. list_all (\<lambda>c. (of_char c :: nat) < 128) s \<longrightarrow> utf8_new E s = s) \<and>
     (\<forall>n < 2 ^ 32. uint32_value E (Finite (of_nat n)) = of_nat n) \<and>
     (\<forall>n. length (buffer_new E n) = n)"

definition js_num :: "int \<Rightarrow> js" where
  "js_num i = JNumber (Finite (of_int i))"

text \<open>The properties of an object; the other objects have none of the names the binding looks up.\<close>

definition js_properties :: "js \<Rightarrow> (string \<times> js) list option" where
  "js_properties v =
     (case v of
        JObject ps \<Rightarrow> Some ps
      | JArray _ \<Rightarrow> Some []
      | JBuffer _ \<Rightarrow> Some []
      | JTypedArray _ _ _ \<Rightarrow> Some []
      | JArrayBuffer _ \<Rightarrow> Some []
      | JPromise \<Rightarrow> Some []
      | _ \<Rightarrow> None)"

definition js_bind :: "js_error + 'a \<Rightarrow> ('a \<Rightarrow> js_error + 'b) \<Rightarrow> js_error + 'b" where
  "js_bind x f = (case x of Inl e \<Rightarrow> Inl e | Inr a \<Rightarrow> f a)"

lemma js_bind_simps [simp]: "js_bind (Inl e) f = Inl e" "js_bind (Inr a) f = f a"
  by (simp_all add: js_bind_def)

section \<open>Errors\<close>

definition make_xproc_error :: "napi \<Rightarrow> xproc_c_status \<Rightarrow> string \<Rightarrow> capi \<Rightarrow> xproc_error" where
  "make_xproc_error E status context g =
     (let prefix = (if context \<noteq> [] then context @ '': '' else []);
          last_error = c_str (xproc_c_last_error_message g);
          layout_error = layout_error_code (xproc_c_last_layout_error g)
      in \<lparr>xe_message = utf8_new E (prefix @ (if last_error \<noteq> [] then last_error else xproc_c_status_string (status_code status))),
          xe_status = status_code status, xe_status_code = xproc_c_status_string (status_code status),
          xe_layout_error = layout_error, xe_layout_error_code = xproc_c_layout_error_string layout_error,
          xe_required_length = None\<rparr>)"

definition throw_xproc_status :: "napi \<Rightarrow> xproc_c_status \<Rightarrow> string \<Rightarrow> capi \<Rightarrow> js_error" where
  "throw_xproc_status E status context g = Xproc_error (make_xproc_error E status context g)"

definition throw_xproc_status_with_required_len :: "napi \<Rightarrow> xproc_c_status \<Rightarrow> string \<Rightarrow> u32 \<Rightarrow> capi \<Rightarrow> js_error" where
  "throw_xproc_status_with_required_len E status context required_len g =
     Xproc_error ((make_xproc_error E status context g)\<lparr>xe_required_length := Some required_len\<rparr>)"

section \<open>Arguments\<close>

definition kMaxSafeInteger :: rat where
  "kMaxSafeInteger = 9007199254740991"

definition lowercase_ascii :: "string \<Rightarrow> string" where
  "lowercase_ascii s =
     map (\<lambda>c. let n = of_char c :: nat in if 65 \<le> n \<and> n \<le> 90 then char_of (n + 32) else c) s"

definition parse_uint64 :: "js \<Rightarrow> string \<Rightarrow> js_error + u64" where
  "parse_uint64 v field_name =
     (case v of
        JBigInt i \<Rightarrow>
          if 0 \<le> i \<and> i < 2 ^ 64 then Inr (word_of_int i) else Inl (Range_error (field_name @ '' must fit in uint64''))
      | JNumber (Finite r) \<Rightarrow>
          if r < 0 \<or> of_int \<lfloor>r\<rfloor> \<noteq> r then Inl (Range_error (field_name @ '' must be a non-negative integer''))
          else if kMaxSafeInteger < r then Inl (Range_error (field_name @ '' is too large for a JS number; use a bigint''))
          else Inr (word_of_int \<lfloor>r\<rfloor>)
      | JNumber Not_finite \<Rightarrow> Inl (Range_error (field_name @ '' must be a non-negative integer''))
      | _ \<Rightarrow> Inl (Type_error (field_name @ '' must be a number or bigint'')))"

definition parse_size_t :: "js \<Rightarrow> string \<Rightarrow> js_error + u64" where
  "parse_size_t v field_name =
     js_bind (parse_uint64 v field_name)
       (\<lambda>parsed. if uint parsed > 2 ^ 64 - 1 then Inl (Range_error (field_name @ '' does not fit in size_t'')) else Inr parsed)"

definition parse_uint32 :: "js \<Rightarrow> string \<Rightarrow> js_error + u32" where
  "parse_uint32 v field_name =
     js_bind (parse_uint64 v field_name)
       (\<lambda>parsed. if uint parsed > 2 ^ 32 - 1 then Inl (Range_error (field_name @ '' must fit in uint32'')) else Inr (ucast parsed))"

definition parse_uint16 :: "js \<Rightarrow> string \<Rightarrow> js_error + u16" where
  "parse_uint16 v field_name =
     js_bind (parse_uint32 v field_name)
       (\<lambda>parsed. if uint parsed > 2 ^ 16 - 1 then Inl (Range_error (field_name @ '' must fit in uint16'')) else Inr (ucast parsed))"

definition parse_int :: "js \<Rightarrow> string \<Rightarrow> js_error + int" where
  "parse_int v field_name =
     (case v of
        JNumber (Finite r) \<Rightarrow>
          if of_int \<lfloor>r\<rfloor> \<noteq> r then Inl (Range_error (field_name @ '' must be an integer''))
          else if r < of_int (- (2 ^ 31)) \<or> of_int (2 ^ 31 - 1) < r then Inl (Range_error (field_name @ '' must fit in int''))
          else Inr \<lfloor>r\<rfloor>
      | JNumber Not_finite \<Rightarrow> Inl (Range_error (field_name @ '' must be an integer''))
      | _ \<Rightarrow> Inl (Type_error (field_name @ '' must be a number'')))"

definition parse_bool :: "js \<Rightarrow> string \<Rightarrow> js_error + int" where
  "parse_bool v field_name =
     (case v of
        JBoolean b \<Rightarrow> Inr (if b then 1 else 0)
      | JNumber (Finite r) \<Rightarrow>
          if r = 0 then Inr 0 else if r = 1 then Inr 1 else Inl (Type_error (field_name @ '' must be a boolean or 0/1''))
      | _ \<Rightarrow> Inl (Type_error (field_name @ '' must be a boolean or 0/1'')))"

definition parse_backend :: "napi \<Rightarrow> js \<Rightarrow> js_error + int" where
  "parse_backend E v =
     (case v of
        JNumber x \<Rightarrow>
          (let parsed = uint (uint32_value E x) in
           if parsed = BACKEND_SHARED_MEMORY \<or> parsed = BACKEND_SOCKET then Inr parsed
           else Inl (Range_error ''backend must be XPROC_C_BACKEND_SHARED_MEMORY or XPROC_C_BACKEND_SOCKET''))
      | JString s \<Rightarrow>
          (let parsed = lowercase_ascii s in
           if parsed = ''shared_memory'' \<or> parsed = ''shared-memory'' \<or> parsed = ''sharedmemory'' \<or> parsed = ''shm''
           then Inr BACKEND_SHARED_MEMORY
           else if parsed = ''socket'' \<or> parsed = ''tcp'' then Inr BACKEND_SOCKET
           else Inl (Range_error ''backend must be shared_memory/shm or socket''))
      | _ \<Rightarrow> Inl (Type_error ''backend must be a number or string''))"

definition parse_channel_type :: "napi \<Rightarrow> js \<Rightarrow> js_error + int" where
  "parse_channel_type E v =
     (case v of
        JNumber x \<Rightarrow>
          (let parsed = uint (uint32_value E x) in
           if parsed = CHANNEL_FIXED \<or> parsed = CHANNEL_VARLEN then Inr parsed
           else Inl (Range_error ''channelType must be XPROC_C_CHANNEL_FIXED or XPROC_C_CHANNEL_VARLEN''))
      | JString s \<Rightarrow>
          (let parsed = lowercase_ascii s in
           if parsed = ''fixed'' then Inr CHANNEL_FIXED
           else if parsed = ''varlen'' \<or> parsed = ''variable'' \<or> parsed = ''variable_length'' \<or> parsed = ''variable-length''
           then Inr CHANNEL_VARLEN
           else Inl (Range_error ''channelType must be fixed or varlen''))
      | _ \<Rightarrow> Inl (Type_error ''channelType must be a number or string''))"

definition parse_endpoint_kind :: "napi \<Rightarrow> js \<Rightarrow> js_error + int" where
  "parse_endpoint_kind E v =
     (case v of
        JNumber x \<Rightarrow>
          (let parsed = uint (uint32_value E x) in
           if parsed = ENDPOINT_PRODUCER \<or> parsed = ENDPOINT_CONSUMER \<or> parsed = ENDPOINT_OBSERVER then Inr parsed
           else Inl (Range_error
             ''endpoint kind must be XPROC_C_ENDPOINT_PRODUCER, XPROC_C_ENDPOINT_CONSUMER, or XPROC_C_ENDPOINT_OBSERVER''))
      | JString s \<Rightarrow>
          (let parsed = lowercase_ascii s in
           if parsed = ''producer'' then Inr ENDPOINT_PRODUCER
           else if parsed = ''consumer'' then Inr ENDPOINT_CONSUMER
           else if parsed = ''observer'' then Inr ENDPOINT_OBSERVER
           else Inl (Range_error ''endpoint kind must be producer, consumer, or observer''))
      | _ \<Rightarrow> Inl (Type_error ''endpoint kind must be a number or string''))"

text \<open>The new value of the pointer, which was \<open>target\<close>: the string is stored with its object and read as a C string.\<close>

definition assign_optional_string ::
  "(string \<times> js) list \<Rightarrow> string \<Rightarrow> bool \<Rightarrow> string option \<Rightarrow> js_error + string option" where
  "assign_optional_string object property_name allow_null target =
     (case map_of object property_name of
        None \<Rightarrow> Inr target
      | Some JUndefined \<Rightarrow> Inr target
      | Some JNull \<Rightarrow> if allow_null then Inr None else Inl (Type_error (property_name @ '' must be a string''))
      | Some (JString s) \<Rightarrow> Inr (Some (c_str s))
      | Some _ \<Rightarrow> Inl (Type_error (property_name @ '' must be a string'')))"

text \<open>A property that is parsed if the object has it, and then stored.\<close>

definition parse_property ::
  "(string \<times> js) list \<Rightarrow> string \<Rightarrow> (js \<Rightarrow> js_error + 'a) \<Rightarrow> ('a \<Rightarrow> 'o \<Rightarrow> 'o) \<Rightarrow> 'o \<Rightarrow> js_error + 'o" where
  "parse_property object property_name parse store out =
     (case map_of object property_name of
        None \<Rightarrow> Inr out
      | Some v \<Rightarrow> js_bind (parse v) (\<lambda>x. Inr (store x out)))"

definition parse_channel_type_property :: "napi \<Rightarrow> (string \<times> js) list \<Rightarrow> xproc_c_options \<Rightarrow> js_error + xproc_c_options" where
  "parse_channel_type_property E object out =
     (if map_of object ''channelType'' \<noteq> None \<and> map_of object ''type'' \<noteq> None
      then Inl (Type_error ''options must use only one of channelType or type'')
      else
        js_bind (parse_property object ''channelType'' (parse_channel_type E) (\<lambda>x o1. o1\<lparr>c_channel_type := x\<rparr>) out)
          (parse_property object ''type'' (parse_channel_type E) (\<lambda>x o1. o1\<lparr>c_channel_type := x\<rparr>)))"

definition options_from_object :: "napi \<Rightarrow> (string \<times> js) list \<Rightarrow> xproc_c_options \<Rightarrow> js_error + xproc_c_options" where
  "options_from_object E object out =
     js_bind (parse_property object ''backend'' (parse_backend E) (\<lambda>x o1. o1\<lparr>c_backend := x\<rparr>) out) (\<lambda>out.
     js_bind (assign_optional_string object ''path'' True (c_path out)) (\<lambda>pth.
     js_bind (parse_property object ''shmSize'' (\<lambda>v. parse_size_t v ''shmSize'') (\<lambda>x o1. o1\<lparr>c_shm_size := x\<rparr>)
                (out\<lparr>c_path := pth\<rparr>)) (\<lambda>out.
     js_bind (parse_property object ''itemSize'' (\<lambda>v. parse_uint32 v ''itemSize'') (\<lambda>x o1. o1\<lparr>c_item_size := x\<rparr>) out) (\<lambda>out.
     js_bind (parse_property object ''dataAlign'' (\<lambda>v. parse_uint32 v ''dataAlign'') (\<lambda>x o1. o1\<lparr>c_data_align := x\<rparr>) out) (\<lambda>out.
     js_bind (parse_property object ''schemaId'' (\<lambda>v. parse_uint64 v ''schemaId'') (\<lambda>x o1. o1\<lparr>c_schema_id := x\<rparr>) out) (\<lambda>out.
     js_bind (parse_property object ''creatorTimestampNs'' (\<lambda>v. parse_uint64 v ''creatorTimestampNs'')
                (\<lambda>x o1. o1\<lparr>c_creator_timestamp_ns := x\<rparr>) out) (\<lambda>out.
     js_bind (parse_property object ''creatorFlags'' (\<lambda>v. parse_uint64 v ''creatorFlags'')
                (\<lambda>x o1. o1\<lparr>c_creator_flags := x\<rparr>) out) (\<lambda>out.
     js_bind (parse_property object ''createIfMissing'' (\<lambda>v. parse_bool v ''createIfMissing'')
                (\<lambda>x o1. o1\<lparr>c_create_if_missing := x\<rparr>) out) (\<lambda>out.
     js_bind (parse_channel_type_property E object out) (\<lambda>out.
     js_bind (assign_optional_string object ''win32ObjectNamespace'' True (c_win32_object_namespace out)) (\<lambda>ns.
     js_bind (assign_optional_string object ''socketHost'' True (c_socket_host out)) (\<lambda>host.
     js_bind (parse_property object ''socketPort'' (\<lambda>v. parse_uint16 v ''socketPort'') (\<lambda>x o1. o1\<lparr>c_socket_port := x\<rparr>)
                (out\<lparr>c_win32_object_namespace := ns, c_socket_host := host\<rparr>)) (\<lambda>out.
     js_bind (parse_property object ''socketListen'' (\<lambda>v. parse_bool v ''socketListen'') (\<lambda>x o1. o1\<lparr>c_socket_listen := x\<rparr>) out) (\<lambda>out.
     js_bind (parse_property object ''socketConnectRetries'' (\<lambda>v. parse_int v ''socketConnectRetries'')
                (\<lambda>x o1. o1\<lparr>c_socket_connect_retries := x\<rparr>) out)
       (parse_property object ''socketConnectRetryMs'' (\<lambda>v. parse_int v ''socketConnectRetryMs'')
                (\<lambda>x o1. o1\<lparr>c_socket_connect_retry_ms := x\<rparr>))))))))))))))))"

definition options_from_js :: "napi \<Rightarrow> js \<Rightarrow> js_error + xproc_c_options" where
  "options_from_js E v =
     (if v = JUndefined \<or> v = JNull then Inr xproc_c_options_init
      else
        (case js_properties v of
           None \<Rightarrow> Inl (Type_error ''options must be an object'')
         | Some object \<Rightarrow> options_from_object E object xproc_c_options_init))"

section \<open>Results\<close>

definition js_bigint_from_u64 :: "u64 \<Rightarrow> js" where
  "js_bigint_from_u64 x = JBigInt (uint x)"

definition js_optional_string :: "napi \<Rightarrow> string option \<Rightarrow> js" where
  "js_optional_string E s = (case s of None \<Rightarrow> JUndefined | Some x \<Rightarrow> JString (utf8_new E x))"

definition options_properties :: "napi \<Rightarrow> xproc_c_options \<Rightarrow> (string \<times> js) list" where
  "options_properties E options =
       [(''backend'', js_num (c_backend options)),
        (''path'', js_optional_string E (c_path options)),
        (''shmSize'', js_bigint_from_u64 (c_shm_size options)),
        (''itemSize'', js_num (uint (c_item_size options))),
        (''dataAlign'', js_num (uint (c_data_align options))),
        (''schemaId'', js_bigint_from_u64 (c_schema_id options)),
        (''creatorTimestampNs'', js_bigint_from_u64 (c_creator_timestamp_ns options)),
        (''creatorFlags'', js_bigint_from_u64 (c_creator_flags options)),
        (''createIfMissing'', JBoolean (c_create_if_missing options \<noteq> 0)),
        (''channelType'', js_num (c_channel_type options)),
        (''type'', js_num (c_channel_type options)),
        (''win32ObjectNamespace'', js_optional_string E (c_win32_object_namespace options)),
        (''socketHost'', js_optional_string E (c_socket_host options)),
        (''socketPort'', js_num (uint (c_socket_port options))),
        (''socketListen'', JBoolean (c_socket_listen options \<noteq> 0)),
        (''socketConnectRetries'', js_num (c_socket_connect_retries options)),
        (''socketConnectRetryMs'', js_num (c_socket_connect_retry_ms options))]"

definition options_to_js :: "napi \<Rightarrow> xproc_c_options \<Rightarrow> js" where
  "options_to_js E options = JObject (options_properties E options)"

definition snapshot_to_js :: "xproc_c_snapshot \<Rightarrow> js" where
  "snapshot_to_js s =
     JObject
       [(''writePos'', js_bigint_from_u64 (cs_write_pos s)),
        (''readPos'', js_bigint_from_u64 (cs_read_pos s)),
        (''commitSeq'', js_num (uint (cs_commit_seq s))),
        (''readWakeSeq'', js_num (uint (cs_read_wake_seq s))),
        (''attachCount'', js_num (uint (cs_attach_count s))),
        (''producerPid'', js_num (cs_producer_pid s))]"

definition message_meta_from_js :: "js \<Rightarrow> js_error + xproc_c_message_meta" where
  "message_meta_from_js v =
     (case (case v of JArray _ \<Rightarrow> None | _ \<Rightarrow> js_properties v) of
        None \<Rightarrow> Inl (Type_error ''meta must be an object'')
      | Some object \<Rightarrow>
          js_bind (parse_property object ''userData'' (\<lambda>v. parse_uint64 v ''meta.userData'') (\<lambda>x m. m\<lparr>cm_user_data := x\<rparr>)
                     \<lparr>cm_user_data = 0, cm_timestamp_ns = 0, cm_schema_id = 0, cm_flags = 0\<rparr>) (\<lambda>m.
          js_bind (parse_property object ''timestampNs'' (\<lambda>v. parse_uint64 v ''meta.timestampNs'') (\<lambda>x m. m\<lparr>cm_timestamp_ns := x\<rparr>) m) (\<lambda>m.
          js_bind (parse_property object ''schemaId'' (\<lambda>v. parse_uint32 v ''meta.schemaId'') (\<lambda>x m. m\<lparr>cm_schema_id := x\<rparr>) m)
            (parse_property object ''flags'' (\<lambda>v. parse_uint32 v ''meta.flags'') (\<lambda>x m. m\<lparr>cm_flags := x\<rparr>)))))"

definition message_meta_to_js :: "xproc_c_message_meta \<Rightarrow> js" where
  "message_meta_to_js m =
     JObject
       [(''userData'', js_bigint_from_u64 (cm_user_data m)),
        (''timestampNs'', js_bigint_from_u64 (cm_timestamp_ns m)),
        (''schemaId'', js_num (uint (cm_schema_id m))),
        (''flags'', js_num (uint (cm_flags m)))]"

text \<open>The bytes a value shows, and their number.\<close>

definition byte_span_of :: "string \<Rightarrow> byte list \<Rightarrow> js_error + byte list \<times> u32" where
  "byte_span_of field_name bytes =
     (if length bytes > 2 ^ 32 - 1 then Inl (Range_error (field_name @ '' length must fit in uint32''))
      else Inr (bytes, of_nat (length bytes)))"

definition byte_span_from_js :: "js \<Rightarrow> string \<Rightarrow> js_error + byte list \<times> u32" where
  "byte_span_from_js v field_name =
     (case v of
        JBuffer bytes \<Rightarrow> byte_span_of field_name bytes
      | JTypedArray backing byte_offset byte_length \<Rightarrow> byte_span_of field_name (buf_read byte_offset byte_length backing)
      | JArrayBuffer bytes \<Rightarrow> byte_span_of field_name bytes
      | _ \<Rightarrow> Inl (Type_error (field_name @ '' must be a Buffer, TypedArray, or ArrayBuffer'')))"

text \<open>The value after the native side has written the bytes it shows.\<close>

definition write_span :: "js \<Rightarrow> byte list \<Rightarrow> js" where
  "write_span v bytes =
     (case v of
        JBuffer _ \<Rightarrow> JBuffer bytes
      | JTypedArray backing byte_offset byte_length \<Rightarrow> JTypedArray (buf_write byte_offset bytes backing) byte_offset byte_length
      | JArrayBuffer _ \<Rightarrow> JArrayBuffer bytes
      | _ \<Rightarrow> v)"

definition empty_buffer :: js where
  "empty_buffer = JBuffer []"

definition kClosedHandleMessage :: string where
  "kClosedHandleMessage = ''xproc node binding: handle is closed''"

definition ensure_open :: "'h option \<Rightarrow> js_error + 'h" where
  "ensure_open handle = (case handle of None \<Rightarrow> Inl (Plain_error kClosedHandleMessage) | Some h \<Rightarrow> Inr h)"

end
