(* ===== verification/Copy_Protocol.thy ===== *)
theory Copy_Protocol
  imports Capi
begin

text \<open>
  Getting a message of unknown length through the C interface. A caller without a buffer asks for the length first, and calls again
  with a buffer of that length; between the two calls other processes may change the queue. The contract of a call is the
  locale \<open>copy_call\<close>, which the consumer's \<open>xproc_c_consumer_poll_copy\<close> and the observer's \<open>xproc_c_observer_peek_copy\<close> meet; the two
  calls of the language bindings are \<open>two_calls\<close>.
\<close>

section \<open>Two calls\<close>

text \<open>
  The bindings differ in the buffer they allocate (\<open>fresh\<close>), in what they do with the length that the second call reports
  (\<open>shrink\<close>), and in their errors (\<open>err\<close>); \<open>env\<close> is what happens between the calls.
\<close>

type_synonym 'm copier = "byte list option \<Rightarrow> u32 \<Rightarrow> u32 \<Rightarrow> 'm \<Rightarrow> capi \<Rightarrow> (xproc_c_status \<times> byte list option \<times> u32 \<times> 'm \<times> capi) option"

definition two_calls ::
  "(nat \<Rightarrow> byte list) \<Rightarrow> (nat \<Rightarrow> byte list \<Rightarrow> byte list) \<Rightarrow> (xproc_c_status \<Rightarrow> capi \<Rightarrow> 'e) \<Rightarrow> 'm copier \<Rightarrow> ('m \<Rightarrow> 'm) \<Rightarrow> 'm \<Rightarrow> capi
   \<Rightarrow> (('e + byte list option) \<times> 'm \<times> capi) option" where
  "two_calls fresh shrink err call env m g =
     (case call None 0 0 m g of
        None \<Rightarrow> None
      | Some (st, _, required_len, m1, g1) \<Rightarrow>
          if st = STATUS_AGAIN then Some (Inr None, m1, g1)
          else if st = STATUS_OK then Some (Inr (Some []), m1, g1)
          else if st \<noteq> STATUS_BUFFER_TOO_SMALL then Some (Inl (err st g1), m1, g1)
          else
            (case call (Some (fresh (unat required_len))) required_len required_len (env m1) g1 of
               None \<Rightarrow> None
             | Some (st2, payload, len, m2, g2) \<Rightarrow>
                 Some (if st2 \<noteq> STATUS_OK then Inl (err st2 g2) else Inr (Some (shrink (unat len) (the payload))), m2, g2)))"

locale copy_call =
  fixes call :: "'m copier"
    and holds :: "'m \<Rightarrow> byte list list \<Rightarrow> bool"
    and left :: "byte list list \<Rightarrow> byte list list"
  assumes call_ok: "holds m ds \<Longrightarrow> (case buffer of None \<Rightarrow> cap = 0 | Some b \<Rightarrow> length b = unat cap) \<Longrightarrow>
     \<exists>st buf n m' g'. call buffer cap l m g = Some (st, buf, n, m', g') \<and>
       (case ds of
          [] \<Rightarrow> st = STATUS_AGAIN \<and> n = 0 \<and> buf = buffer \<and> holds m' []
        | d # _ \<Rightarrow> unat n = length d \<and>
            (if length d \<le> unat cap then st = STATUS_OK \<and> buf = map_option (buf_write 0 d) buffer \<and> holds m' (left ds)
             else st = STATUS_BUFFER_TOO_SMALL \<and> buf = buffer \<and> holds m' ds))"
begin

lemma two_calls_result:
  assumes "holds m ds" and "\<And>m. holds m ds \<Longrightarrow> holds (env m) ds'" and "\<And>n. length (fresh n) = n"
  shows "\<exists>r m' g'. two_calls fresh shrink err call env m g = Some (r, m', g') \<and>
    (case ds of
       [] \<Rightarrow> r = Inr None \<and> holds m' []
     | d # _ \<Rightarrow>
         if d = [] then r = Inr (Some []) \<and> holds m' (left ds)
         else
           (case ds' of
              [] \<Rightarrow> r = Inl (err STATUS_AGAIN g') \<and> holds m' []
            | d' # _ \<Rightarrow>
                if length d' \<le> length d
                then r = Inr (Some (shrink (length d') (buf_write 0 d' (fresh (length d))))) \<and> holds m' (left ds')
                else r = Inl (err STATUS_BUFFER_TOO_SMALL g') \<and> holds m' ds'))"
proof -
  have none: "case None of None \<Rightarrow> (0 :: u32) = 0 | Some b \<Rightarrow> length (b :: byte list) = unat (0 :: u32)" by simp
  from call_ok [OF assms(1) none, of 0 g] obtain st buf n m1 g1 where
    c1: "call None 0 0 m g = Some (st, buf, n, m1, g1)" and
    r1: "case ds of
          [] \<Rightarrow> st = STATUS_AGAIN \<and> n = 0 \<and> buf = None \<and> holds m1 []
        | d # _ \<Rightarrow> unat n = length d \<and>
            (if length d \<le> unat (0 :: u32) then st = STATUS_OK \<and> buf = map_option (buf_write 0 d) None \<and> holds m1 (left ds)
             else st = STATUS_BUFFER_TOO_SMALL \<and> buf = None \<and> holds m1 ds)" by blast
  show ?thesis
  proof (cases "\<exists>d rest. ds = d # rest \<and> d \<noteq> []")
    case False
    with c1 r1 show ?thesis by (cases ds) (auto simp: two_calls_def)
  next
    case True
    then obtain d rest where ds: "ds = d # rest" and d: "d \<noteq> []" by blast
    with r1 have n: "unat n = length d" and st: "st = STATUS_BUFFER_TOO_SMALL" and m1: "holds m1 ds" by auto
    have "case Some (fresh (unat n)) of None \<Rightarrow> n = 0 | Some b \<Rightarrow> length b = unat n" using assms(3) by simp
    from call_ok [OF assms(2) [OF m1] this, of n g1] obtain st2 buf2 n2 m2 g2 where
      "call (Some (fresh (unat n))) n n (env m1) g1 = Some (st2, buf2, n2, m2, g2)"
      "case ds' of
          [] \<Rightarrow> st2 = STATUS_AGAIN \<and> n2 = 0 \<and> buf2 = Some (fresh (unat n)) \<and> holds m2 []
        | d # _ \<Rightarrow> unat n2 = length d \<and>
            (if length d \<le> unat n then st2 = STATUS_OK \<and> buf2 = map_option (buf_write 0 d) (Some (fresh (unat n))) \<and> holds m2 (left ds')
             else st2 = STATUS_BUFFER_TOO_SMALL \<and> buf2 = Some (fresh (unat n)) \<and> holds m2 ds')" by blast
    with c1 st ds d n show ?thesis by (cases ds') (auto simp: two_calls_def)
  qed
qed

text \<open>A caller that is alone in taking messages gets the oldest one, and messages may arrive in the meantime.\<close>

lemma two_calls_take:
  assumes "holds m ds" and "\<And>m. holds m ds \<Longrightarrow> holds (env m) (ds @ ext)" and "\<And>n. length (fresh n) = n"
    and "\<And>d. shrink (length d) d = d" and "left = tl"
  shows "\<exists>m' g' ext'. two_calls fresh shrink err call env m g =
      Some (Inr (case ds of [] \<Rightarrow> None | d # _ \<Rightarrow> Some d), m', g') \<and> holds m' (tl ds @ ext') \<and> ext' \<in> {[], ext}"
proof -
  from two_calls_result [where env = env and fresh = fresh and shrink = shrink and err = err and g = g, OF assms(1,2,3)] obtain r m' g' where
    r: "two_calls fresh shrink err call env m g = Some (r, m', g')"
    "case ds of
       [] \<Rightarrow> r = Inr None \<and> holds m' []
     | d # _ \<Rightarrow>
         if d = [] then r = Inr (Some []) \<and> holds m' (left ds)
         else
           (case ds @ ext of
              [] \<Rightarrow> r = Inl (err STATUS_AGAIN g') \<and> holds m' []
            | d' # _ \<Rightarrow>
                if length d' \<le> length d
                then r = Inr (Some (shrink (length d') (buf_write 0 d' (fresh (length d))))) \<and> holds m' (left (ds @ ext))
                else r = Inl (err STATUS_BUFFER_TOO_SMALL g') \<and> holds m' (ds @ ext))" by blast
  show ?thesis
  proof (cases ds)
    case Nil
    with r show ?thesis by (intro exI [of _ m'] exI [of _ g'] exI [of _ "[]"]) simp
  next
    case (Cons d rest)
    have "buf_write 0 d (fresh (length d)) = d" by (simp add: buf_write_def assms(3))
    with Cons r assms(4,5) show ?thesis
      by (intro exI [of _ m'] exI [of _ g'] exI [of _ "if d = [] then [] else ext"]) (auto split: if_split_asm)
  qed
qed

end

section \<open>Consumers\<close>

definition consumer_call :: "platform \<Rightarrow> spscring \<Rightarrow> 'n sockets \<Rightarrow> ('s xproc_c_consumer option \<times> 'n medium) copier" where
  "consumer_call p R N buffer buffer_capacity out_len m g =
     map_option (\<lambda>(st, buf, len, h, md, g1). (st, buf, the len, (h, md), g1))
       (xproc_c_consumer_poll_copy p R N (fst m) buffer buffer_capacity (Some out_len) (snd m) g)"

text \<open>The messages a consumer will deliver: the one it kept back, and those of its transport.\<close>

definition consumer_waiting ::
  "platform \<Rightarrow> spscring \<Rightarrow> 'n sockets \<Rightarrow> 's xproc_c_consumer option \<times> 'n medium \<Rightarrow> byte list list \<Rightarrow> bool" where
  "consumer_waiting p R N m ds \<longleftrightarrow>
     (\<exists>ct pending ms. fst m = Some \<lparr>cc_impl = Some ct, cc_pending = pending\<rparr> \<and> consumer_holds p R N ct (snd m) ms \<and>
        length pending < 2 ^ 32 \<and> ds = waiting pending ms)"

interpretation cc: copy_call "consumer_call p R N" "consumer_waiting p R N" tl for p R N
proof
  fix m ds and buffer :: "byte list option" and cap l :: u32 and g
  assume "consumer_waiting p R N m ds" and buf: "case buffer of None \<Rightarrow> cap = 0 | Some b \<Rightarrow> length b = unat cap"
  then obtain ct pending ms where m: "fst m = Some \<lparr>cc_impl = Some ct, cc_pending = pending\<rparr>"
    and h: "consumer_holds p R N ct (snd m) ms" "length pending < 2 ^ 32" and ds: "ds = waiting pending ms"
    unfolding consumer_waiting_def by blast
  from cq.poll_copy_call [OF h buf, of l g] obtain st buf n ct1 pending1 md1 ms1 g1 where
    c: "xproc_c_consumer_poll_copy p R N (Some \<lparr>cc_impl = Some ct, cc_pending = pending\<rparr>) buffer cap (Some l) (snd m) g =
       Some (st, buf, Some n, Some \<lparr>cc_impl = Some ct1, cc_pending = pending1\<rparr>, md1, g1)"
    and k: "consumer_holds p R N ct1 md1 ms1" "length pending1 < 2 ^ 32"
    and o: "case waiting pending ms of
        [] \<Rightarrow> st = STATUS_AGAIN \<and> n = 0 \<and> buf = buffer \<and> waiting pending1 ms1 = []
      | d # ds \<Rightarrow> unat n = length d \<and>
          (if length d \<le> unat cap then st = STATUS_OK \<and> buf = map_option (buf_write 0 d) buffer \<and> waiting pending1 ms1 = ds
           else st = STATUS_BUFFER_TOO_SMALL \<and> buf = buffer \<and> waiting pending1 ms1 = d # ds)" by blast
  let ?m = "(Some \<lparr>cc_impl = Some ct1, cc_pending = pending1\<rparr>, md1)"
  have w: "consumer_waiting p R N ?m (waiting pending1 ms1)" using k by (auto simp: consumer_waiting_def)
  have "consumer_call p R N buffer cap l m g = Some (st, buf, n, ?m, g1)" by (simp add: consumer_call_def m c)
  with o w show "\<exists>st buf n m' g'. consumer_call p R N buffer cap l m g = Some (st, buf, n, m', g') \<and>
       (case ds of
          [] \<Rightarrow> st = STATUS_AGAIN \<and> n = 0 \<and> buf = buffer \<and> consumer_waiting p R N m' []
        | d # _ \<Rightarrow> unat n = length d \<and>
            (if length d \<le> unat cap then st = STATUS_OK \<and> buf = map_option (buf_write 0 d) buffer \<and> consumer_waiting p R N m' (tl ds)
             else st = STATUS_BUFFER_TOO_SMALL \<and> buf = buffer \<and> consumer_waiting p R N m' ds))"
    unfolding ds by (cases "waiting pending ms") (auto split: if_split_asm)
qed

section \<open>Observers\<close>

lemma buf_write_whole [simp]: "length d = length b \<Longrightarrow> buf_write 0 d b = d"
  by (simp add: buf_write_def)

text \<open>What an observer with the given options finds in a segment: the messages of its ring, oldest first.\<close>

definition observer_sees :: "spscring \<Rightarrow> transport_options \<Rightarrow> segment \<Rightarrow> message list \<Rightarrow> bool" where
  "observer_sees R opts s ms \<longleftrightarrow>
     (\<forall>m \<in> set ms. length (snd m) < 2 ^ 32) \<and>
     (chan_type opts = fixed \<and>
        (\<exists>slots I q. fixed_ring R (unat (item_size opts)) slots I q \<and> I s \<and> ms = map (Pair default_meta) (q s)) \<or>
      chan_type opts = varlen \<and> (\<exists>max_len I q. varlen_ring R max_len I q \<and> I s \<and> ms = q s))"

lemma peek_seen:
  assumes "observer_sees R opts s ms"
  obtains s' where "peek R opts (\<lambda>_. None) s = (Inr (ms \<noteq> []), take 1 ms, s')" and "observer_sees R opts s' ms"
  using assms unfolding observer_sees_def
proof (elim conjE disjE exE)
  fix slots I q
  assume o: "chan_type opts = fixed" "fixed_ring R (unat (item_size opts)) slots I q" "I s" "ms = map (Pair default_meta) (q s)"
  have "peek R opts (\<lambda>_. None) s = (Inr (ms \<noteq> []), take 1 ms, s)"
    unfolding peek_fixed [OF o(2,3,1)] o(4) by (cases "q s") auto
  with that assms show thesis by blast
next
  fix max_len I q
  assume o: "chan_type opts = varlen" "varlen_ring R max_len I q" "I s" "ms = q s"
    and short: "\<forall>m \<in> set ms. length (snd m) < 2 ^ 32"
  from peek_varlen [OF o(2,3,1)] obtain s' where
    pk: "peek R opts (\<lambda>_. None) s = (Inr (q s \<noteq> []), take 1 (q s), s')" "I s'" "q s' = q s" .
  then have "observer_sees R opts s' ms" using o short unfolding observer_sees_def by metis
  with that pk(1) o(4) show thesis by simp
qed

lemma peek_copy_call:
  assumes "observer_sees R (ob_opts ob) s ms" and "case buffer of None \<Rightarrow> cap = 0 | Some b \<Rightarrow> length b = unat cap"
  shows "\<exists>st buf n s' g'.
     xproc_c_observer_peek_copy R (Some \<lparr>cv_impl = Some ob\<rparr>) buffer cap (Some l) s g = Some (st, buf, Some n, s', g') \<and>
     observer_sees R (ob_opts ob) s' ms \<and>
     (case ms of
        [] \<Rightarrow> st = STATUS_AGAIN \<and> n = 0 \<and> buf = buffer
      | m # _ \<Rightarrow> unat n = length (snd m) \<and>
          (if length (snd m) \<le> unat cap then st = STATUS_OK \<and> buf = map_option (buf_write 0 (snd m)) buffer
           else st = STATUS_BUFFER_TOO_SMALL \<and> buf = buffer))"
proof -
  from peek_seen [OF assms(1)] obtain s' where
    pk: "peek R (ob_opts ob) (\<lambda>_. None) s = (Inr (ms \<noteq> []), take 1 ms, s')" "observer_sees R (ob_opts ob) s' ms" .
  have args: "\<not> (buffer = None \<and> cap \<noteq> 0)" using assms(2) by (auto split: option.splits)
  show ?thesis
  proof (cases ms)
    case Nil
    with pk args show ?thesis
      by (auto simp: xproc_c_observer_peek_copy_def validate_copy_args_def validate_handle_def peek_and_copy_def)
  next
    case (Cons m rest)
    have short: "length (snd m) < 2 ^ 32" using assms(1) Cons by (simp add: observer_sees_def)
    have none: "map_option (buf_write 0 []) buffer = buffer" by (cases buffer) auto
    show ?thesis
      using Cons pk args none copy_fits [OF short]
      by (auto simp: xproc_c_observer_peek_copy_def validate_copy_args_def validate_handle_def peek_and_copy_def
          copy_message_def set_last_error_def Let_def)
  qed
qed

definition observer_call :: "spscring \<Rightarrow> 's xproc_c_observer option \<Rightarrow> segment copier" where
  "observer_call R observer buffer buffer_capacity out_len s g =
     map_option (\<lambda>(st, buf, len, s1, g1). (st, buf, the len, s1, g1))
       (xproc_c_observer_peek_copy R observer buffer buffer_capacity (Some out_len) s g)"

definition observer_waiting :: "spscring \<Rightarrow> 's observer \<Rightarrow> segment \<Rightarrow> byte list list \<Rightarrow> bool" where
  "observer_waiting R ob s ds \<longleftrightarrow> (\<exists>ms. observer_sees R (ob_opts ob) s ms \<and> ds = map snd ms)"

interpretation oc: copy_call "observer_call R (Some \<lparr>cv_impl = Some ob\<rparr>)" "observer_waiting R ob" "\<lambda>ds. ds" for R ob
proof
  fix s ds and buffer :: "byte list option" and cap l :: u32 and g
  assume "observer_waiting R ob s ds" and buf: "case buffer of None \<Rightarrow> cap = 0 | Some b \<Rightarrow> length b = unat cap"
  then obtain ms where ms: "observer_sees R (ob_opts ob) s ms" and ds: "ds = map snd ms" by (auto simp: observer_waiting_def)
  from peek_copy_call [OF ms buf, of l g] obtain st buf n s' g' where
    c: "xproc_c_observer_peek_copy R (Some \<lparr>cv_impl = Some ob\<rparr>) buffer cap (Some l) s g = Some (st, buf, Some n, s', g')"
    and s': "observer_sees R (ob_opts ob) s' ms"
    and o: "case ms of
        [] \<Rightarrow> st = STATUS_AGAIN \<and> n = 0 \<and> buf = buffer
      | m # _ \<Rightarrow> unat n = length (snd m) \<and>
          (if length (snd m) \<le> unat cap then st = STATUS_OK \<and> buf = map_option (buf_write 0 (snd m)) buffer
           else st = STATUS_BUFFER_TOO_SMALL \<and> buf = buffer)" by blast
  have w: "observer_waiting R ob s' (map snd ms)" using s' by (auto simp: observer_waiting_def)
  have "observer_call R (Some \<lparr>cv_impl = Some ob\<rparr>) buffer cap l s g = Some (st, buf, n, s', g')" by (simp add: observer_call_def c)
  with o w show "\<exists>st buf n s' g'. observer_call R (Some \<lparr>cv_impl = Some ob\<rparr>) buffer cap l s g = Some (st, buf, n, s', g') \<and>
       (case ds of
          [] \<Rightarrow> st = STATUS_AGAIN \<and> n = 0 \<and> buf = buffer \<and> observer_waiting R ob s' []
        | d # _ \<Rightarrow> unat n = length d \<and>
            (if length d \<le> unat cap then st = STATUS_OK \<and> buf = map_option (buf_write 0 d) buffer \<and> observer_waiting R ob s' ds
             else st = STATUS_BUFFER_TOO_SMALL \<and> buf = buffer \<and> observer_waiting R ob s' ds))"
    unfolding ds by (cases ms) (auto split: if_split_asm)
qed

end
