(* ===== verification/Node_Binding.thy ===== *)
theory Node_Binding
  imports Node_Values Copy_Protocol
begin

text \<open>
  The classes and functions of the native module of the Node.js package: the second part of \<open>node/src/node_binding.cpp\<close>, over
  the C interface of \<open>Capi\<close>.

  A method takes the list of its arguments and the native handle of its object (\<open>None\<close> once closed) and returns both as it
  leaves them. As in \<open>Capi\<close>, \<open>None\<close> is a call that blocks for ever or runs into undefined behaviour. The lemmas show what a
  JavaScript program gets from a consumer and an observer, and that no native object is closed while it is in use.
\<close>

section \<open>Methods\<close>

text \<open>What a method makes of a status, or of a status and a value.\<close>

definition query_result :: "napi \<Rightarrow> string \<Rightarrow> ('a \<Rightarrow> js) \<Rightarrow> xproc_c_status \<times> 'a option \<times> capi \<Rightarrow> (js_error + js) \<times> capi" where
  "query_result E context f x =
     (case x of (st, out, g) \<Rightarrow> (if st \<noteq> STATUS_OK then Inl (throw_xproc_status E st context g) else Inr (f (the out)), g))"

definition status_result ::
  "napi \<Rightarrow> string \<Rightarrow> (xproc_c_status \<times> 'h \<times> 'm \<times> capi) option \<Rightarrow> ((js_error + js) \<times> 'h \<times> 'm \<times> capi) option" where
  "status_result E context x =
     map_option (\<lambda>(st, h, md, g). (if st \<noteq> STATUS_OK then Inl (throw_xproc_status E st context g) else Inr JUndefined, h, md, g)) x"

definition handle_query_js ::
  "'h option \<Rightarrow> capi \<Rightarrow> ('h \<Rightarrow> (js_error + js) \<times> capi) \<Rightarrow> (js_error + js) \<times> capi" where
  "handle_query_js handle g call = (case ensure_open handle of Inl e \<Rightarrow> (Inl e, g) | Inr h \<Rightarrow> call h)"

definition constructor_options :: "napi \<Rightarrow> js list \<Rightarrow> js_error + xproc_c_options" where
  "constructor_options E args = (case args of [] \<Rightarrow> Inr xproc_c_options_init | v # _ \<Rightarrow> options_from_js E v)"

definition constructor_result :: "napi \<Rightarrow> string \<Rightarrow> xproc_c_status \<Rightarrow> 'h option option \<Rightarrow> capi \<Rightarrow> (js_error + unit) \<times> 'h option" where
  "constructor_result E context st out g =
     (if st \<noteq> STATUS_OK then (Inl (throw_xproc_status E st context g), None) else (Inr (), Option.bind out (\<lambda>h. h)))"

section \<open>Producers\<close>

type_synonym ('s, 'n) producer_result = "((js_error + js) \<times> 's xproc_c_producer option \<times> 'n medium \<times> capi) option"

definition producer_wrap ::
  "napi \<Rightarrow> platform \<Rightarrow> abi \<Rightarrow> init_fn \<Rightarrow> int \<Rightarrow> ('s, 'k) shm_backend \<Rightarrow> 'n sockets \<Rightarrow> js list \<Rightarrow> 'k \<Rightarrow> 'n \<Rightarrow> capi
   \<Rightarrow> ((js_error + unit) \<times> 's xproc_c_producer option \<times> 'k \<times> 'n \<times> capi) option" where
  "producer_wrap E p A init pid B N args k n g =
     (case constructor_options E args of
        Inl e \<Rightarrow> Some (Inl e, None, k, n, g)
      | Inr options \<Rightarrow>
          map_option (\<lambda>(st, out, k1, n1, g1). (case constructor_result E ''Producer'' st out g1 of (r, h) \<Rightarrow> (r, h, k1, n1, g1)))
            (xproc_c_producer_open p A init pid B N (Some options) (Some None) k n g))"

definition producer_reset ::
  "('s, 'k) shm_backend \<Rightarrow> 'n sockets \<Rightarrow> 's xproc_c_producer option \<Rightarrow> 'k \<Rightarrow> 'n \<Rightarrow> 's xproc_c_producer option \<times> 'k \<times> 'n" where
  "producer_reset B N handle k n =
     (if handle \<noteq> None then (case xproc_c_producer_close B N handle k n of (k1, n1) \<Rightarrow> (None, k1, n1)) else (handle, k, n))"

definition producer_close ::
  "('s, 'k) shm_backend \<Rightarrow> 'n sockets \<Rightarrow> 's xproc_c_producer option \<Rightarrow> 'k \<Rightarrow> 'n
   \<Rightarrow> (js_error + js) \<times> 's xproc_c_producer option \<times> 'k \<times> 'n" where
  "producer_close B N handle k n = (Inr JUndefined, producer_reset B N handle k n)"

definition producer_js_options :: "napi \<Rightarrow> 's xproc_c_producer option \<Rightarrow> capi \<Rightarrow> (js_error + js) \<times> capi" where
  "producer_js_options E handle g =
     handle_query_js handle g (\<lambda>h. query_result E ''Producer.options'' (options_to_js E)
       (xproc_c_producer_options (Some h) (Some c_options_zero) g))"

definition send_call ::
  "string \<Rightarrow> js list \<Rightarrow> 's xproc_c_producer option \<Rightarrow> 'n medium \<Rightarrow> capi
   \<Rightarrow> ('s xproc_c_producer \<Rightarrow> byte list \<Rightarrow> u32 \<Rightarrow> js list \<Rightarrow> ('s, 'n) producer_result) \<Rightarrow> ('s, 'n) producer_result" where
  "send_call context args handle md g call =
     (case ensure_open handle of
        Inl e \<Rightarrow> Some (Inl e, handle, md, g)
      | Inr h \<Rightarrow>
          (case args of
             [] \<Rightarrow> Some (Inl (Type_error (context @ '' requires one byte source argument'')), handle, md, g)
           | v # rest \<Rightarrow>
               (case byte_span_from_js v ''data'' of
                  Inl e \<Rightarrow> Some (Inl e, handle, md, g)
                | Inr (bytes, len) \<Rightarrow> call h bytes len rest)))"

text \<open>An optional argument: missing, undefined and null are the same.\<close>

definition optional_argument :: "js list \<Rightarrow> js option" where
  "optional_argument rest = (case rest of [] \<Rightarrow> None | m # _ \<Rightarrow> if m = JUndefined \<or> m = JNull then None else Some m)"

definition send_fixed_bytes_js ::
  "napi \<Rightarrow> platform \<Rightarrow> spscring \<Rightarrow> 'n sockets \<Rightarrow> (nat \<Rightarrow> segment \<Rightarrow> segment) \<Rightarrow> js list \<Rightarrow> 's xproc_c_producer option \<Rightarrow> 'n medium \<Rightarrow> capi
   \<Rightarrow> ('s, 'n) producer_result" where
  "send_fixed_bytes_js E p R N env args handle md g =
     send_call ''Producer.sendFixedBytes'' args handle md g (\<lambda>h bytes len _.
       status_result E ''Producer.sendFixedBytes'' (xproc_c_producer_send_fixed_bytes p R N env (Some h) (Some bytes) len md g))"

definition send_fixed_sized_js ::
  "napi \<Rightarrow> platform \<Rightarrow> spscring \<Rightarrow> 'n sockets \<Rightarrow> (nat \<Rightarrow> segment \<Rightarrow> segment) \<Rightarrow> js list \<Rightarrow> 's xproc_c_producer option \<Rightarrow> 'n medium \<Rightarrow> capi
   \<Rightarrow> ('s, 'n) producer_result" where
  "send_fixed_sized_js E p R N env args handle md g =
     send_call ''Producer.sendFixedSized'' args handle md g (\<lambda>h bytes len rest.
       (case optional_argument rest of
          Some m \<Rightarrow>
            (case message_meta_from_js m of
               Inl e \<Rightarrow> Some (Inl e, handle, md, g)
             | Inr meta \<Rightarrow>
                 status_result E ''Producer.sendFixedSized''
                   (xproc_c_producer_send_fixed_sized_with_meta p R N env (Some h) (Some bytes) len (Some meta) md g))
        | None \<Rightarrow>
            status_result E ''Producer.sendFixedSized''
              (xproc_c_producer_send_fixed_sized p R N env (Some h) (Some bytes) len md g)))"

definition send_varlen_js ::
  "napi \<Rightarrow> platform \<Rightarrow> spscring \<Rightarrow> 'n sockets \<Rightarrow> u64 \<Rightarrow> js list \<Rightarrow> 's xproc_c_producer option \<Rightarrow> 'n medium \<Rightarrow> capi
   \<Rightarrow> ('s, 'n) producer_result" where
  "send_varlen_js E p R N ts args handle md g =
     send_call ''Producer.sendVarlen'' args handle md g (\<lambda>h bytes len rest.
       (case optional_argument rest of
          Some m \<Rightarrow>
            (case message_meta_from_js m of
               Inl e \<Rightarrow> Some (Inl e, handle, md, g)
             | Inr meta \<Rightarrow>
                 status_result E ''Producer.sendVarlen''
                   (xproc_c_producer_send_varlen_with_meta p R N ts (Some h) (Some bytes) len (Some meta) md g))
        | None \<Rightarrow>
            status_result E ''Producer.sendVarlen'' (xproc_c_producer_send_varlen p R N ts (Some h) (Some bytes) len md g)))"

definition producer_js_socket_port :: "napi \<Rightarrow> 's xproc_c_producer option \<Rightarrow> capi \<Rightarrow> (js_error + js) \<times> capi" where
  "producer_js_socket_port E handle g =
     handle_query_js handle g (\<lambda>h. query_result E ''Producer.socketPort'' (\<lambda>port. js_num (uint port))
       (xproc_c_producer_socket_port (Some h) (Some 0) g))"

section \<open>Consumers\<close>

record 's consumer_wrap =
  cw_handle :: "'s xproc_c_consumer option"
  cw_active_waits :: u32

type_synonym ('s, 'n) consumer_result = "((js_error + js) \<times> 's consumer_wrap \<times> 'n medium \<times> capi) option"

definition consumer_wrap_new ::
  "napi \<Rightarrow> platform \<Rightarrow> abi \<Rightarrow> init_fn \<Rightarrow> int \<Rightarrow> ('s, 'k) shm_backend \<Rightarrow> 'n sockets \<Rightarrow> ('n \<Rightarrow> (exn + wait_interruptor) \<times> 'n) \<Rightarrow> js list \<Rightarrow> 'k \<Rightarrow> 'n \<Rightarrow> capi
   \<Rightarrow> ((js_error + unit) \<times> 's consumer_wrap \<times> 'k \<times> 'n \<times> capi) option" where
  "consumer_wrap_new E p A init pid B N mk_wake args k n g =
     (case constructor_options E args of
        Inl e \<Rightarrow> Some (Inl e, \<lparr>cw_handle = None, cw_active_waits = 0\<rparr>, k, n, g)
      | Inr options \<Rightarrow>
          map_option (\<lambda>(st, out, k1, n1, g1).
              (case constructor_result E ''Consumer'' st out g1 of (r, h) \<Rightarrow> (r, \<lparr>cw_handle = h, cw_active_waits = 0\<rparr>, k1, n1, g1)))
            (xproc_c_consumer_open p A init pid B N mk_wake (Some options) (Some None) k n g))"

definition consumer_reset ::
  "('s, 'k) shm_backend \<Rightarrow> 'n sockets \<Rightarrow> 's consumer_wrap \<Rightarrow> 'k \<Rightarrow> 'n \<Rightarrow> 's consumer_wrap \<times> 'k \<times> 'n" where
  "consumer_reset B N w k n =
     (if cw_handle w \<noteq> None
      then (case xproc_c_consumer_close B N (cw_handle w) k n of (k1, n1) \<Rightarrow> (w\<lparr>cw_handle := None\<rparr>, k1, n1))
      else (w, k, n))"

definition consumer_close ::
  "('s, 'k) shm_backend \<Rightarrow> 'n sockets \<Rightarrow> 's consumer_wrap \<Rightarrow> 'k \<Rightarrow> 'n \<Rightarrow> (js_error + js) \<times> 's consumer_wrap \<times> 'k \<times> 'n" where
  "consumer_close B N w k n =
     (if cw_active_waits w > 0 then (Inl (Type_error ''Consumer.close cannot be called while waitAsync is pending''), w, k, n)
      else (Inr JUndefined, consumer_reset B N w k n))"

definition consumer_js_options :: "napi \<Rightarrow> 's consumer_wrap \<Rightarrow> capi \<Rightarrow> (js_error + js) \<times> capi" where
  "consumer_js_options E w g =
     handle_query_js (cw_handle w) g (\<lambda>h. query_result E ''Consumer.options'' (options_to_js E)
       (xproc_c_consumer_options (Some h) (Some c_options_zero) g))"

definition pending_len_js :: "napi \<Rightarrow> 's consumer_wrap \<Rightarrow> capi \<Rightarrow> (js_error + js) \<times> capi" where
  "pending_len_js E w g =
     handle_query_js (cw_handle w) g (\<lambda>h. query_result E ''Consumer.pendingLen'' (\<lambda>n. js_num (uint n))
       (xproc_c_consumer_pending_len (Some h) (Some 0) g))"

definition poll_copy_js ::
  "napi \<Rightarrow> platform \<Rightarrow> spscring \<Rightarrow> 'n sockets \<Rightarrow> 's consumer_wrap \<Rightarrow> 'n medium \<Rightarrow> capi \<Rightarrow> ('s, 'n) consumer_result" where
  "poll_copy_js E p R N w md g =
     (case ensure_open (cw_handle w) of
        Inl e \<Rightarrow> Some (Inl e, w, md, g)
      | Inr h \<Rightarrow>
          (case xproc_c_consumer_poll_copy p R N (Some h) None 0 (Some 0) md g of
             None \<Rightarrow> None
           | Some (st, _, out_len, h1, md1, g1) \<Rightarrow>
               (let w1 = w\<lparr>cw_handle := h1\<rparr>; required_len = the out_len in
                if st = STATUS_AGAIN then Some (Inr JNull, w1, md1, g1)
                else if st = STATUS_OK then Some (Inr empty_buffer, w1, md1, g1)
                else if st \<noteq> STATUS_BUFFER_TOO_SMALL
                then Some (Inl (throw_xproc_status E st ''Consumer.pollCopy'' g1), w1, md1, g1)
                else
                  (let buffer = buffer_new E (unat required_len) in
                   case xproc_c_consumer_poll_copy p R N h1 (if required_len = 0 then None else Some buffer) required_len
                          (Some required_len) md1 g1 of
                     None \<Rightarrow> None
                   | Some (st2, copied, _, h2, md2, g2) \<Rightarrow>
                       (let w2 = w1\<lparr>cw_handle := h2\<rparr> in
                        if st2 \<noteq> STATUS_OK then Some (Inl (throw_xproc_status E st2 ''Consumer.pollCopy'' g2), w2, md2, g2)
                        else Some (Inr (JBuffer (case copied of None \<Rightarrow> buffer | Some b \<Rightarrow> b)), w2, md2, g2))))))"

text \<open>\<open>pollCopyInto\<close> also returns its argument as the call leaves it.\<close>

definition poll_copy_into_js ::
  "napi \<Rightarrow> platform \<Rightarrow> spscring \<Rightarrow> 'n sockets \<Rightarrow> js list \<Rightarrow> 's consumer_wrap \<Rightarrow> 'n medium \<Rightarrow> capi
   \<Rightarrow> ((js_error + js) \<times> js list \<times> 's consumer_wrap \<times> 'n medium \<times> capi) option" where
  "poll_copy_into_js E p R N args w md g =
     (case ensure_open (cw_handle w) of
        Inl e \<Rightarrow> Some (Inl e, args, w, md, g)
      | Inr h \<Rightarrow>
          (case args of
             [] \<Rightarrow>
               Some (Inl (Type_error ''Consumer.pollCopyInto requires one Buffer, TypedArray, or ArrayBuffer argument''), args, w, md, g)
           | v # rest \<Rightarrow>
               (case byte_span_from_js v ''buffer'' of
                  Inl e \<Rightarrow> Some (Inl e, args, w, md, g)
                | Inr (bytes, len) \<Rightarrow>
                    map_option (\<lambda>(st, buf, out_len, h1, md1, g1).
                        (if st = STATUS_AGAIN then Inr JNull
                         else if st = STATUS_BUFFER_TOO_SMALL
                         then Inl (throw_xproc_status_with_required_len E st ''Consumer.pollCopyInto'' (the out_len) g1)
                         else if st \<noteq> STATUS_OK then Inl (throw_xproc_status E st ''Consumer.pollCopyInto'' g1)
                         else Inr (js_num (uint (the out_len))),
                         (case buf of None \<Rightarrow> v | Some b \<Rightarrow> write_span v b) # rest, w\<lparr>cw_handle := h1\<rparr>, md1, g1))
                      (xproc_c_consumer_poll_copy p R N (Some h) (if len = 0 then None else Some bytes) len (Some 0) md g))))"

definition wait_js ::
  "napi \<Rightarrow> platform \<Rightarrow> 'n sockets \<Rightarrow> (u32 \<Rightarrow> segment \<Rightarrow> segment option) \<Rightarrow> 's consumer_wrap \<Rightarrow> 'n medium \<Rightarrow> capi \<Rightarrow> ('s, 'n) consumer_result" where
  "wait_js E p N wait_change w md g =
     (case ensure_open (cw_handle w) of
        Inl e \<Rightarrow> Some (Inl e, w, md, g)
      | Inr h \<Rightarrow>
          map_option (\<lambda>(st, md1, g1).
              (if st \<noteq> STATUS_OK then Inl (throw_xproc_status E st ''Consumer.wait'' g1) else Inr JUndefined, w, md1, g1))
            (xproc_c_consumer_wait p N wait_change (Some h) md g))"

definition consumer_js_socket_port :: "napi \<Rightarrow> 's consumer_wrap \<Rightarrow> capi \<Rightarrow> (js_error + js) \<times> capi" where
  "consumer_js_socket_port E w g =
     handle_query_js (cw_handle w) g (\<lambda>h. query_result E ''Consumer.socketPort'' (\<lambda>port. js_num (uint port))
       (xproc_c_consumer_socket_port (Some h) (Some 0) g))"

text \<open>
  The worker of \<open>waitAsync\<close>: the result of its \<open>Execute\<close>, on a thread of its own, once there is one. It holds the pointer
  that is the handle of its consumer, so running it is defined only while that handle is open.
\<close>

record wait_worker =
  ww_status :: "xproc_c_status option"

definition wait_async :: "'s consumer_wrap \<Rightarrow> (js_error + js) \<times> 's consumer_wrap \<times> wait_worker option" where
  "wait_async w =
     (case ensure_open (cw_handle w) of
        Inl e \<Rightarrow> (Inl e, w, None)
      | Inr h \<Rightarrow>
          if cw_active_waits w > 0
          then (Inl (Type_error ''Consumer.waitAsync cannot be called while another waitAsync is pending''), w, None)
          else (Inr JPromise, w\<lparr>cw_active_waits := cw_active_waits w + 1\<rparr>, Some \<lparr>ww_status = None\<rparr>))"

definition worker_execute ::
  "platform \<Rightarrow> 'n sockets \<Rightarrow> (u32 \<Rightarrow> segment \<Rightarrow> segment option) \<Rightarrow> 's consumer_wrap \<Rightarrow> 'n medium \<Rightarrow> capi \<Rightarrow> wait_worker
   \<Rightarrow> (wait_worker \<times> 'n medium \<times> capi) option" where
  "worker_execute p N wait_change w md worker_g wk =
     (case cw_handle w of
        None \<Rightarrow> None
      | Some h \<Rightarrow>
          map_option (\<lambda>(st, md1, g1). (wk\<lparr>ww_status := Some st\<rparr>, md1, g1)) (xproc_c_consumer_wait p N wait_change (Some h) md worker_g))"

definition complete_wait :: "'s consumer_wrap \<Rightarrow> 's consumer_wrap" where
  "complete_wait w = (if cw_active_waits w > 0 then w\<lparr>cw_active_waits := cw_active_waits w - 1\<rparr> else w)"

text \<open>\<open>OnOK\<close> and \<open>OnError\<close>, on the main thread: what the promise is settled with.\<close>

definition worker_complete :: "napi \<Rightarrow> capi \<Rightarrow> wait_worker \<Rightarrow> 's consumer_wrap \<Rightarrow> (js_error + js) option \<times> 's consumer_wrap" where
  "worker_complete E main_g wk w =
     (case ww_status wk of
        None \<Rightarrow> (None, w)
      | Some st \<Rightarrow>
          (Some (if st = STATUS_OK then Inr JUndefined
                 else Inl (let wrapped = make_xproc_error E st ''Consumer.waitAsync'' main_g in
                           if xe_message wrapped = [] then Plain_error (xproc_c_status_string (status_code st)) else Xproc_error wrapped)),
           complete_wait w))"

section \<open>Observers\<close>

record 's observer_wrap =
  ow_handle :: "'s xproc_c_observer option"
  ow_active_trackers :: u32

definition observer_wrap_new ::
  "napi \<Rightarrow> platform \<Rightarrow> abi \<Rightarrow> init_fn \<Rightarrow> int \<Rightarrow> ('s, 'k) shm_backend \<Rightarrow> js list \<Rightarrow> 'k \<Rightarrow> capi
   \<Rightarrow> ((js_error + unit) \<times> 's observer_wrap \<times> 'k \<times> capi) option" where
  "observer_wrap_new E p A init pid B args k g =
     (case constructor_options E args of
        Inl e \<Rightarrow> Some (Inl e, \<lparr>ow_handle = None, ow_active_trackers = 0\<rparr>, k, g)
      | Inr options \<Rightarrow>
          map_option (\<lambda>(st, out, k1, g1).
              (case constructor_result E ''Observer'' st out g1 of (r, h) \<Rightarrow> (r, \<lparr>ow_handle = h, ow_active_trackers = 0\<rparr>, k1, g1)))
            (xproc_c_observer_open p A init pid B (Some options) (Some None) k g))"

definition retain_tracker :: "'s observer_wrap \<Rightarrow> 's observer_wrap" where
  "retain_tracker w = w\<lparr>ow_active_trackers := ow_active_trackers w + 1\<rparr>"

definition release_tracker :: "'s observer_wrap \<Rightarrow> 's observer_wrap" where
  "release_tracker w = (if ow_active_trackers w > 0 then w\<lparr>ow_active_trackers := ow_active_trackers w - 1\<rparr> else w)"

definition observer_reset :: "('s, 'k) shm_backend \<Rightarrow> 's observer_wrap \<Rightarrow> 'k \<Rightarrow> 's observer_wrap \<times> 'k" where
  "observer_reset B w k =
     (if ow_handle w \<noteq> None then (w\<lparr>ow_handle := None\<rparr>, xproc_c_observer_close B (ow_handle w) k) else (w, k))"

definition observer_close :: "('s, 'k) shm_backend \<Rightarrow> 's observer_wrap \<Rightarrow> 'k \<Rightarrow> (js_error + js) \<times> 's observer_wrap \<times> 'k" where
  "observer_close B w k =
     (if ow_active_trackers w > 0
      then (Inl (Type_error ''Observer.close cannot be called while a diagnostics tracker is active''), w, k)
      else (Inr JUndefined, observer_reset B w k))"

definition observer_js_options :: "napi \<Rightarrow> 's observer_wrap \<Rightarrow> capi \<Rightarrow> (js_error + js) \<times> capi" where
  "observer_js_options E w g =
     handle_query_js (ow_handle w) g (\<lambda>h. query_result E ''Observer.options'' (options_to_js E)
       (xproc_c_observer_options (Some h) (Some c_options_zero) g))"

definition snapshot_js ::
  "napi \<Rightarrow> spscring \<Rightarrow> (nat \<Rightarrow> control_block) \<Rightarrow> 's observer_wrap \<Rightarrow> capi \<Rightarrow> (js_error + js) \<times> capi" where
  "snapshot_js E R mem w g =
     handle_query_js (ow_handle w) g (\<lambda>h. query_result E ''Observer.snapshot'' snapshot_to_js
       (xproc_c_observer_snapshot R mem (Some h)
          (Some \<lparr>cs_write_pos = 0, cs_read_pos = 0, cs_commit_pos = 0, cs_commit_seq = 0, cs_read_wake_seq = 0,
                 cs_attach_count = 0, cs_producer_pid = 0\<rparr>) g))"

text \<open>The two peeks call the C interface twice; \<open>env\<close> is what the producer and the consumer do to the segment in between.\<close>

definition peek_copy_js ::
  "napi \<Rightarrow> spscring \<Rightarrow> (segment \<Rightarrow> segment) \<Rightarrow> 's observer_wrap \<Rightarrow> segment \<Rightarrow> capi \<Rightarrow> ((js_error + js) \<times> segment \<times> capi) option" where
  "peek_copy_js E R env w s g =
     (case ensure_open (ow_handle w) of
        Inl e \<Rightarrow> Some (Inl e, s, g)
      | Inr h \<Rightarrow>
          (case xproc_c_observer_peek_copy R (Some h) None 0 (Some 0) s g of
             None \<Rightarrow> None
           | Some (st, _, out_len, s1, g1) \<Rightarrow>
               (let required_len = the out_len in
                if st = STATUS_AGAIN then Some (Inr JNull, s1, g1)
                else if st = STATUS_OK then Some (Inr empty_buffer, s1, g1)
                else if st \<noteq> STATUS_BUFFER_TOO_SMALL then Some (Inl (throw_xproc_status E st ''Observer.peekCopy'' g1), s1, g1)
                else
                  (let buffer = buffer_new E (unat required_len) in
                   map_option (\<lambda>(st2, copied, _, s2, g2).
                       (if st2 \<noteq> STATUS_OK then Inl (throw_xproc_status E st2 ''Observer.peekCopy'' g2)
                        else Inr (JBuffer (case copied of None \<Rightarrow> buffer | Some b \<Rightarrow> b)), s2, g2))
                     (xproc_c_observer_peek_copy R (Some h) (if required_len = 0 then None else Some buffer) required_len
                        (Some required_len) (env s1) g1)))))"

definition peek_copy_into_js ::
  "napi \<Rightarrow> spscring \<Rightarrow> js list \<Rightarrow> 's observer_wrap \<Rightarrow> segment \<Rightarrow> capi \<Rightarrow> ((js_error + js) \<times> js list \<times> segment \<times> capi) option" where
  "peek_copy_into_js E R args w s g =
     (case ensure_open (ow_handle w) of
        Inl e \<Rightarrow> Some (Inl e, args, s, g)
      | Inr h \<Rightarrow>
          (case args of
             [] \<Rightarrow>
               Some (Inl (Type_error ''Observer.peekCopyInto requires one Buffer, TypedArray, or ArrayBuffer argument''), args, s, g)
           | v # rest \<Rightarrow>
               (case byte_span_from_js v ''buffer'' of
                  Inl e \<Rightarrow> Some (Inl e, args, s, g)
                | Inr (bytes, len) \<Rightarrow>
                    map_option (\<lambda>(st, buf, out_len, s1, g1).
                        (if st = STATUS_AGAIN then Inr JNull
                         else if st = STATUS_BUFFER_TOO_SMALL
                         then Inl (throw_xproc_status_with_required_len E st ''Observer.peekCopyInto'' (the out_len) g1)
                         else if st \<noteq> STATUS_OK then Inl (throw_xproc_status E st ''Observer.peekCopyInto'' g1)
                         else Inr (js_num (uint (the out_len))),
                         (case buf of None \<Rightarrow> v | Some b \<Rightarrow> write_span v b) # rest, s1, g1))
                      (xproc_c_observer_peek_copy R (Some h) (if len = 0 then None else Some bytes) len (Some 0) s g))))"

definition peeked :: "js \<Rightarrow> xproc_c_message_meta \<Rightarrow> js" where
  "peeked payload meta = JObject [(''payload'', payload), (''meta'', message_meta_to_js meta)]"

definition peek_copy_with_meta_js ::
  "napi \<Rightarrow> spscring \<Rightarrow> (segment \<Rightarrow> segment) \<Rightarrow> 's observer_wrap \<Rightarrow> segment \<Rightarrow> capi \<Rightarrow> ((js_error + js) \<times> segment \<times> capi) option" where
  "peek_copy_with_meta_js E R env w s g =
     (case ensure_open (ow_handle w) of
        Inl e \<Rightarrow> Some (Inl e, s, g)
      | Inr h \<Rightarrow>
          (case xproc_c_observer_peek_copy_with_meta R (Some h)
                  (Some \<lparr>cm_user_data = 0, cm_timestamp_ns = 0, cm_schema_id = 0, cm_flags = 0\<rparr>) None 0 (Some 0) s g of
             None \<Rightarrow> None
           | Some (st, meta, _, out_len, s1, g1) \<Rightarrow>
               (let required_len = the out_len in
                if st = STATUS_AGAIN then Some (Inr JNull, s1, g1)
                else if st = STATUS_OK then Some (Inr (peeked empty_buffer (the meta)), s1, g1)
                else if st \<noteq> STATUS_BUFFER_TOO_SMALL
                then Some (Inl (throw_xproc_status E st ''Observer.peekCopyWithMeta'' g1), s1, g1)
                else
                  (let buffer = buffer_new E (unat required_len) in
                   map_option (\<lambda>(st2, meta2, copied, _, s2, g2).
                       (if st2 \<noteq> STATUS_OK then Inl (throw_xproc_status E st2 ''Observer.peekCopyWithMeta'' g2)
                        else Inr (peeked (JBuffer (case copied of None \<Rightarrow> buffer | Some b \<Rightarrow> b)) (the meta2)), s2, g2))
                     (xproc_c_observer_peek_copy_with_meta R (Some h) meta (if required_len = 0 then None else Some buffer)
                        required_len (Some required_len) (env s1) g1)))))"

definition occupancy_ratio_js :: "napi \<Rightarrow> (nat \<Rightarrow> control_block) \<Rightarrow> 's observer_wrap \<Rightarrow> capi \<Rightarrow> (js_error + js) \<times> capi" where
  "occupancy_ratio_js E mem w g =
     handle_query_js (ow_handle w) g (\<lambda>h. query_result E ''Observer.occupancyRatio'' (\<lambda>r. JNumber (Finite r))
       (xproc_c_observer_occupancy_ratio mem (Some h) (Some 0) g))"

definition occupancy_bytes_js :: "napi \<Rightarrow> (nat \<Rightarrow> control_block) \<Rightarrow> 's observer_wrap \<Rightarrow> capi \<Rightarrow> (js_error + js) \<times> capi" where
  "occupancy_bytes_js E mem w g =
     handle_query_js (ow_handle w) g (\<lambda>h. query_result E ''Observer.occupancyBytes'' js_bigint_from_u64
       (xproc_c_observer_occupancy_bytes mem (Some h) (Some 0) g))"

definition available_bytes_js :: "napi \<Rightarrow> (nat \<Rightarrow> control_block) \<Rightarrow> 's observer_wrap \<Rightarrow> capi \<Rightarrow> (js_error + js) \<times> capi" where
  "available_bytes_js E mem w g =
     handle_query_js (ow_handle w) g (\<lambda>h. query_result E ''Observer.availableBytes'' js_bigint_from_u64
       (xproc_c_observer_available_bytes mem (Some h) (Some 0) g))"

definition consumer_lag_bytes_js :: "napi \<Rightarrow> (nat \<Rightarrow> control_block) \<Rightarrow> 's observer_wrap \<Rightarrow> capi \<Rightarrow> (js_error + js) \<times> capi" where
  "consumer_lag_bytes_js E mem w g =
     handle_query_js (ow_handle w) g (\<lambda>h. query_result E ''Observer.consumerLagBytes'' js_bigint_from_u64
       (xproc_c_observer_consumer_lag_bytes mem (Some h) (Some 0) g))"

section \<open>Diagnostics trackers\<close>

text \<open>\<open>tw_observer\<close> says whether the tracker still refers to its observer, which is kept alive by that.\<close>

record 's tracker_wrap =
  tw_handle :: "'s xproc_c_diagnostics_tracker option"
  tw_observer :: bool

text \<open>The argument is \<open>None\<close> when it is missing or is not an \<open>Observer\<close>.\<close>

definition tracker_wrap_new ::
  "napi \<Rightarrow> spscring \<Rightarrow> (nat \<Rightarrow> control_block) \<Rightarrow> int \<Rightarrow> 's observer_wrap option \<Rightarrow> capi
   \<Rightarrow> ((js_error + 's tracker_wrap) \<times> 's observer_wrap option \<times> capi) option" where
  "tracker_wrap_new E R mem now observer g =
     (case observer of
        None \<Rightarrow> Some (Inl (Type_error ''DiagnosticsTracker requires an Observer argument''), observer, g)
      | Some w \<Rightarrow>
          if ow_handle w = None then Some (Inl (Type_error ''DiagnosticsTracker requires an open Observer''), observer, g)
          else
            map_option (\<lambda>(st, out, g1).
                if st \<noteq> STATUS_OK then (Inl (throw_xproc_status E st ''DiagnosticsTracker'' g1), observer, g1)
                else (Inr \<lparr>tw_handle = Option.bind out (\<lambda>t. t), tw_observer = True\<rparr>, Some (retain_tracker w), g1))
              (xproc_c_diagnostics_tracker_create R mem now (ow_handle w) (Some None) g))"

definition create_diagnostics_tracker ::
  "napi \<Rightarrow> spscring \<Rightarrow> (nat \<Rightarrow> control_block) \<Rightarrow> int \<Rightarrow> 's observer_wrap \<Rightarrow> capi
   \<Rightarrow> ((js_error + 's tracker_wrap) \<times> 's observer_wrap \<times> capi) option" where
  "create_diagnostics_tracker E R mem now w g =
     (case ensure_open (ow_handle w) of
        Inl e \<Rightarrow> Some (Inl e, w, g)
      | Inr h \<Rightarrow> map_option (\<lambda>(r, w1, g1). (r, the w1, g1)) (tracker_wrap_new E R mem now (Some w) g))"

definition tracker_reset :: "'s tracker_wrap \<Rightarrow> 's observer_wrap \<Rightarrow> 's tracker_wrap \<times> 's observer_wrap" where
  "tracker_reset t w =
     (if tw_handle t \<noteq> None
      then (\<lparr>tw_handle = None, tw_observer = False\<rparr>, if tw_observer t then release_tracker w else w)
      else (t, w))"

definition tracker_close :: "'s tracker_wrap \<Rightarrow> 's observer_wrap \<Rightarrow> (js_error + js) \<times> 's tracker_wrap \<times> 's observer_wrap" where
  "tracker_close t w = (Inr JUndefined, tracker_reset t w)"

definition tracker_update_js ::
  "napi \<Rightarrow> spscring \<Rightarrow> (nat \<Rightarrow> control_block) \<Rightarrow> int \<Rightarrow> 's tracker_wrap \<Rightarrow> capi \<Rightarrow> ((js_error + js) \<times> 's tracker_wrap \<times> capi) option" where
  "tracker_update_js E R mem now t g =
     (if tw_handle t = None then Some (Inl (Type_error ''DiagnosticsTracker is closed''), t, g)
      else
        map_option (\<lambda>(st, h, g1).
            (if st \<noteq> STATUS_OK then Inl (throw_xproc_status E st ''DiagnosticsTracker.update'' g1) else Inr JUndefined,
             t\<lparr>tw_handle := h\<rparr>, g1))
          (xproc_c_diagnostics_tracker_update R mem now (tw_handle t) g))"

definition producer_alive_js :: "napi \<Rightarrow> 's tracker_wrap \<Rightarrow> capi \<Rightarrow> (js_error + js) \<times> capi" where
  "producer_alive_js E t g =
     (if tw_handle t = None then (Inl (Type_error ''DiagnosticsTracker is closed''), g)
      else query_result E ''DiagnosticsTracker.producerAlive'' JBoolean
             (xproc_c_diagnostics_tracker_producer_alive (tw_handle t) (Some False) g))"

definition idle_ms_js :: "napi \<Rightarrow> int \<Rightarrow> 's tracker_wrap \<Rightarrow> capi \<Rightarrow> (js_error + js) \<times> capi" where
  "idle_ms_js E now t g =
     (if tw_handle t = None then (Inl (Type_error ''DiagnosticsTracker is closed''), g)
      else query_result E ''DiagnosticsTracker.idleMs'' js_bigint_from_u64
             (xproc_c_diagnostics_tracker_idle_ms now (tw_handle t) (Some 0) g))"

section \<open>Functions\<close>

definition shm_size_for_data_capacity_callback :: "abi \<Rightarrow> js list \<Rightarrow> js_error + js" where
  "shm_size_for_data_capacity_callback A args =
     (case args of
        [] \<Rightarrow> Inl (Type_error ''shmSizeForDataCapacity requires a dataCapacity argument'')
      | v # _ \<Rightarrow> js_bind (parse_size_t v ''dataCapacity'') (\<lambda>n. Inr (js_bigint_from_u64 (xproc_c_shm_size_for_data_capacity A n))))"

definition shm_data_capacity_for_size_callback :: "abi \<Rightarrow> js list \<Rightarrow> js_error + js" where
  "shm_data_capacity_for_size_callback A args =
     (case args of
        [] \<Rightarrow> Inl (Type_error ''shmDataCapacityForSize requires a shmSize argument'')
      | v # _ \<Rightarrow> js_bind (parse_size_t v ''shmSize'') (\<lambda>n. Inr (js_bigint_from_u64 (xproc_c_shm_data_capacity_for_size A n))))"

definition status_string_callback :: "napi \<Rightarrow> js list \<Rightarrow> js_error + js" where
  "status_string_callback E args =
     (case args of
        [] \<Rightarrow> Inl (Type_error ''statusString requires a status argument'')
      | v # _ \<Rightarrow> js_bind (parse_uint32 v ''status'') (\<lambda>n. Inr (JString (utf8_new E (xproc_c_status_string (uint n))))))"

definition layout_error_string_callback :: "napi \<Rightarrow> js list \<Rightarrow> js_error + js" where
  "layout_error_string_callback E args =
     (case args of
        [] \<Rightarrow> Inl (Type_error ''layoutErrorString requires a layoutError argument'')
      | v # _ \<Rightarrow> js_bind (parse_uint32 v ''layoutError'') (\<lambda>n. Inr (JString (utf8_new E (xproc_c_layout_error_string (uint n))))))"

definition validate_options_for_callback ::
  "napi \<Rightarrow> platform \<Rightarrow> abi \<Rightarrow> js list \<Rightarrow> capi \<Rightarrow> ((js_error + js) \<times> capi) option" where
  "validate_options_for_callback E p A args g =
     (case args of
        kind # options # _ \<Rightarrow>
          (case js_bind (parse_endpoint_kind E kind) (\<lambda>k. js_bind (options_from_js E options) (\<lambda>o1. Inr (k, o1))) of
             Inl e \<Rightarrow> Some (Inl e, g)
           | Inr (k, o1) \<Rightarrow>
               map_option (\<lambda>(st, g1).
                   (if st \<noteq> STATUS_OK then Inl (throw_xproc_status E st ''validateOptionsFor'' g1) else Inr (JBoolean True), g1))
                 (xproc_c_validate_options_for p A k (Some o1) g))
      | _ \<Rightarrow> Some (Inl (Type_error ''validateOptionsFor requires kind and options arguments''), g))"

definition shm_unlink_callback ::
  "napi \<Rightarrow> (string \<Rightarrow> 'k \<Rightarrow> 'k) \<Rightarrow> js list \<Rightarrow> 'k \<Rightarrow> capi \<Rightarrow> (js_error + js) \<times> 'k \<times> capi" where
  "shm_unlink_callback E unlink args k g =
     (case args of
        JString s # _ \<Rightarrow>
          (case xproc_c_shm_unlink unlink (Some (c_str s)) k g of
             (st, k1, g1) \<Rightarrow> (if st \<noteq> STATUS_OK then Inl (throw_xproc_status E st ''shmUnlink'' g1) else Inr JUndefined, k1, g1))
      | _ \<Rightarrow> (Inl (Type_error ''shmUnlink requires a path string''), k, g))"

definition namespace_argument :: "js list \<Rightarrow> js_error + string option" where
  "namespace_argument rest =
     (case optional_argument rest of
        None \<Rightarrow> Inr None
      | Some (JString s) \<Rightarrow> Inr (Some (c_str s))
      | Some _ \<Rightarrow> Inl (Type_error ''_readExistingShmOptions win32ObjectNamespace must be a string when provided''))"

definition read_existing_shm_options_callback ::
  "napi \<Rightarrow> platform \<Rightarrow> abi \<Rightarrow> ('s, 'k) shm_backend \<Rightarrow> ('k \<Rightarrow> 'k) \<Rightarrow> js list \<Rightarrow> 'k \<Rightarrow> capi
   \<Rightarrow> ((js_error + js) \<times> 'k \<times> capi) option" where
  "read_existing_shm_options_callback E p A B sleep args k g =
     (case args of
        JString s # rest \<Rightarrow>
          (case namespace_argument rest of
             Inl e \<Rightarrow> Some (Inl e, k, g)
           | Inr ns \<Rightarrow>
               map_option (\<lambda>(st, out, k1, g1).
                   (if st \<noteq> STATUS_OK then Inl (throw_xproc_status E st ''_readExistingShmOptions'' g1)
                    else Inr (options_to_js E (the out)), k1, g1))
                 (xproc_c_shm_read_existing_options p A B sleep (Some (c_str s)) ns (Some c_options_zero) k g))
      | _ \<Rightarrow> Some (Inl (Type_error ''_readExistingShmOptions requires a path string''), k, g))"

section \<open>Polling\<close>

lemma napi_spec_buffer [simp]: "napi_spec E \<Longrightarrow> length (buffer_new E n) = n"
  by (simp add: napi_spec_def)

text \<open>A number of calls of \<open>pollCopy\<close>, with what each of them returned or threw.\<close>

fun polls_js ::
  "napi \<Rightarrow> platform \<Rightarrow> spscring \<Rightarrow> 'n sockets \<Rightarrow> nat \<Rightarrow> 's consumer_wrap \<Rightarrow> 'n medium \<Rightarrow> capi
   \<Rightarrow> ((js_error + js) list \<times> 's consumer_wrap \<times> 'n medium \<times> capi) option" where
  "polls_js E p R N 0 w md g = Some ([], w, md, g)"
| "polls_js E p R N (Suc n) w md g =
     (case poll_copy_js E p R N w md g of
        None \<Rightarrow> None
      | Some (r, w1, md1, g1) \<Rightarrow> map_option (\<lambda>(rs, x). (r # rs, x)) (polls_js E p R N n w1 md1 g1))"

context polled_queue
begin

lemma poll_copy_js_step:
  assumes "napi_spec E" and "holds ct md ms" and "length pending < 2 ^ 32"
  shows "\<exists>ct1 pending1 md1 ms1 g1.
     poll_copy_js E p R N \<lparr>cw_handle = Some \<lparr>cc_impl = Some ct, cc_pending = pending\<rparr>, cw_active_waits = a\<rparr> md g =
       Some (Inr (case waiting pending ms of [] \<Rightarrow> JNull | d # _ \<Rightarrow> JBuffer d),
             \<lparr>cw_handle = Some \<lparr>cc_impl = Some ct1, cc_pending = pending1\<rparr>, cw_active_waits = a\<rparr>, md1, g1) \<and>
     holds ct1 md1 ms1 \<and> length pending1 < 2 ^ 32 \<and> waiting pending1 ms1 = tl (waiting pending ms)"
proof -
  have "case None of None \<Rightarrow> (0 :: u32) = 0 | Some b \<Rightarrow> length (b :: byte list) = unat (0 :: u32)" by simp
  from poll_copy_call [OF assms(2,3) this, of 0 g] obtain st buf n ct1 pending1 md1 ms1 g1 where
    call: "xproc_c_consumer_poll_copy p R N (Some \<lparr>cc_impl = Some ct, cc_pending = pending\<rparr>) None 0 (Some 0) md g =
       Some (st, buf, Some n, Some \<lparr>cc_impl = Some ct1, cc_pending = pending1\<rparr>, md1, g1)"
    and held: "holds ct1 md1 ms1" "length pending1 < 2 ^ 32"
    and out: "case waiting pending ms of
        [] \<Rightarrow> st = STATUS_AGAIN \<and> n = 0 \<and> buf = None \<and> waiting pending1 ms1 = []
      | d # ds \<Rightarrow> unat n = length d \<and>
          (if length d \<le> unat (0 :: u32) then st = STATUS_OK \<and> buf = map_option (buf_write 0 d) None \<and> waiting pending1 ms1 = ds
           else st = STATUS_BUFFER_TOO_SMALL \<and> buf = None \<and> waiting pending1 ms1 = d # ds)" by blast
  show ?thesis
  proof (cases "\<exists>d ds. waiting pending ms = d # ds \<and> d \<noteq> []")
    case False
    with call held out show ?thesis
      by (cases "waiting pending ms") (auto simp: poll_copy_js_def ensure_open_def empty_buffer_def)
  next
    case True
    then obtain d ds where w: "waiting pending ms = d # ds" and d: "d \<noteq> []" by blast
    have n: "unat n = length d" and st: "st = STATUS_BUFFER_TOO_SMALL" and w1: "waiting pending1 ms1 = d # ds"
      using out w d by auto
    then have "n \<noteq> 0" using d by auto
    have "case Some (buffer_new E (unat n)) of None \<Rightarrow> n = 0 | Some b \<Rightarrow> length b = unat n" using assms(1) by simp
    from poll_copy_call [OF held this, of n g1] obtain st2 buf2 n2 ct2 pending2 md2 ms2 g2 where
      call2: "xproc_c_consumer_poll_copy p R N (Some \<lparr>cc_impl = Some ct1, cc_pending = pending1\<rparr>)
         (Some (buffer_new E (unat n))) n (Some n) md1 g1 =
         Some (st2, buf2, Some n2, Some \<lparr>cc_impl = Some ct2, cc_pending = pending2\<rparr>, md2, g2)"
      and held2: "holds ct2 md2 ms2" "length pending2 < 2 ^ 32" "waiting pending2 ms2 = ds"
        "st2 = STATUS_OK" "buf2 = Some (buf_write 0 d (buffer_new E (unat n)))"
      using w1 n by auto
    show ?thesis
      using call call2 held2 w st n \<open>n \<noteq> 0\<close> assms(1) by (auto simp: poll_copy_js_def ensure_open_def Let_def)
  qed
qed

lemma polls_js_run:
  assumes "napi_spec E" and "holds ct md ms" and "length pending < 2 ^ 32"
  shows "\<exists>ct' pending' md' ms' g'.
     polls_js E p R N k \<lparr>cw_handle = Some \<lparr>cc_impl = Some ct, cc_pending = pending\<rparr>, cw_active_waits = a\<rparr> md g =
       Some (map (\<lambda>d. Inr (JBuffer d)) (take k (waiting pending ms)) @ replicate (k - length (waiting pending ms)) (Inr JNull),
             \<lparr>cw_handle = Some \<lparr>cc_impl = Some ct', cc_pending = pending'\<rparr>, cw_active_waits = a\<rparr>, md', g') \<and>
     holds ct' md' ms' \<and> waiting pending' ms' = drop k (waiting pending ms)"
  using assms(2,3)
proof (induction k arbitrary: ct pending md ms g)
  case 0
  then show ?case by auto
next
  case (Suc k)
  from poll_copy_js_step [OF assms(1) Suc.prems, of a g] obtain ct1 pending1 md1 ms1 g1 where
    step: "poll_copy_js E p R N \<lparr>cw_handle = Some \<lparr>cc_impl = Some ct, cc_pending = pending\<rparr>, cw_active_waits = a\<rparr> md g =
       Some (Inr (case waiting pending ms of [] \<Rightarrow> JNull | d # _ \<Rightarrow> JBuffer d),
             \<lparr>cw_handle = Some \<lparr>cc_impl = Some ct1, cc_pending = pending1\<rparr>, cw_active_waits = a\<rparr>, md1, g1)"
    and held: "holds ct1 md1 ms1" "length pending1 < 2 ^ 32" "waiting pending1 ms1 = tl (waiting pending ms)" by blast
  from Suc.IH [OF held(1,2), of g1] obtain ct' pending' md' ms' g' where
    "polls_js E p R N k \<lparr>cw_handle = Some \<lparr>cc_impl = Some ct1, cc_pending = pending1\<rparr>, cw_active_waits = a\<rparr> md1 g1 =
       Some (map (\<lambda>d. Inr (JBuffer d)) (take k (waiting pending1 ms1)) @ replicate (k - length (waiting pending1 ms1)) (Inr JNull),
             \<lparr>cw_handle = Some \<lparr>cc_impl = Some ct', cc_pending = pending'\<rparr>, cw_active_waits = a\<rparr>, md', g')"
    "holds ct' md' ms'" "waiting pending' ms' = drop k (waiting pending1 ms1)" by blast
  with step held(3) show ?case by (cases "waiting pending ms") (auto simp: drop_Cons')
qed

end

text \<open>
  \<open>Consumer.pollCopy\<close> hands a JavaScript program exactly the messages that are waiting. For every transport, any number of
  calls all return, and none of them throws: they return the waiting messages one by one and in order, each in a buffer of
  exactly its length, although the buffer is allocated only between the two native calls that a poll makes, and then null;
  the messages that were not asked for are still waiting.
\<close>

theorem poll_copy_js_exact:
  assumes "napi_spec E" and "consumer_holds p R N ct md ms" and "length pending < 2 ^ 32"
  shows "\<exists>ct' pending' md' ms' g'.
     polls_js E p R N k \<lparr>cw_handle = Some \<lparr>cc_impl = Some ct, cc_pending = pending\<rparr>, cw_active_waits = a\<rparr> md g =
       Some (map (\<lambda>d. Inr (JBuffer d)) (take k (waiting pending ms)) @ replicate (k - length (waiting pending ms)) (Inr JNull),
             \<lparr>cw_handle = Some \<lparr>cc_impl = Some ct', cc_pending = pending'\<rparr>, cw_active_waits = a\<rparr>, md', g') \<and>
     consumer_holds p R N ct' md' ms' \<and> waiting pending' ms' = drop k (waiting pending ms)"
  by (rule cq.polls_js_run [OF assms])

definition ref_napi :: napi where
  "ref_napi =
     \<lparr>utf8_new = (\<lambda>s. s), uint32_value = (\<lambda>x. case x of Finite r \<Rightarrow> word_of_int \<lfloor>r\<rfloor> | Not_finite \<Rightarrow> 0),
      buffer_new = (\<lambda>n. replicate n 170)\<rparr>"

lemma ref_napi_spec [simp]: "napi_spec ref_napi"
  by (simp add: napi_spec_def ref_napi_def)

definition ref_capi :: capi where
  "ref_capi =
     \<lparr>g_last_error = [], g_last_layout_error = LAYOUT_ERROR_NONE,
      g_read_existing_option_strings = \<lparr>os_path = [], os_win32_object_namespace = [], os_socket_host = []\<rparr>\<rparr>"

theorem poll_copy_js_exact_witness:
  "\<exists>seg x. polls_js ref_napi Linux (shift_ring 8 8) ref_sockets 3
     \<lparr>cw_handle = Some \<lparr>cc_impl = Some (Shm_consumer (ref_endpoint consumer_role fixed)), cc_pending = [9, 9]\<rparr>, cw_active_waits = 0\<rparr>
     \<lparr>md_seg = seg, md_net = []\<rparr> ref_capi
     = Some ([Inr (JBuffer [9, 9]), Inr (JBuffer [1, 2, 3, 0, 0, 0, 0, 0]), Inr JNull], x)"
proof -
  obtain seg where "consumer_holds Linux (shift_ring 8 8) ref_sockets (Shm_consumer (ref_endpoint consumer_role fixed))
      \<lparr>md_seg = seg, md_net = []\<rparr> [(default_meta, [1, 2, 3, 0, 0, 0, 0, 0])]"
    using ref_one_waiting [of ref_sockets "[]"] by blast
  from poll_copy_js_exact [OF ref_napi_spec this, of "[9, 9]" 3 0 ref_capi] show ?thesis by (fastforce simp: waiting_def)
qed

section \<open>Peeking\<close>

text \<open>
  What \<open>Observer.peekCopy\<close> returns, when the queue changes from \<open>ds\<close> to \<open>ds'\<close> between its two native calls. After a shorter message the
  buffer keeps bytes that nobody wrote.
\<close>

lemma peek_copy_js_result:
  assumes "napi_spec E" and "observer_waiting R ob s ds" and "\<And>s. observer_waiting R ob s ds \<Longrightarrow> observer_waiting R ob (env s) ds'"
  shows "\<exists>r s' g'. peek_copy_js E R env \<lparr>ow_handle = Some \<lparr>cv_impl = Some ob\<rparr>, ow_active_trackers = a\<rparr> s g = Some (r, s', g') \<and>
    (case ds of
       [] \<Rightarrow> r = Inr JNull
     | d # _ \<Rightarrow>
         if d = [] then r = Inr (JBuffer [])
         else
           (case ds' of
              [] \<Rightarrow> r = Inl (throw_xproc_status E STATUS_AGAIN ''Observer.peekCopy'' g')
            | d' # _ \<Rightarrow> r = (if length d' \<le> length d then Inr (JBuffer (d' @ drop (length d') (buffer_new E (length d))))
                               else Inl (throw_xproc_status E STATUS_BUFFER_TOO_SMALL ''Observer.peekCopy'' g'))))"
proof -
  let ?h = "Some \<lparr>cv_impl = Some ob\<rparr>"
  have "case None of None \<Rightarrow> (0 :: u32) = 0 | Some b \<Rightarrow> length (b :: byte list) = unat (0 :: u32)" by simp
  from oc.call_ok [OF assms(2) this, of 0 g] obtain st buf n s1 g1 where
    call: "observer_call R ?h None 0 0 s g = Some (st, buf, n, s1, g1)"
    and out: "case ds of
        [] \<Rightarrow> st = STATUS_AGAIN \<and> n = 0 \<and> buf = None \<and> observer_waiting R ob s1 []
      | d # _ \<Rightarrow> unat n = length d \<and>
          (if length d \<le> unat (0 :: u32) then st = STATUS_OK \<and> buf = map_option (buf_write 0 d) None \<and> observer_waiting R ob s1 ds
           else st = STATUS_BUFFER_TOO_SMALL \<and> buf = None \<and> observer_waiting R ob s1 ds)" by blast
  from call obtain l where c: "xproc_c_observer_peek_copy R ?h None 0 (Some 0) s g = Some (st, buf, l, s1, g1)" and l: "the l = n"
    by (auto simp: observer_call_def)
  show ?thesis
  proof (cases "\<exists>d rest. ds = d # rest \<and> d \<noteq> []")
    case False
    with c out show ?thesis by (cases ds) (auto simp: peek_copy_js_def ensure_open_def empty_buffer_def)
  next
    case True
    then obtain d rest where d: "ds = d # rest" "d \<noteq> []" by blast
    have n: "unat n = length d" and st: "st = STATUS_BUFFER_TOO_SMALL" and seen: "observer_waiting R ob s1 ds" using out d by auto
    then have n0: "n \<noteq> 0" using d by auto
    let ?b = "buffer_new E (unat n)"
    have "case Some ?b of None \<Rightarrow> n = 0 | Some b \<Rightarrow> length b = unat n" using assms(1) by simp
    from oc.call_ok [OF assms(3) [OF seen] this, of n g1] obtain st2 buf2 n2 s2 g2 where
      call2: "observer_call R ?h (Some ?b) n n (env s1) g1 = Some (st2, buf2, n2, s2, g2)"
      and out2: "case ds' of
        [] \<Rightarrow> st2 = STATUS_AGAIN \<and> n2 = 0 \<and> buf2 = Some ?b \<and> observer_waiting R ob s2 []
      | d' # _ \<Rightarrow> unat n2 = length d' \<and>
          (if length d' \<le> unat n then st2 = STATUS_OK \<and> buf2 = map_option (buf_write 0 d') (Some ?b) \<and> observer_waiting R ob s2 ds'
           else st2 = STATUS_BUFFER_TOO_SMALL \<and> buf2 = Some ?b \<and> observer_waiting R ob s2 ds')" by blast
    from call2 obtain l2 where c2: "xproc_c_observer_peek_copy R ?h (Some ?b) n (Some n) (env s1) g1 = Some (st2, buf2, l2, s2, g2)"
      by (auto simp: observer_call_def)
    have "peek_copy_js E R env \<lparr>ow_handle = ?h, ow_active_trackers = a\<rparr> s g =
        Some (if st2 \<noteq> STATUS_OK then Inl (throw_xproc_status E st2 ''Observer.peekCopy'' g2)
              else Inr (JBuffer (case buf2 of None \<Rightarrow> ?b | Some b \<Rightarrow> b)), s2, g2)"
      by (simp add: peek_copy_js_def ensure_open_def Let_def c l n0 st c2 split: option.split)
    with out2 d n show ?thesis by (cases ds') (auto simp: buf_write_def)
  qed
qed

definition ref_slot :: "byte list \<Rightarrow> segment" where
  "ref_slot bs = snd (varlen_send (shift_ring 8 8) (ref_endpoint producer_role varlen) (7, bs, of_nat (length bs), default_meta) ref_segment)"

lemma ref_slot_seen:
  assumes "slot_q (ref_slot bs) = [(m, bs)]" and "length bs < 2 ^ 32"
  shows "observer_sees (shift_ring 8 8) (ref_options\<lparr>chan_type := varlen\<rparr>) (ref_slot bs) [(m, bs)]"
proof -
  have "slot_inv 64 (ref_slot bs)"
    using vl.send_inv [OF ref_varlen_link, of "(7, bs, of_nat (length bs), default_meta)"] copy_fits(2) [OF assms(2)]
    by (simp add: ref_slot_def varlen_link_def)
  then have "varlen_ring (shift_ring 8 8) 64 (slot_inv 64) slot_q \<and> slot_inv 64 (ref_slot bs) \<and> [(m, bs)] = slot_q (ref_slot bs)"
    using assms shift_ring_varlen by simp
  then have "\<exists>max_len I q. varlen_ring (shift_ring 8 8) max_len I q \<and> I (ref_slot bs) \<and> [(m, bs)] = q (ref_slot bs)" by blast
  with assms(2) show ?thesis by (simp add: observer_sees_def)
qed

section \<open>Handles outlive their users\<close>

text \<open>
  A consumer object with the workers of its pending \<open>waitAsync\<close> calls, and what can happen to them: calls from JavaScript, the
  worker thread, the completion of a worker on the main thread, and the garbage collector, which may collect the consumer
  only while no worker refers to it.
\<close>

inductive waiting_step ::
  "napi \<Rightarrow> platform \<Rightarrow> spscring \<Rightarrow> 'n sockets \<Rightarrow> ('s, 'k) shm_backend \<Rightarrow> 's consumer_wrap \<times> wait_worker list \<Rightarrow> 's consumer_wrap \<times> wait_worker list \<Rightarrow> bool"
  for E p R N B where
  started: "wait_async w = (r, w', Some wk) \<Longrightarrow> waiting_step E p R N B (w, wks) (w', wk # wks)"
| refused: "wait_async w = (r, w', None) \<Longrightarrow> waiting_step E p R N B (w, wks) (w', wks)"
| executed: "i < length wks \<Longrightarrow> worker_execute p N wait_change w md g (wks ! i) = Some (wk', md', g') \<Longrightarrow>
    waiting_step E p R N B (w, wks) (w, wks[i := wk'])"
| completed: "i < length wks \<Longrightarrow> worker_complete E g (wks ! i) w = (Some r, w') \<Longrightarrow>
    waiting_step E p R N B (w, wks) (w', take i wks @ drop (Suc i) wks)"
| polled: "poll_copy_js E p R N w md g = Some (r, w', md', g') \<Longrightarrow> waiting_step E p R N B (w, wks) (w', wks)"
| polled_into: "poll_copy_into_js E p R N args w md g = Some (r, args', w', md', g') \<Longrightarrow> waiting_step E p R N B (w, wks) (w', wks)"
| closed: "consumer_close B N w k n = (r, w', k', n') \<Longrightarrow> waiting_step E p R N B (w, wks) (w', wks)"
| collected: "wks = [] \<Longrightarrow> consumer_reset B N w k n = (w', k', n') \<Longrightarrow> waiting_step E p R N B (w, wks) (w', wks)"

text \<open>An observer object with its diagnostics trackers. A tracker refers to its observer until it is closed.\<close>

inductive tracking_step ::
  "napi \<Rightarrow> spscring \<Rightarrow> ('s, 'k) shm_backend \<Rightarrow> 's observer_wrap \<times> 's tracker_wrap list \<Rightarrow> 's observer_wrap \<times> 's tracker_wrap list \<Rightarrow> bool"
  for E R B where
  created: "create_diagnostics_tracker E R mem now w g = Some (Inr t, w', g') \<Longrightarrow> tracking_step E R B (w, ts) (w', t # ts)"
| not_created: "create_diagnostics_tracker E R mem now w g = Some (Inl e, w', g') \<Longrightarrow> tracking_step E R B (w, ts) (w', ts)"
| tracker_closed: "i < length ts \<Longrightarrow> tracker_close (ts ! i) w = (r, t', w') \<Longrightarrow> tracking_step E R B (w, ts) (w', ts[i := t'])"
| tracker_collected: "i < length ts \<Longrightarrow> tracker_reset (ts ! i) w = (t', w') \<Longrightarrow>
    tracking_step E R B (w, ts) (w', take i ts @ drop (Suc i) ts)"
| tracker_updated: "i < length ts \<Longrightarrow> tracker_update_js E R mem now (ts ! i) g = Some (r, t', g') \<Longrightarrow>
    tracking_step E R B (w, ts) (w, ts[i := t'])"
| observer_closed: "observer_close B w k = (r, w', k') \<Longrightarrow> tracking_step E R B (w, ts) (w', ts)"
| observer_collected: "list_all (\<lambda>t. \<not> tw_observer t) ts \<Longrightarrow> observer_reset B w k = (w', k') \<Longrightarrow> tracking_step E R B (w, ts) (w', ts)"

definition waiting_ok :: "'s consumer_wrap \<times> wait_worker list \<Rightarrow> bool" where
  "waiting_ok x \<longleftrightarrow> (case x of (w, wks) \<Rightarrow>
     length wks = unat (cw_active_waits w) \<and> length wks \<le> 1 \<and> (wks \<noteq> [] \<longrightarrow> cw_handle w \<noteq> None))"

definition live_trackers :: "'s tracker_wrap list \<Rightarrow> 's tracker_wrap list" where
  "live_trackers ts = filter (\<lambda>t. tw_handle t \<noteq> None) ts"

definition tracking_ok :: "'s observer_wrap \<times> 's tracker_wrap list \<Rightarrow> bool" where
  "tracking_ok x \<longleftrightarrow> (case x of (w, ts) \<Rightarrow>
     length (live_trackers ts) = unat (ow_active_trackers w) \<and>
     list_all (\<lambda>t. tw_observer t \<longleftrightarrow> tw_handle t \<noteq> None) ts \<and>
     list_all (\<lambda>t. ow_handle w = map_option ct_owner (tw_handle t)) (live_trackers ts))"

lemma poll_copy_keeps_handle:
  assumes "xproc_c_consumer_poll_copy p R N h buffer cap out_len md g = Some (st, buf, l, h1, md1, g1)"
  shows "h1 = None \<longleftrightarrow> h = None"
  using assms
  by (auto simp: xproc_c_consumer_poll_copy_def validate_handle_def deliver_pending_def poll_and_copy_def set_last_error_def
      invalid_argument_def Let_def split: prod.split_asm if_split_asm option.split_asm sum.split_asm bool.split_asm list.split_asm)

lemma polls_keep_open:
  assumes "poll_copy_js E p R N w md g = Some (r, w', md', g')"
  shows "cw_active_waits w' = cw_active_waits w \<and> (cw_handle w' = None \<longleftrightarrow> cw_handle w = None)"
proof (cases "cw_handle w")
  case None
  with assms show ?thesis by (auto simp: poll_copy_js_def ensure_open_def)
next
  case (Some h)
  with assms obtain st buf l h1 md1 g1 where
    1: "xproc_c_consumer_poll_copy p R N (Some h) None 0 (Some 0) md g = Some (st, buf, l, h1, md1, g1)"
    by (auto simp: poll_copy_js_def ensure_open_def split: option.split_asm)
  let ?b = "buffer_new E (unat (the l))"
  have "w' = w\<lparr>cw_handle := h1\<rparr> \<or>
    (\<exists>st2 buf2 l2 h2 md2 g2. xproc_c_consumer_poll_copy p R N h1 (if the l = 0 then None else Some ?b) (the l) (Some (the l)) md1 g1 =
       Some (st2, buf2, l2, h2, md2, g2) \<and> w' = w\<lparr>cw_handle := h2\<rparr>)"
    using assms Some 1 by (auto simp: poll_copy_js_def ensure_open_def Let_def split: option.split_asm if_split_asm)
  with Some show ?thesis using poll_copy_keeps_handle [OF 1] by (auto dest: poll_copy_keeps_handle)
qed

lemma polls_into_keep_open:
  assumes "poll_copy_into_js E p R N args w md g = Some (r, args', w', md', g')"
  shows "cw_active_waits w' = cw_active_waits w \<and> (cw_handle w' = None \<longleftrightarrow> cw_handle w = None)"
proof -
  have "w' = w \<or> (\<exists>h buffer cap st buf l h1. cw_handle w = Some h \<and> w' = w\<lparr>cw_handle := h1\<rparr> \<and>
      xproc_c_consumer_poll_copy p R N (Some h) buffer cap (Some 0) md g = Some (st, buf, l, h1, md', g'))"
    using assms
    by (auto simp: poll_copy_into_js_def ensure_open_def split: option.split_asm list.split_asm sum.split_asm prod.split_asm)
  then show ?thesis by (auto dest: poll_copy_keeps_handle)
qed

lemma unat_dec: "(x :: u32) > 0 \<Longrightarrow> unat (x - 1) = unat x - 1"
  by (simp add: unat_minus_one word_neq_0_conv)

lemma waiting_step_ok:
  assumes "waiting_step E p R N B x y" and "waiting_ok x"
  shows "waiting_ok y"
  using assms
proof (cases rule: waiting_step.cases)
  case (started w r w' wk wks)
  then have "cw_handle w \<noteq> None" "cw_active_waits w = 0" "w' = w\<lparr>cw_active_waits := cw_active_waits w + 1\<rparr>"
    by (auto simp: wait_async_def ensure_open_def not_less split: option.split_asm if_split_asm)
  with started assms(2) show ?thesis by (auto simp: waiting_ok_def)
next
  case (refused w r w' wks)
  then have "w' = w" by (auto simp: wait_async_def ensure_open_def split: option.split_asm if_split_asm)
  with refused assms(2) show ?thesis by simp
next
  case (completed i wks g w r w')
  then have "w' = complete_wait w" by (auto simp: worker_complete_def split: option.split_asm)
  moreover have one: "length wks = 1" "unat (cw_active_waits w) = 1" using completed assms(2) by (auto simp: waiting_ok_def)
  moreover have "cw_active_waits w > 0" using one(2) by (metis unat_0 word_neq_0_conv zero_neq_one)
  ultimately show ?thesis using completed(2,3) by (auto simp: waiting_ok_def complete_wait_def unat_dec)
next
  case (polled w md g r w' md' g' wks)
  with polls_keep_open [OF polled(3)] assms(2) show ?thesis by (auto simp: waiting_ok_def)
next
  case (polled_into args w md g r args' w' md' g' wks)
  with polls_into_keep_open [OF polled_into(3)] assms(2) show ?thesis by (auto simp: waiting_ok_def)
next
  case (closed w k n r w' k' n' wks)
  with assms(2) show ?thesis
    by (auto simp: waiting_ok_def consumer_close_def consumer_reset_def not_less split: if_split_asm prod.split_asm)
next
  case (collected wks w k n w' k' n')
  with assms(2) show ?thesis by (auto simp: waiting_ok_def consumer_reset_def split: if_split_asm prod.split_asm)
qed (auto simp: waiting_ok_def)

lemma live_trackers_update:
  assumes "i < length ts" and "tw_handle t' = None \<longleftrightarrow> tw_handle (ts ! i) = None"
  shows "length (live_trackers (ts[i := t'])) = length (live_trackers ts)"
proof -
  have "ts = take i ts @ ts ! i # drop (Suc i) ts" using assms(1) by (simp add: id_take_nth_drop)
  then have "live_trackers ts = live_trackers (take i ts @ ts ! i # drop (Suc i) ts)" by simp
  with assms show ?thesis by (simp add: live_trackers_def upd_conv_take_nth_drop del: not_None_eq)
qed

lemma live_trackers_dead:
  assumes "i < length ts" and "tw_handle (ts ! i) \<noteq> None"
  shows "length (live_trackers (take i ts @ drop (Suc i) ts)) = length (live_trackers ts) - 1"
    and "tw_handle t' = None \<Longrightarrow> length (live_trackers (ts[i := t'])) = length (live_trackers ts) - 1"
proof -
  have "ts = take i ts @ ts ! i # drop (Suc i) ts" using assms(1) by (simp add: id_take_nth_drop)
  then have "live_trackers ts = live_trackers (take i ts @ ts ! i # drop (Suc i) ts)" by simp
  with assms show "length (live_trackers (take i ts @ drop (Suc i) ts)) = length (live_trackers ts) - 1"
    and "tw_handle t' = None \<Longrightarrow> length (live_trackers (ts[i := t'])) = length (live_trackers ts) - 1"
    by (simp_all add: live_trackers_def upd_conv_take_nth_drop)
qed

lemma tracking_ok_alt:
  "tracking_ok (w, ts) \<longleftrightarrow> length (live_trackers ts) = unat (ow_active_trackers w) \<and>
     (\<forall>t \<in> set ts. (tw_observer t \<longleftrightarrow> tw_handle t \<noteq> None) \<and> (tw_handle t \<noteq> None \<longrightarrow> ow_handle w = map_option ct_owner (tw_handle t)))"
  by (auto simp: tracking_ok_def live_trackers_def list_all_iff)

lemma create_tracker_cases:
  assumes "create_diagnostics_tracker E R mem now w g = Some (r, w', g')"
  shows "(\<exists>e. r = Inl e) \<and> w' = w \<or>
    (\<exists>h. r = Inr \<lparr>tw_handle = Some h, tw_observer = True\<rparr> \<and> ow_handle w = Some (ct_owner h)) \<and> w' = retain_tracker w"
  using assms
  by (auto simp: create_diagnostics_tracker_def tracker_wrap_new_def ensure_open_def xproc_c_diagnostics_tracker_create_def
      validate_out_pointer_def validate_handle_def invalid_argument_def set_last_error_def Let_def
      split: option.split_asm prod.split_asm if_split_asm)

lemma update_keeps_owner:
  assumes "tracker_update_js E R mem now t g = Some (r, t', g')"
  shows "tw_observer t' = tw_observer t" and "map_option ct_owner (tw_handle t') = map_option ct_owner (tw_handle t)"
  using assms
  by (auto simp: tracker_update_js_def xproc_c_diagnostics_tracker_update_def validate_handle_def
      split: option.split_asm prod.split_asm if_split_asm)

lemma tracking_ok_subset:
  assumes "tracking_ok (w, ts)" and "set ts' \<subseteq> insert t (set ts)" and "tw_handle t = None" and "\<not> tw_observer t"
    and "ow_handle w' = ow_handle w" and "length (live_trackers ts') = unat (ow_active_trackers w')"
  shows "tracking_ok (w', ts')"
  unfolding tracking_ok_alt
proof (intro conjI ballI)
  fix t1 assume "t1 \<in> set ts'"
  then have "t1 = t \<or> t1 \<in> set ts" using assms(2) by blast
  then have "(tw_observer t1 \<longleftrightarrow> tw_handle t1 \<noteq> None) \<and> (tw_handle t1 \<noteq> None \<longrightarrow> ow_handle w = map_option ct_owner (tw_handle t1))"
  proof
    assume "t1 \<in> set ts"
    then show ?thesis using assms(1) unfolding tracking_ok_alt by blast
  qed (simp add: assms(3,4))
  then show "tw_observer t1 \<longleftrightarrow> tw_handle t1 \<noteq> None" and "tw_handle t1 \<noteq> None \<longrightarrow> ow_handle w' = map_option ct_owner (tw_handle t1)"
    by (simp_all add: assms(5))
qed (rule assms(6))

lemma reset_tracker_ok:
  assumes "tracking_ok (w, ts)" and "i < length ts" and "tracker_reset (ts ! i) w = (t', w')"
  shows "tracking_ok (w', ts[i := t']) \<and> tracking_ok (w', take i ts @ drop (Suc i) ts)"
proof -
  have t: "tw_observer (ts ! i) \<longleftrightarrow> tw_handle (ts ! i) \<noteq> None" using assms(1,2) by (simp add: tracking_ok_alt)
  have sub: "set (ts[i := t']) \<subseteq> insert t' (set ts)" "set (take i ts @ drop (Suc i) ts) \<subseteq> insert t' (set ts)"
    by (auto simp: set_update_subset_insert dest: in_set_takeD in_set_dropD)
  show ?thesis
  proof (cases "tw_handle (ts ! i) = None")
    case True
    then have "t' = ts ! i" "w' = w" using assms(3) by (simp_all add: tracker_reset_def)
    moreover have "ts = take i ts @ ts ! i # drop (Suc i) ts" using assms(2) by (simp add: id_take_nth_drop)
    then have "live_trackers ts = live_trackers (take i ts @ ts ! i # drop (Suc i) ts)" by simp
    then have "live_trackers ts = live_trackers (take i ts @ drop (Suc i) ts)" using True by (simp add: live_trackers_def)
    ultimately show ?thesis
      using assms(1) tracking_ok_subset [OF assms(1) sub(2), of w] True t by (simp add: tracking_ok_alt)
  next
    case False
    then have t': "t' = \<lparr>tw_handle = None, tw_observer = False\<rparr>" and w': "w' = release_tracker w"
      using assms(3) t by (auto simp: tracker_reset_def)
    have "ts ! i \<in> set (live_trackers ts)" using False assms(2) by (simp add: live_trackers_def)
    then have "length (live_trackers ts) \<noteq> 0" by auto
    then have "ow_active_trackers w > 0" using assms(1) by (auto simp: tracking_ok_alt word_neq_0_conv [symmetric])
    then have "ow_handle w' = ow_handle w" "unat (ow_active_trackers w') = length (live_trackers ts) - 1"
      using assms(1) by (simp_all add: w' release_tracker_def unat_dec tracking_ok_alt)
    then show ?thesis
      using tracking_ok_subset [OF assms(1) sub(1)] tracking_ok_subset [OF assms(1) sub(2)] live_trackers_dead [OF assms(2) False]
      by (simp add: t')
  qed
qed

lemma tracking_step_ok:
  assumes "tracking_step E R B x y" and "tracking_ok x" and "length (snd y) < 2 ^ 32"
  shows "tracking_ok y"
  using assms(1)
proof (cases rule: tracking_step.cases)
  case (created mem now w g t w' g' ts)
  from this(3) obtain h where t: "t = \<lparr>tw_handle = Some h, tw_observer = True\<rparr>" "ow_handle w = Some (ct_owner h)"
      "w' = retain_tracker w" by (auto dest: create_tracker_cases)
  have "length (live_trackers ts) \<le> length ts" by (simp add: live_trackers_def)
  then have "unat (ow_active_trackers w) + 1 < 2 ^ 32" using created assms(2,3) by (simp add: tracking_ok_alt)
  then have "unat (ow_active_trackers w + 1) = unat (ow_active_trackers w) + 1"
    by (simp add: unat_word_ariths(1))
  with created t assms(2) show ?thesis by (auto simp: tracking_ok_alt retain_tracker_def live_trackers_def)
next
  case (not_created mem now w g e w' g' ts)
  then show ?thesis using assms(2) by (auto dest: create_tracker_cases)
next
  case (tracker_closed i ts w r t' w')
  then show ?thesis using assms(2) by (auto simp: tracker_close_def dest: reset_tracker_ok)
next
  case (tracker_collected i ts w t' w')
  then show ?thesis using assms(2) by (auto dest: reset_tracker_ok)
next
  case (tracker_updated i ts mem now g r t' g' w)
  note o = update_keeps_owner [OF tracker_updated(4)]
  have same: "tw_handle t' = None \<longleftrightarrow> tw_handle (ts ! i) = None" using o(2) by (metis map_option_is_None)
  have "(tw_observer t1 \<longleftrightarrow> tw_handle t1 \<noteq> None) \<and> (tw_handle t1 \<noteq> None \<longrightarrow> ow_handle w = map_option ct_owner (tw_handle t1))"
    if "t1 \<in> set ts" for t1 using assms(2) that unfolding tracker_updated(1) tracking_ok_alt by blast
  note ts = this and t' = this [OF nth_mem [OF tracker_updated(3)]]
  have "(tw_observer t1 \<longleftrightarrow> tw_handle t1 \<noteq> None) \<and> (tw_handle t1 \<noteq> None \<longrightarrow> ow_handle w = map_option ct_owner (tw_handle t1))"
    if "t1 \<in> set (ts[i := t'])" for t1
  proof (cases "t1 = t'")
    case True
    with t' o same show ?thesis by simp
  next
    case False
    with that ts set_update_subset_insert [of ts i t'] show ?thesis by blast
  qed
  then show ?thesis
    using assms(2) live_trackers_update [OF tracker_updated(3) same] unfolding tracker_updated(1,2) tracking_ok_alt by simp
next
  case (observer_closed w k r w' k' ts)
  show ?thesis
  proof (cases "ow_active_trackers w > 0")
    case True
    with observer_closed assms(2) show ?thesis by (simp add: observer_close_def)
  next
    case False
    then have "live_trackers ts = []" using assms(2) by (simp add: observer_closed(1) tracking_ok_alt not_less)
    then have "tw_handle t = None" if "t \<in> set ts" for t using that by (auto simp: live_trackers_def filter_empty_conv)
    with False observer_closed assms(2) show ?thesis
      by (auto simp: tracking_ok_alt observer_close_def observer_reset_def split: if_split_asm)
  qed
next
  case (observer_collected ts w k w' k')
  have "tw_handle t = None \<and> \<not> tw_observer t" if "t \<in> set ts" for t
    using that assms(2) observer_collected(3) unfolding observer_collected(1) tracking_ok_alt list_all_iff by blast
  moreover have "length (live_trackers ts) = unat (ow_active_trackers w')"
    using assms(2) observer_collected(1,4) by (auto simp: tracking_ok_def observer_reset_def split: if_split_asm)
  ultimately show ?thesis unfolding observer_collected(2) tracking_ok_alt by simp
qed

definition waiting_run where
  "waiting_run E p R N B = (waiting_step E p R N B)\<^sup>*\<^sup>*"

text \<open>Runs in which never more than \<open>2 ^ 32 - 1\<close> trackers of the observer exist at a time; the counter has 32 bits.\<close>

definition tracking_run where
  "tracking_run E R B = (\<lambda>x y. tracking_step E R B x y \<and> length (snd y) < 2 ^ 32)\<^sup>*\<^sup>*"

lemma waiting_run_ok:
  assumes "waiting_run E p R N B x y" and "waiting_ok x"
  shows "waiting_ok y"
  using assms(1) unfolding waiting_run_def by (induction rule: rtranclp_induct) (auto intro: assms(2) waiting_step_ok)

lemma tracking_run_ok:
  assumes "tracking_run E R B x y" and "tracking_ok x"
  shows "tracking_ok y"
  using assms(1) unfolding tracking_run_def by (induction rule: rtranclp_induct) (auto intro: assms(2) tracking_step_ok)

text \<open>
  C34. No native object is closed under its users. However calls from JavaScript, worker threads and the garbage collector are
  interleaved, a consumer has at most one pending \<open>waitAsync\<close>, and the handle its worker waits on is open; the observer that
  a live diagnostics tracker reads is the one it was created for, and is open. The counters that ensure this are exact, so
  that \<open>close\<close> throws if and only if there is such a user.
\<close>

theorem handles_outlive_users:
  assumes "waiting_run E p R N B (\<lparr>cw_handle = h0, cw_active_waits = 0\<rparr>, []) (w, wks)"
    and "tracking_run E R B (\<lparr>ow_handle = v0, ow_active_trackers = 0\<rparr>, []) (v, ts)"
  shows "length wks \<le> 1 \<and> (wks \<noteq> [] \<longrightarrow> cw_handle w \<noteq> None) \<and> (isl (fst (consumer_close B N w k n)) \<longleftrightarrow> wks \<noteq> []) \<and>
    (\<forall>t \<in> set ts. \<forall>h. tw_handle t = Some h \<longrightarrow> ow_handle v = Some (ct_owner h)) \<and>
    (isl (fst (observer_close B v k)) \<longleftrightarrow> (\<exists>t \<in> set ts. tw_handle t \<noteq> None))"
proof -
  have w: "waiting_ok (w, wks)" by (rule waiting_run_ok [OF assms(1)]) (simp add: waiting_ok_def)
  then have "cw_active_waits w > 0 \<longleftrightarrow> wks \<noteq> []" by (cases wks) (auto simp: waiting_ok_def word_less_nat_alt)
  then have close: "isl (fst (consumer_close B N w k n)) \<longleftrightarrow> wks \<noteq> []" by (simp add: consumer_close_def)
  have v: "tracking_ok (v, ts)" by (rule tracking_run_ok [OF assms(2)]) (simp add: tracking_ok_def live_trackers_def)
  then have "ow_active_trackers v > 0 \<longleftrightarrow> live_trackers ts \<noteq> []"
    by (cases "live_trackers ts") (auto simp: tracking_ok_def word_less_nat_alt)
  then have "isl (fst (observer_close B v k)) \<longleftrightarrow> (\<exists>t \<in> set ts. tw_handle t \<noteq> None)"
    by (auto simp: observer_close_def live_trackers_def filter_empty_conv)
  moreover have "ow_handle v = Some (ct_owner h)" if "t \<in> set ts" "tw_handle t = Some h" for t h
  proof -
    have "tw_handle t \<noteq> None \<longrightarrow> ow_handle v = map_option ct_owner (tw_handle t)" using v that(1) unfolding tracking_ok_alt by blast
    with that(2) show ?thesis by simp
  qed
  ultimately show ?thesis using w close by (auto simp: waiting_ok_def)
qed

definition ref_consumer_wrap :: "posix_shm consumer_wrap" where
  "ref_consumer_wrap = \<lparr>cw_handle = Some \<lparr>cc_impl = None, cc_pending = [1]\<rparr>, cw_active_waits = 0\<rparr>"

definition ref_observer_wrap :: "posix_shm observer_wrap" where
  "ref_observer_wrap =
     \<lparr>ow_handle = Some \<lparr>cv_impl = Some \<lparr>ob_opts = ref_options, ob_shm = new_shm, ob_header = Some 4\<rparr>\<rparr>, ow_active_trackers = 0\<rparr>"

theorem handles_outlive_users_witness:
  "isl (fst (consumer_close (posix_backend Linux (ref_posix ref_abi)) ref_sockets (fst (snd (wait_async ref_consumer_wrap))) (snd ref_producer) [])) \<and>
   (\<exists>t v g. create_diagnostics_tracker ref_napi (shift_ring 8 8) (\<lambda>_. ref_block) 0 ref_observer_wrap ref_capi = Some (Inr t, v, g) \<and>
      ow_handle v = ow_handle ref_observer_wrap \<and>
      isl (fst (observer_close (posix_backend Linux (ref_posix ref_abi)) v (snd ref_producer))))"
proof -
  let ?B = "posix_backend Linux (ref_posix ref_abi)"
  let ?w = "ref_consumer_wrap\<lparr>cw_active_waits := 1\<rparr>"
  have "wait_async ref_consumer_wrap = (Inr JPromise, ?w, Some \<lparr>ww_status = None\<rparr>)"
    by (simp add: wait_async_def ensure_open_def ref_consumer_wrap_def)
  note start = this
  have run: "waiting_run ref_napi Linux (shift_ring 8 8) ref_sockets ?B
      (\<lparr>cw_handle = cw_handle ref_consumer_wrap, cw_active_waits = 0\<rparr>, []) (?w, [\<lparr>ww_status = None\<rparr>])"
    unfolding waiting_run_def by (rule r_into_rtranclp) (use waiting_step.started [OF start] in \<open>simp add: ref_consumer_wrap_def\<close>)
  obtain t g where make: "create_diagnostics_tracker ref_napi (shift_ring 8 8) (\<lambda>_. ref_block) 0 ref_observer_wrap ref_capi =
      Some (Inr t, retain_tracker ref_observer_wrap, g)" and t: "map_option ct_owner (tw_handle t) = ow_handle ref_observer_wrap"
    by (simp add: create_diagnostics_tracker_def tracker_wrap_new_def ensure_open_def ref_observer_wrap_def observed_def Let_def
        xproc_c_diagnostics_tracker_create_def validate_out_pointer_def validate_handle_def)
  have "tracking_run ref_napi (shift_ring 8 8) ?B (\<lparr>ow_handle = ow_handle ref_observer_wrap, ow_active_trackers = 0\<rparr>, [])
      (retain_tracker ref_observer_wrap, [t])"
    unfolding tracking_run_def by (rule r_into_rtranclp) (use tracking_step.created [OF make] in \<open>simp add: ref_observer_wrap_def\<close>)
  from handles_outlive_users [OF run this, of "snd ref_producer" "[]"] have
    "isl (fst (consumer_close ?B ref_sockets ?w (snd ref_producer) []))"
    "isl (fst (observer_close ?B (retain_tracker ref_observer_wrap) (snd ref_producer))) \<longleftrightarrow> tw_handle t \<noteq> None" by auto
  moreover have "tw_handle t \<noteq> None" using t by (auto simp: ref_observer_wrap_def)
  ultimately show ?thesis using make start by (auto simp: retain_tracker_def)
qed

end
