(* ===== verification/Node_Api.thy ===== *)
theory Node_Api
  imports Node_Binding "HOL-Library.AList"
begin

text \<open>
  The JavaScript side of the Node.js package: \<open>node/index.js\<close>, over the native module of \<open>Node_Binding\<close>.

  A function whose parameter has the default value \<open>{}\<close> gets undefined when the argument is missing. An object literal is the list
  of its properties, a missing property reads as undefined.
\<close>

section \<open>Objects\<close>

definition obj_get :: "(string \<times> js) list \<Rightarrow> string \<Rightarrow> js" where
  "obj_get ps name = (case map_of ps name of None \<Rightarrow> JUndefined | Some v \<Rightarrow> v)"

text \<open>Reading a property of any value: of undefined and null that throws, other primitive values have none of the names.\<close>

definition js_get :: "js \<Rightarrow> string \<Rightarrow> js_error + js" where
  "js_get v name =
     (if v = JUndefined \<or> v = JNull then Inl (Type_error ''Cannot read properties of undefined or null'')
      else Inr (case js_properties v of None \<Rightarrow> JUndefined | Some ps \<Rightarrow> obj_get ps name))"

definition default_object :: "js \<Rightarrow> js" where
  "default_object v = (if v = JUndefined then JObject [] else v)"

text \<open>
  \<open>toLowerCase\<close>, for comparisons with ASCII words: the Kelvin sign is the only letter outside ASCII whose lower case is an ASCII
  letter, every other one stays outside.
\<close>

fun to_lower_case :: "string \<Rightarrow> string" where
  "to_lower_case [] = []"
| "to_lower_case (c # s) =
     (if take 3 (c # s) = [CHR 0xE2, CHR 0x84, CHR 0xAA] then CHR ''k'' # to_lower_case (drop 2 s)
      else lowercase_ascii [c] @ to_lower_case s)"

section \<open>Normalization\<close>

definition normalizeBackend :: "js \<Rightarrow> js" where
  "normalizeBackend v =
     (case v of
        JUndefined \<Rightarrow> js_num BACKEND_SHARED_MEMORY
      | JString s \<Rightarrow>
          (let lowered = to_lower_case s in
           if lowered = ''shared_memory'' \<or> lowered = ''shared-memory'' \<or> lowered = ''sharedmemory'' \<or> lowered = ''shm''
           then js_num BACKEND_SHARED_MEMORY
           else if lowered = ''socket'' \<or> lowered = ''tcp'' then js_num BACKEND_SOCKET
           else v)
      | _ \<Rightarrow> v)"

definition normalizeChannelType :: "js \<Rightarrow> js" where
  "normalizeChannelType v =
     (case v of
        JUndefined \<Rightarrow> js_num CHANNEL_FIXED
      | JString s \<Rightarrow>
          (let lowered = to_lower_case s in
           if lowered = ''fixed'' then js_num CHANNEL_FIXED
           else if lowered = ''varlen'' \<or> lowered = ''variable'' \<or> lowered = ''variable_length'' \<or> lowered = ''variable-length''
           then js_num CHANNEL_VARLEN
           else v)
      | _ \<Rightarrow> v)"

definition normalizeEndpointKind :: "js \<Rightarrow> js" where
  "normalizeEndpointKind v =
     (case v of
        JString s \<Rightarrow>
          (let lowered = to_lower_case s in
           if lowered = ''producer'' then js_num ENDPOINT_PRODUCER
           else if lowered = ''consumer'' then js_num ENDPOINT_CONSUMER
           else if lowered = ''observer'' then js_num ENDPOINT_OBSERVER
           else v)
      | _ \<Rightarrow> v)"

definition normalizeIntegerLike :: "js \<Rightarrow> string \<Rightarrow> js_error + js" where
  "normalizeIntegerLike v fieldName =
     (case v of
        JBigInt i \<Rightarrow> if i < 0 then Inl (Range_error (fieldName @ '' must be non-negative'')) else Inr v
      | JNumber (Finite r) \<Rightarrow>
          if of_int \<lfloor>r\<rfloor> \<noteq> r \<or> r < 0 then Inl (Range_error (fieldName @ '' must be a non-negative integer'')) else Inr v
      | JNumber Not_finite \<Rightarrow> Inl (Range_error (fieldName @ '' must be a non-negative integer''))
      | _ \<Rightarrow> Inr v)"

definition plain_properties :: "js \<Rightarrow> (string \<times> js) list option" where
  "plain_properties v = (case v of JArray _ \<Rightarrow> None | _ \<Rightarrow> js_properties v)"

definition normalize_property :: "string \<Rightarrow> (string \<times> js) list \<Rightarrow> js_error + (string \<times> js) list" where
  "normalize_property name normalized =
     (if obj_get normalized name \<noteq> JUndefined
      then js_bind (normalizeIntegerLike (obj_get normalized name) name) (\<lambda>v. Inr (AList.update name v normalized))
      else Inr normalized)"

definition normalizeOptions :: "js \<Rightarrow> js_error + (string \<times> js) list" where
  "normalizeOptions options =
     (case plain_properties (default_object options) of
        None \<Rightarrow> Inl (Type_error ''options must be an object'')
      | Some ps \<Rightarrow>
          (let normalized = filter (\<lambda>(_, v). v \<noteq> JUndefined) ps;
               normalized = AList.update ''backend'' (normalizeBackend (obj_get normalized ''backend'')) normalized;
               typeValue = (if obj_get normalized ''channelType'' \<noteq> JUndefined then obj_get normalized ''channelType''
                            else obj_get normalized ''type'');
               normalized = AList.delete ''type'' (AList.update ''channelType'' (normalizeChannelType typeValue) normalized)
           in js_bind (normalize_property ''shmSize'' normalized) (\<lambda>normalized.
              js_bind (normalize_property ''itemSize'' normalized) (\<lambda>normalized.
              js_bind (normalize_property ''dataAlign'' normalized) (\<lambda>normalized.
              js_bind (normalize_property ''schemaId'' normalized) (normalize_property ''socketPort''))))))"

definition normalize_meta_property :: "js \<Rightarrow> string \<Rightarrow> (string \<times> js) list \<Rightarrow> js_error + (string \<times> js) list" where
  "normalize_meta_property meta key normalized =
     js_bind (js_get meta key) (\<lambda>v.
       if v \<noteq> JUndefined then js_bind (normalizeIntegerLike v (''meta.'' @ key)) (\<lambda>x. Inr (AList.update key x normalized))
       else Inr normalized)"

definition normalizeMeta :: "js \<Rightarrow> js_error + js" where
  "normalizeMeta meta =
     (if meta = JUndefined then Inr JUndefined
      else if plain_properties meta = None then Inl (Type_error ''meta must be an object'')
      else
        js_bind (normalize_meta_property meta ''userData'' []) (\<lambda>normalized.
        js_bind (normalize_meta_property meta ''timestampNs'' normalized) (\<lambda>normalized.
        js_bind (normalize_meta_property meta ''schemaId'' normalized) (\<lambda>normalized.
        js_bind (normalize_meta_property meta ''flags'' normalized) (\<lambda>normalized. Inr (JObject normalized))))))"

definition decorateOptions :: "js \<Rightarrow> js" where
  "decorateOptions options =
     (case js_properties options of
        None \<Rightarrow> options
      | Some ps \<Rightarrow> JObject (AList.update ''type'' (obj_get ps ''channelType'') ps))"

definition requireNonEmptyString :: "js \<Rightarrow> string \<Rightarrow> js_error + string" where
  "requireNonEmptyString v fieldName =
     (case v of
        JString s \<Rightarrow> if s = [] then Inl (Type_error (fieldName @ '' must be a non-empty string'')) else Inr s
      | _ \<Rightarrow> Inl (Type_error (fieldName @ '' must be a non-empty string'')))"

definition makeLayoutError :: "napi \<Rightarrow> string \<Rightarrow> int \<Rightarrow> js_error" where
  "makeLayoutError E message layoutError =
     (let status = status_code STATUS_LAYOUT_ERROR in
      Xproc_error \<lparr>xe_message = message, xe_status = status, xe_status_code = utf8_new E (xproc_c_status_string status),
        xe_layout_error = layoutError, xe_layout_error_code = utf8_new E (xproc_c_layout_error_string layoutError),
        xe_required_length = None\<rparr>)"

text \<open>\<open>from_array\<close> is what \<open>Buffer.from\<close> makes of an array.\<close>

definition coerceBuffer :: "(js list \<Rightarrow> byte list) \<Rightarrow> js \<Rightarrow> js_error + js" where
  "coerceBuffer from_array v =
     (case v of
        JBuffer _ \<Rightarrow> Inr v
      | JTypedArray backing off n \<Rightarrow> Inr (JBuffer (buf_read off n backing))
      | JArrayBuffer bytes \<Rightarrow> Inr (JBuffer bytes)
      | JString s \<Rightarrow> Inr (JBuffer (bytes_of s))
      | JArray xs \<Rightarrow> Inr (JBuffer (from_array xs))
      | _ \<Rightarrow> Inl (Type_error ''data must be a Buffer, TypedArray, ArrayBuffer, string, or byte array''))"

section \<open>Classes\<close>

definition Producer ::
  "napi \<Rightarrow> platform \<Rightarrow> abi \<Rightarrow> init_fn \<Rightarrow> int \<Rightarrow> ('s, 'k) shm_backend \<Rightarrow> 'n sockets \<Rightarrow> js \<Rightarrow> 'k \<Rightarrow> 'n \<Rightarrow> capi
   \<Rightarrow> ((js_error + unit) \<times> 's xproc_c_producer option \<times> 'k \<times> 'n \<times> capi) option" where
  "Producer E p A init pid B N options k n g =
     (case normalizeOptions options of
        Inl e \<Rightarrow> Some (Inl e, None, k, n, g)
      | Inr normalized \<Rightarrow> producer_wrap E p A init pid B N [JObject normalized] k n g)"

definition Producer_sendFixedBytes ::
  "napi \<Rightarrow> (js list \<Rightarrow> byte list) \<Rightarrow> platform \<Rightarrow> spscring \<Rightarrow> 'n sockets \<Rightarrow> (nat \<Rightarrow> segment \<Rightarrow> segment) \<Rightarrow> js \<Rightarrow> 's xproc_c_producer option \<Rightarrow> 'n medium \<Rightarrow> capi
   \<Rightarrow> ('s, 'n) producer_result" where
  "Producer_sendFixedBytes E from_array p R N env v handle md g =
     (case coerceBuffer from_array v of
        Inl e \<Rightarrow> Some (Inl e, handle, md, g)
      | Inr b \<Rightarrow> send_fixed_bytes_js E p R N env [b] handle md g)"

definition with_meta_arguments :: "(js list \<Rightarrow> byte list) \<Rightarrow> js \<Rightarrow> js \<Rightarrow> js_error + js list" where
  "with_meta_arguments from_array v meta = js_bind (coerceBuffer from_array v) (\<lambda>b. js_bind (normalizeMeta meta) (\<lambda>m. Inr [b, m]))"

definition Producer_sendFixedSized ::
  "napi \<Rightarrow> (js list \<Rightarrow> byte list) \<Rightarrow> platform \<Rightarrow> spscring \<Rightarrow> 'n sockets \<Rightarrow> (nat \<Rightarrow> segment \<Rightarrow> segment) \<Rightarrow> js \<Rightarrow> js \<Rightarrow> 's xproc_c_producer option \<Rightarrow> 'n medium \<Rightarrow> capi
   \<Rightarrow> ('s, 'n) producer_result" where
  "Producer_sendFixedSized E from_array p R N env v meta handle md g =
     (case with_meta_arguments from_array v meta of
        Inl e \<Rightarrow> Some (Inl e, handle, md, g)
      | Inr args \<Rightarrow> send_fixed_sized_js E p R N env args handle md g)"

definition Producer_sendVarlen ::
  "napi \<Rightarrow> (js list \<Rightarrow> byte list) \<Rightarrow> platform \<Rightarrow> spscring \<Rightarrow> 'n sockets \<Rightarrow> u64 \<Rightarrow> js \<Rightarrow> js \<Rightarrow> 's xproc_c_producer option \<Rightarrow> 'n medium \<Rightarrow> capi
   \<Rightarrow> ('s, 'n) producer_result" where
  "Producer_sendVarlen E from_array p R N ts v meta handle md g =
     (case with_meta_arguments from_array v meta of
        Inl e \<Rightarrow> Some (Inl e, handle, md, g)
      | Inr args \<Rightarrow> send_varlen_js E p R N ts args handle md g)"

definition decorated :: "(js_error + js) \<times> capi \<Rightarrow> (js_error + js) \<times> capi" where
  "decorated x = (case x of (r, g) \<Rightarrow> (js_bind r (\<lambda>options. Inr (decorateOptions options)), g))"

definition Producer_options :: "napi \<Rightarrow> 's xproc_c_producer option \<Rightarrow> capi \<Rightarrow> (js_error + js) \<times> capi" where
  "Producer_options E handle g = decorated (producer_js_options E handle g)"

definition Consumer ::
  "napi \<Rightarrow> platform \<Rightarrow> abi \<Rightarrow> init_fn \<Rightarrow> int \<Rightarrow> ('s, 'k) shm_backend \<Rightarrow> 'n sockets \<Rightarrow> ('n \<Rightarrow> (exn + wait_interruptor) \<times> 'n) \<Rightarrow> js \<Rightarrow> 'k \<Rightarrow> 'n \<Rightarrow> capi
   \<Rightarrow> ((js_error + unit) \<times> 's consumer_wrap \<times> 'k \<times> 'n \<times> capi) option" where
  "Consumer E p A init pid B N mk_wake options k n g =
     (case normalizeOptions options of
        Inl e \<Rightarrow> Some (Inl e, \<lparr>cw_handle = None, cw_active_waits = 0\<rparr>, k, n, g)
      | Inr normalized \<Rightarrow> consumer_wrap_new E p A init pid B N mk_wake [JObject normalized] k n g)"

definition Consumer_options :: "napi \<Rightarrow> 's consumer_wrap \<Rightarrow> capi \<Rightarrow> (js_error + js) \<times> capi" where
  "Consumer_options E w g = decorated (consumer_js_options E w g)"

definition Observer ::
  "napi \<Rightarrow> platform \<Rightarrow> abi \<Rightarrow> init_fn \<Rightarrow> int \<Rightarrow> ('s, 'k) shm_backend \<Rightarrow> js \<Rightarrow> 'k \<Rightarrow> capi
   \<Rightarrow> ((js_error + unit) \<times> 's observer_wrap \<times> 'k \<times> capi) option" where
  "Observer E p A init pid B options k g =
     (case normalizeOptions options of
        Inl e \<Rightarrow> Some (Inl e, \<lparr>ow_handle = None, ow_active_trackers = 0\<rparr>, k, g)
      | Inr normalized \<Rightarrow> observer_wrap_new E p A init pid B [JObject normalized] k g)"

definition Observer_options :: "napi \<Rightarrow> 's observer_wrap \<Rightarrow> capi \<Rightarrow> (js_error + js) \<times> capi" where
  "Observer_options E w g = decorated (observer_js_options E w g)"

section \<open>Channels\<close>

definition shmSizeForDataCapacity :: "abi \<Rightarrow> js \<Rightarrow> js_error + js" where
  "shmSizeForDataCapacity A dataCapacity =
     js_bind (normalizeIntegerLike dataCapacity ''dataCapacity'') (\<lambda>v. shm_size_for_data_capacity_callback A [v])"

definition shmDataCapacityForSize :: "abi \<Rightarrow> js \<Rightarrow> js_error + js" where
  "shmDataCapacityForSize A shmSize =
     js_bind (normalizeIntegerLike shmSize ''shmSize'') (\<lambda>v. shm_data_capacity_for_size_callback A [v])"

definition validateOptionsFor ::
  "napi \<Rightarrow> platform \<Rightarrow> abi \<Rightarrow> js \<Rightarrow> js \<Rightarrow> capi \<Rightarrow> ((js_error + js) \<times> capi) option" where
  "validateOptionsFor E p A kind options g =
     (case normalizeOptions options of
        Inl e \<Rightarrow> Some (Inl e, g)
      | Inr normalized \<Rightarrow> validate_options_for_callback E p A [normalizeEndpointKind kind, JObject normalized] g)"

fun validate_kinds ::
  "napi \<Rightarrow> platform \<Rightarrow> abi \<Rightarrow> int list \<Rightarrow> (string \<times> js) list \<Rightarrow> capi \<Rightarrow> ((js_error + unit) \<times> capi) option" where
  "validate_kinds E p A [] baseOptions g = Some (Inr (), g)"
| "validate_kinds E p A (kind # kinds) baseOptions g =
     (case validateOptionsFor E p A (js_num kind) (JObject baseOptions) g of
        None \<Rightarrow> None
      | Some (Inl e, g1) \<Rightarrow> Some (Inl e, g1)
      | Some (Inr _, g1) \<Rightarrow> validate_kinds E p A kinds baseOptions g1)"

text \<open>The objects that \<open>makeShmEndpoints\<close>, \<open>makeSocketListener\<close> and \<open>makeSocketConnector\<close> return, as the options their methods use.\<close>

record js_endpoints =
  je_options :: js
  je_producer :: "(string \<times> js) list option"
  je_consumer :: "(string \<times> js) list option"
  je_observer :: "(string \<times> js) list option"

definition makeShmEndpoints :: "(string \<times> js) list \<Rightarrow> js_endpoints" where
  "makeShmEndpoints baseOptions =
     \<lparr>je_options = decorateOptions (JObject baseOptions), je_producer = Some baseOptions, je_consumer = Some baseOptions,
      je_observer = Some (AList.update ''createIfMissing'' (JBoolean False) baseOptions)\<rparr>"

definition makeSocketListener :: "(string \<times> js) list \<Rightarrow> js_endpoints" where
  "makeSocketListener baseOptions =
     \<lparr>je_options = decorateOptions (JObject baseOptions), je_producer = None, je_consumer = Some baseOptions, je_observer = None\<rparr>"

definition makeSocketConnector :: "(string \<times> js) list \<Rightarrow> js_endpoints" where
  "makeSocketConnector baseOptions =
     \<lparr>je_options = decorateOptions (JObject baseOptions), je_producer = Some baseOptions, je_consumer = None, je_observer = None\<rparr>"

text \<open>The end of every constructor: validate the options for the kinds of endpoints it makes.\<close>

definition checked_endpoints ::
  "napi \<Rightarrow> platform \<Rightarrow> abi \<Rightarrow> int list \<Rightarrow> ((string \<times> js) list \<Rightarrow> js_endpoints) \<Rightarrow> js_error + (string \<times> js) list \<Rightarrow> capi
   \<Rightarrow> ((js_error + js_endpoints) \<times> capi) option" where
  "checked_endpoints E p A kinds endpoints_of base g =
     (case base of
        Inl e \<Rightarrow> Some (Inl e, g)
      | Inr baseOptions \<Rightarrow>
          map_option (\<lambda>(r, g1). (js_bind r (\<lambda>_. Inr (endpoints_of baseOptions)), g1)) (validate_kinds E p A kinds baseOptions g))"

definition create_properties :: "int \<Rightarrow> string \<Rightarrow> js \<Rightarrow> (string \<Rightarrow> js) \<Rightarrow> (string \<times> js) list" where
  "create_properties channel_kind pathValue shmSize field =
     [(''path'', JString pathValue), (''shmSize'', shmSize)] @
     (if channel_kind = CHANNEL_FIXED then [(''itemSize'', field ''itemSize'')] else []) @
     [(''dataAlign'', field ''dataAlign''), (''schemaId'', field ''schemaId''),
      (''creatorTimestampNs'', field ''creatorTimestampNs''), (''creatorFlags'', field ''creatorFlags''),
      (''win32ObjectNamespace'', field ''win32ObjectNamespace''), (''createIfMissing'', JBoolean True),
      (''channelType'', js_num channel_kind)]"

definition create_options :: "abi \<Rightarrow> int \<Rightarrow> js \<Rightarrow> js_error + (string \<times> js) list" where
  "create_options A channel_kind options =
     js_bind (js_get options ''path'') (\<lambda>v. js_bind (requireNonEmptyString v ''path'') (\<lambda>pathValue.
     js_bind (js_get options ''dataCapacity'') (\<lambda>cap. js_bind (normalizeIntegerLike cap ''dataCapacity'') (\<lambda>cap.
     js_bind (shmSizeForDataCapacity A cap) (\<lambda>shmSize.
       normalizeOptions (JObject (create_properties channel_kind pathValue shmSize
         (\<lambda>name. case js_get options name of Inl _ \<Rightarrow> JUndefined | Inr x \<Rightarrow> x))))))))"

definition createFixedChannel :: "napi \<Rightarrow> platform \<Rightarrow> abi \<Rightarrow> js \<Rightarrow> capi \<Rightarrow> ((js_error + js_endpoints) \<times> capi) option" where
  "createFixedChannel E p A options g =
     checked_endpoints E p A [ENDPOINT_PRODUCER, ENDPOINT_CONSUMER] makeShmEndpoints
       (create_options A CHANNEL_FIXED (default_object options)) g"

definition createVarlenChannel :: "napi \<Rightarrow> platform \<Rightarrow> abi \<Rightarrow> js \<Rightarrow> capi \<Rightarrow> ((js_error + js_endpoints) \<times> capi) option" where
  "createVarlenChannel E p A options g =
     checked_endpoints E p A [ENDPOINT_PRODUCER, ENDPOINT_CONSUMER] makeShmEndpoints
       (create_options A CHANNEL_VARLEN (default_object options)) g"

definition inferExistingShmOptions ::
  "napi \<Rightarrow> platform \<Rightarrow> abi \<Rightarrow> ('s, 'k) shm_backend \<Rightarrow> ('k \<Rightarrow> 'k) \<Rightarrow> string \<Rightarrow> js \<Rightarrow> 'k \<Rightarrow> capi \<Rightarrow> ((js_error + js) \<times> 'k \<times> capi) option" where
  "inferExistingShmOptions E p A B sleep pathValue ns k g =
     map_option (\<lambda>(r, x). (js_bind r (\<lambda>options. Inr (decorateOptions options)), x))
       (read_existing_shm_options_callback E p A B sleep [JString pathValue, ns] k g)"

text \<open>The options of an attached channel, from what the segment was found to be and what the caller asked for.\<close>

definition attach_options :: "napi \<Rightarrow> string \<Rightarrow> int \<Rightarrow> string \<Rightarrow> js \<Rightarrow> js \<Rightarrow> js_error + (string \<times> js) list" where
  "attach_options E mismatch channel_kind pathValue options inferred =
     js_bind (js_get inferred ''channelType'') (\<lambda>channelType.
       if channelType \<noteq> js_num channel_kind
       then Inl (makeLayoutError E mismatch (layout_error_code LAYOUT_ERROR_LAYOUT_TYPE_MISMATCH))
       else
         (let ps = (case js_properties inferred of None \<Rightarrow> [] | Some ps \<Rightarrow> ps);
              field = (\<lambda>name. case js_get options name of Inr JUndefined \<Rightarrow> obj_get ps name | Inr x \<Rightarrow> x | Inl _ \<Rightarrow> obj_get ps name)
          in normalizeOptions (JObject
               (AList.update ''channelType'' (js_num channel_kind)
                 (AList.update ''createIfMissing'' (JBoolean False)
                   (AList.update ''win32ObjectNamespace'' (field ''win32ObjectNamespace'')
                     (AList.update ''schemaId'' (field ''schemaId'')
                       (AList.update ''path'' (JString pathValue) ps))))))))"

definition attach_channel ::
  "napi \<Rightarrow> platform \<Rightarrow> abi \<Rightarrow> ('s, 'k) shm_backend \<Rightarrow> ('k \<Rightarrow> 'k) \<Rightarrow> string \<Rightarrow> int \<Rightarrow> js \<Rightarrow> 'k \<Rightarrow> capi
   \<Rightarrow> ((js_error + js_endpoints) \<times> 'k \<times> capi) option" where
  "attach_channel E p A B sleep mismatch channel_kind options k g =
     (case js_bind (js_get options ''path'') (\<lambda>v. js_bind (requireNonEmptyString v ''path'') (\<lambda>pathValue.
             js_bind (js_get options ''win32ObjectNamespace'') (\<lambda>ns. Inr (pathValue, ns)))) of
        Inl e \<Rightarrow> Some (Inl e, k, g)
      | Inr (pathValue, ns) \<Rightarrow>
          (case inferExistingShmOptions E p A B sleep pathValue ns k g of
             None \<Rightarrow> None
           | Some (r, k1, g1) \<Rightarrow>
               map_option (\<lambda>(r1, g2). (r1, k1, g2))
                 (checked_endpoints E p A [ENDPOINT_PRODUCER, ENDPOINT_CONSUMER] makeShmEndpoints
                    (js_bind r (attach_options E mismatch channel_kind pathValue options)) g1)))"

definition attachFixedChannel ::
  "napi \<Rightarrow> platform \<Rightarrow> abi \<Rightarrow> ('s, 'k) shm_backend \<Rightarrow> ('k \<Rightarrow> 'k) \<Rightarrow> js \<Rightarrow> 'k \<Rightarrow> capi \<Rightarrow> ((js_error + js_endpoints) \<times> 'k \<times> capi) option" where
  "attachFixedChannel E p A B sleep options k g =
     attach_channel E p A B sleep ''attachFixedChannel: expected a fixed shared-memory channel'' CHANNEL_FIXED
       (default_object options) k g"

definition attachVarlenChannel ::
  "napi \<Rightarrow> platform \<Rightarrow> abi \<Rightarrow> ('s, 'k) shm_backend \<Rightarrow> ('k \<Rightarrow> 'k) \<Rightarrow> js \<Rightarrow> 'k \<Rightarrow> capi \<Rightarrow> ((js_error + js_endpoints) \<times> 'k \<times> capi) option" where
  "attachVarlenChannel E p A B sleep options k g =
     attach_channel E p A B sleep ''attachVarlenChannel: expected a varlen shared-memory channel'' CHANNEL_VARLEN
       (default_object options) k g"

definition listen_options :: "int \<Rightarrow> js \<Rightarrow> js_error + (string \<times> js) list" where
  "listen_options channel_kind options =
     js_bind (js_get options ''itemSize'') (\<lambda>itemSize. js_bind (js_get options ''host'') (\<lambda>host. js_bind (js_get options ''port'') (\<lambda>port.
       normalizeOptions (JObject
         ([(''backend'', js_num BACKEND_SOCKET), (''channelType'', js_num channel_kind)] @
          (if channel_kind = CHANNEL_FIXED then [(''itemSize'', itemSize)] else []) @
          [(''socketHost'', host), (''socketPort'', if port \<noteq> JUndefined then port else js_num 0),
           (''socketListen'', JBoolean True)])))))"

definition connect_options :: "int \<Rightarrow> js \<Rightarrow> js_error + (string \<times> js) list" where
  "connect_options channel_kind options =
     js_bind (js_get options ''itemSize'') (\<lambda>itemSize. js_bind (js_get options ''host'') (\<lambda>v.
     js_bind (requireNonEmptyString v ''host'') (\<lambda>host. js_bind (js_get options ''port'') (\<lambda>port.
     js_bind (js_get options ''connectRetries'') (\<lambda>retries. js_bind (js_get options ''connectRetryMs'') (\<lambda>retryMs.
       normalizeOptions (JObject
         ([(''backend'', js_num BACKEND_SOCKET), (''channelType'', js_num channel_kind)] @
          (if channel_kind = CHANNEL_FIXED then [(''itemSize'', itemSize)] else []) @
          [(''socketHost'', JString host), (''socketPort'', port), (''socketListen'', JBoolean False),
           (''socketConnectRetries'', retries), (''socketConnectRetryMs'', retryMs)]))))))))"

definition listenFixed :: "napi \<Rightarrow> platform \<Rightarrow> abi \<Rightarrow> js \<Rightarrow> capi \<Rightarrow> ((js_error + js_endpoints) \<times> capi) option" where
  "listenFixed E p A options g =
     checked_endpoints E p A [ENDPOINT_CONSUMER] makeSocketListener (listen_options CHANNEL_FIXED (default_object options)) g"

definition connectFixed :: "napi \<Rightarrow> platform \<Rightarrow> abi \<Rightarrow> js \<Rightarrow> capi \<Rightarrow> ((js_error + js_endpoints) \<times> capi) option" where
  "connectFixed E p A options g =
     checked_endpoints E p A [ENDPOINT_PRODUCER] makeSocketConnector (connect_options CHANNEL_FIXED (default_object options)) g"

definition listenVarlen :: "napi \<Rightarrow> platform \<Rightarrow> abi \<Rightarrow> js \<Rightarrow> capi \<Rightarrow> ((js_error + js_endpoints) \<times> capi) option" where
  "listenVarlen E p A options g =
     checked_endpoints E p A [ENDPOINT_CONSUMER] makeSocketListener (listen_options CHANNEL_VARLEN (default_object options)) g"

definition connectVarlen :: "napi \<Rightarrow> platform \<Rightarrow> abi \<Rightarrow> js \<Rightarrow> capi \<Rightarrow> ((js_error + js_endpoints) \<times> capi) option" where
  "connectVarlen E p A options g =
     checked_endpoints E p A [ENDPOINT_PRODUCER] makeSocketConnector (connect_options CHANNEL_VARLEN (default_object options)) g"

end
