(* ===== verification/Node_Options.thy ===== *)
theory Node_Options
  imports Node_Api
begin

text \<open>
  Options through the Node.js package: what the native module reads from an object with given properties, what the
  normalization of \<open>node/index.js\<close> makes of them, and that options survive the way to JavaScript and back.
\<close>

section \<open>Reading options\<close>

lemma parse_uint64_bigint [simp]: "parse_uint64 (JBigInt (uint x)) f = Inr x"
  using uint_bounded [of x] by (simp add: parse_uint64_def)

lemma parse_size_t_ok [simp]: "parse_size_t v f = parse_uint64 v f"
proof -
  have "\<not> 2 ^ 64 - 1 < uint x" for x :: u64 using uint_bounded [of x] by simp
  then show ?thesis by (auto simp: parse_size_t_def js_bind_def split: sum.split)
qed

lemma parse_uint64_num: "0 \<le> i \<Longrightarrow> i \<le> 9007199254740991 \<Longrightarrow> parse_uint64 (js_num i) f = Inr (word_of_int i)"
  by (simp add: parse_uint64_def js_num_def kMaxSafeInteger_def)

lemma parse_uint32_num [simp]: "parse_uint32 (js_num (uint x)) f = Inr x"
proof -
  have x: "uint x < 2 ^ 32" using uint_bounded [of x] by simp
  have y: "uint (ucast x :: u64) = uint x" by (simp add: uint_up_ucast is_up)
  have "word_of_int (uint (ucast x :: u64)) = x" unfolding y by simp
  then have "ucast (ucast x :: u64) = x" by (simp only: ucast_eq)
  with x y show ?thesis by (simp add: parse_uint32_def parse_uint64_num)
qed

lemma parse_uint16_num [simp]: "parse_uint16 (js_num (uint x)) f = Inr x"
proof -
  have x: "uint x < 2 ^ 16" using uint_bounded [of x] by simp
  then have y: "uint (ucast x :: u32) = uint x" by (simp add: uint_up_ucast is_up)
  have "parse_uint32 (js_num (uint (ucast x :: u32))) f = Inr (ucast x)" by (rule parse_uint32_num)
  moreover have "word_of_int (uint (ucast x :: u32)) = x" unfolding y by simp
  then have "ucast (ucast x :: u32) = x" by (simp only: ucast_eq)
  ultimately show ?thesis using x y by (simp add: parse_uint16_def)
qed

lemma parse_bool_boolean [simp]: "parse_bool (JBoolean b) f = Inr (if b then 1 else 0)"
  by (simp add: parse_bool_def)

lemma parse_int_num: "- (2 ^ 31) \<le> i \<Longrightarrow> i < 2 ^ 31 \<Longrightarrow> parse_int (js_num i) f = Inr i"
  by (simp add: parse_int_def js_num_def)

lemma napi_spec_uint32:
  assumes "napi_spec E" and "0 \<le> i" and "i < 2 ^ 32"
  shows "uint (uint32_value E (Finite (of_int i))) = i"
proof -
  have "nat i < 2 ^ 32" using assms(3) by (simp add: nat_less_iff)
  then have "uint32_value E (Finite (of_nat (nat i))) = of_nat (nat i)" using assms(1) by (simp add: napi_spec_def)
  with assms show ?thesis by (simp add: uint_word_of_int)
qed

lemma parse_kinds [simp]:
  assumes "napi_spec E"
  shows "parse_backend E (js_num BACKEND_SHARED_MEMORY) = Inr BACKEND_SHARED_MEMORY"
    and "parse_backend E (js_num BACKEND_SOCKET) = Inr BACKEND_SOCKET"
    and "parse_channel_type E (js_num CHANNEL_FIXED) = Inr CHANNEL_FIXED"
    and "parse_channel_type E (js_num CHANNEL_VARLEN) = Inr CHANNEL_VARLEN"
    and "parse_endpoint_kind E (js_num ENDPOINT_PRODUCER) = Inr ENDPOINT_PRODUCER"
    and "parse_endpoint_kind E (js_num ENDPOINT_CONSUMER) = Inr ENDPOINT_CONSUMER"
  using napi_spec_uint32 [OF assms, of 0] napi_spec_uint32 [OF assms, of 1]
  by (simp_all add: parse_backend_def parse_channel_type_def parse_endpoint_kind_def js_num_def c_enum_defs)

text \<open>
  \<open>reads\<close>: a property of an object is absent, or it is parsed to the given value; \<open>reads_string\<close>: it is absent or that string.
\<close>

definition reads :: "(string \<times> js) list \<Rightarrow> string \<Rightarrow> (js \<Rightarrow> js_error + 'a) \<Rightarrow> 'a option \<Rightarrow> bool" where
  "reads ob key parse x \<longleftrightarrow>
     (case map_of ob key of None \<Rightarrow> x = None | Some v \<Rightarrow> (case x of None \<Rightarrow> False | Some y \<Rightarrow> parse v = Inr y))"

definition reads_string :: "(string \<times> js) list \<Rightarrow> string \<Rightarrow> string option \<Rightarrow> bool" where
  "reads_string ob key x \<longleftrightarrow> map_of ob key = map_option JString x \<and> pred_option (\<lambda>s. CHR 0x00 \<notin> set s) x"

definition or_default :: "'a \<Rightarrow> 'a option \<Rightarrow> 'a" where
  "or_default d x = (case x of None \<Rightarrow> d | Some y \<Rightarrow> y)"

lemma or_default_simps [simp]: "or_default d None = d" "or_default d (Some y) = y"
  by (simp_all add: or_default_def)

lemma parse_property_reads:
  "reads ob key parse x \<Longrightarrow> parse_property ob key parse store out = Inr (case x of None \<Rightarrow> out | Some y \<Rightarrow> store y out)"
  by (auto simp: reads_def parse_property_def split: option.splits)

lemma assign_string_reads:
  "reads_string ob key x \<Longrightarrow> assign_optional_string ob key b target = Inr (if x = None then target else x)"
  by (cases x) (auto simp: reads_string_def assign_optional_string_def)

lemma store_fields:
  "(case x1 of None \<Rightarrow> out | Some y \<Rightarrow> out\<lparr>c_backend := y\<rparr>) = out\<lparr>c_backend := or_default (c_backend out) x1\<rparr>"
  "(case x2 of None \<Rightarrow> out | Some y \<Rightarrow> out\<lparr>c_shm_size := y\<rparr>) = out\<lparr>c_shm_size := or_default (c_shm_size out) x2\<rparr>"
  "(case x3 of None \<Rightarrow> out | Some y \<Rightarrow> out\<lparr>c_item_size := y\<rparr>) = out\<lparr>c_item_size := or_default (c_item_size out) x3\<rparr>"
  "(case x4 of None \<Rightarrow> out | Some y \<Rightarrow> out\<lparr>c_data_align := y\<rparr>) = out\<lparr>c_data_align := or_default (c_data_align out) x4\<rparr>"
  "(case x5 of None \<Rightarrow> out | Some y \<Rightarrow> out\<lparr>c_schema_id := y\<rparr>) = out\<lparr>c_schema_id := or_default (c_schema_id out) x5\<rparr>"
  "(case x6 of None \<Rightarrow> out | Some y \<Rightarrow> out\<lparr>c_creator_timestamp_ns := y\<rparr>) =
     out\<lparr>c_creator_timestamp_ns := or_default (c_creator_timestamp_ns out) x6\<rparr>"
  "(case x7 of None \<Rightarrow> out | Some y \<Rightarrow> out\<lparr>c_creator_flags := y\<rparr>) = out\<lparr>c_creator_flags := or_default (c_creator_flags out) x7\<rparr>"
  "(case x8 of None \<Rightarrow> out | Some y \<Rightarrow> out\<lparr>c_create_if_missing := y\<rparr>) =
     out\<lparr>c_create_if_missing := or_default (c_create_if_missing out) x8\<rparr>"
  "(case x9 of None \<Rightarrow> out | Some y \<Rightarrow> out\<lparr>c_channel_type := y\<rparr>) = out\<lparr>c_channel_type := or_default (c_channel_type out) x9\<rparr>"
  "(case x10 of None \<Rightarrow> out | Some y \<Rightarrow> out\<lparr>c_socket_port := y\<rparr>) = out\<lparr>c_socket_port := or_default (c_socket_port out) x10\<rparr>"
  "(case x11 of None \<Rightarrow> out | Some y \<Rightarrow> out\<lparr>c_socket_listen := y\<rparr>) = out\<lparr>c_socket_listen := or_default (c_socket_listen out) x11\<rparr>"
  "(case x12 of None \<Rightarrow> out | Some y \<Rightarrow> out\<lparr>c_socket_connect_retries := y\<rparr>) =
     out\<lparr>c_socket_connect_retries := or_default (c_socket_connect_retries out) x12\<rparr>"
  "(case x13 of None \<Rightarrow> out | Some y \<Rightarrow> out\<lparr>c_socket_connect_retry_ms := y\<rparr>) =
     out\<lparr>c_socket_connect_retry_ms := or_default (c_socket_connect_retry_ms out) x13\<rparr>"
  by (simp_all split: option.split)

lemma options_from_reads:
  assumes "reads ob ''backend'' (parse_backend E) bk" and "reads_string ob ''path'' pth"
    and "reads ob ''shmSize'' (\<lambda>v. parse_uint64 v ''shmSize'') shm" and "reads ob ''itemSize'' (\<lambda>v. parse_uint32 v ''itemSize'') item"
    and "reads ob ''dataAlign'' (\<lambda>v. parse_uint32 v ''dataAlign'') align" and "reads ob ''schemaId'' (\<lambda>v. parse_uint64 v ''schemaId'') schema"
    and "reads ob ''creatorTimestampNs'' (\<lambda>v. parse_uint64 v ''creatorTimestampNs'') ts"
    and "reads ob ''creatorFlags'' (\<lambda>v. parse_uint64 v ''creatorFlags'') fl"
    and "reads ob ''createIfMissing'' (\<lambda>v. parse_bool v ''createIfMissing'') cim"
    and "reads ob ''channelType'' (parse_channel_type E) ch" and "map_of ob ''type'' = None"
    and "reads_string ob ''win32ObjectNamespace'' ns" and "reads_string ob ''socketHost'' host"
    and "reads ob ''socketPort'' (\<lambda>v. parse_uint16 v ''socketPort'') port"
    and "reads ob ''socketListen'' (\<lambda>v. parse_bool v ''socketListen'') listen"
    and "reads ob ''socketConnectRetries'' (\<lambda>v. parse_int v ''socketConnectRetries'') retries"
    and "reads ob ''socketConnectRetryMs'' (\<lambda>v. parse_int v ''socketConnectRetryMs'') retry_ms"
  shows "options_from_object E ob out = Inr
    \<lparr>c_backend = or_default (c_backend out) bk, c_path = (if pth = None then c_path out else pth),
     c_shm_size = or_default (c_shm_size out) shm, c_item_size = or_default (c_item_size out) item,
     c_data_align = or_default (c_data_align out) align, c_schema_id = or_default (c_schema_id out) schema,
     c_creator_timestamp_ns = or_default (c_creator_timestamp_ns out) ts, c_creator_flags = or_default (c_creator_flags out) fl,
     c_create_if_missing = or_default (c_create_if_missing out) cim, c_channel_type = or_default (c_channel_type out) ch,
     c_win32_object_namespace = (if ns = None then c_win32_object_namespace out else ns),
     c_socket_host = (if host = None then c_socket_host out else host), c_socket_port = or_default (c_socket_port out) port,
     c_socket_listen = or_default (c_socket_listen out) listen,
     c_socket_connect_retries = or_default (c_socket_connect_retries out) retries,
     c_socket_connect_retry_ms = or_default (c_socket_connect_retry_ms out) retry_ms\<rparr>"
proof -
  note r = parse_property_reads [OF assms(1)] assign_string_reads [OF assms(2)] parse_property_reads [OF assms(3)]
    parse_property_reads [OF assms(4)] parse_property_reads [OF assms(5)] parse_property_reads [OF assms(6)]
    parse_property_reads [OF assms(7)] parse_property_reads [OF assms(8)] parse_property_reads [OF assms(9)]
    parse_property_reads [OF assms(10)] assign_string_reads [OF assms(12)] assign_string_reads [OF assms(13)]
    parse_property_reads [OF assms(14)] parse_property_reads [OF assms(15)] parse_property_reads [OF assms(16)]
    parse_property_reads [OF assms(17)]
  have none: "parse_property ob ''type'' parse store out = Inr out" for parse :: "js \<Rightarrow> js_error + 'a" and store out
    by (simp add: parse_property_def assms(11))
  show ?thesis
    by (simp add: options_from_object_def parse_channel_type_property_def r store_fields none assms(11))
qed

section \<open>Normalized options\<close>

definition passes :: "js \<Rightarrow> string \<Rightarrow> bool" where
  "passes v name \<longleftrightarrow> v = JUndefined \<or> normalizeIntegerLike v name = Inr v"

definition given :: "(string \<times> js) list \<Rightarrow> string \<Rightarrow> (js \<Rightarrow> js_error + 'a) \<Rightarrow> 'a option \<Rightarrow> bool" where
  "given ps key parse x \<longleftrightarrow>
     (if obj_get ps key = JUndefined then x = None else (case x of None \<Rightarrow> False | Some y \<Rightarrow> parse (obj_get ps key) = Inr y))"

definition given_string :: "(string \<times> js) list \<Rightarrow> string \<Rightarrow> string option \<Rightarrow> bool" where
  "given_string ps key x \<longleftrightarrow>
     obj_get ps key = (case x of None \<Rightarrow> JUndefined | Some s \<Rightarrow> JString s) \<and> pred_option (\<lambda>s. CHR 0x00 \<notin> set s) x"

lemma parsed_passes:
  "parse_uint64 v f = Inr x \<Longrightarrow> passes v name" "parse_uint32 v f = Inr y \<Longrightarrow> passes v name" "parse_uint16 v f = Inr z \<Longrightarrow> passes v name"
proof -
  show 1: "parse_uint64 v f = Inr x \<Longrightarrow> passes v name" for x
    by (auto simp: parse_uint64_def passes_def normalizeIntegerLike_def split: js.splits js_number.splits if_splits)
  show 2: "parse_uint32 v f = Inr y \<Longrightarrow> passes v name" for y
    by (auto simp: parse_uint32_def js_bind_def split: sum.splits if_splits intro: 1)
  show "parse_uint16 v f = Inr z \<Longrightarrow> passes v name"
    by (auto simp: parse_uint16_def js_bind_def split: sum.splits if_splits intro: 2)
qed

lemma given_passes:
  "given ps key (\<lambda>v. parse_uint64 v f) x \<Longrightarrow> passes (obj_get ps key) name"
  "given ps key (\<lambda>v. parse_uint32 v f) y \<Longrightarrow> passes (obj_get ps key) name"
  "given ps key (\<lambda>v. parse_uint16 v f) z \<Longrightarrow> passes (obj_get ps key) name"
  by (auto simp: given_def split: if_splits option.splits intro: parsed_passes) (simp_all add: passes_def)

lemma given_integers_pass:
  assumes "given ps ''shmSize'' (\<lambda>v. parse_uint64 v ''shmSize'') shm" and "given ps ''itemSize'' (\<lambda>v. parse_uint32 v ''itemSize'') item"
    and "given ps ''dataAlign'' (\<lambda>v. parse_uint32 v ''dataAlign'') align" and "given ps ''schemaId'' (\<lambda>v. parse_uint64 v ''schemaId'') schema"
    and "given ps ''socketPort'' (\<lambda>v. parse_uint16 v ''socketPort'') port"
    and "k \<in> {''shmSize'', ''itemSize'', ''dataAlign'', ''schemaId'', ''socketPort''}"
  shows "passes (obj_get ps k) k"
  using assms(6)
  by (elim insertE emptyE)
    (simp_all only: given_passes(1) [OF assms(1)] given_passes(2) [OF assms(2)] given_passes(2) [OF assms(3)]
      given_passes(1) [OF assms(4)] given_passes(3) [OF assms(5)])

lemma obj_get_cong: "map_of n = map_of m \<Longrightarrow> obj_get n = obj_get m"
  by (auto simp: obj_get_def)

lemma normalize_property_ok:
  assumes "passes (obj_get n name) name" and "distinct (map fst n)"
  obtains n' where "normalize_property name n = Inr n'" and "map_of n' = map_of n" and "distinct (map fst n')"
proof (cases "obj_get n name = JUndefined")
  case True
  with that assms(2) show ?thesis by (simp add: normalize_property_def)
next
  case False
  let ?n = "AList.update name (obj_get n name) n"
  have "map_of n name = Some (obj_get n name)" using False by (auto simp: obj_get_def split: option.splits)
  then have "map_of ?n = map_of n" by (simp add: AList.update_conv' map_upd_triv)
  moreover have "normalize_property name n = Inr ?n" using assms(1) False by (simp add: normalize_property_def passes_def)
  moreover have "distinct (map fst ?n)" by (rule AList.distinct_update [OF assms(2)])
  ultimately show ?thesis using that by blast
qed

lemma map_of_defined:
  "distinct (map fst ps) \<Longrightarrow> map_of (filter (\<lambda>(_, v). v \<noteq> JUndefined) ps) k = (if obj_get ps k = JUndefined then None else Some (obj_get ps k))"
proof (induction ps)
  case (Cons kv ps)
  have "k = fst kv \<Longrightarrow> map_of ps k = None" using Cons.prems by (auto simp: map_of_eq_None_iff)
  with Cons show ?case by (cases kv) (auto simp: obj_get_def)
qed (simp add: obj_get_def)

text \<open>What normalization does to the properties of an object whose integers are acceptable.\<close>

definition normalized_of :: "(string \<times> js) list \<Rightarrow> string \<Rightarrow> js option" where
  "normalized_of ps k =
     (if k = ''type'' then None
      else if k = ''backend'' then Some (normalizeBackend (obj_get ps ''backend''))
      else if k = ''channelType''
      then Some (normalizeChannelType (if obj_get ps ''channelType'' \<noteq> JUndefined then obj_get ps ''channelType'' else obj_get ps ''type''))
      else if obj_get ps k = JUndefined then None else Some (obj_get ps k))"

lemma normalizeOptions_ok:
  assumes "distinct (map fst ps)"
    and "\<And>k. k \<in> {''shmSize'', ''itemSize'', ''dataAlign'', ''schemaId'', ''socketPort''} \<Longrightarrow> passes (obj_get ps k) k"
  obtains n where "normalizeOptions (JObject ps) = Inr n" and "distinct (map fst n)"
    and "map_of n = normalized_of ps"
proof -
  let ?n0 = "filter (\<lambda>(_, v). v \<noteq> JUndefined) ps"
  let ?n1 = "AList.update ''backend'' (normalizeBackend (obj_get ?n0 ''backend'')) ?n0"
  let ?t = "if obj_get ?n1 ''channelType'' \<noteq> JUndefined then obj_get ?n1 ''channelType'' else obj_get ?n1 ''type''"
  let ?n2 = "AList.delete ''type'' (AList.update ''channelType'' (normalizeChannelType ?t) ?n1)"
  have 0: "obj_get ?n0 k = obj_get ps k" for k
    using map_of_defined [OF assms(1), of k] by (simp add: obj_get_def split: if_splits)
  have 1: "obj_get ?n1 k = obj_get ps k" if "k \<noteq> ''backend''" for k
    using 0 [of k] that by (simp add: obj_get_def AList.update_conv')
  have t: "?t = (if obj_get ps ''channelType'' \<noteq> JUndefined then obj_get ps ''channelType'' else obj_get ps ''type'')"
    by (simp add: 1)
  have m: "map_of ?n2 = normalized_of ps"
    by (rule ext) (unfold normalized_of_def t [symmetric], simp add: AList.delete_conv' AList.update_conv' 0 map_of_defined [OF assms(1)])
  then have get: "obj_get ?n2 k = obj_get ps k" if "k \<notin> {''type'', ''backend'', ''channelType''}" for k
    using that by (simp add: obj_get_def [of ?n2] normalized_of_def)
  have d: "distinct (map fst ?n2)"
    by (intro AList.distinct_delete AList.distinct_update distinct_map_filter assms(1))
  obtain n3 where 3: "normalize_property ''shmSize'' ?n2 = Inr n3" "map_of n3 = map_of ?n2" "distinct (map fst n3)"
    by (rule normalize_property_ok [of ?n2 "''shmSize''"]) (simp_all add: get assms(2) d)
  obtain n4 where 4: "normalize_property ''itemSize'' n3 = Inr n4" "map_of n4 = map_of ?n2" "distinct (map fst n4)"
    by (rule normalize_property_ok [of n3 "''itemSize''"]) (simp_all add: obj_get_cong [OF 3(2)] get assms(2) 3)
  obtain n5 where 5: "normalize_property ''dataAlign'' n4 = Inr n5" "map_of n5 = map_of ?n2" "distinct (map fst n5)"
    by (rule normalize_property_ok [of n4 "''dataAlign''"]) (simp_all add: obj_get_cong [OF 4(2)] get assms(2) 4)
  obtain n6 where 6: "normalize_property ''schemaId'' n5 = Inr n6" "map_of n6 = map_of ?n2" "distinct (map fst n6)"
    by (rule normalize_property_ok [of n5 "''schemaId''"]) (simp_all add: obj_get_cong [OF 5(2)] get assms(2) 5)
  obtain n7 where 7: "normalize_property ''socketPort'' n6 = Inr n7" "map_of n7 = map_of ?n2" "distinct (map fst n7)"
    by (rule normalize_property_ok [of n6 "''socketPort''"]) (simp_all add: obj_get_cong [OF 6(2)] get assms(2) 6)
  have "normalizeOptions (JObject ps) = Inr n7"
    unfolding normalizeOptions_def plain_properties_def js_properties_def default_object_def Let_def
    using 3(1) 4(1) 5(1) 6(1) 7(1) by simp
  then show ?thesis using 7(3) by (rule that) (unfold 7(2) m, rule refl)
qed

lemma normalize_idem [simp]:
  "normalizeBackend (normalizeBackend v) = normalizeBackend v" "normalizeChannelType (normalizeChannelType v) = normalizeChannelType v"
  "normalizeBackend v \<noteq> JUndefined" "normalizeChannelType v \<noteq> JUndefined"
  by (auto simp: normalizeBackend_def normalizeChannelType_def Let_def js_num_def split: js.split)

lemma normalize_js_num [simp]:
  "normalizeBackend (js_num i) = js_num i" "normalizeChannelType (js_num i) = js_num i" "normalizeEndpointKind (js_num i) = js_num i"
  "js_num i \<noteq> JUndefined"
  by (simp_all add: normalizeBackend_def normalizeChannelType_def normalizeEndpointKind_def js_num_def)

lemma property_cong:
  assumes "map_of n = map_of m"
  shows "parse_property n = parse_property m" and "assign_optional_string n = assign_optional_string m"
  by (intro ext, simp add: parse_property_def assign_optional_string_def assms)+

lemma options_from_object_cong:
  assumes "map_of n = map_of m"
  shows "options_from_object E n = options_from_object E m"
  by (rule ext) (simp only: options_from_object_def parse_channel_type_property_def property_cong [OF assms] assms)

lemma normalized_reads:
  assumes "map_of n = normalized_of ps"
    and "k \<notin> {''type'', ''backend'', ''channelType''}"
  shows "given ps k parse x \<Longrightarrow> reads n k parse x" and "given_string ps k y \<Longrightarrow> reads_string n k y"
  using assms by (auto simp: normalized_of_def given_def reads_def given_string_def reads_string_def split: if_splits option.splits)

lemma js_opens_given:
  assumes "napi_spec E" and "distinct (map fst ps)"
    and "obj_get ps ''backend'' = (if bk = BACKEND_SOCKET then js_num BACKEND_SOCKET else JUndefined) \<or>
         obj_get ps ''backend'' = js_num bk" and "bk = BACKEND_SHARED_MEMORY \<or> bk = BACKEND_SOCKET"
    and "obj_get ps ''channelType'' = js_num ch" and "ch = CHANNEL_FIXED \<or> ch = CHANNEL_VARLEN"
    and "given_string ps ''path'' pth" and "given_string ps ''win32ObjectNamespace'' ns" and "given_string ps ''socketHost'' host"
    and "given ps ''shmSize'' (\<lambda>v. parse_uint64 v ''shmSize'') shm" and "given ps ''itemSize'' (\<lambda>v. parse_uint32 v ''itemSize'') item"
    and "given ps ''dataAlign'' (\<lambda>v. parse_uint32 v ''dataAlign'') align" and "given ps ''schemaId'' (\<lambda>v. parse_uint64 v ''schemaId'') schema"
    and "given ps ''creatorTimestampNs'' (\<lambda>v. parse_uint64 v ''creatorTimestampNs'') ts"
    and "given ps ''creatorFlags'' (\<lambda>v. parse_uint64 v ''creatorFlags'') fl"
    and "given ps ''createIfMissing'' (\<lambda>v. parse_bool v ''createIfMissing'') cim"
    and "given ps ''socketPort'' (\<lambda>v. parse_uint16 v ''socketPort'') port"
    and "given ps ''socketListen'' (\<lambda>v. parse_bool v ''socketListen'') listen"
    and "given ps ''socketConnectRetries'' (\<lambda>v. parse_int v ''socketConnectRetries'') retries"
    and "given ps ''socketConnectRetryMs'' (\<lambda>v. parse_int v ''socketConnectRetryMs'') retry_ms"
  obtains n where "normalizeOptions (JObject ps) = Inr n" and "distinct (map fst n)" and "map_of n = normalized_of ps"
    and "options_from_js E (JObject n) = Inr
      \<lparr>c_backend = bk, c_path = pth, c_shm_size = or_default 0 shm, c_item_size = or_default 0 item,
       c_data_align = or_default 0 align, c_schema_id = or_default 0 schema, c_creator_timestamp_ns = or_default 0 ts,
       c_creator_flags = or_default 0 fl, c_create_if_missing = or_default 1 cim, c_channel_type = ch,
       c_win32_object_namespace = Some (or_default ''Local'' ns), c_socket_host = Some (or_default ''127.0.0.1'' host),
       c_socket_port = or_default 0 port, c_socket_listen = or_default 0 listen,
       c_socket_connect_retries = or_default 200 retries, c_socket_connect_retry_ms = or_default 10 retry_ms\<rparr>"
proof -
  have pass: "passes (obj_get ps k) k" if "k \<in> {''shmSize'', ''itemSize'', ''dataAlign'', ''schemaId'', ''socketPort''}" for k
    by (rule given_integers_pass [OF assms(10-13,17) that])
  obtain n where n: "normalizeOptions (JObject ps) = Inr n" "distinct (map fst n)" and m: "map_of n = normalized_of ps"
    by (rule normalizeOptions_ok [OF assms(2) pass])
  note rd = normalized_reads [OF m]
  have b: "reads n ''backend'' (parse_backend E) (Some bk)"
    using assms(3,4) parse_kinds(1,2) [OF assms(1)]
    by (auto simp: reads_def m normalized_of_def normalizeBackend_def js_num_def split: if_splits)
  have c: "reads n ''channelType'' (parse_channel_type E) (Some ch)"
    using assms(5,6) parse_kinds(3,4) [OF assms(1)] by (auto simp: reads_def m normalized_of_def)
  have t: "map_of n ''type'' = None" by (simp add: m normalized_of_def)
  have "options_from_js E (JObject n) = options_from_object E n xproc_c_options_init"
    by (simp add: options_from_js_def js_properties_def)
  also have "\<dots> = Inr
      \<lparr>c_backend = bk, c_path = pth, c_shm_size = or_default 0 shm, c_item_size = or_default 0 item,
       c_data_align = or_default 0 align, c_schema_id = or_default 0 schema, c_creator_timestamp_ns = or_default 0 ts,
       c_creator_flags = or_default 0 fl, c_create_if_missing = or_default 1 cim, c_channel_type = ch,
       c_win32_object_namespace = Some (or_default ''Local'' ns), c_socket_host = Some (or_default ''127.0.0.1'' host),
       c_socket_port = or_default 0 port, c_socket_listen = or_default 0 listen,
       c_socket_connect_retries = or_default 200 retries, c_socket_connect_retry_ms = or_default 10 retry_ms\<rparr>"
    by (subst options_from_reads [OF b rd(2) [OF _ assms(7)] rd(1) [OF _ assms(10)] rd(1) [OF _ assms(11)] rd(1) [OF _ assms(12)]
          rd(1) [OF _ assms(13)] rd(1) [OF _ assms(14)] rd(1) [OF _ assms(15)] rd(1) [OF _ assms(16)] c t rd(2) [OF _ assms(8)]
          rd(2) [OF _ assms(9)] rd(1) [OF _ assms(17)] rd(1) [OF _ assms(18)] rd(1) [OF _ assms(19)] rd(1) [OF _ assms(20)]])
      (simp_all add: xproc_c_options_init_def or_default_def split: option.split)
  finally show ?thesis by (rule that [OF n m])
qed

section \<open>Options survive JavaScript\<close>

lemma options_properties_get:
  "obj_get (options_properties E c) ''backend'' = js_num (c_backend c)"
  "obj_get (options_properties E c) ''path'' = js_optional_string E (c_path c)"
  "obj_get (options_properties E c) ''shmSize'' = JBigInt (uint (c_shm_size c))"
  "obj_get (options_properties E c) ''itemSize'' = js_num (uint (c_item_size c))"
  "obj_get (options_properties E c) ''dataAlign'' = js_num (uint (c_data_align c))"
  "obj_get (options_properties E c) ''schemaId'' = JBigInt (uint (c_schema_id c))"
  "obj_get (options_properties E c) ''creatorTimestampNs'' = JBigInt (uint (c_creator_timestamp_ns c))"
  "obj_get (options_properties E c) ''creatorFlags'' = JBigInt (uint (c_creator_flags c))"
  "obj_get (options_properties E c) ''createIfMissing'' = JBoolean (c_create_if_missing c \<noteq> 0)"
  "obj_get (options_properties E c) ''channelType'' = js_num (c_channel_type c)"
  "obj_get (options_properties E c) ''win32ObjectNamespace'' = js_optional_string E (c_win32_object_namespace c)"
  "obj_get (options_properties E c) ''socketHost'' = js_optional_string E (c_socket_host c)"
  "obj_get (options_properties E c) ''socketPort'' = js_num (uint (c_socket_port c))"
  "obj_get (options_properties E c) ''socketListen'' = JBoolean (c_socket_listen c \<noteq> 0)"
  "obj_get (options_properties E c) ''socketConnectRetries'' = js_num (c_socket_connect_retries c)"
  "obj_get (options_properties E c) ''socketConnectRetryMs'' = js_num (c_socket_connect_retry_ms c)"
  by (simp_all add: options_properties_def obj_get_def js_bigint_from_u64_def)

lemma options_properties_keys: "distinct (map fst (options_properties E c))"
  by (simp add: options_properties_def)

lemma decorate_options_to_js: "decorateOptions (options_to_js E c) = options_to_js E c"
  by (simp add: decorateOptions_def options_to_js_def js_properties_def options_properties_get)
    (simp add: options_properties_def)

lemma native_options_refused: "\<exists>e. options_from_js E (options_to_js E c) = Inl e"
proof -
  have "\<exists>m. parse_channel_type_property E (options_properties E c) out = Inl m" for out
    by (simp add: parse_channel_type_property_def options_properties_def)
  then have "\<exists>e. js_bind (parse_channel_type_property E (options_properties E c) out) f = Inl e" for out f
    by (metis js_bind_simps(1))
  then have "\<exists>e. options_from_object E (options_properties E c) out = Inl e" for out
    unfolding options_from_object_def by (subst (1 2 3 4 5 6 7 8 9) js_bind_def) (auto split: sum.split)
  then show ?thesis by (simp add: options_from_js_def options_to_js_def js_properties_def)
qed

text \<open>
  Options survive the way through JavaScript. What \<open>options()\<close> of an endpoint returns can be given to a constructor of the
  package, which then opens an endpoint with exactly the options of the first. This needs the normalization of this side: the
  native constructors refuse the objects that the native \<open>options()\<close> make, because these carry the channel type under two names.
  The strings must be text that a C string and a JavaScript string can hold, and the retry settings must fit an \<open>int\<close>.
\<close>

lemma node_options_round_trip:
  assumes "napi_spec E"
    and "list_all (\<lambda>s. CHR 0x00 \<notin> set s \<and> utf8_new E s = s) [path opts, win32_object_namespace opts, socket_host opts]"
    and "win32_object_namespace opts \<noteq> []" and "socket_host opts \<noteq> []"
    and "list_all (\<lambda>i. - (2 ^ 31) \<le> i \<and> i < 2 ^ 31) [socket_connect_retries opts, socket_connect_retry_ms opts]"
  shows "\<exists>n c. normalizeOptions (decorateOptions (options_to_js E (fill_borrowed_options opts))) = Inr n \<and>
       options_from_js E (JObject n) = Inr c \<and> to_cpp_options c = opts"
proof -
  let ?c = "fill_borrowed_options opts"
  let ?ps = "options_properties E ?c"
  note ok = assms(2) [unfolded list.pred_inject, simplified] and ints = assms(5) [unfolded list.pred_inject, simplified]
  note get = options_properties_get and g = given_def given_string_def options_properties_get
  have kinds: "obj_get ?ps ''backend'' = js_num (c_backend ?c)" "obj_get ?ps ''channelType'' = js_num (c_channel_type ?c)"
      "c_backend ?c = BACKEND_SHARED_MEMORY \<or> c_backend ?c = BACKEND_SOCKET" "c_channel_type ?c = CHANNEL_FIXED \<or> c_channel_type ?c = CHANNEL_VARLEN"
    by (simp_all add: get fill_borrowed_options_def)
  have strings: "given_string ?ps ''path'' (c_path ?c)"
      "given_string ?ps ''win32ObjectNamespace'' (Some (win32_object_namespace opts))"
      "given_string ?ps ''socketHost'' (Some (socket_host opts))"
    using ok assms(3,4) by (simp_all add: g fill_borrowed_options_def js_optional_string_def)
  have numbers: "given ?ps ''shmSize'' (\<lambda>v. parse_uint64 v ''shmSize'') (Some (shm_size opts))"
      "given ?ps ''itemSize'' (\<lambda>v. parse_uint32 v ''itemSize'') (Some (item_size opts))"
      "given ?ps ''dataAlign'' (\<lambda>v. parse_uint32 v ''dataAlign'') (Some (data_align opts))"
      "given ?ps ''schemaId'' (\<lambda>v. parse_uint64 v ''schemaId'') (Some (schema_id opts))"
      "given ?ps ''creatorTimestampNs'' (\<lambda>v. parse_uint64 v ''creatorTimestampNs'') (Some (creator_timestamp_ns opts))"
      "given ?ps ''creatorFlags'' (\<lambda>v. parse_uint64 v ''creatorFlags'') (Some (creator_flags opts))"
      "given ?ps ''createIfMissing'' (\<lambda>v. parse_bool v ''createIfMissing'') (Some (c_create_if_missing ?c))"
      "given ?ps ''socketPort'' (\<lambda>v. parse_uint16 v ''socketPort'') (Some (socket_port opts))"
      "given ?ps ''socketListen'' (\<lambda>v. parse_bool v ''socketListen'') (Some (c_socket_listen ?c))"
      "given ?ps ''socketConnectRetries'' (\<lambda>v. parse_int v ''socketConnectRetries'') (Some (socket_connect_retries opts))"
      "given ?ps ''socketConnectRetryMs'' (\<lambda>v. parse_int v ''socketConnectRetryMs'') (Some (socket_connect_retry_ms opts))"
    using ints by (simp_all add: g fill_borrowed_options_def parse_int_num)
  from js_opens_given [OF assms(1) options_properties_keys disjI2 [OF kinds(1)] kinds(3,2,4) strings numbers] obtain n c where
    n: "normalizeOptions (JObject ?ps) = Inr n" "options_from_js E (JObject n) = Inr c" and
    c: "c = \<lparr>c_backend = c_backend ?c, c_path = c_path ?c, c_shm_size = shm_size opts,
       c_item_size = item_size opts, c_data_align = data_align opts, c_schema_id = schema_id opts,
       c_creator_timestamp_ns = creator_timestamp_ns opts, c_creator_flags = creator_flags opts,
       c_create_if_missing = c_create_if_missing ?c, c_channel_type = c_channel_type ?c,
       c_win32_object_namespace = Some (win32_object_namespace opts), c_socket_host = Some (socket_host opts),
       c_socket_port = socket_port opts, c_socket_listen = c_socket_listen ?c,
       c_socket_connect_retries = socket_connect_retries opts, c_socket_connect_retry_ms = socket_connect_retry_ms opts\<rparr>"
    by (metis or_default_simps(2))
  have "to_cpp_options c = opts"
    using ok by (cases "backend opts"; cases "chan_type opts"; cases opts)
      (auto simp: c to_cpp_options_def fill_borrowed_options_def c_enum_defs)
  with n show ?thesis by (simp add: decorate_options_to_js) (simp add: options_to_js_def)
qed

end
