(* ===== verification/Node_Channels.thy ===== *)
theory Node_Channels
  imports Node_Options
begin

text \<open>
  The channel constructors of \<open>node/index.js\<close> against the C++ builders of \<open>Builders\<close>: from an argument that asks for
  what a builder was told, they make endpoints with the builder's options, and refuse what the builder refuses.
\<close>

section \<open>Channels are those of the builders\<close>

text \<open>What a property of the argument asks for, with the default for a missing one.\<close>

definition asks :: "(string \<times> js) list \<Rightarrow> string \<Rightarrow> (js \<Rightarrow> js_error + 'a) \<Rightarrow> 'a \<Rightarrow> 'a \<Rightarrow> bool" where
  "asks ps key parse d y \<longleftrightarrow> (\<exists>x. given ps key parse x \<and> y = or_default d x)"

definition asks_string :: "(string \<times> js) list \<Rightarrow> string \<Rightarrow> string \<Rightarrow> string \<Rightarrow> bool" where
  "asks_string ps key d y \<longleftrightarrow> (\<exists>x. given_string ps key x \<and> y = or_default d x)"

lemma asks_known:
  "obj_get ps key = JUndefined \<Longrightarrow> asks ps key parse d d"
  "obj_get ps key \<noteq> JUndefined \<Longrightarrow> parse (obj_get ps key) = Inr y \<Longrightarrow> asks ps key parse d y"
  "obj_get ps key = JUndefined \<Longrightarrow> asks_string ps key e e"
  unfolding asks_def asks_string_def given_def given_string_def
  by (rule exI [of _ None], simp) (rule exI [of _ "Some y"], simp, rule exI [of _ None], simp)

text \<open>The argument of \<open>createFixedChannel\<close> and \<open>createVarlenChannel\<close> that asks for what a C++ builder is told.\<close>

definition asks_common :: "(string \<times> js) list \<Rightarrow> string \<Rightarrow> u64 \<Rightarrow> u32 \<Rightarrow> u64 \<Rightarrow> u64 \<Rightarrow> u64 \<Rightarrow> string \<Rightarrow> bool" where
  "asks_common ps pth cap align schema ts fl ns \<longleftrightarrow>
     pth \<noteq> [] \<and> given_string ps ''path'' (Some pth) \<and> given ps ''dataCapacity'' (\<lambda>v. parse_uint64 v ''dataCapacity'') (Some cap) \<and>
     asks ps ''dataAlign'' (\<lambda>v. parse_uint32 v ''dataAlign'') 0 align \<and> asks ps ''schemaId'' (\<lambda>v. parse_uint64 v ''schemaId'') 0 schema \<and>
     asks ps ''creatorTimestampNs'' (\<lambda>v. parse_uint64 v ''creatorTimestampNs'') 0 ts \<and>
     asks ps ''creatorFlags'' (\<lambda>v. parse_uint64 v ''creatorFlags'') 0 fl \<and> asks_string ps ''win32ObjectNamespace'' ''Local'' ns"

definition asks_fixed :: "(string \<times> js) list \<Rightarrow> fixed_channel_builder \<Rightarrow> u64 \<Rightarrow> bool" where
  "asks_fixed ps b cap \<longleftrightarrow>
     asks_common ps (fb_path b) cap (fb_data_align b) (fb_schema_id b) (fb_creator_timestamp_ns b) (fb_creator_flags b)
       (fb_win32_object_namespace b) \<and>
     asks ps ''itemSize'' (\<lambda>v. parse_uint32 v ''itemSize'') 0 (fb_item_size b)"

definition asks_varlen :: "(string \<times> js) list \<Rightarrow> varlen_channel_builder \<Rightarrow> u64 \<Rightarrow> bool" where
  "asks_varlen ps b cap \<longleftrightarrow>
     asks_common ps (vb_path b) cap (vb_data_align b) (vb_schema_id b) (vb_creator_timestamp_ns b) (vb_creator_flags b)
       (vb_win32_object_namespace b)"

text \<open>The options that a constructor of the package hands on to the C interface when it is given an object.\<close>

definition js_opens :: "napi \<Rightarrow> (string \<times> js) list option \<Rightarrow> transport_options \<Rightarrow> bool" where
  "js_opens E ps opts \<longleftrightarrow>
     (\<exists>o1 n c. ps = Some o1 \<and> normalizeOptions (JObject o1) = Inr n \<and> options_from_js E (JObject n) = Inr c \<and> to_cpp_options c = opts)"

lemma normalized_get:
  assumes "map_of n = normalized_of ps"
  shows "k \<notin> {''type'', ''backend'', ''channelType''} \<Longrightarrow> obj_get n k = obj_get ps k"
    and "obj_get n ''backend'' = normalizeBackend (obj_get ps ''backend'')"
    and "\<exists>v. obj_get n ''channelType'' = normalizeChannelType v"
  by (simp_all add: obj_get_def [of n] assms normalized_of_def) blast

lemma create_properties_get:
  assumes "ck = CHANNEL_FIXED \<or> ck = CHANNEL_VARLEN"
  shows "obj_get (create_properties ck pth shm field) ''backend'' = JUndefined"
    "obj_get (create_properties ck pth shm field) ''path'' = JString pth"
    "obj_get (create_properties ck pth shm field) ''shmSize'' = shm"
    "obj_get (create_properties ck pth shm field) ''itemSize'' = (if ck = CHANNEL_FIXED then field ''itemSize'' else JUndefined)"
    "obj_get (create_properties ck pth shm field) ''dataAlign'' = field ''dataAlign''"
    "obj_get (create_properties ck pth shm field) ''schemaId'' = field ''schemaId''"
    "obj_get (create_properties ck pth shm field) ''creatorTimestampNs'' = field ''creatorTimestampNs''"
    "obj_get (create_properties ck pth shm field) ''creatorFlags'' = field ''creatorFlags''"
    "obj_get (create_properties ck pth shm field) ''win32ObjectNamespace'' = field ''win32ObjectNamespace''"
    "obj_get (create_properties ck pth shm field) ''createIfMissing'' = JBoolean True"
    "obj_get (create_properties ck pth shm field) ''channelType'' = js_num ck"
    "obj_get (create_properties ck pth shm field) ''socketHost'' = JUndefined"
    "obj_get (create_properties ck pth shm field) ''socketPort'' = JUndefined"
    "obj_get (create_properties ck pth shm field) ''socketListen'' = JUndefined"
    "obj_get (create_properties ck pth shm field) ''socketConnectRetries'' = JUndefined"
    "obj_get (create_properties ck pth shm field) ''socketConnectRetryMs'' = JUndefined"
    "distinct (map fst (create_properties ck pth shm field))"
  by (simp_all add: create_properties_def obj_get_def)

lemma given_get: "given qs key parse x \<Longrightarrow> obj_get ps key = obj_get qs key \<Longrightarrow> given ps key parse x"
  "given_string qs key y \<Longrightarrow> obj_get ps key = obj_get qs key \<Longrightarrow> given_string ps key y"
  by (simp_all only: given_def given_string_def)

lemma shmSize_of_capacity:
  assumes "given ps ''dataCapacity'' (\<lambda>v. parse_uint64 v ''dataCapacity'') (Some cap)"
  shows "normalizeIntegerLike (obj_get ps ''dataCapacity'') ''dataCapacity'' = Inr (obj_get ps ''dataCapacity'')"
    and "shmSizeForDataCapacity A (obj_get ps ''dataCapacity'') = Inr (JBigInt (uint (shm_size_for_data_capacity A cap)))"
proof -
  have parse: "parse_uint64 (obj_get ps ''dataCapacity'') ''dataCapacity'' = Inr cap"
    and "obj_get ps ''dataCapacity'' \<noteq> JUndefined"
    using assms by (auto simp: given_def split: if_splits)
  with parsed_passes(1) [OF parse, of "''dataCapacity''"]
  show n: "normalizeIntegerLike (obj_get ps ''dataCapacity'') ''dataCapacity'' = Inr (obj_get ps ''dataCapacity'')"
    by (simp add: passes_def)
  show "shmSizeForDataCapacity A (obj_get ps ''dataCapacity'') = Inr (JBigInt (uint (shm_size_for_data_capacity A cap)))"
    by (simp add: shmSizeForDataCapacity_def n shm_size_for_data_capacity_callback_def parse js_bigint_from_u64_def
        xproc_c_shm_size_for_data_capacity_def)
qed

lemma js_opens_created:
  assumes "napi_spec E" and "distinct (map fst ps)" and "obj_get ps ''channelType'' = js_num (if ch = fixed then CHANNEL_FIXED else CHANNEL_VARLEN)"
    and "obj_get ps ''backend'' = JUndefined \<or> obj_get ps ''backend'' = js_num BACKEND_SHARED_MEMORY"
    and "given_string ps ''path'' (Some pth)" and "asks_string ps ''win32ObjectNamespace'' ''Local'' ns"
    and "given_string ps ''socketHost'' None"
    and "given ps ''shmSize'' (\<lambda>v. parse_uint64 v ''shmSize'') (Some (shm_size_for_data_capacity A cap))"
    and "asks ps ''itemSize'' (\<lambda>v. parse_uint32 v ''itemSize'') 0 item" and "asks ps ''dataAlign'' (\<lambda>v. parse_uint32 v ''dataAlign'') 0 align"
    and "asks ps ''schemaId'' (\<lambda>v. parse_uint64 v ''schemaId'') 0 schema"
    and "asks ps ''creatorTimestampNs'' (\<lambda>v. parse_uint64 v ''creatorTimestampNs'') 0 ts"
    and "asks ps ''creatorFlags'' (\<lambda>v. parse_uint64 v ''creatorFlags'') 0 fl" and "obj_get ps ''createIfMissing'' = JBoolean b"
    and "given ps ''socketPort'' (\<lambda>v. parse_uint16 v ''socketPort'') None"
    and "given ps ''socketListen'' (\<lambda>v. parse_bool v ''socketListen'') None"
    and "given ps ''socketConnectRetries'' (\<lambda>v. parse_int v ''socketConnectRetries'') None"
    and "given ps ''socketConnectRetryMs'' (\<lambda>v. parse_int v ''socketConnectRetryMs'') None"
  obtains n where "normalizeOptions (JObject ps) = Inr n" and "distinct (map fst n)" and "map_of n = normalized_of ps"
    and "js_opens E (Some ps) ((create_transport A ch pth cap item align schema ts fl ns)\<lparr>create_if_missing := b\<rparr>)"
proof -
  from assms(6,9-13) obtain x1 x2 x3 x4 x5 x6 where
    x: "given ps ''dataAlign'' (\<lambda>v. parse_uint32 v ''dataAlign'') x1" "given ps ''schemaId'' (\<lambda>v. parse_uint64 v ''schemaId'') x2"
      "given ps ''creatorTimestampNs'' (\<lambda>v. parse_uint64 v ''creatorTimestampNs'') x3"
      "given ps ''creatorFlags'' (\<lambda>v. parse_uint64 v ''creatorFlags'') x4" "given_string ps ''win32ObjectNamespace'' x5"
      "given ps ''itemSize'' (\<lambda>v. parse_uint32 v ''itemSize'') x6"
    and y: "align = or_default 0 x1" "schema = or_default 0 x2" "ts = or_default 0 x3" "fl = or_default 0 x4" "ns = or_default ''Local'' x5"
      "item = or_default 0 x6"
    unfolding asks_def asks_string_def by blast
  let ?ck = "if ch = fixed then CHANNEL_FIXED else CHANNEL_VARLEN"
  have ck: "?ck = CHANNEL_FIXED \<or> ?ck = CHANNEL_VARLEN" by simp
  have bk: "obj_get ps ''backend'' = (if BACKEND_SHARED_MEMORY = BACKEND_SOCKET then js_num BACKEND_SOCKET else JUndefined) \<or>
      obj_get ps ''backend'' = js_num BACKEND_SHARED_MEMORY" using assms(4) by (simp add: c_enum_defs)
  have cim: "given ps ''createIfMissing'' (\<lambda>v. parse_bool v ''createIfMissing'') (Some (if b then 1 else 0))"
    using assms(14) by (simp add: given_def)
  let ?c = "\<lparr>c_backend = BACKEND_SHARED_MEMORY, c_path = Some pth, c_shm_size = or_default 0 (Some (shm_size_for_data_capacity A cap)),
       c_item_size = or_default 0 x6, c_data_align = or_default 0 x1, c_schema_id = or_default 0 x2,
       c_creator_timestamp_ns = or_default 0 x3, c_creator_flags = or_default 0 x4,
       c_create_if_missing = or_default 1 (Some (if b then 1 else 0)),
       c_channel_type = ?ck, c_win32_object_namespace = Some (or_default ''Local'' x5),
       c_socket_host = Some (or_default ''127.0.0.1'' None), c_socket_port = or_default 0 None, c_socket_listen = or_default 0 None,
       c_socket_connect_retries = or_default 200 None, c_socket_connect_retry_ms = or_default 10 None\<rparr>"
  obtain n where n: "normalizeOptions (JObject ps) = Inr n" "distinct (map fst n)" "map_of n = normalized_of ps"
      "options_from_js E (JObject n) = Inr ?c"
    by (rule js_opens_given [OF assms(1,2) bk disjI1 [OF refl] assms(3) ck assms(5) x(5) assms(7,8) x(6,1-4) cim assms(15-18)])
  have "to_cpp_options ?c = (create_transport A ch pth cap item align schema ts fl ns)\<lparr>create_if_missing := b\<rparr>"
    unfolding y by (cases ch) (simp_all add: to_cpp_options_def create_transport_def default_options_def c_enum_defs)
  with n(1,4) have "js_opens E (Some ps) ((create_transport A ch pth cap item align schema ts fl ns)\<lparr>create_if_missing := b\<rparr>)"
    unfolding js_opens_def by blast
  then show ?thesis by (rule that [OF n(1-3)])
qed

lemma asks_get:
  "asks qs key parse d x \<Longrightarrow> obj_get ps key = obj_get qs key \<Longrightarrow> asks ps key parse d x"
  "asks_string qs key e y \<Longrightarrow> obj_get ps key = obj_get qs key \<Longrightarrow> asks_string ps key e y"
  unfolding asks_def asks_string_def by (blast intro: given_get)+

lemma create_options_given:
  assumes "napi_spec E" and "asks_common ps pth cap align schema ts fl ns"
    and "if ch = fixed then asks ps ''itemSize'' (\<lambda>v. parse_uint32 v ''itemSize'') 0 item else item = 0"
  obtains n where "create_options A (if ch = fixed then CHANNEL_FIXED else CHANNEL_VARLEN) (JObject ps) = Inr n"
    and "js_opens E (Some n) (create_transport A ch pth cap item align schema ts fl ns)"
    and "js_opens E (Some (AList.update ''createIfMissing'' (JBoolean False) n))
      ((create_transport A ch pth cap item align schema ts fl ns)\<lparr>create_if_missing := False\<rparr>)"
proof -
  let ?ck = "if ch = fixed then CHANNEL_FIXED else CHANNEL_VARLEN"
  have ck: "?ck = CHANNEL_FIXED \<or> ?ck = CHANNEL_VARLEN" by simp
  let ?shm = "JBigInt (uint (shm_size_for_data_capacity A cap))"
  let ?qs = "create_properties ?ck pth ?shm (obj_get ps)"
  note get = create_properties_get [OF ck, of pth ?shm "obj_get ps"]
  have pth: "pth \<noteq> []" "obj_get ps ''path'' = JString pth" "CHR 0x00 \<notin> set pth"
    and cap: "given ps ''dataCapacity'' (\<lambda>v. parse_uint64 v ''dataCapacity'') (Some cap)"
    and asked: "asks ps ''dataAlign'' (\<lambda>v. parse_uint32 v ''dataAlign'') 0 align" "asks ps ''schemaId'' (\<lambda>v. parse_uint64 v ''schemaId'') 0 schema"
      "asks ps ''creatorTimestampNs'' (\<lambda>v. parse_uint64 v ''creatorTimestampNs'') 0 ts"
      "asks ps ''creatorFlags'' (\<lambda>v. parse_uint64 v ''creatorFlags'') 0 fl" "asks_string ps ''win32ObjectNamespace'' ''Local'' ns"
    using assms(2) by (simp_all add: asks_common_def given_string_def)
  note asked_qs = asks_get(2) [OF asked(5) get(9)] asks_get(1) [OF asked(1) get(5)] asks_get(1) [OF asked(2) get(6)]
    asks_get(1) [OF asked(3) get(7)] asks_get(1) [OF asked(4) get(8)]
  have item: "asks ?qs ''itemSize'' (\<lambda>v. parse_uint32 v ''itemSize'') 0 item"
  proof (cases "ch = fixed")
    case True
    then have "obj_get ?qs ''itemSize'' = obj_get ps ''itemSize''" unfolding get by simp
    with True assms(3) show ?thesis by (simp add: asks_get(1))
  next
    case False
    then have "obj_get ?qs ''itemSize'' = JUndefined" unfolding get by (simp add: c_enum_defs)
    with False assms(3) show ?thesis by (simp add: asks_def given_def)
  qed
  have fixed_values: "given_string ?qs ''path'' (Some pth)" "given_string ?qs ''socketHost'' None"
      "given ?qs ''shmSize'' (\<lambda>v. parse_uint64 v ''shmSize'') (Some (shm_size_for_data_capacity A cap))"
      "given ?qs ''socketPort'' (\<lambda>v. parse_uint16 v ''socketPort'') None"
      "given ?qs ''socketListen'' (\<lambda>v. parse_bool v ''socketListen'') None"
      "given ?qs ''socketConnectRetries'' (\<lambda>v. parse_int v ''socketConnectRetries'') None"
      "given ?qs ''socketConnectRetryMs'' (\<lambda>v. parse_int v ''socketConnectRetryMs'') None"
    by (simp_all add: given_def given_string_def get pth)
  note qs = fixed_values(1) asked_qs(1) fixed_values(2,3) item asked_qs(2-5)
  obtain n where n: "normalizeOptions (JObject ?qs) = Inr n" "distinct (map fst n)" "map_of n = normalized_of ?qs"
    by (rule js_opens_created [OF assms(1) get(17,11) disjI1 [OF get(1)] qs get(10) fixed_values(4-7)])
  have opens: "js_opens E (Some o1) ((create_transport A ch pth cap item align schema ts fl ns)\<lparr>create_if_missing := b\<rparr>)"
    if o1: "distinct (map fst o1)" "\<And>k. k \<notin> {''type'', ''backend'', ''channelType'', ''createIfMissing''} \<Longrightarrow> obj_get o1 k = obj_get ?qs k"
      "obj_get o1 ''channelType'' = js_num ?ck" "obj_get o1 ''backend'' = js_num BACKEND_SHARED_MEMORY"
      "obj_get o1 ''createIfMissing'' = JBoolean b" for o1 b
    by (rule js_opens_created [OF assms(1) o1(1,3) disjI2 [OF o1(4)] given_get(2) [OF qs(1) o1(2)] asks_get(2) [OF qs(2) o1(2)]
          given_get(2) [OF qs(3) o1(2)] given_get(1) [OF qs(4) o1(2)] asks_get(1) [OF qs(5) o1(2)] asks_get(1) [OF qs(6) o1(2)]
          asks_get(1) [OF qs(7) o1(2)] asks_get(1) [OF qs(8) o1(2)] asks_get(1) [OF qs(9) o1(2)] o1(5)
          given_get(1) [OF fixed_values(4) o1(2)] given_get(1) [OF fixed_values(5) o1(2)] given_get(1) [OF fixed_values(6) o1(2)]
          given_get(1) [OF fixed_values(7) o1(2)]]) simp_all
  have same: "obj_get n k = obj_get ?qs k" if "k \<notin> {''type'', ''backend'', ''channelType''}" for k
    using normalized_get(1) [OF n(3) that] .
  have kinds: "obj_get n ''channelType'' = js_num ?ck" "obj_get n ''backend'' = js_num BACKEND_SHARED_MEMORY"
    unfolding obj_get_def [of n] n(3) normalized_of_def by (simp_all add: get normalizeBackend_def)
  let ?n = "AList.update ''createIfMissing'' (JBoolean False) n"
  have upd: "obj_get ?n k = (if k = ''createIfMissing'' then JBoolean False else obj_get n k)" for k
    by (simp add: obj_get_def AList.update_conv')
  have "js_opens E (Some n) ((create_transport A ch pth cap item align schema ts fl ns)\<lparr>create_if_missing := True\<rparr>)"
    by (rule opens) (use n(2) kinds same get(10) in auto)
  moreover have "(create_transport A ch pth cap item align schema ts fl ns)\<lparr>create_if_missing := True\<rparr>
      = create_transport A ch pth cap item align schema ts fl ns" by (simp add: create_transport_def)
  ultimately have "js_opens E (Some n) (create_transport A ch pth cap item align schema ts fl ns)" by argo
  moreover have "js_opens E (Some ?n) ((create_transport A ch pth cap item align schema ts fl ns)\<lparr>create_if_missing := False\<rparr>)"
    by (rule opens) (use kinds same in \<open>auto simp: upd intro: AList.distinct_update n(2)\<close>)
  moreover have "create_options A ?ck (JObject ps) = Inr n"
    by (simp add: create_options_def js_get_def js_properties_def requireNonEmptyString_def pth shmSize_of_capacity [OF cap] n(1))
  ultimately show ?thesis by (intro that)
qed

lemma validate_for_kind:
  assumes "napi_spec E" and "normalizeOptions (JObject n) = Inr m" and "options_from_js E (JObject m) = Inr c"
    and "kind = ENDPOINT_PRODUCER \<or> kind = ENDPOINT_CONSUMER"
    and "validate_producer_transport_options p A (to_cpp_options c) = validate_transport_options p A (to_cpp_options c)"
    and "validate_consumer_transport_options p A (to_cpp_options c) = validate_transport_options p A (to_cpp_options c)"
  shows "\<exists>r g'. validateOptionsFor E p A (js_num kind) (JObject n) g = Some (r, g') \<and>
    (case validate_transport_options p A (to_cpp_options c) of
       Inl e \<Rightarrow> \<exists>err. r = Inl (Xproc_error err) \<and> xe_status err = status_code STATUS_INVALID_ARGUMENT
     | Inr _ \<Rightarrow> r = Inr (JBoolean True))"
proof -
  have kind: "parse_endpoint_kind E (js_num kind) = Inr kind"
    using assms(4) parse_kinds(5,6) [OF assms(1)] by auto
  from validate_options_status [OF assms(4-6)] obtain st g' where c: "xproc_c_validate_options_for p A kind (Some c) g = Some (st, g')"
    and st: "st = (case validate_transport_options p A (to_cpp_options c) of Inl e \<Rightarrow> STATUS_INVALID_ARGUMENT | Inr _ \<Rightarrow> STATUS_OK)"
    by blast
  have "validateOptionsFor E p A (js_num kind) (JObject n) g =
      Some (if st \<noteq> STATUS_OK then Inl (throw_xproc_status E st ''validateOptionsFor'' g') else Inr (JBoolean True), g')"
    by (simp add: validateOptionsFor_def validate_options_for_callback_def assms(2,3) kind c)
  then show ?thesis using st by (auto simp: throw_xproc_status_def make_xproc_error_def Let_def split: sum.split)
qed

lemma create_channel_agrees:
  assumes "napi_spec E" and "asks_common ps pth cap align schema ts fl ns" and "shm_size_for_data_capacity A cap \<noteq> 0"
    and "if ch = fixed then asks ps ''itemSize'' (\<lambda>v. parse_uint32 v ''itemSize'') 0 item else item = 0"
  shows "case checked (validate_transport_options p A) (create_transport A ch pth cap item align schema ts fl ns) of
      Inl e \<Rightarrow> \<exists>err g'. checked_endpoints E p A [ENDPOINT_PRODUCER, ENDPOINT_CONSUMER] makeShmEndpoints
          (create_options A (if ch = fixed then CHANNEL_FIXED else CHANNEL_VARLEN) (JObject ps)) g =
          Some (Inl (Xproc_error err), g') \<and> xe_status err = status_code STATUS_INVALID_ARGUMENT
    | Inr opts \<Rightarrow> \<exists>ep g'. checked_endpoints E p A [ENDPOINT_PRODUCER, ENDPOINT_CONSUMER] makeShmEndpoints
          (create_options A (if ch = fixed then CHANNEL_FIXED else CHANNEL_VARLEN) (JObject ps)) g = Some (Inr ep, g') \<and>
          js_opens E (je_producer ep) opts \<and> js_opens E (je_consumer ep) opts \<and>
          js_opens E (je_observer ep) (opts\<lparr>create_if_missing := False\<rparr>)"
proof -
  let ?o = "create_transport A ch pth cap item align schema ts fl ns"
  obtain n where n: "create_options A (if ch = fixed then CHANNEL_FIXED else CHANNEL_VARLEN) (JObject ps) = Inr n"
      "js_opens E (Some n) ?o" "js_opens E (Some (AList.update ''createIfMissing'' (JBoolean False) n)) (?o\<lparr>create_if_missing := False\<rparr>)"
    by (rule create_options_given [OF assms(1,2,4)])
  from n(2) obtain m c where m: "normalizeOptions (JObject n) = Inr m" "options_from_js E (JObject m) = Inr c" and c: "to_cpp_options c = ?o"
    by (auto simp: js_opens_def)
  have same: "validate_producer_transport_options p A (to_cpp_options c) = validate_transport_options p A (to_cpp_options c)"
    "validate_consumer_transport_options p A (to_cpp_options c) = validate_transport_options p A (to_cpp_options c)"
    unfolding c by (rule create_transport_valid [OF assms(3)])+
  note v = validate_for_kind [OF assms(1) m _ same, unfolded c]
  obtain r1 g1 where p1: "validateOptionsFor E p A (js_num ENDPOINT_PRODUCER) (JObject n) g = Some (r1, g1)"
    "case validate_transport_options p A ?o of
       Inl e \<Rightarrow> \<exists>err. r1 = Inl (Xproc_error err) \<and> xe_status err = status_code STATUS_INVALID_ARGUMENT
     | Inr _ \<Rightarrow> r1 = Inr (JBoolean True)" using v [OF disjI1 [OF refl]] by blast
  obtain r2 g2 where p2: "validateOptionsFor E p A (js_num ENDPOINT_CONSUMER) (JObject n) g1 = Some (r2, g2)"
    "case validate_transport_options p A ?o of
       Inl e \<Rightarrow> \<exists>err. r2 = Inl (Xproc_error err) \<and> xe_status err = status_code STATUS_INVALID_ARGUMENT
     | Inr _ \<Rightarrow> r2 = Inr (JBoolean True)" using v [OF disjI2 [OF refl]] by blast
  show ?thesis
  proof (cases "validate_transport_options p A ?o")
    case (Inl e)
    with p1 n(1) show ?thesis by (auto simp: checked_def checked_endpoints_def)
  next
    case (Inr u)
    with p1 p2 n show ?thesis by (auto simp: checked_def checked_endpoints_def makeShmEndpoints_def)
  qed
qed

text \<open>
  A channel of the builder and what a constructor of the package returned: a refusal with the status invalid_argument, or
  the objects for the three kinds of endpoints that open the builder's options for them.
\<close>

definition same_channel :: "napi \<Rightarrow> exn + shm_channel_endpoints \<Rightarrow> ((js_error + js_endpoints) \<times> capi) option \<Rightarrow> bool" where
  "same_channel E cxx js \<longleftrightarrow>
     (case cxx of
        Inl e \<Rightarrow> \<exists>err g'. js = Some (Inl (Xproc_error err), g') \<and> xe_status err = status_code STATUS_INVALID_ARGUMENT
      | Inr se \<Rightarrow> \<exists>ep g'. js = Some (Inr ep, g') \<and> js_opens E (je_producer ep) (producer_options se) \<and>
          js_opens E (je_consumer ep) (consumer_options se) \<and> js_opens E (je_observer ep) (observer_options se))"

lemmas same_channel_defs = same_channel_def producer_options_def consumer_options_def observer_options_def

text \<open>
  C35. The channel constructors of the Node.js package agree with the C++ builders. For an argument whose properties ask for what
  a builder was told, \<open>createFixedChannel\<close> and \<open>createVarlenChannel\<close> throw an invalid_argument error exactly when the builder throws,
  and otherwise return endpoints whose constructors open the very options of the builder's producer, consumer and
  observer. This holds whenever the size of the segment for the capacity does not wrap around to 0.
\<close>

theorem node_channels_agree:
  assumes "napi_spec E" and "asks_fixed ps b cap" and "shm_size_for_data_capacity A cap \<noteq> 0"
    and "asks_varlen qs d cap2" and "shm_size_for_data_capacity A cap2 \<noteq> 0"
  shows "same_channel E (fixed_builder_create p A b cap) (createFixedChannel E p A (JObject ps) g) \<and>
    same_channel E (varlen_builder_create p A d cap2) (createVarlenChannel E p A (JObject qs) g)"
proof
  from assms(2) have a: "asks_common ps (fb_path b) cap (fb_data_align b) (fb_schema_id b) (fb_creator_timestamp_ns b)
      (fb_creator_flags b) (fb_win32_object_namespace b)"
    "if fixed = fixed then asks ps ''itemSize'' (\<lambda>v. parse_uint32 v ''itemSize'') 0 (fb_item_size b) else fb_item_size b = 0"
    by (simp_all add: asks_fixed_def)
  show "same_channel E (fixed_builder_create p A b cap) (createFixedChannel E p A (JObject ps) g)"
    using create_channel_agrees [OF assms(1) a(1) assms(3) a(2), of p g]
    by (auto simp: same_channel_defs fixed_builder_create_def fixed_builder_options_def create_transport_def createFixedChannel_def
        default_object_def split: sum.splits)
  from assms(4) have v: "asks_common qs (vb_path d) cap2 (vb_data_align d) (vb_schema_id d) (vb_creator_timestamp_ns d)
      (vb_creator_flags d) (vb_win32_object_namespace d)"
    by (simp add: asks_varlen_def)
  show "same_channel E (varlen_builder_create p A d cap2) (createVarlenChannel E p A (JObject qs) g)"
    using create_channel_agrees [OF assms(1) v assms(5), of varlen 0 p g]
    by (auto simp: same_channel_defs varlen_builder_create_def varlen_builder_options_def create_transport_def createVarlenChannel_def
        default_object_def split: sum.splits)
qed

theorem node_channels_agree_witness:
  "same_channel ref_napi (fixed_builder_create Linux ref_abi (fixed_with_schema_id 7 (make_fixed_channel ''/x'' 8)) 64)
     (createFixedChannel ref_napi Linux ref_abi
       (JObject [(''path'', JString ''/x''), (''itemSize'', js_num 8), (''dataCapacity'', js_num 64), (''schemaId'', JBigInt 7)]) ref_capi) \<and>
   same_channel ref_napi (varlen_builder_create Linux ref_abi (make_varlen_channel ''/v'') 64)
     (createVarlenChannel ref_napi Linux ref_abi (JObject [(''path'', JString ''/v''), (''dataCapacity'', js_num 64)]) ref_capi)"
proof (rule node_channels_agree)
  have num: "parse_uint64 (js_num 64) ''dataCapacity'' = Inr 64" "parse_uint64 (JBigInt 7) ''schemaId'' = Inr 7"
    "parse_uint32 (js_num 8) ''itemSize'' = Inr 8"
    using parse_uint64_num [of 64 "''dataCapacity''"] parse_uint64_bigint [of 7 "''schemaId''"] parse_uint32_num [of 8 "''itemSize''"]
    by simp_all
  show "asks_fixed [(''path'', JString ''/x''), (''itemSize'', js_num 8), (''dataCapacity'', js_num 64), (''schemaId'', JBigInt 7)]
      (fixed_with_schema_id 7 (make_fixed_channel ''/x'' 8)) 64"
    by (simp add: asks_fixed_def asks_common_def asks_known given_def given_string_def obj_get_def num fixed_with_schema_id_def
        make_fixed_channel_def)
  show "asks_varlen [(''path'', JString ''/v''), (''dataCapacity'', js_num 64)] (make_varlen_channel ''/v'') 64"
    by (simp add: asks_varlen_def asks_common_def asks_known given_def given_string_def obj_get_def num make_varlen_channel_def)
qed (simp_all add: ref_abi_def shm_size_for_data_capacity_def min_shm_size_def)

end
