(* ===== verification/Utf8.thy ===== *)
theory Utf8
  imports Xproc_Prelude
begin

text \<open>
  Strings of the language bindings, as the lists of their UTF-8 bytes: decoding the bytes of a C string replaces what is not
  UTF-8 (\<open>CStr::to_string_lossy\<close> of Rust, \<open>Marshal.PtrToStringUTF8\<close> of .NET), and leaves valid UTF-8 as it is.
\<close>

text \<open>
  The length of the next character, or of the longest beginning of one if it is broken off, and whether it is complete.
\<close>

definition byte_in :: "nat \<Rightarrow> nat \<Rightarrow> string \<Rightarrow> nat \<Rightarrow> bool" where
  "byte_in lo hi s i = (i < length s \<and> lo \<le> of_char (s ! i) \<and> of_char (s ! i) \<le> hi)"

definition utf8_second :: "string \<Rightarrow> bool" where
  "utf8_second s =
     (if byte_in 0xE0 0xE0 s 0 then byte_in 0xA0 0xBF s 1
      else if byte_in 0xED 0xED s 0 then byte_in 0x80 0x9F s 1
      else if byte_in 0xF0 0xF0 s 0 then byte_in 0x90 0xBF s 1
      else if byte_in 0xF4 0xF4 s 0 then byte_in 0x80 0x8F s 1
      else byte_in 0x80 0xBF s 1)"

definition utf8_next :: "string \<Rightarrow> nat \<times> bool" where
  "utf8_next s =
     (if byte_in 0 0x7F s 0 then (1, True)
      else if byte_in 0xC2 0xDF s 0 then (if utf8_second s then (2, True) else (1, False))
      else if byte_in 0xE0 0xEF s 0
      then (if \<not> utf8_second s then (1, False) else if \<not> byte_in 0x80 0xBF s 2 then (2, False) else (3, True))
      else if byte_in 0xF0 0xF4 s 0
      then (if \<not> utf8_second s then (1, False) else if \<not> byte_in 0x80 0xBF s 2 then (2, False)
            else if \<not> byte_in 0x80 0xBF s 3 then (3, False) else (4, True))
      else (1, False))"

lemma utf8_next_pos [simp]: "fst (utf8_next s) > 0"
  by (simp add: utf8_next_def)

function to_string_lossy :: "string \<Rightarrow> string" where
  "to_string_lossy s =
     (if s = [] then []
      else (if snd (utf8_next s) then take (fst (utf8_next s)) s else [CHR 0xEF, CHR 0xBF, CHR 0xBD]) @
           to_string_lossy (drop (fst (utf8_next s)) s))"
  by pat_completeness auto
termination by (relation "measure length") auto

declare to_string_lossy.simps [simp del]

function valid_utf8 :: "string \<Rightarrow> bool" where
  "valid_utf8 s = (if s = [] then True else snd (utf8_next s) \<and> valid_utf8 (drop (fst (utf8_next s)) s))"
  by pat_completeness auto
termination by (relation "measure length") auto

declare valid_utf8.simps [simp del]

lemma to_string_lossy_valid: "valid_utf8 s \<Longrightarrow> to_string_lossy s = s"
proof (induction s rule: valid_utf8.induct)
  case (1 s)
  show ?case
  proof (cases "s = []")
    case False
    with 1(2) have "snd (utf8_next s)" "valid_utf8 (drop (fst (utf8_next s)) s)" by (simp_all add: valid_utf8.simps [of s])
    with 1(1) False show ?thesis by (simp add: to_string_lossy.simps [of s])
  qed (simp add: to_string_lossy.simps)
qed

end
