(* ===== verification/Rust_Binding.thy ===== *)
theory Rust_Binding
  imports Copy_Protocol Utf8
begin

text \<open>
  The safe Rust wrapper \<open>rust/xproc/src/lib.rs\<close> over the C interface.

  A Rust string is the list of its UTF-8 bytes; a \<open>Result\<close> is \<open>XprocError + 'a\<close>. The raw pointer in an endpoint is the handle of
  \<open>Capi\<close>, with the state behind it. As there, \<open>None\<close> is a call that blocks for ever or runs into undefined behaviour.
\<close>

section \<open>Types\<close>

datatype Backend = SharedMemory | Socket

datatype ChannelType = Fixed | Varlen

datatype EndpointKind = Producer_kind | Consumer_kind | Observer_kind

datatype Status =
    Ok | Again | BufferTooSmall | InvalidArgument | LogicError | LayoutError | RuntimeError | NoMemory | InternalError

datatype LayoutError =
    No_error | NotAttached | BadMagic | NotReadyTimeout | VersionMismatch | HeaderSizeMismatch | LayoutTypeMismatch
  | FixedItemSizeMismatch | SchemaIdMismatch | AlignmentInvalid | CapacityInsufficient | FixedItemSizeIncompatible

record XprocError =
  re_status :: Status
  re_layout_error :: LayoutError
  re_message :: string

record rust_options =
  ro_backend :: Backend
  ro_path :: "string option"
  ro_shm_size :: u64
  ro_item_size :: u32
  ro_data_align :: u32
  ro_schema_id :: u64
  ro_creator_timestamp_ns :: u64
  ro_creator_flags :: u64
  ro_create_if_missing :: bool
  ro_channel_type :: ChannelType
  ro_win32_object_namespace :: "string option"
  ro_socket_host :: "string option"
  ro_socket_port :: u16
  ro_socket_listen :: bool
  ro_socket_connect_retries :: int
  ro_socket_connect_retry_ms :: int

record rust_snapshot =
  rs_write_pos :: u64
  rs_read_pos :: u64
  rs_commit_pos :: u64
  rs_commit_seq :: u32
  rs_read_wake_seq :: u32
  rs_attach_count :: u32
  rs_producer_pid :: int

record MessageMeta =
  rm_user_data :: u64
  rm_timestamp_ns :: u64
  rm_schema_id :: u32
  rm_flags :: u32

definition MessageMeta_default :: MessageMeta where
  "MessageMeta_default = \<lparr>rm_user_data = 0, rm_timestamp_ns = 0, rm_schema_id = 0, rm_flags = 0\<rparr>"

type_synonym 'a result = "XprocError + 'a"

section \<open>Errors\<close>

definition status_string :: "xproc_c_status \<Rightarrow> string" where
  "status_string status = to_string_lossy (xproc_c_status_string (status_code status))"

fun endpoint_kind_to_raw :: "EndpointKind \<Rightarrow> int" where
  "endpoint_kind_to_raw Producer_kind = ENDPOINT_PRODUCER"
| "endpoint_kind_to_raw Consumer_kind = ENDPOINT_CONSUMER"
| "endpoint_kind_to_raw Observer_kind = ENDPOINT_OBSERVER"

fun status_from_raw :: "xproc_c_status \<Rightarrow> Status" where
  "status_from_raw STATUS_OK = Ok"
| "status_from_raw STATUS_AGAIN = Again"
| "status_from_raw STATUS_BUFFER_TOO_SMALL = BufferTooSmall"
| "status_from_raw STATUS_INVALID_ARGUMENT = InvalidArgument"
| "status_from_raw STATUS_LOGIC_ERROR = LogicError"
| "status_from_raw STATUS_LAYOUT_ERROR = LayoutError"
| "status_from_raw STATUS_RUNTIME_ERROR = RuntimeError"
| "status_from_raw STATUS_NO_MEMORY = NoMemory"
| "status_from_raw STATUS_INTERNAL_ERROR = InternalError"

fun layout_error_from_raw :: "xproc_c_layout_error \<Rightarrow> LayoutError" where
  "layout_error_from_raw LAYOUT_ERROR_NONE = No_error"
| "layout_error_from_raw LAYOUT_ERROR_NOT_ATTACHED = NotAttached"
| "layout_error_from_raw LAYOUT_ERROR_BAD_MAGIC = BadMagic"
| "layout_error_from_raw LAYOUT_ERROR_NOT_READY_TIMEOUT = NotReadyTimeout"
| "layout_error_from_raw LAYOUT_ERROR_VERSION_MISMATCH = VersionMismatch"
| "layout_error_from_raw LAYOUT_ERROR_HEADER_SIZE_MISMATCH = HeaderSizeMismatch"
| "layout_error_from_raw LAYOUT_ERROR_LAYOUT_TYPE_MISMATCH = LayoutTypeMismatch"
| "layout_error_from_raw LAYOUT_ERROR_FIXED_ITEM_SIZE_MISMATCH = FixedItemSizeMismatch"
| "layout_error_from_raw LAYOUT_ERROR_SCHEMA_ID_MISMATCH = SchemaIdMismatch"
| "layout_error_from_raw LAYOUT_ERROR_ALIGNMENT_INVALID = AlignmentInvalid"
| "layout_error_from_raw LAYOUT_ERROR_CAPACITY_INSUFFICIENT = CapacityInsufficient"
| "layout_error_from_raw LAYOUT_ERROR_FIXED_ITEM_SIZE_INCOMPATIBLE = FixedItemSizeIncompatible"

definition last_error :: "xproc_c_status \<Rightarrow> capi \<Rightarrow> XprocError" where
  "last_error status g =
     (let layout_error = xproc_c_last_layout_error g;
          text_of = to_string_lossy (c_str (xproc_c_last_error_message g));
          message = (if text_of = [] then status_string status else text_of)
      in \<lparr>re_status = status_from_raw status, re_layout_error = layout_error_from_raw layout_error, re_message = message\<rparr>)"

definition into_result :: "xproc_c_status \<Rightarrow> capi \<Rightarrow> unit result" where
  "into_result status g = (if status = STATUS_OK then Inr () else Inl (last_error status g))"

definition cstring :: "string \<Rightarrow> string result" where
  "cstring s =
     (if CHR 0x00 \<in> set s
      then Inl \<lparr>re_status = InvalidArgument, re_layout_error = No_error, re_message = ''string contains interior NUL byte''\<rparr>
      else Inr s)"

definition string_from_ptr :: "string option \<Rightarrow> string option" where
  "string_from_ptr ptr = map_option to_string_lossy ptr"

text \<open>The \<open>?\<close> operator, and \<open>map(cstring).transpose()\<close> of an optional string.\<close>

definition and_then :: "'a result \<Rightarrow> ('a \<Rightarrow> 'b result) \<Rightarrow> 'b result" where
  "and_then r f = (case r of Inl e \<Rightarrow> Inl e | Inr x \<Rightarrow> f x)"

definition cstring_option :: "string option \<Rightarrow> string option result" where
  "cstring_option s = (case s of None \<Rightarrow> Inr None | Some x \<Rightarrow> and_then (cstring x) (\<lambda>y. Inr (Some y)))"

section \<open>Options\<close>

definition from_raw_borrowed :: "xproc_c_options \<Rightarrow> rust_options" where
  "from_raw_borrowed raw =
     \<lparr>ro_backend = (if c_backend raw = BACKEND_SOCKET then Socket else SharedMemory),
      ro_path = string_from_ptr (c_path raw), ro_shm_size = c_shm_size raw, ro_item_size = c_item_size raw,
      ro_data_align = c_data_align raw, ro_schema_id = c_schema_id raw, ro_creator_timestamp_ns = c_creator_timestamp_ns raw,
      ro_creator_flags = c_creator_flags raw, ro_create_if_missing = (c_create_if_missing raw \<noteq> 0),
      ro_channel_type = (if c_channel_type raw = CHANNEL_VARLEN then Varlen else Fixed),
      ro_win32_object_namespace = string_from_ptr (c_win32_object_namespace raw),
      ro_socket_host = string_from_ptr (c_socket_host raw), ro_socket_port = c_socket_port raw,
      ro_socket_listen = (c_socket_listen raw \<noteq> 0), ro_socket_connect_retries = c_socket_connect_retries raw,
      ro_socket_connect_retry_ms = c_socket_connect_retry_ms raw\<rparr>"

definition to_raw :: "rust_options \<Rightarrow> xproc_c_options result" where
  "to_raw self =
     and_then (cstring_option (ro_path self)) (\<lambda>pth.
     and_then (cstring_option (ro_win32_object_namespace self)) (\<lambda>ns.
     and_then (cstring_option (ro_socket_host self)) (\<lambda>host.
       Inr \<lparr>c_backend = (case ro_backend self of SharedMemory \<Rightarrow> BACKEND_SHARED_MEMORY | Socket \<Rightarrow> BACKEND_SOCKET),
            c_path = pth, c_shm_size = ro_shm_size self, c_item_size = ro_item_size self, c_data_align = ro_data_align self,
            c_schema_id = ro_schema_id self, c_creator_timestamp_ns = ro_creator_timestamp_ns self,
            c_creator_flags = ro_creator_flags self, c_create_if_missing = (if ro_create_if_missing self then 1 else 0),
            c_channel_type = (case ro_channel_type self of Fixed \<Rightarrow> CHANNEL_FIXED | Varlen \<Rightarrow> CHANNEL_VARLEN),
            c_win32_object_namespace = ns, c_socket_host = host, c_socket_port = ro_socket_port self,
            c_socket_listen = (if ro_socket_listen self then 1 else 0),
            c_socket_connect_retries = ro_socket_connect_retries self,
            c_socket_connect_retry_ms = ro_socket_connect_retry_ms self\<rparr>)))"

definition Options_default :: rust_options where
  "Options_default = from_raw_borrowed xproc_c_options_init"

definition with_path :: "string \<Rightarrow> rust_options \<Rightarrow> rust_options" where
  "with_path x self = self\<lparr>ro_path := Some x\<rparr>"

definition with_channel_type :: "ChannelType \<Rightarrow> rust_options \<Rightarrow> rust_options" where
  "with_channel_type x self = self\<lparr>ro_channel_type := x\<rparr>"

definition with_item_size :: "u32 \<Rightarrow> rust_options \<Rightarrow> rust_options" where
  "with_item_size x self = self\<lparr>ro_item_size := x\<rparr>"

definition with_schema_id :: "u64 \<Rightarrow> rust_options \<Rightarrow> rust_options" where
  "with_schema_id x self = self\<lparr>ro_schema_id := x\<rparr>"

definition with_creator_timestamp_ns :: "u64 \<Rightarrow> rust_options \<Rightarrow> rust_options" where
  "with_creator_timestamp_ns x self = self\<lparr>ro_creator_timestamp_ns := x\<rparr>"

definition with_creator_flags :: "u64 \<Rightarrow> rust_options \<Rightarrow> rust_options" where
  "with_creator_flags x self = self\<lparr>ro_creator_flags := x\<rparr>"

definition with_shm_size :: "u64 \<Rightarrow> rust_options \<Rightarrow> rust_options" where
  "with_shm_size x self = self\<lparr>ro_shm_size := x\<rparr>"

definition with_shm_size_for_data_capacity :: "abi \<Rightarrow> u64 \<Rightarrow> rust_options \<Rightarrow> rust_options" where
  "with_shm_size_for_data_capacity A cap self = with_shm_size (xproc_c_shm_size_for_data_capacity A cap) self"

definition with_infer_existing_shm_size :: "rust_options \<Rightarrow> rust_options" where
  "with_infer_existing_shm_size self = self\<lparr>ro_shm_size := 0\<rparr>"

definition with_create_if_missing :: "bool \<Rightarrow> rust_options \<Rightarrow> rust_options" where
  "with_create_if_missing x self = self\<lparr>ro_create_if_missing := x\<rparr>"

definition rust_validate_options_for ::
  "platform \<Rightarrow> abi \<Rightarrow> EndpointKind \<Rightarrow> rust_options \<Rightarrow> capi \<Rightarrow> (unit result \<times> capi) option" where
  "rust_validate_options_for p A kind options g =
     (case to_raw options of
        Inl e \<Rightarrow> Some (Inl e, g)
      | Inr raw \<Rightarrow>
          map_option (\<lambda>(st, g1). (into_result st g1, g1)) (xproc_c_validate_options_for p A (endpoint_kind_to_raw kind) (Some raw) g))"

definition rust_shm_unlink :: "(string \<Rightarrow> 'k \<Rightarrow> 'k) \<Rightarrow> string \<Rightarrow> 'k \<Rightarrow> capi \<Rightarrow> unit result \<times> 'k \<times> capi" where
  "rust_shm_unlink unlink pth k g =
     (case cstring pth of
        Inl e \<Rightarrow> (Inl e, k, g)
      | Inr s \<Rightarrow> (case xproc_c_shm_unlink unlink (Some s) k g of (st, k1, g1) \<Rightarrow> (into_result st g1, k1, g1)))"

definition rust_read_existing_shm_options ::
  "platform \<Rightarrow> abi \<Rightarrow> ('s, 'k) shm_backend \<Rightarrow> ('k \<Rightarrow> 'k) \<Rightarrow> string \<Rightarrow> string option \<Rightarrow> 'k \<Rightarrow> capi
   \<Rightarrow> (rust_options result \<times> 'k \<times> capi) option" where
  "rust_read_existing_shm_options p A B sleep pth ns k g =
     (case and_then (cstring pth) (\<lambda>s. and_then (cstring_option ns) (\<lambda>n. Inr (s, n))) of
        Inl e \<Rightarrow> Some (Inl e, k, g)
      | Inr (s, n) \<Rightarrow>
          map_option (\<lambda>(st, out, k1, g1). (and_then (into_result st g1) (\<lambda>_. Inr (from_raw_borrowed (the out))), k1, g1))
            (xproc_c_shm_read_existing_options p A B sleep (Some s) n (Some c_options_zero) k g))"

section \<open>Producers\<close>

text \<open>The common parts of the methods: a status, and a status with a value.\<close>

definition status_only ::
  "(xproc_c_status \<times> 'h \<times> 'm \<times> capi) option \<Rightarrow> (unit result \<times> 'h \<times> 'm \<times> capi) option" where
  "status_only x = map_option (\<lambda>(st, h, md, g). (into_result st g, h, md, g)) x"

definition status_value :: "('a \<Rightarrow> 'b) \<Rightarrow> xproc_c_status \<times> 'a option \<times> capi \<Rightarrow> 'b result \<times> capi" where
  "status_value f x = (case x of (st, out, g) \<Rightarrow> (and_then (into_result st g) (\<lambda>_. Inr (f (the out))), g))"

definition Producer_open ::
  "platform \<Rightarrow> abi \<Rightarrow> init_fn \<Rightarrow> int \<Rightarrow> ('s, 'k) shm_backend \<Rightarrow> 'n sockets \<Rightarrow> rust_options \<Rightarrow> 'k \<Rightarrow> 'n \<Rightarrow> capi
   \<Rightarrow> ('s xproc_c_producer option result \<times> 'k \<times> 'n \<times> capi) option" where
  "Producer_open p A init pid B N options k n g =
     (case to_raw options of
        Inl e \<Rightarrow> Some (Inl e, k, n, g)
      | Inr raw \<Rightarrow>
          map_option (\<lambda>(st, out, k1, n1, g1). (and_then (into_result st g1) (\<lambda>_. Inr (the out)), k1, n1, g1))
            (xproc_c_producer_open p A init pid B N (Some raw) (Some None) k n g))"

definition Producer_get_options :: "'s xproc_c_producer option \<Rightarrow> capi \<Rightarrow> rust_options result \<times> capi" where
  "Producer_get_options handle g = status_value from_raw_borrowed (xproc_c_producer_options handle (Some c_options_zero) g)"

definition Producer_send_fixed_bytes ::
  "platform \<Rightarrow> spscring \<Rightarrow> 'n sockets \<Rightarrow> (nat \<Rightarrow> segment \<Rightarrow> segment) \<Rightarrow> byte list \<Rightarrow> 's xproc_c_producer option \<Rightarrow> 'n medium \<Rightarrow> capi
   \<Rightarrow> (unit result \<times> 's xproc_c_producer option \<times> 'n medium \<times> capi) option" where
  "Producer_send_fixed_bytes p R N env payload handle md g =
     status_only (xproc_c_producer_send_fixed_bytes p R N env handle (Some payload) (of_nat (length payload)) md g)"

definition Producer_send_fixed_sized ::
  "platform \<Rightarrow> spscring \<Rightarrow> 'n sockets \<Rightarrow> (nat \<Rightarrow> segment \<Rightarrow> segment) \<Rightarrow> byte list \<Rightarrow> 's xproc_c_producer option \<Rightarrow> 'n medium \<Rightarrow> capi
   \<Rightarrow> (unit result \<times> 's xproc_c_producer option \<times> 'n medium \<times> capi) option" where
  "Producer_send_fixed_sized p R N env payload handle md g =
     status_only (xproc_c_producer_send_fixed_sized p R N env handle (Some payload) (of_nat (length payload)) md g)"

definition Producer_send_varlen ::
  "platform \<Rightarrow> spscring \<Rightarrow> 'n sockets \<Rightarrow> u64 \<Rightarrow> byte list \<Rightarrow> 's xproc_c_producer option \<Rightarrow> 'n medium \<Rightarrow> capi
   \<Rightarrow> (unit result \<times> 's xproc_c_producer option \<times> 'n medium \<times> capi) option" where
  "Producer_send_varlen p R N ts payload handle md g =
     status_only (xproc_c_producer_send_varlen p R N ts handle (Some payload) (of_nat (length payload)) md g)"

definition raw_meta :: "MessageMeta \<Rightarrow> xproc_c_message_meta" where
  "raw_meta meta =
     \<lparr>cm_user_data = rm_user_data meta, cm_timestamp_ns = rm_timestamp_ns meta, cm_schema_id = rm_schema_id meta, cm_flags = rm_flags meta\<rparr>"

definition Producer_send_fixed_sized_with_meta ::
  "platform \<Rightarrow> spscring \<Rightarrow> 'n sockets \<Rightarrow> (nat \<Rightarrow> segment \<Rightarrow> segment) \<Rightarrow> byte list \<Rightarrow> MessageMeta \<Rightarrow> 's xproc_c_producer option \<Rightarrow> 'n medium \<Rightarrow> capi
   \<Rightarrow> (unit result \<times> 's xproc_c_producer option \<times> 'n medium \<times> capi) option" where
  "Producer_send_fixed_sized_with_meta p R N env payload meta handle md g =
     status_only (xproc_c_producer_send_fixed_sized_with_meta p R N env handle (Some payload) (of_nat (length payload))
       (Some (raw_meta meta)) md g)"

definition Producer_send_varlen_with_meta ::
  "platform \<Rightarrow> spscring \<Rightarrow> 'n sockets \<Rightarrow> u64 \<Rightarrow> byte list \<Rightarrow> MessageMeta \<Rightarrow> 's xproc_c_producer option \<Rightarrow> 'n medium \<Rightarrow> capi
   \<Rightarrow> (unit result \<times> 's xproc_c_producer option \<times> 'n medium \<times> capi) option" where
  "Producer_send_varlen_with_meta p R N ts payload meta handle md g =
     status_only (xproc_c_producer_send_varlen_with_meta p R N ts handle (Some payload) (of_nat (length payload))
       (Some (raw_meta meta)) md g)"

definition Producer_socket_port :: "'s xproc_c_producer option \<Rightarrow> capi \<Rightarrow> u16 result \<times> capi" where
  "Producer_socket_port handle g = status_value (\<lambda>x. x) (xproc_c_producer_socket_port handle (Some 0) g)"

definition Producer_drop ::
  "('s, 'k) shm_backend \<Rightarrow> 'n sockets \<Rightarrow> 's xproc_c_producer option \<Rightarrow> 'k \<Rightarrow> 'n \<Rightarrow> 'k \<times> 'n" where
  "Producer_drop B N handle k n = (if handle = None then (k, n) else xproc_c_producer_close B N handle k n)"

section \<open>Consumers\<close>

definition poll_copy_impl ::
  "'m copier \<Rightarrow> ('m \<Rightarrow> 'm) \<Rightarrow> 'm \<Rightarrow> capi \<Rightarrow> (byte list option result \<times> 'm \<times> capi) option" where
  "poll_copy_impl func env m g = two_calls (\<lambda>n. replicate n 0) take last_error func env m g"

definition Consumer_open ::
  "platform \<Rightarrow> abi \<Rightarrow> init_fn \<Rightarrow> int \<Rightarrow> ('s, 'k) shm_backend \<Rightarrow> 'n sockets \<Rightarrow> ('n \<Rightarrow> (exn + wait_interruptor) \<times> 'n) \<Rightarrow> rust_options \<Rightarrow> 'k \<Rightarrow> 'n \<Rightarrow> capi
   \<Rightarrow> ('s xproc_c_consumer option result \<times> 'k \<times> 'n \<times> capi) option" where
  "Consumer_open p A init pid B N mk_wake options k n g =
     (case to_raw options of
        Inl e \<Rightarrow> Some (Inl e, k, n, g)
      | Inr raw \<Rightarrow>
          map_option (\<lambda>(st, out, k1, n1, g1). (and_then (into_result st g1) (\<lambda>_. Inr (the out)), k1, n1, g1))
            (xproc_c_consumer_open p A init pid B N mk_wake (Some raw) (Some None) k n g))"

definition Consumer_get_options :: "'s xproc_c_consumer option \<Rightarrow> capi \<Rightarrow> rust_options result \<times> capi" where
  "Consumer_get_options handle g = status_value from_raw_borrowed (xproc_c_consumer_options handle (Some c_options_zero) g)"

definition Consumer_pending_len :: "'s xproc_c_consumer option \<Rightarrow> capi \<Rightarrow> u32 result \<times> capi" where
  "Consumer_pending_len handle g = status_value (\<lambda>x. x) (xproc_c_consumer_pending_len handle (Some 0) g)"

definition Consumer_poll_copy ::
  "platform \<Rightarrow> spscring \<Rightarrow> 'n sockets \<Rightarrow> ('s xproc_c_consumer option \<times> 'n medium \<Rightarrow> 's xproc_c_consumer option \<times> 'n medium)
   \<Rightarrow> 's xproc_c_consumer option \<times> 'n medium \<Rightarrow> capi
   \<Rightarrow> (byte list option result \<times> ('s xproc_c_consumer option \<times> 'n medium) \<times> capi) option" where
  "Consumer_poll_copy p R N env m g = poll_copy_impl (consumer_call p R N) env m g"

definition Consumer_wait ::
  "platform \<Rightarrow> 'n sockets \<Rightarrow> (u32 \<Rightarrow> segment \<Rightarrow> segment option) \<Rightarrow> 's xproc_c_consumer option \<Rightarrow> 'n medium \<Rightarrow> capi
   \<Rightarrow> (unit result \<times> 'n medium \<times> capi) option" where
  "Consumer_wait p N wait_change handle md g =
     map_option (\<lambda>(st, md1, g1). (into_result st g1, md1, g1)) (xproc_c_consumer_wait p N wait_change handle md g)"

definition Consumer_socket_port :: "'s xproc_c_consumer option \<Rightarrow> capi \<Rightarrow> u16 result \<times> capi" where
  "Consumer_socket_port handle g = status_value (\<lambda>x. x) (xproc_c_consumer_socket_port handle (Some 0) g)"

definition Consumer_drop ::
  "('s, 'k) shm_backend \<Rightarrow> 'n sockets \<Rightarrow> 's xproc_c_consumer option \<Rightarrow> 'k \<Rightarrow> 'n \<Rightarrow> 'k \<times> 'n" where
  "Consumer_drop B N handle k n = (if handle = None then (k, n) else xproc_c_consumer_close B N handle k n)"

section \<open>Observers\<close>

definition Observer_open ::
  "platform \<Rightarrow> abi \<Rightarrow> init_fn \<Rightarrow> int \<Rightarrow> ('s, 'k) shm_backend \<Rightarrow> rust_options \<Rightarrow> 'k \<Rightarrow> capi
   \<Rightarrow> ('s xproc_c_observer option result \<times> 'k \<times> capi) option" where
  "Observer_open p A init pid B options k g =
     (case to_raw options of
        Inl e \<Rightarrow> Some (Inl e, k, g)
      | Inr raw \<Rightarrow>
          map_option (\<lambda>(st, out, k1, g1). (and_then (into_result st g1) (\<lambda>_. Inr (the out)), k1, g1))
            (xproc_c_observer_open p A init pid B (Some raw) (Some None) k g))"

definition Observer_get_options :: "'s xproc_c_observer option \<Rightarrow> capi \<Rightarrow> rust_options result \<times> capi" where
  "Observer_get_options handle g = status_value from_raw_borrowed (xproc_c_observer_options handle (Some c_options_zero) g)"

definition snapshot_from_raw :: "xproc_c_snapshot \<Rightarrow> rust_snapshot" where
  "snapshot_from_raw raw =
     \<lparr>rs_write_pos = cs_write_pos raw, rs_read_pos = cs_read_pos raw, rs_commit_pos = cs_commit_pos raw, rs_commit_seq = cs_commit_seq raw,
      rs_read_wake_seq = cs_read_wake_seq raw, rs_attach_count = cs_attach_count raw, rs_producer_pid = cs_producer_pid raw\<rparr>"

definition Observer_snapshot ::
  "spscring \<Rightarrow> (nat \<Rightarrow> control_block) \<Rightarrow> 's xproc_c_observer option \<Rightarrow> capi \<Rightarrow> rust_snapshot result \<times> capi" where
  "Observer_snapshot R mem handle g =
     status_value snapshot_from_raw
       (xproc_c_observer_snapshot R mem handle
          (Some \<lparr>cs_write_pos = 0, cs_read_pos = 0, cs_commit_pos = 0, cs_commit_seq = 0, cs_read_wake_seq = 0, cs_attach_count = 0,
             cs_producer_pid = 0\<rparr>) g)"

definition Observer_peek_copy ::
  "spscring \<Rightarrow> (segment \<Rightarrow> segment) \<Rightarrow> 's xproc_c_observer option \<Rightarrow> segment \<Rightarrow> capi \<Rightarrow> (byte list option result \<times> segment \<times> capi) option" where
  "Observer_peek_copy R env handle s g = poll_copy_impl (observer_call R handle) env s g"

definition meta_from_raw :: "xproc_c_message_meta \<Rightarrow> MessageMeta" where
  "meta_from_raw meta =
     \<lparr>rm_user_data = cm_user_data meta, rm_timestamp_ns = cm_timestamp_ns meta, rm_schema_id = cm_schema_id meta, rm_flags = cm_flags meta\<rparr>"

text \<open>\<open>uninit\<close> is what the uninitialised metadata happens to hold.\<close>

definition Observer_peek_copy_with_meta ::
  "spscring \<Rightarrow> (segment \<Rightarrow> segment) \<Rightarrow> xproc_c_message_meta \<Rightarrow> 's xproc_c_observer option \<Rightarrow> segment \<Rightarrow> capi
   \<Rightarrow> ((MessageMeta \<times> byte list) option result \<times> segment \<times> capi) option" where
  "Observer_peek_copy_with_meta R env uninit handle s g =
     (case xproc_c_observer_peek_copy_with_meta R handle (Some uninit) None 0 (Some 0) s g of
        None \<Rightarrow> None
      | Some (st, out_meta, _, required_len, s1, g1) \<Rightarrow>
          if st = STATUS_AGAIN then Some (Inr None, s1, g1)
          else if st = STATUS_OK then Some (Inr (Some (MessageMeta_default, [])), s1, g1)
          else if st \<noteq> STATUS_BUFFER_TOO_SMALL then Some (and_then (into_result st g1) (\<lambda>_. Inr None), s1, g1)
          else
            (case xproc_c_observer_peek_copy_with_meta R handle out_meta (Some (replicate (unat (the required_len)) 0))
                    (the required_len) required_len (env s1) g1 of
               None \<Rightarrow> None
             | Some (st2, meta, payload, len, s2, g2) \<Rightarrow>
                 Some (and_then (into_result st2 g2) (\<lambda>_. Inr (Some (meta_from_raw (the meta), take (unat (the len)) (the payload)))), s2, g2)))"

definition Observer_occupancy_ratio :: "(nat \<Rightarrow> control_block) \<Rightarrow> 's xproc_c_observer option \<Rightarrow> capi \<Rightarrow> rat result \<times> capi" where
  "Observer_occupancy_ratio mem handle g = status_value (\<lambda>x. x) (xproc_c_observer_occupancy_ratio mem handle (Some 0) g)"

definition Observer_occupancy_bytes :: "(nat \<Rightarrow> control_block) \<Rightarrow> 's xproc_c_observer option \<Rightarrow> capi \<Rightarrow> u64 result \<times> capi" where
  "Observer_occupancy_bytes mem handle g = status_value (\<lambda>x. x) (xproc_c_observer_occupancy_bytes mem handle (Some 0) g)"

definition Observer_available_bytes :: "(nat \<Rightarrow> control_block) \<Rightarrow> 's xproc_c_observer option \<Rightarrow> capi \<Rightarrow> u64 result \<times> capi" where
  "Observer_available_bytes mem handle g = status_value (\<lambda>x. x) (xproc_c_observer_available_bytes mem handle (Some 0) g)"

definition Observer_consumer_lag_bytes :: "(nat \<Rightarrow> control_block) \<Rightarrow> 's xproc_c_observer option \<Rightarrow> capi \<Rightarrow> u64 result \<times> capi" where
  "Observer_consumer_lag_bytes mem handle g = status_value (\<lambda>x. x) (xproc_c_observer_consumer_lag_bytes mem handle (Some 0) g)"

definition Observer_drop :: "('s, 'k) shm_backend \<Rightarrow> 's xproc_c_observer option \<Rightarrow> 'k \<Rightarrow> 'k" where
  "Observer_drop B handle k = (if handle = None then k else xproc_c_observer_close B handle k)"

definition DiagnosticsTracker_create ::
  "spscring \<Rightarrow> (nat \<Rightarrow> control_block) \<Rightarrow> int \<Rightarrow> 's xproc_c_observer option \<Rightarrow> capi
   \<Rightarrow> ('s xproc_c_diagnostics_tracker option result \<times> capi) option" where
  "DiagnosticsTracker_create R mem now observer g =
     map_option (status_value (\<lambda>h. h)) (xproc_c_diagnostics_tracker_create R mem now observer (Some None) g)"

definition DiagnosticsTracker_update ::
  "spscring \<Rightarrow> (nat \<Rightarrow> control_block) \<Rightarrow> int \<Rightarrow> 's xproc_c_diagnostics_tracker option \<Rightarrow> capi
   \<Rightarrow> (unit result \<times> 's xproc_c_diagnostics_tracker option \<times> capi) option" where
  "DiagnosticsTracker_update R mem now handle g =
     map_option (\<lambda>(st, h, g1). (into_result st g1, h, g1)) (xproc_c_diagnostics_tracker_update R mem now handle g)"

definition DiagnosticsTracker_producer_alive :: "'s xproc_c_diagnostics_tracker option \<Rightarrow> capi \<Rightarrow> bool result \<times> capi" where
  "DiagnosticsTracker_producer_alive handle g = status_value (\<lambda>x. x) (xproc_c_diagnostics_tracker_producer_alive handle (Some False) g)"

definition DiagnosticsTracker_idle_ms :: "int \<Rightarrow> 's xproc_c_diagnostics_tracker option \<Rightarrow> capi \<Rightarrow> u64 result \<times> capi" where
  "DiagnosticsTracker_idle_ms now handle g = status_value (\<lambda>x. x) (xproc_c_diagnostics_tracker_idle_ms now handle (Some 0) g)"

section \<open>Options survive Rust\<close>

lemma cstring_option_valid: "pred_option (\<lambda>x. CHR 0x00 \<notin> set x) s \<Longrightarrow> cstring_option s = Inr s"
  by (cases s) (simp_all add: cstring_option_def cstring_def and_then_def)

text \<open>
  Options survive Rust: those read from an endpoint can be used to open another one, which gets exactly the options of the first.
\<close>

lemma rust_options_round_trip:
  assumes "list_all (\<lambda>s. valid_utf8 s \<and> CHR 0x00 \<notin> set s) [path opts, win32_object_namespace opts, socket_host opts]"
    and "win32_object_namespace opts \<noteq> []" and "socket_host opts \<noteq> []"
  shows "\<exists>raw. to_raw (from_raw_borrowed (fill_borrowed_options opts)) = Inr raw \<and> to_cpp_options raw = opts"
proof -
  let ?c = "fill_borrowed_options opts"
  have opt: "string_from_ptr x = x \<and> cstring_option x = Inr x" if "x \<in> {c_path ?c, c_win32_object_namespace ?c, c_socket_host ?c}" for x
    using assms(1) that
    by (auto simp: fill_borrowed_options_def string_from_ptr_def to_string_lossy_valid intro!: cstring_option_valid split: if_split_asm)
  have "to_raw (from_raw_borrowed ?c) = Inr ?c"
    by (cases "backend opts"; cases "chan_type opts")
      (simp_all add: to_raw_def from_raw_borrowed_def opt and_then_def, simp_all add: fill_borrowed_options_def c_enum_defs)
  moreover have "to_cpp_options ?c = opts"
    using assms by (cases "backend opts"; cases "chan_type opts"; cases opts) (auto simp: to_cpp_options_def fill_borrowed_options_def c_enum_defs)
  ultimately show ?thesis by blast
qed

section \<open>Polling and peeking\<close>

lemma rust_poll_copy:
  assumes "consumer_waiting p R N m ds" and "\<And>m. consumer_waiting p R N m ds \<Longrightarrow> consumer_waiting p R N (env m) (ds @ new)"
  shows "\<exists>m' g' new'. Consumer_poll_copy p R N env m g = Some (Inr (case ds of [] \<Rightarrow> None | d # _ \<Rightarrow> Some d), m', g') \<and>
      consumer_waiting p R N m' (tl ds @ new') \<and> new' \<in> {[], new}"
  unfolding Consumer_poll_copy_def poll_copy_impl_def by (rule cc.two_calls_take [OF assms]) simp_all

text \<open>
  What \<open>Observer::peek_copy\<close> returns when the queue changes between the two calls: always a whole message, or an error.
\<close>

lemma rust_peek_copy:
  assumes "observer_waiting R ob s ds" and "\<And>s. observer_waiting R ob s ds \<Longrightarrow> observer_waiting R ob (env s) ds'"
  shows "\<exists>r s' g'. Observer_peek_copy R env (Some \<lparr>cv_impl = Some ob\<rparr>) s g = Some (r, s', g') \<and>
    (case ds of
       [] \<Rightarrow> r = Inr None
     | d # _ \<Rightarrow>
         if d = [] then r = Inr (Some [])
         else
           (case ds' of
              [] \<Rightarrow> r = Inl (last_error STATUS_AGAIN g')
            | d' # _ \<Rightarrow> r = (if length d' \<le> length d then Inr (Some d') else Inl (last_error STATUS_BUFFER_TOO_SMALL g'))))"
proof -
  have [simp]: "take (length d') (buf_write 0 d' (replicate n 0)) = d'" if "length d' \<le> n" for d' n
    using that by (simp add: buf_write_def)
  from oc.two_calls_result [where env = env and fresh = "\<lambda>n. replicate n 0" and shrink = take and err = last_error and g = g, OF assms]
  show ?thesis unfolding Observer_peek_copy_def poll_copy_impl_def by (fastforce split: list.splits if_splits)
qed

text \<open>The metadata of an empty message is lost: \<open>peek_copy_with_meta\<close> returns zeros instead.\<close>

lemma rust_peek_empty_meta:
  assumes "observer_sees R (ob_opts ob) s ((meta, []) # ms)"
  shows "\<exists>s' g'. Observer_peek_copy_with_meta R env uninit (Some \<lparr>cv_impl = Some ob\<rparr>) s g =
    Some (Inr (Some (MessageMeta_default, [])), s', g')"
proof -
  from peek_seen [OF assms] obtain s' where "peek R (ob_opts ob) (\<lambda>_. None) s = (Inr True, [(meta, [])], s')" by auto
  then show ?thesis
    by (simp add: Observer_peek_copy_with_meta_def xproc_c_observer_peek_copy_with_meta_def validate_copy_args_def validate_handle_def
        peek_and_copy_def copy_message_def)
qed

end
