(* ===== verification/Python_Binding.thy ===== *)
theory Python_Binding
  imports Copy_Protocol
begin

text \<open>
  The Python module \<open>Python/src/python_binding.cpp\<close> over the C interface. It is written with pybind11, which is not part of the
  repository: what that makes of a Python string is the parameter \<open>utf8\<close> (\<open>None\<close> if the string cannot be encoded).

  A buffer object is the memory it exports, with the position, the shape and the strides that its protocol reports. A method takes
  the native handle of its object, \<open>None\<close> once closed; a result \<open>None\<close> is a call that blocks for ever or undefined behaviour.
\<close>

section \<open>Values and errors\<close>

record py_buffer =
  pb_block :: "byte list"
  pb_offset :: nat
  pb_shape :: "nat list"
  pb_strides :: "int list"
  pb_itemsize :: nat
  pb_readonly :: bool

datatype py = PyNone | PyInt int | PyStr string | PyBytes "byte list" | PyBuffer py_buffer | PyObject

record status_error =
  se_status :: xproc_c_status
  se_layout_error :: xproc_c_layout_error
  se_message :: string

datatype py_error = Py_value_error string | Py_type_error string | Py_runtime_error string | Py_status_error status_error | Pybind_error

definition throw_status :: "string \<Rightarrow> xproc_c_status \<Rightarrow> capi \<Rightarrow> py_error" where
  "throw_status context status g =
     (let layout_error = xproc_c_last_layout_error g;
          raw = c_str (xproc_c_last_error_message g);
          message = context @ '': '' @ (if raw \<noteq> [] then raw else xproc_c_status_string (status_code status));
          message = (if layout_error \<noteq> LAYOUT_ERROR_NONE
                     then message @ '' (layout_error='' @ xproc_c_layout_error_string (layout_error_code layout_error) @ '')'' else message)
      in Py_status_error \<lparr>se_status = status, se_layout_error = layout_error, se_message = message\<rparr>)"

definition require_status_ok :: "string \<Rightarrow> xproc_c_status \<Rightarrow> capi \<Rightarrow> py_error + unit" where
  "require_status_ok context status g = (if status \<noteq> STATUS_OK then Inl (throw_status context status g) else Inr ())"

definition require_open :: "string \<Rightarrow> 'h option \<Rightarrow> py_error + unit" where
  "require_open context handle = (if handle = None then Inl (Py_runtime_error (context @ '': handle is closed'')) else Inr ())"

definition py_bind :: "py_error + 'a \<Rightarrow> ('a \<Rightarrow> py_error + 'b) \<Rightarrow> py_error + 'b" where
  "py_bind r f = (case r of Inl e \<Rightarrow> Inl e | Inr x \<Rightarrow> f x)"

section \<open>Options\<close>

record py_options =
  po_backend :: int
  po_path :: "string option"
  po_shm_size :: u64
  po_item_size :: u32
  po_data_align :: u32
  po_schema_id :: u64
  po_creator_timestamp_ns :: u64
  po_creator_flags :: u64
  po_create_if_missing :: bool
  po_channel_type :: int
  po_win32_object_namespace :: "string option"
  po_socket_host :: "string option"
  po_socket_port :: u16
  po_socket_listen :: bool
  po_socket_connect_retries :: int
  po_socket_connect_retry_ms :: int

definition make_transport_options :: "xproc_c_options \<Rightarrow> py_options" where
  "make_transport_options options =
     \<lparr>po_backend = c_backend options, po_path = c_path options, po_shm_size = c_shm_size options, po_item_size = c_item_size options,
      po_data_align = c_data_align options, po_schema_id = c_schema_id options,
      po_creator_timestamp_ns = c_creator_timestamp_ns options, po_creator_flags = c_creator_flags options,
      po_create_if_missing = (c_create_if_missing options \<noteq> 0), po_channel_type = c_channel_type options,
      po_win32_object_namespace = c_win32_object_namespace options, po_socket_host = c_socket_host options,
      po_socket_port = c_socket_port options, po_socket_listen = (c_socket_listen options \<noteq> 0),
      po_socket_connect_retries = c_socket_connect_retries options,
      po_socket_connect_retry_ms = c_socket_connect_retry_ms options\<rparr>"

definition TransportOptions :: py_options where
  "TransportOptions =
     (let defaults = xproc_c_options_init in
      \<lparr>po_backend = c_backend defaults, po_path = None, po_shm_size = c_shm_size defaults, po_item_size = c_item_size defaults,
       po_data_align = c_data_align defaults, po_schema_id = c_schema_id defaults,
       po_creator_timestamp_ns = c_creator_timestamp_ns defaults, po_creator_flags = c_creator_flags defaults,
       po_create_if_missing = (c_create_if_missing defaults \<noteq> 0), po_channel_type = c_channel_type defaults,
       po_win32_object_namespace = c_win32_object_namespace defaults, po_socket_host = c_socket_host defaults,
       po_socket_port = c_socket_port defaults, po_socket_listen = (c_socket_listen defaults \<noteq> 0),
       po_socket_connect_retries = c_socket_connect_retries defaults,
       po_socket_connect_retry_ms = c_socket_connect_retry_ms defaults\<rparr>)"

definition marshalled_options :: "py_options \<Rightarrow> xproc_c_options" where
  "marshalled_options options =
     \<lparr>c_backend = po_backend options, c_path = map_option c_str (po_path options), c_shm_size = po_shm_size options,
      c_item_size = po_item_size options, c_data_align = po_data_align options, c_schema_id = po_schema_id options,
      c_creator_timestamp_ns = po_creator_timestamp_ns options, c_creator_flags = po_creator_flags options,
      c_create_if_missing = (if po_create_if_missing options then 1 else 0), c_channel_type = po_channel_type options,
      c_win32_object_namespace = map_option c_str (po_win32_object_namespace options),
      c_socket_host = map_option c_str (po_socket_host options), c_socket_port = po_socket_port options,
      c_socket_listen = (if po_socket_listen options then 1 else 0),
      c_socket_connect_retries = po_socket_connect_retries options,
      c_socket_connect_retry_ms = po_socket_connect_retry_ms options\<rparr>"

definition backend_name :: "int \<Rightarrow> string" where
  "backend_name b =
     (if b = BACKEND_SHARED_MEMORY then ''Backend.SHARED_MEMORY''
      else if b = BACKEND_SOCKET then ''Backend.SOCKET'' else ''Backend.UNKNOWN'')"

definition channel_type_name :: "int \<Rightarrow> string" where
  "channel_type_name t =
     (if t = CHANNEL_FIXED then ''ChannelType.FIXED''
      else if t = CHANNEL_VARLEN then ''ChannelType.VARLEN'' else ''ChannelType.UNKNOWN'')"

definition repr_transport_options :: "py_options \<Rightarrow> string" where
  "repr_transport_options options =
     ''TransportOptions('' @
     ''backend='' @ backend_name (po_backend options) @
     '', path='' @ (case po_path options of None \<Rightarrow> ''None'' | Some s \<Rightarrow> [CHR 0x27] @ s @ [CHR 0x27]) @
     '', shm_size='' @ nat_to_string (unat (po_shm_size options)) @
     '', item_size='' @ nat_to_string (unat (po_item_size options)) @
     '', data_align='' @ nat_to_string (unat (po_data_align options)) @
     '', schema_id='' @ nat_to_string (unat (po_schema_id options)) @
     '', creator_timestamp_ns='' @ nat_to_string (unat (po_creator_timestamp_ns options)) @
     '', creator_flags='' @ nat_to_string (unat (po_creator_flags options)) @
     '', create_if_missing='' @ (if po_create_if_missing options then ''True'' else ''False'') @
     '', channel_type='' @ channel_type_name (po_channel_type options) @ '')''"

record py_snapshot =
  ps_write_pos :: u64
  ps_read_pos :: u64
  ps_commit_seq :: u32
  ps_read_wake_seq :: u32
  ps_attach_count :: u32
  ps_producer_pid :: int

definition repr_snapshot :: "py_snapshot \<Rightarrow> string" where
  "repr_snapshot s =
     ''Snapshot(write_pos='' @ nat_to_string (unat (ps_write_pos s)) @ '', read_pos='' @ nat_to_string (unat (ps_read_pos s)) @
     '', commit_seq='' @ nat_to_string (unat (ps_commit_seq s)) @ '', read_wake_seq='' @ nat_to_string (unat (ps_read_wake_seq s)) @
     '', attach_count='' @ nat_to_string (unat (ps_attach_count s)) @
     '', producer_pid='' @ int_to_string (ps_producer_pid s) @ '')''"

section \<open>Payloads\<close>

definition narrow_size :: "nat \<Rightarrow> string \<Rightarrow> py_error + u32" where
  "narrow_size n context =
     (if n > 2 ^ 32 - 1 then Inl (Py_value_error (context @ '': payload exceeds uint32 message limit'')) else Inr (of_nat n))"

text \<open>\<open>info.size * info.itemsize\<close>, and the memory from \<open>info.ptr\<close> on.\<close>

definition buffer_bytes :: "py_buffer \<Rightarrow> nat" where
  "buffer_bytes b = prod_list (pb_shape b) * pb_itemsize b"

definition buffer_memory :: "py_buffer \<Rightarrow> byte list" where
  "buffer_memory b = drop (pb_offset b) (pb_block b)"

text \<open>The type errors of the buffer protocol, the one for a buffer without dimensions included, are caught and replaced by the last one.\<close>

definition coerce_message :: "(string \<Rightarrow> string option) \<Rightarrow> py \<Rightarrow> string \<Rightarrow> py_error + byte list \<times> u32" where
  "coerce_message utf8 v context =
     (case v of
        PyStr s \<Rightarrow>
          (case utf8 s of
             None \<Rightarrow> Inl Pybind_error
           | Some owned \<Rightarrow> py_bind (narrow_size (length owned) context) (\<lambda>len. Inr (bytes_of owned, len)))
      | PyBytes d \<Rightarrow> py_bind (narrow_size (length d) context) (\<lambda>len. Inr (d, len))
      | PyBuffer b \<Rightarrow>
          if length (pb_shape b) < 1 then Inl (Py_type_error (context @ '': expected bytes, bytearray, memoryview, buffer, or str''))
          else py_bind (narrow_size (buffer_bytes b) context) (\<lambda>len. Inr (buffer_memory b, len))
      | _ \<Rightarrow> Inl (Py_type_error (context @ '': expected bytes, bytearray, memoryview, buffer, or str'')))"

section \<open>Producers\<close>

definition py_producer ::
  "platform \<Rightarrow> abi \<Rightarrow> init_fn \<Rightarrow> int \<Rightarrow> ('s, 'k) shm_backend \<Rightarrow> 'n sockets \<Rightarrow> py_options \<Rightarrow> 'k \<Rightarrow> 'n \<Rightarrow> capi
   \<Rightarrow> ((py_error + 's xproc_c_producer option) \<times> 'k \<times> 'n \<times> capi) option" where
  "py_producer p A init pid B N options k n g =
     map_option (\<lambda>(st, out, k1, n1, g1). (py_bind (require_status_ok ''Producer.open'' st g1) (\<lambda>_. Inr (the out)), k1, n1, g1))
       (xproc_c_producer_open p A init pid B N (Some (marshalled_options options)) (Some None) k n g)"

definition py_producer_close ::
  "('s, 'k) shm_backend \<Rightarrow> 'n sockets \<Rightarrow> 's xproc_c_producer option \<Rightarrow> 'k \<Rightarrow> 'n \<Rightarrow> 's xproc_c_producer option \<times> 'k \<times> 'n" where
  "py_producer_close B N handle k n = (if handle = None then (handle, k, n) else (None, xproc_c_producer_close B N handle k n))"

text \<open>Move assignment: what both handles are afterwards; \<open>same\<close> says that both are one object.\<close>

definition py_producer_move_assign ::
  "('s, 'k) shm_backend \<Rightarrow> 'n sockets \<Rightarrow> bool \<Rightarrow> 's xproc_c_producer option \<Rightarrow> 's xproc_c_producer option \<Rightarrow> 'k \<Rightarrow> 'n
   \<Rightarrow> 's xproc_c_producer option \<times> 's xproc_c_producer option \<times> 'k \<times> 'n" where
  "py_producer_move_assign B N same handle other k n =
     (if same then (handle, other, k, n) else (other, None, snd (py_producer_close B N handle k n)))"

text \<open>A query of an open handle.\<close>

definition py_query ::
  "string \<Rightarrow> 'h option \<Rightarrow> ('a \<Rightarrow> 'b) \<Rightarrow> (capi \<Rightarrow> xproc_c_status \<times> 'a option \<times> capi) \<Rightarrow> capi \<Rightarrow> (py_error + 'b) \<times> capi" where
  "py_query context handle f call g =
     (case require_open context handle of
        Inl e \<Rightarrow> (Inl e, g)
      | Inr _ \<Rightarrow> (case call g of (st, out, g1) \<Rightarrow> (py_bind (require_status_ok context st g1) (\<lambda>_. Inr (f (the out))), g1)))"

definition py_producer_options :: "'s xproc_c_producer option \<Rightarrow> capi \<Rightarrow> (py_error + py_options) \<times> capi" where
  "py_producer_options handle g =
     py_query ''Producer.options'' handle make_transport_options (xproc_c_producer_options handle (Some c_options_zero)) g"

text \<open>
  A send: the handle, the payload, the call. A payload whose memory ends before its length is read out of bounds.
\<close>

definition py_send ::
  "(string \<Rightarrow> string option) \<Rightarrow> string \<Rightarrow> py \<Rightarrow> 's xproc_c_producer option \<Rightarrow> 'm \<Rightarrow> capi
   \<Rightarrow> (byte list \<Rightarrow> u32 \<Rightarrow> (xproc_c_status \<times> 's xproc_c_producer option \<times> 'm \<times> capi) option)
   \<Rightarrow> ((py_error + unit) \<times> 's xproc_c_producer option \<times> 'm \<times> capi) option" where
  "py_send utf8 context v handle md g call =
     (case py_bind (require_open context handle) (\<lambda>_. coerce_message utf8 v context) of
        Inl e \<Rightarrow> Some (Inl e, handle, md, g)
      | Inr (bytes, len) \<Rightarrow>
          if length bytes < unat len then None
          else map_option (\<lambda>(st, h, md1, g1). (require_status_ok context st g1, h, md1, g1)) (call bytes len))"

definition py_send_fixed_bytes ::
  "(string \<Rightarrow> string option) \<Rightarrow> platform \<Rightarrow> spscring \<Rightarrow> 'n sockets \<Rightarrow> (nat \<Rightarrow> segment \<Rightarrow> segment) \<Rightarrow> py \<Rightarrow> 's xproc_c_producer option \<Rightarrow> 'n medium \<Rightarrow> capi
   \<Rightarrow> ((py_error + unit) \<times> 's xproc_c_producer option \<times> 'n medium \<times> capi) option" where
  "py_send_fixed_bytes utf8 p R N env v handle md g =
     py_send utf8 ''Producer.send_fixed_bytes'' v handle md g (\<lambda>bytes len.
       xproc_c_producer_send_fixed_bytes p R N env handle (Some bytes) len md g)"

definition py_send_fixed_sized ::
  "(string \<Rightarrow> string option) \<Rightarrow> platform \<Rightarrow> spscring \<Rightarrow> 'n sockets \<Rightarrow> (nat \<Rightarrow> segment \<Rightarrow> segment) \<Rightarrow> py \<Rightarrow> 's xproc_c_producer option \<Rightarrow> 'n medium \<Rightarrow> capi
   \<Rightarrow> ((py_error + unit) \<times> 's xproc_c_producer option \<times> 'n medium \<times> capi) option" where
  "py_send_fixed_sized utf8 p R N env v handle md g =
     py_send utf8 ''Producer.send_fixed_sized'' v handle md g (\<lambda>bytes len.
       xproc_c_producer_send_fixed_sized p R N env handle (Some bytes) len md g)"

definition py_send_varlen ::
  "(string \<Rightarrow> string option) \<Rightarrow> platform \<Rightarrow> spscring \<Rightarrow> 'n sockets \<Rightarrow> u64 \<Rightarrow> py \<Rightarrow> 's xproc_c_producer option \<Rightarrow> 'n medium \<Rightarrow> capi
   \<Rightarrow> ((py_error + unit) \<times> 's xproc_c_producer option \<times> 'n medium \<times> capi) option" where
  "py_send_varlen utf8 p R N ts v handle md g =
     py_send utf8 ''Producer.send_varlen'' v handle md g (\<lambda>bytes len.
       xproc_c_producer_send_varlen p R N ts handle (Some bytes) len md g)"

definition py_producer_socket_port :: "'s xproc_c_producer option \<Rightarrow> capi \<Rightarrow> (py_error + u16) \<times> capi" where
  "py_producer_socket_port handle g =
     py_query ''Producer.socket_port'' handle (\<lambda>x. x) (xproc_c_producer_socket_port handle (Some 0)) g"

section \<open>Copying\<close>

definition resize :: "nat \<Rightarrow> byte list \<Rightarrow> byte list" where
  "resize n payload = take n payload @ replicate (n - length payload) 0"

definition py_bytes :: "byte list option \<Rightarrow> py" where
  "py_bytes x = (case x of None \<Rightarrow> PyNone | Some d \<Rightarrow> PyBytes d)"

definition py_poll_copy_impl ::
  "platform \<Rightarrow> spscring \<Rightarrow> 'n sockets \<Rightarrow> ('s xproc_c_consumer option \<times> 'n medium \<Rightarrow> 's xproc_c_consumer option \<times> 'n medium) \<Rightarrow> string
   \<Rightarrow> 's xproc_c_consumer option \<times> 'n medium \<Rightarrow> capi \<Rightarrow> ((py_error + py) \<times> ('s xproc_c_consumer option \<times> 'n medium) \<times> capi) option" where
  "py_poll_copy_impl p R N env context m g =
     map_option (\<lambda>(r, x). (map_sum (\<lambda>e. e) py_bytes r, x))
       (two_calls (\<lambda>n. replicate n 0) resize (throw_status context) (consumer_call p R N) env m g)"

definition py_peek_copy_impl ::
  "spscring \<Rightarrow> (segment \<Rightarrow> segment) \<Rightarrow> string \<Rightarrow> 's xproc_c_observer option \<Rightarrow> segment \<Rightarrow> capi \<Rightarrow> ((py_error + py) \<times> segment \<times> capi) option" where
  "py_peek_copy_impl R env context handle s g =
     map_option (\<lambda>(r, x). (map_sum (\<lambda>e. e) py_bytes r, x))
       (two_calls (\<lambda>n. replicate n 0) resize (throw_status context) (observer_call R handle) env s g)"

definition copy_status_to_python :: "xproc_c_status \<Rightarrow> u32 \<Rightarrow> string \<Rightarrow> capi \<Rightarrow> py_error + py" where
  "copy_status_to_python status bytes_written context g =
     (if status = STATUS_AGAIN then Inr PyNone
      else if status = STATUS_BUFFER_TOO_SMALL
      then Inl (Py_value_error (context @ '': destination buffer is too small; required at least '' @
                  nat_to_string (unat bytes_written) @ '' bytes''))
      else py_bind (require_status_ok context status g) (\<lambda>_. Inr (PyInt (uint bytes_written))))"

text \<open>
  The copy into a buffer of the caller, with the buffer as it is afterwards. A read-only buffer is refused by pybind11; one whose
  memory ends before its size is written out of bounds.
\<close>

definition copy_into :: "'m copier \<Rightarrow> string \<Rightarrow> py_buffer \<Rightarrow> 'm \<Rightarrow> capi \<Rightarrow> ((py_error + py) \<times> py_buffer \<times> 'm \<times> capi) option" where
  "copy_into call context b m g =
     (if pb_readonly b then Some (Inl Pybind_error, b, m, g)
      else
        (let cap = buffer_bytes b in
         case narrow_size cap context of
           Inl e \<Rightarrow> Some (Inl e, b, m, g)
         | Inr n \<Rightarrow>
             if length (buffer_memory b) < cap then None
             else
               map_option (\<lambda>(st, buf, bytes_written, m1, g1).
                   (copy_status_to_python st bytes_written context g1,
                    (case buf of None \<Rightarrow> b | Some d \<Rightarrow> b\<lparr>pb_block := buf_write (pb_offset b) d (pb_block b)\<rparr>), m1, g1))
                 (call (if cap = 0 then None else Some (take cap (buffer_memory b))) n 0 m g)))"

definition poll_copy_into_impl ::
  "platform \<Rightarrow> spscring \<Rightarrow> 'n sockets \<Rightarrow> py_buffer \<Rightarrow> string \<Rightarrow> 's xproc_c_consumer option \<times> 'n medium \<Rightarrow> capi
   \<Rightarrow> ((py_error + py) \<times> py_buffer \<times> ('s xproc_c_consumer option \<times> 'n medium) \<times> capi) option" where
  "poll_copy_into_impl p R N b context m g = copy_into (consumer_call p R N) context b m g"

definition peek_copy_into_impl ::
  "spscring \<Rightarrow> py_buffer \<Rightarrow> string \<Rightarrow> 's xproc_c_observer option \<Rightarrow> segment \<Rightarrow> capi \<Rightarrow> ((py_error + py) \<times> py_buffer \<times> segment \<times> capi) option" where
  "peek_copy_into_impl R b context handle s g = copy_into (observer_call R handle) context b s g"

section \<open>Consumers and observers\<close>

definition py_consumer ::
  "platform \<Rightarrow> abi \<Rightarrow> init_fn \<Rightarrow> int \<Rightarrow> ('s, 'k) shm_backend \<Rightarrow> 'n sockets \<Rightarrow> ('n \<Rightarrow> (exn + wait_interruptor) \<times> 'n) \<Rightarrow> py_options \<Rightarrow> 'k \<Rightarrow> 'n \<Rightarrow> capi
   \<Rightarrow> ((py_error + 's xproc_c_consumer option) \<times> 'k \<times> 'n \<times> capi) option" where
  "py_consumer p A init pid B N mk_wake options k n g =
     map_option (\<lambda>(st, out, k1, n1, g1). (py_bind (require_status_ok ''Consumer.open'' st g1) (\<lambda>_. Inr (the out)), k1, n1, g1))
       (xproc_c_consumer_open p A init pid B N mk_wake (Some (marshalled_options options)) (Some None) k n g)"

definition py_consumer_close ::
  "('s, 'k) shm_backend \<Rightarrow> 'n sockets \<Rightarrow> 's xproc_c_consumer option \<Rightarrow> 'k \<Rightarrow> 'n \<Rightarrow> 's xproc_c_consumer option \<times> 'k \<times> 'n" where
  "py_consumer_close B N handle k n = (if handle = None then (handle, k, n) else (None, xproc_c_consumer_close B N handle k n))"

definition py_consumer_move_assign ::
  "('s, 'k) shm_backend \<Rightarrow> 'n sockets \<Rightarrow> bool \<Rightarrow> 's xproc_c_consumer option \<Rightarrow> 's xproc_c_consumer option \<Rightarrow> 'k \<Rightarrow> 'n
   \<Rightarrow> 's xproc_c_consumer option \<times> 's xproc_c_consumer option \<times> 'k \<times> 'n" where
  "py_consumer_move_assign B N same handle other k n =
     (if same then (handle, other, k, n) else (other, None, snd (py_consumer_close B N handle k n)))"

definition py_consumer_options :: "'s xproc_c_consumer option \<Rightarrow> capi \<Rightarrow> (py_error + py_options) \<times> capi" where
  "py_consumer_options handle g =
     py_query ''Consumer.options'' handle make_transport_options (xproc_c_consumer_options handle (Some c_options_zero)) g"

definition py_pending_len :: "'s xproc_c_consumer option \<Rightarrow> capi \<Rightarrow> (py_error + u32) \<times> capi" where
  "py_pending_len handle g = py_query ''Consumer.pending_len'' handle (\<lambda>x. x) (xproc_c_consumer_pending_len handle (Some 0)) g"

definition py_poll_copy ::
  "platform \<Rightarrow> spscring \<Rightarrow> 'n sockets \<Rightarrow> ('s xproc_c_consumer option \<times> 'n medium \<Rightarrow> 's xproc_c_consumer option \<times> 'n medium)
   \<Rightarrow> 's xproc_c_consumer option \<times> 'n medium \<Rightarrow> capi \<Rightarrow> ((py_error + py) \<times> ('s xproc_c_consumer option \<times> 'n medium) \<times> capi) option" where
  "py_poll_copy p R N env m g =
     (case require_open ''Consumer.poll_copy'' (fst m) of
        Inl e \<Rightarrow> Some (Inl e, m, g)
      | Inr _ \<Rightarrow> py_poll_copy_impl p R N env ''Consumer.poll_copy'' m g)"

definition py_poll_copy_into ::
  "platform \<Rightarrow> spscring \<Rightarrow> 'n sockets \<Rightarrow> py_buffer \<Rightarrow> 's xproc_c_consumer option \<times> 'n medium \<Rightarrow> capi
   \<Rightarrow> ((py_error + py) \<times> py_buffer \<times> ('s xproc_c_consumer option \<times> 'n medium) \<times> capi) option" where
  "py_poll_copy_into p R N b m g =
     (case require_open ''Consumer.poll_copy_into'' (fst m) of
        Inl e \<Rightarrow> Some (Inl e, b, m, g)
      | Inr _ \<Rightarrow> poll_copy_into_impl p R N b ''Consumer.poll_copy_into'' m g)"

definition py_wait ::
  "platform \<Rightarrow> 'n sockets \<Rightarrow> (u32 \<Rightarrow> segment \<Rightarrow> segment option) \<Rightarrow> 's xproc_c_consumer option \<Rightarrow> 'n medium \<Rightarrow> capi
   \<Rightarrow> ((py_error + unit) \<times> 'n medium \<times> capi) option" where
  "py_wait p N wait_change handle md g =
     (case require_open ''Consumer.wait'' handle of
        Inl e \<Rightarrow> Some (Inl e, md, g)
      | Inr _ \<Rightarrow>
          map_option (\<lambda>(st, md1, g1). (require_status_ok ''Consumer.wait'' st g1, md1, g1)) (xproc_c_consumer_wait p N wait_change handle md g))"

definition py_consumer_socket_port :: "'s xproc_c_consumer option \<Rightarrow> capi \<Rightarrow> (py_error + u16) \<times> capi" where
  "py_consumer_socket_port handle g =
     py_query ''Consumer.socket_port'' handle (\<lambda>x. x) (xproc_c_consumer_socket_port handle (Some 0)) g"

definition py_observer ::
  "platform \<Rightarrow> abi \<Rightarrow> init_fn \<Rightarrow> int \<Rightarrow> ('s, 'k) shm_backend \<Rightarrow> py_options \<Rightarrow> 'k \<Rightarrow> capi
   \<Rightarrow> ((py_error + 's xproc_c_observer option) \<times> 'k \<times> capi) option" where
  "py_observer p A init pid B options k g =
     map_option (\<lambda>(st, out, k1, g1). (py_bind (require_status_ok ''Observer.open'' st g1) (\<lambda>_. Inr (the out)), k1, g1))
       (xproc_c_observer_open p A init pid B (Some (marshalled_options options)) (Some None) k g)"

definition py_observer_close :: "('s, 'k) shm_backend \<Rightarrow> 's xproc_c_observer option \<Rightarrow> 'k \<Rightarrow> 's xproc_c_observer option \<times> 'k" where
  "py_observer_close B handle k = (if handle = None then (handle, k) else (None, xproc_c_observer_close B handle k))"

definition py_observer_move_assign ::
  "('s, 'k) shm_backend \<Rightarrow> bool \<Rightarrow> 's xproc_c_observer option \<Rightarrow> 's xproc_c_observer option \<Rightarrow> 'k
   \<Rightarrow> 's xproc_c_observer option \<times> 's xproc_c_observer option \<times> 'k" where
  "py_observer_move_assign B same handle other k =
     (if same then (handle, other, k) else (other, None, snd (py_observer_close B handle k)))"

definition py_observer_options :: "'s xproc_c_observer option \<Rightarrow> capi \<Rightarrow> (py_error + py_options) \<times> capi" where
  "py_observer_options handle g =
     py_query ''Observer.options'' handle make_transport_options (xproc_c_observer_options handle (Some c_options_zero)) g"

definition get_snapshot ::
  "spscring \<Rightarrow> (nat \<Rightarrow> control_block) \<Rightarrow> 's xproc_c_observer option \<Rightarrow> capi \<Rightarrow> (py_error + py_snapshot) \<times> capi" where
  "get_snapshot R mem handle g =
     py_query ''Observer.snapshot'' handle
       (\<lambda>raw. \<lparr>ps_write_pos = cs_write_pos raw, ps_read_pos = cs_read_pos raw, ps_commit_seq = cs_commit_seq raw,
               ps_read_wake_seq = cs_read_wake_seq raw, ps_attach_count = cs_attach_count raw, ps_producer_pid = cs_producer_pid raw\<rparr>)
       (xproc_c_observer_snapshot R mem handle
          (Some \<lparr>cs_write_pos = 0, cs_read_pos = 0, cs_commit_pos = 0, cs_commit_seq = 0, cs_read_wake_seq = 0, cs_attach_count = 0,
             cs_producer_pid = 0\<rparr>)) g"

definition py_peek_copy ::
  "spscring \<Rightarrow> (segment \<Rightarrow> segment) \<Rightarrow> 's xproc_c_observer option \<Rightarrow> segment \<Rightarrow> capi \<Rightarrow> ((py_error + py) \<times> segment \<times> capi) option" where
  "py_peek_copy R env handle s g =
     (case require_open ''Observer.peek_copy'' handle of
        Inl e \<Rightarrow> Some (Inl e, s, g)
      | Inr _ \<Rightarrow> py_peek_copy_impl R env ''Observer.peek_copy'' handle s g)"

definition py_peek_copy_into ::
  "spscring \<Rightarrow> py_buffer \<Rightarrow> 's xproc_c_observer option \<Rightarrow> segment \<Rightarrow> capi \<Rightarrow> ((py_error + py) \<times> py_buffer \<times> segment \<times> capi) option" where
  "py_peek_copy_into R b handle s g =
     (case require_open ''Observer.peek_copy_into'' handle of
        Inl e \<Rightarrow> Some (Inl e, b, s, g)
      | Inr _ \<Rightarrow> peek_copy_into_impl R b ''Observer.peek_copy_into'' handle s g)"

definition py_validate_options_for ::
  "platform \<Rightarrow> abi \<Rightarrow> int \<Rightarrow> py_options \<Rightarrow> capi \<Rightarrow> ((py_error + unit) \<times> capi) option" where
  "py_validate_options_for p A kind options g =
     map_option (\<lambda>(st, g1). (require_status_ok ''validate_options_for'' st g1, g1))
       (xproc_c_validate_options_for p A kind (Some (marshalled_options options)) g)"

definition py_shm_unlink :: "(string \<Rightarrow> 'k \<Rightarrow> 'k) \<Rightarrow> string \<Rightarrow> 'k \<Rightarrow> capi \<Rightarrow> (py_error + unit) \<times> 'k \<times> capi" where
  "py_shm_unlink unlink pth k g =
     (case xproc_c_shm_unlink unlink (Some (c_str pth)) k g of (st, k1, g1) \<Rightarrow> (require_status_ok ''shm_unlink'' st g1, k1, g1))"

section \<open>Options survive Python\<close>

lemma py_options_round_trip:
  assumes "list_all (\<lambda>s. CHR 0x00 \<notin> set s) [path opts, win32_object_namespace opts, socket_host opts]"
    and "win32_object_namespace opts \<noteq> []" and "socket_host opts \<noteq> []"
  shows "to_cpp_options (marshalled_options (make_transport_options (fill_borrowed_options opts))) = opts"
  using assms by (cases "backend opts"; cases "chan_type opts"; cases opts)
    (auto simp: to_cpp_options_def marshalled_options_def make_transport_options_def fill_borrowed_options_def c_enum_defs)

section \<open>Polling and peeking\<close>

lemma resize_length [simp]: "resize (length d) d = d"
  by (simp add: resize_def)

lemma resize_written: "length d' \<le> n \<Longrightarrow> resize (length d') (buf_write 0 d' (replicate n 0)) = d'"
  by (simp add: resize_def buf_write_def)

lemma py_poll_copy_ok:
  assumes "consumer_waiting p R N m ds" and "\<And>m. consumer_waiting p R N m ds \<Longrightarrow> consumer_waiting p R N (env m) (ds @ new)"
  shows "\<exists>m' g' new'. py_poll_copy p R N env m g = Some (Inr (case ds of [] \<Rightarrow> PyNone | d # _ \<Rightarrow> PyBytes d), m', g') \<and>
      consumer_waiting p R N m' (tl ds @ new') \<and> new' \<in> {[], new}"
proof -
  have "\<exists>m' g' new'. two_calls (\<lambda>n. replicate n 0) resize (throw_status ''Consumer.poll_copy'') (consumer_call p R N) env m g =
      Some (Inr (case ds of [] \<Rightarrow> None | d # _ \<Rightarrow> Some d), m', g') \<and> consumer_waiting p R N m' (tl ds @ new') \<and> new' \<in> {[], new}"
    by (rule cc.two_calls_take [OF assms]) simp_all
  then obtain m' g' new' where
    "two_calls (\<lambda>n. replicate n 0) resize (throw_status ''Consumer.poll_copy'') (consumer_call p R N) env m g =
      Some (Inr (case ds of [] \<Rightarrow> None | d # _ \<Rightarrow> Some d), m', g')"
    "consumer_waiting p R N m' (tl ds @ new')" "new' \<in> {[], new}" by blast
  moreover have "fst m \<noteq> None" using assms(1) by (auto simp: consumer_waiting_def)
  ultimately have "py_poll_copy p R N env m g = Some (Inr (case ds of [] \<Rightarrow> PyNone | d # _ \<Rightarrow> PyBytes d), m', g')"
    by (cases ds) (simp_all add: py_poll_copy_def py_poll_copy_impl_def require_open_def py_bytes_def)
  with \<open>consumer_waiting p R N m' (tl ds @ new')\<close> \<open>new' \<in> {[], new}\<close> show ?thesis by blast
qed

lemma py_peek_copy_ok:
  assumes "observer_waiting R ob s ds" and "\<And>s. observer_waiting R ob s ds \<Longrightarrow> observer_waiting R ob (env s) ds'"
  shows "\<exists>r s' g'. py_peek_copy R env (Some \<lparr>cv_impl = Some ob\<rparr>) s g = Some (r, s', g') \<and>
    (case ds of
       [] \<Rightarrow> r = Inr PyNone
     | d # _ \<Rightarrow>
         if d = [] then r = Inr (PyBytes [])
         else
           (case ds' of
              [] \<Rightarrow> r = Inl (throw_status ''Observer.peek_copy'' STATUS_AGAIN g')
            | d' # _ \<Rightarrow> r = (if length d' \<le> length d then Inr (PyBytes d')
                               else Inl (throw_status ''Observer.peek_copy'' STATUS_BUFFER_TOO_SMALL g'))))"
proof -
  let ?err = "throw_status ''Observer.peek_copy''" and ?h = "Some \<lparr>cv_impl = Some ob\<rparr>"
  have "\<exists>r s' g'. two_calls (\<lambda>n. replicate n 0) resize ?err (observer_call R ?h) env s g = Some (r, s', g') \<and>
    (case ds of
       [] \<Rightarrow> r = Inr None \<and> observer_waiting R ob s' []
     | d # _ \<Rightarrow>
         if d = [] then r = Inr (Some []) \<and> observer_waiting R ob s' ds
         else
           (case ds' of
              [] \<Rightarrow> r = Inl (?err STATUS_AGAIN g') \<and> observer_waiting R ob s' []
            | d' # _ \<Rightarrow>
                if length d' \<le> length d
                then r = Inr (Some (resize (length d') (buf_write 0 d' (replicate (length d) 0)))) \<and> observer_waiting R ob s' ds'
                else r = Inl (?err STATUS_BUFFER_TOO_SMALL g') \<and> observer_waiting R ob s' ds'))"
    by (rule oc.two_calls_result [OF assms]) simp_all
  then obtain r s' g' where
    "two_calls (\<lambda>n. replicate n 0) resize ?err (observer_call R ?h) env s g = Some (r, s', g')" and
    r: "case ds of
       [] \<Rightarrow> r = Inr None
     | d # _ \<Rightarrow>
         if d = [] then r = Inr (Some [])
         else
           (case ds' of
              [] \<Rightarrow> r = Inl (?err STATUS_AGAIN g')
            | d' # _ \<Rightarrow>
                if length d' \<le> length d then r = Inr (Some (resize (length d') (buf_write 0 d' (replicate (length d) 0))))
                else r = Inl (?err STATUS_BUFFER_TOO_SMALL g'))"
    by (cases ds; cases ds') (auto split: if_split_asm)
  then have "py_peek_copy R env ?h s g = Some (map_sum (\<lambda>e. e) py_bytes r, s', g')"
    by (simp add: py_peek_copy_def py_peek_copy_impl_def require_open_def)
  with r show ?thesis by (cases ds; cases ds') (auto simp: resize_written py_bytes_def split: if_split_asm)
qed

section \<open>Buffers\<close>

text \<open>The contents of a buffer object, as \<open>bytes(b)\<close> has them: its elements in the order of their indices.\<close>

fun elements :: "byte list \<Rightarrow> nat \<Rightarrow> int \<Rightarrow> nat list \<Rightarrow> int list \<Rightarrow> byte list" where
  "elements block itemsize off (n # shape) (stride # strides) =
     concat (map (\<lambda>i. elements block itemsize (off + int i * stride) shape strides) [0..<n])"
| "elements block itemsize off _ _ = take itemsize (drop (nat off) block)"

definition contents :: "py_buffer \<Rightarrow> byte list" where
  "contents b = elements (pb_block b) (pb_itemsize b) (int (pb_offset b)) (pb_shape b) (pb_strides b)"

fun c_strides :: "nat \<Rightarrow> nat list \<Rightarrow> int list" where
  "c_strides itemsize [] = []"
| "c_strides itemsize (n # shape) = int (itemsize * prod_list shape) # c_strides itemsize shape"

lemma concat_slices: "concat (map (\<lambda>i. take k (drop (off + i * k) xs)) [0..<n]) = take (n * k) (drop off xs)"
  by (induction n) (simp_all add: add.commute [of k] take_add add.commute [of off])

lemma elements_contiguous:
  "elements block itemsize (int off) shape (c_strides itemsize shape) = take (prod_list shape * itemsize) (drop off block)"
proof (induction shape arbitrary: off)
  case (Cons n shape)
  have "elements block itemsize (int off + int i * int (itemsize * prod_list shape)) shape (c_strides itemsize shape) =
      take (prod_list shape * itemsize) (drop (off + i * (prod_list shape * itemsize)) block)" for i
    using Cons [of "off + i * (prod_list shape * itemsize)"] by (simp add: algebra_simps)
  then show ?case by (simp add: concat_slices mult.assoc)
qed simp

definition py_contents :: "(string \<Rightarrow> string option) \<Rightarrow> py \<Rightarrow> byte list option" where
  "py_contents utf8 v =
     (case v of
        PyStr s \<Rightarrow> map_option bytes_of (utf8 s)
      | PyBytes d \<Rightarrow> Some d
      | PyBuffer b \<Rightarrow> if pb_shape b = [] then None else Some (contents b)
      | _ \<Rightarrow> None)"

definition contiguous :: "py \<Rightarrow> bool" where
  "contiguous v =
     (case v of
        PyBuffer b \<Rightarrow> pb_strides b = c_strides (pb_itemsize b) (pb_shape b) \<and> pb_offset b + buffer_bytes b \<le> length (pb_block b)
      | _ \<Rightarrow> True)"

lemma contents_contiguous:
  assumes "contiguous (PyBuffer b)"
  shows "contents b = take (buffer_bytes b) (buffer_memory b)" and "buffer_bytes b \<le> length (buffer_memory b)"
  using assms by (auto simp: contiguous_def contents_def elements_contiguous buffer_bytes_def buffer_memory_def)

lemma narrow_size_cases:
  obtains "n < 2 ^ 32" and "narrow_size n context = Inr (of_nat n)" and "unat (of_nat n :: u32) = n"
  | e where "2 ^ 32 \<le> n" and "narrow_size n context = Inl e"
  by (cases "n < 2 ^ 32") (auto simp: narrow_size_def unat_of_nat take_bit_nat_eq_self)

text \<open>
  C39. What is sent of a Python object is what the object contains: of a string its UTF-8 bytes, of a bytes object its bytes, and of a
  buffer object of any number of dimensions, whose elements are stored contiguously in the order of their indices, exactly
  its contents. A payload is refused only if it has \<open>2\<^sup>3\<^sup>2\<close> bytes or more, or is none of these.
\<close>

theorem coerce_message_exact:
  assumes "contiguous v"
  shows "case coerce_message utf8 v context of
     Inr (bytes, len) \<Rightarrow> unat len \<le> length bytes \<and> py_contents utf8 v = Some (take (unat len) bytes)
   | Inl _ \<Rightarrow> (case py_contents utf8 v of None \<Rightarrow> True | Some d \<Rightarrow> length d \<ge> 2 ^ 32)"
proof (cases v)
  case (PyStr s)
  then show ?thesis
    by (cases "utf8 s"; cases rule: narrow_size_cases [of "length (the (utf8 s))" "context"])
      (simp_all add: coerce_message_def py_contents_def py_bind_def bytes_of_def)
next
  case (PyBytes d)
  then show ?thesis
    by (cases rule: narrow_size_cases [of "length d" "context"]) (simp_all add: coerce_message_def py_contents_def py_bind_def)
next
  case (PyBuffer b)
  with assms contents_contiguous [of b] show ?thesis
    by (cases rule: narrow_size_cases [of "buffer_bytes b" "context"]) (simp_all add: coerce_message_def py_contents_def py_bind_def Suc_le_eq)
qed (simp_all add: coerce_message_def py_contents_def)

theorem coerce_message_exact_witness:
  "let b = \<lparr>pb_block = [9, 1, 2, 3, 4, 5, 6], pb_offset = 1, pb_shape = [2, 3], pb_strides = [3, 1], pb_itemsize = 1, pb_readonly = True\<rparr>
   in contents b = [1, 2, 3, 4, 5, 6] \<and> coerce_message Some (PyBuffer b) [] = Inr ([1, 2, 3, 4, 5, 6], 6)"
proof -
  let ?b = "\<lparr>pb_block = [9, 1, 2, 3, 4, 5, 6], pb_offset = 1, pb_shape = [2, 3], pb_strides = [3, 1], pb_itemsize = 1, pb_readonly = True\<rparr>"
  have "coerce_message Some (PyBuffer ?b) [] = Inr ([1, 2, 3, 4, 5, 6], 6)"
    by (simp add: coerce_message_def narrow_size_def buffer_bytes_def buffer_memory_def py_bind_def)
  with coerce_message_exact [of "PyBuffer ?b" Some "[]"] show ?thesis
    by (simp add: contiguous_def buffer_bytes_def py_contents_def Let_def)
qed

text \<open>The strides are ignored: every second byte of \<open>b'abcdef'\<close> is \<open>ace\<close>, and \<open>abc\<close> is sent.\<close>

lemma strided_buffer_wrong:
  "let b = \<lparr>pb_block = [97, 98, 99, 100, 101, 102], pb_offset = 0, pb_shape = [3], pb_strides = [2], pb_itemsize = 1, pb_readonly = True\<rparr>
   in contents b = [97, 99, 101] \<and> map_sum (\<lambda>e. e) (\<lambda>(bytes, len). take (unat len) bytes) (coerce_message Some (PyBuffer b) []) =
      Inr [97, 98, 99]"
  by (simp add: contents_def coerce_message_def narrow_size_def buffer_bytes_def buffer_memory_def py_bind_def upt_rec)

end
