(* ===== verification/CSharp_Binding.thy ===== *)
theory CSharp_Binding
  imports Copy_Protocol Utf8
begin

text \<open>
  The C# library \<open>csharp/XprocSharp\<close> over the C interface.

  A .NET string is the list of the UTF-8 bytes it is marshalled to. A \<open>SafeHandle\<close> is the native handle, \<open>None\<close> once it is closed;
  a result \<open>None\<close> is a call that blocks for ever or undefined behaviour. The size of an array is below \<open>2\<^sup>3\<^sup>1\<close>, so the checks of
  payload lengths against \<open>uint.MaxValue\<close> are written down and never fail.
\<close>

section \<open>Errors\<close>

record XprocException =
  xx_message :: string
  xx_status :: xproc_c_status
  xx_layout_error :: xproc_c_layout_error

datatype cs_error =
    Cs_argument string | Cs_argument_out_of_range string | Cs_overflow | Cs_disposed string | Cs_xproc XprocException

definition cs_bind :: "cs_error + 'a \<Rightarrow> ('a \<Rightarrow> cs_error + 'b) \<Rightarrow> cs_error + 'b" where
  "cs_bind r f = (case r of Inl e \<Rightarrow> Inl e | Inr x \<Rightarrow> f x)"

text \<open>The length of a white-space character at the start of a string, or 0; \<open>string.IsNullOrWhiteSpace\<close>.\<close>

definition white_space :: "string \<Rightarrow> nat" where
  "white_space s =
     (if byte_in 0x09 0x0D s 0 \<or> byte_in 0x20 0x20 s 0 then 1
      else if byte_in 0xC2 0xC2 s 0 \<and> (byte_in 0x85 0x85 s 1 \<or> byte_in 0xA0 0xA0 s 1) then 2
      else if byte_in 0xE1 0xE1 s 0 \<and> byte_in 0x9A 0x9A s 1 \<and> byte_in 0x80 0x80 s 2 then 3
      else if byte_in 0xE2 0xE2 s 0 \<and> byte_in 0x80 0x80 s 1 \<and>
              (byte_in 0x80 0x8A s 2 \<or> byte_in 0xA8 0xA9 s 2 \<or> byte_in 0xAF 0xAF s 2) then 3
      else if byte_in 0xE2 0xE2 s 0 \<and> byte_in 0x81 0x81 s 1 \<and> byte_in 0x9F 0x9F s 2 then 3
      else if byte_in 0xE3 0xE3 s 0 \<and> byte_in 0x80 0x80 s 1 \<and> byte_in 0x80 0x80 s 2 then 3
      else 0)"

function blank :: "string \<Rightarrow> bool" where
  "blank s = (if s = [] then True else if white_space s = 0 then False else blank (drop (white_space s) s))"
  by pat_completeness auto
termination by (relation "measure length") auto

declare blank.simps [simp del]

definition ThrowIfError :: "xproc_c_status \<Rightarrow> string \<Rightarrow> capi \<Rightarrow> cs_error + unit" where
  "ThrowIfError status context g =
     (if status = STATUS_OK then Inr ()
      else
        (let details = to_string_lossy (c_str (xproc_c_last_error_message g));
             message = (if blank details then context else context @ '': '' @ details)
         in Inl (Cs_xproc \<lparr>xx_message = message, xx_status = status, xx_layout_error = xproc_c_last_layout_error g\<rparr>)))"

definition CreateManagedLayoutException :: "string \<Rightarrow> xproc_c_layout_error \<Rightarrow> string \<Rightarrow> cs_error" where
  "CreateManagedLayoutException context layoutError detail =
     Cs_xproc \<lparr>xx_message = context @ '': '' @ detail, xx_status = STATUS_LAYOUT_ERROR, xx_layout_error = layoutError\<rparr>"

definition ThrowIfNullOrWhiteSpace :: "string \<Rightarrow> cs_error + unit" where
  "ThrowIfNullOrWhiteSpace pth = (if blank pth then Inl (Cs_argument ''path'') else Inr ())"

definition DangerousHandle :: "string \<Rightarrow> 'h option \<Rightarrow> cs_error + unit" where
  "DangerousHandle name handle = (if handle = None then Inl (Cs_disposed name) else Inr ())"

section \<open>Options\<close>

record cs_options =
  Backend :: int
  Path :: "string option"
  ShmSize :: u64
  ItemSize :: u32
  DataAlign :: u32
  SchemaId :: u64
  CreatorTimestampNs :: u64
  CreatorFlags :: u64
  CreateIfMissing :: bool
  ChannelType :: int
  Win32ObjectNamespace :: "string option"
  SocketHost :: "string option"
  SocketPort :: u16
  SocketListen :: bool
  SocketConnectRetries :: int
  SocketConnectRetryMs :: int

definition cs_TransportOptions :: cs_options where
  "cs_TransportOptions =
     \<lparr>Backend = BACKEND_SHARED_MEMORY, Path = None, ShmSize = 0, ItemSize = 0, DataAlign = 0, SchemaId = 0, CreatorTimestampNs = 0,
      CreatorFlags = 0, CreateIfMissing = True, ChannelType = CHANNEL_FIXED, Win32ObjectNamespace = None, SocketHost = None,
      SocketPort = 0, SocketListen = False, SocketConnectRetries = 200, SocketConnectRetryMs = 10\<rparr>"

definition Copy :: "cs_options \<Rightarrow> cs_options" where
  "Copy o1 =
     \<lparr>Backend = Backend o1, Path = Path o1, ShmSize = ShmSize o1, ItemSize = ItemSize o1, DataAlign = DataAlign o1,
      SchemaId = SchemaId o1, CreatorTimestampNs = CreatorTimestampNs o1, CreatorFlags = CreatorFlags o1,
      CreateIfMissing = CreateIfMissing o1, ChannelType = ChannelType o1, Win32ObjectNamespace = Win32ObjectNamespace o1,
      SocketHost = SocketHost o1, SocketPort = SocketPort o1, SocketListen = SocketListen o1,
      SocketConnectRetries = SocketConnectRetries o1, SocketConnectRetryMs = SocketConnectRetryMs o1\<rparr>"

definition AllocateUtf8 :: "string option \<Rightarrow> string option" where
  "AllocateUtf8 v = (case v of None \<Rightarrow> None | Some s \<Rightarrow> if s = [] then None else Some (c_str s))"

definition NativeOptionsScope :: "cs_options \<Rightarrow> xproc_c_options" where
  "NativeOptionsScope options =
     \<lparr>c_backend = Backend options, c_path = AllocateUtf8 (Path options), c_shm_size = ShmSize options,
      c_item_size = ItemSize options, c_data_align = DataAlign options, c_schema_id = SchemaId options,
      c_creator_timestamp_ns = CreatorTimestampNs options, c_creator_flags = CreatorFlags options,
      c_create_if_missing = (if CreateIfMissing options then 1 else 0), c_channel_type = ChannelType options,
      c_win32_object_namespace = AllocateUtf8 (Win32ObjectNamespace options), c_socket_host = AllocateUtf8 (SocketHost options),
      c_socket_port = SocketPort options, c_socket_listen = (if SocketListen options then 1 else 0),
      c_socket_connect_retries = SocketConnectRetries options, c_socket_connect_retry_ms = SocketConnectRetryMs options\<rparr>"

definition PtrToStringUtf8 :: "string option \<Rightarrow> string option" where
  "PtrToStringUtf8 ptr = map_option to_string_lossy ptr"

definition FromNativeOptions :: "xproc_c_options \<Rightarrow> cs_options" where
  "FromNativeOptions nativeOptions =
     \<lparr>Backend = c_backend nativeOptions, Path = PtrToStringUtf8 (c_path nativeOptions), ShmSize = c_shm_size nativeOptions,
      ItemSize = c_item_size nativeOptions, DataAlign = c_data_align nativeOptions, SchemaId = c_schema_id nativeOptions,
      CreatorTimestampNs = c_creator_timestamp_ns nativeOptions, CreatorFlags = c_creator_flags nativeOptions,
      CreateIfMissing = (c_create_if_missing nativeOptions \<noteq> 0), ChannelType = c_channel_type nativeOptions,
      Win32ObjectNamespace = PtrToStringUtf8 (c_win32_object_namespace nativeOptions),
      SocketHost = PtrToStringUtf8 (c_socket_host nativeOptions), SocketPort = c_socket_port nativeOptions,
      SocketListen = (c_socket_listen nativeOptions \<noteq> 0), SocketConnectRetries = c_socket_connect_retries nativeOptions,
      SocketConnectRetryMs = c_socket_connect_retry_ms nativeOptions\<rparr>"

section \<open>Functions\<close>

definition ShmUnlink :: "(string \<Rightarrow> 'k \<Rightarrow> 'k) \<Rightarrow> string \<Rightarrow> 'k \<Rightarrow> capi \<Rightarrow> (cs_error + unit) \<times> 'k \<times> capi" where
  "ShmUnlink unlink pth k g =
     (case ThrowIfNullOrWhiteSpace pth of
        Inl e \<Rightarrow> (Inl e, k, g)
      | Inr _ \<Rightarrow> (case xproc_c_shm_unlink unlink (Some (c_str pth)) k g of (st, k1, g1) \<Rightarrow> (ThrowIfError st ''ShmUnlink'' g1, k1, g1)))"

definition ValidateOptionsFor :: "platform \<Rightarrow> abi \<Rightarrow> int \<Rightarrow> cs_options \<Rightarrow> capi \<Rightarrow> ((cs_error + unit) \<times> capi) option" where
  "ValidateOptionsFor p A kind options g =
     map_option (\<lambda>(st, g1). (ThrowIfError st ''ValidateOptionsFor'' g1, g1))
       (xproc_c_validate_options_for p A kind (Some (NativeOptionsScope options)) g)"

definition ReadExistingShmOptions ::
  "platform \<Rightarrow> abi \<Rightarrow> ('s, 'k) shm_backend \<Rightarrow> ('k \<Rightarrow> 'k) \<Rightarrow> string \<Rightarrow> string option \<Rightarrow> 'k \<Rightarrow> capi
   \<Rightarrow> ((cs_error + cs_options) \<times> 'k \<times> capi) option" where
  "ReadExistingShmOptions p A B sleep pth ns k g =
     (case ThrowIfNullOrWhiteSpace pth of
        Inl e \<Rightarrow> Some (Inl e, k, g)
      | Inr _ \<Rightarrow>
          map_option (\<lambda>(st, out, k1, g1).
              (cs_bind (ThrowIfError st ''ReadExistingShmOptions'' g1) (\<lambda>_. Inr (FromNativeOptions (the out))), k1, g1))
            (xproc_c_shm_read_existing_options p A B sleep (Some (c_str pth)) (map_option c_str ns) (Some c_options_zero) k g))"

section \<open>Producers\<close>

definition cs_Producer ::
  "platform \<Rightarrow> abi \<Rightarrow> init_fn \<Rightarrow> int \<Rightarrow> ('s, 'k) shm_backend \<Rightarrow> 'n sockets \<Rightarrow> cs_options \<Rightarrow> 'k \<Rightarrow> 'n \<Rightarrow> capi
   \<Rightarrow> ((cs_error + 's xproc_c_producer option) \<times> 'k \<times> 'n \<times> capi) option" where
  "cs_Producer p A init pid B N options k n g =
     map_option (\<lambda>(st, out, k1, n1, g1). (cs_bind (ThrowIfError st ''Producer'' g1) (\<lambda>_. Inr (the out)), k1, n1, g1))
       (xproc_c_producer_open p A init pid B N (Some (NativeOptionsScope options)) (Some None) k n g)"

definition Producer_Dispose ::
  "('s, 'k) shm_backend \<Rightarrow> 'n sockets \<Rightarrow> 's xproc_c_producer option \<Rightarrow> 'k \<Rightarrow> 'n \<Rightarrow> 's xproc_c_producer option \<times> 'k \<times> 'n" where
  "Producer_Dispose B N handle k n = (if handle = None then (handle, k, n) else (None, xproc_c_producer_close B N handle k n))"

text \<open>A query of an open handle.\<close>

definition cs_query ::
  "string \<Rightarrow> string \<Rightarrow> 'h option \<Rightarrow> ('a \<Rightarrow> 'b) \<Rightarrow> (capi \<Rightarrow> xproc_c_status \<times> 'a option \<times> capi) \<Rightarrow> capi \<Rightarrow> (cs_error + 'b) \<times> capi" where
  "cs_query name context handle f call g =
     (case DangerousHandle name handle of
        Inl e \<Rightarrow> (Inl e, g)
      | Inr _ \<Rightarrow> (case call g of (st, out, g1) \<Rightarrow> (cs_bind (ThrowIfError st context g1) (\<lambda>_. Inr (f (the out))), g1)))"

definition Producer_GetOptions :: "'s xproc_c_producer option \<Rightarrow> capi \<Rightarrow> (cs_error + cs_options) \<times> capi" where
  "Producer_GetOptions handle g =
     cs_query ''Producer'' ''Producer.GetOptions'' handle FromNativeOptions (xproc_c_producer_options handle (Some c_options_zero)) g"

text \<open>A send: the length, the handle, the call. The pointer to an empty span is null.\<close>

definition cs_send ::
  "string \<Rightarrow> byte list \<Rightarrow> 's xproc_c_producer option \<Rightarrow> 'm \<Rightarrow> capi
   \<Rightarrow> (byte list option \<Rightarrow> u32 \<Rightarrow> (xproc_c_status \<times> 's xproc_c_producer option \<times> 'm \<times> capi) option)
   \<Rightarrow> ((cs_error + unit) \<times> 's xproc_c_producer option \<times> 'm \<times> capi) option" where
  "cs_send context d handle md g call =
     (if length d > 2 ^ 32 - 1 then Some (Inl (Cs_argument_out_of_range ''payload length must fit in uint32''), handle, md, g)
      else
        (case DangerousHandle ''Producer'' handle of
           Inl e \<Rightarrow> Some (Inl e, handle, md, g)
         | Inr _ \<Rightarrow>
             map_option (\<lambda>(st, h, md1, g1). (ThrowIfError st context g1, h, md1, g1))
               (call (if d = [] then None else Some d) (of_nat (length d)))))"

definition SendFixedBytes ::
  "platform \<Rightarrow> spscring \<Rightarrow> 'n sockets \<Rightarrow> (nat \<Rightarrow> segment \<Rightarrow> segment) \<Rightarrow> byte list \<Rightarrow> 's xproc_c_producer option \<Rightarrow> 'n medium \<Rightarrow> capi
   \<Rightarrow> ((cs_error + unit) \<times> 's xproc_c_producer option \<times> 'n medium \<times> capi) option" where
  "SendFixedBytes p R N env d handle md g =
     cs_send ''Producer.SendFixedBytes'' d handle md g (\<lambda>ptr len. xproc_c_producer_send_fixed_bytes p R N env handle ptr len md g)"

definition SendFixedSized ::
  "platform \<Rightarrow> spscring \<Rightarrow> 'n sockets \<Rightarrow> (nat \<Rightarrow> segment \<Rightarrow> segment) \<Rightarrow> byte list \<Rightarrow> 's xproc_c_producer option \<Rightarrow> 'n medium \<Rightarrow> capi
   \<Rightarrow> ((cs_error + unit) \<times> 's xproc_c_producer option \<times> 'n medium \<times> capi) option" where
  "SendFixedSized p R N env d handle md g =
     cs_send ''Producer.SendFixedSized'' d handle md g (\<lambda>ptr len. xproc_c_producer_send_fixed_sized p R N env handle ptr len md g)"

definition SendVarlen ::
  "platform \<Rightarrow> spscring \<Rightarrow> 'n sockets \<Rightarrow> u64 \<Rightarrow> byte list \<Rightarrow> 's xproc_c_producer option \<Rightarrow> 'n medium \<Rightarrow> capi
   \<Rightarrow> ((cs_error + unit) \<times> 's xproc_c_producer option \<times> 'n medium \<times> capi) option" where
  "SendVarlen p R N ts d handle md g =
     cs_send ''Producer.SendVarlen'' d handle md g (\<lambda>ptr len. xproc_c_producer_send_varlen p R N ts handle ptr len md g)"

definition Producer_GetSocketPort :: "'s xproc_c_producer option \<Rightarrow> capi \<Rightarrow> (cs_error + u16) \<times> capi" where
  "Producer_GetSocketPort handle g =
     cs_query ''Producer'' ''Producer.GetSocketPort'' handle (\<lambda>x. x) (xproc_c_producer_socket_port handle (Some 0)) g"

section \<open>Consumers\<close>

definition cs_Consumer ::
  "platform \<Rightarrow> abi \<Rightarrow> init_fn \<Rightarrow> int \<Rightarrow> ('s, 'k) shm_backend \<Rightarrow> 'n sockets \<Rightarrow> ('n \<Rightarrow> (exn + wait_interruptor) \<times> 'n) \<Rightarrow> cs_options \<Rightarrow> 'k \<Rightarrow> 'n \<Rightarrow> capi
   \<Rightarrow> ((cs_error + 's xproc_c_consumer option) \<times> 'k \<times> 'n \<times> capi) option" where
  "cs_Consumer p A init pid B N mk_wake options k n g =
     map_option (\<lambda>(st, out, k1, n1, g1). (cs_bind (ThrowIfError st ''Consumer'' g1) (\<lambda>_. Inr (the out)), k1, n1, g1))
       (xproc_c_consumer_open p A init pid B N mk_wake (Some (NativeOptionsScope options)) (Some None) k n g)"

definition Consumer_Dispose ::
  "('s, 'k) shm_backend \<Rightarrow> 'n sockets \<Rightarrow> 's xproc_c_consumer option \<Rightarrow> 'k \<Rightarrow> 'n \<Rightarrow> 's xproc_c_consumer option \<times> 'k \<times> 'n" where
  "Consumer_Dispose B N handle k n = (if handle = None then (handle, k, n) else (None, xproc_c_consumer_close B N handle k n))"

definition Consumer_GetOptions :: "'s xproc_c_consumer option \<Rightarrow> capi \<Rightarrow> (cs_error + cs_options) \<times> capi" where
  "Consumer_GetOptions handle g =
     cs_query ''Consumer'' ''Consumer.GetOptions'' handle FromNativeOptions (xproc_c_consumer_options handle (Some c_options_zero)) g"

definition GetPendingLength :: "'s xproc_c_consumer option \<Rightarrow> capi \<Rightarrow> (cs_error + u32) \<times> capi" where
  "GetPendingLength handle g =
     cs_query ''Consumer'' ''Consumer.GetPendingLength'' handle (\<lambda>x. x) (xproc_c_consumer_pending_len handle (Some 0)) g"

text \<open>The result is the return value with \<open>bytesWritten\<close>; the span is returned as it is left.\<close>

definition TryPollCopy ::
  "platform \<Rightarrow> spscring \<Rightarrow> 'n sockets \<Rightarrow> byte list \<Rightarrow> 's xproc_c_consumer option \<times> 'n medium \<Rightarrow> capi
   \<Rightarrow> ((cs_error + bool \<times> nat) \<times> byte list \<times> ('s xproc_c_consumer option \<times> 'n medium) \<times> capi) option" where
  "TryPollCopy p R N buffer m g =
     (case DangerousHandle ''Consumer'' (fst m) of
        Inl e \<Rightarrow> Some (Inl e, buffer, m, g)
      | Inr _ \<Rightarrow>
          map_option (\<lambda>(st, buf, requiredLength, m1, g1).
              (if st = STATUS_AGAIN then Inr (False, 0)
               else if st = STATUS_BUFFER_TOO_SMALL
               then Inl (Cs_argument (''destination buffer is too small; required at least '' @ nat_to_string (unat requiredLength) @ '' bytes''))
               else cs_bind (ThrowIfError st ''Consumer.TryPollCopy'' g1)
                      (\<lambda>_. if unat requiredLength > 2 ^ 31 - 1 then Inl Cs_overflow else Inr (True, unat requiredLength)),
               case buf of None \<Rightarrow> buffer | Some b \<Rightarrow> b, m1, g1))
            (consumer_call p R N (if buffer = [] then None else Some buffer) (of_nat (length buffer)) 0 m g))"

definition xproc_exception :: "string \<Rightarrow> xproc_c_status \<Rightarrow> capi \<Rightarrow> cs_error" where
  "xproc_exception context status g = projl (ThrowIfError status context g)"

definition PollCopy ::
  "platform \<Rightarrow> spscring \<Rightarrow> 'n sockets \<Rightarrow> ('s xproc_c_consumer option \<times> 'n medium \<Rightarrow> 's xproc_c_consumer option \<times> 'n medium)
   \<Rightarrow> 's xproc_c_consumer option \<times> 'n medium \<Rightarrow> capi
   \<Rightarrow> ((cs_error + byte list option) \<times> ('s xproc_c_consumer option \<times> 'n medium) \<times> capi) option" where
  "PollCopy p R N env m g =
     (case DangerousHandle ''Consumer'' (fst m) of
        Inl e \<Rightarrow> Some (Inl e, m, g)
      | Inr _ \<Rightarrow>
          two_calls (\<lambda>n. replicate n 0) (\<lambda>_ buffer. buffer) (xproc_exception ''Consumer.PollCopy'') (consumer_call p R N) env m g)"

definition WaitForData ::
  "platform \<Rightarrow> 'n sockets \<Rightarrow> (u32 \<Rightarrow> segment \<Rightarrow> segment option) \<Rightarrow> 's xproc_c_consumer option \<Rightarrow> 'n medium \<Rightarrow> capi
   \<Rightarrow> ((cs_error + unit) \<times> 'n medium \<times> capi) option" where
  "WaitForData p N wait_change handle md g =
     (case DangerousHandle ''Consumer'' handle of
        Inl e \<Rightarrow> Some (Inl e, md, g)
      | Inr _ \<Rightarrow>
          map_option (\<lambda>(st, md1, g1). (ThrowIfError st ''Consumer.WaitForData'' g1, md1, g1)) (xproc_c_consumer_wait p N wait_change handle md g))"

definition Consumer_GetSocketPort :: "'s xproc_c_consumer option \<Rightarrow> capi \<Rightarrow> (cs_error + u16) \<times> capi" where
  "Consumer_GetSocketPort handle g =
     cs_query ''Consumer'' ''Consumer.GetSocketPort'' handle (\<lambda>x. x) (xproc_c_consumer_socket_port handle (Some 0)) g"

section \<open>Observers\<close>

definition cs_Observer ::
  "platform \<Rightarrow> abi \<Rightarrow> init_fn \<Rightarrow> int \<Rightarrow> ('s, 'k) shm_backend \<Rightarrow> cs_options \<Rightarrow> 'k \<Rightarrow> capi
   \<Rightarrow> ((cs_error + 's xproc_c_observer option) \<times> 'k \<times> capi) option" where
  "cs_Observer p A init pid B options k g =
     map_option (\<lambda>(st, out, k1, g1). (cs_bind (ThrowIfError st ''Observer'' g1) (\<lambda>_. Inr (the out)), k1, g1))
       (xproc_c_observer_open p A init pid B (Some (NativeOptionsScope options)) (Some None) k g)"

definition Observer_Dispose :: "('s, 'k) shm_backend \<Rightarrow> 's xproc_c_observer option \<Rightarrow> 'k \<Rightarrow> 's xproc_c_observer option \<times> 'k" where
  "Observer_Dispose B handle k = (if handle = None then (handle, k) else (None, xproc_c_observer_close B handle k))"

definition Observer_GetOptions :: "'s xproc_c_observer option \<Rightarrow> capi \<Rightarrow> (cs_error + cs_options) \<times> capi" where
  "Observer_GetOptions handle g =
     cs_query ''Observer'' ''Observer.GetOptions'' handle FromNativeOptions (xproc_c_observer_options handle (Some c_options_zero)) g"

text \<open>
  A snapshot crosses the border as memory: the C interface writes its \<open>xproc_c_snapshot\<close>, of 40 bytes, to the address it is given,
  and C# reads its own \<open>NativeSnapshot\<close> there, of 32 bytes. \<open>stack\<close> is the memory from that address on, little-endian.
\<close>

definition store_le64 :: "u64 \<Rightarrow> byte list" where
  "store_le64 v = store_le32 (ucast v) @ store_le32 (ucast (drop_bit 32 v))"

definition load_le64 :: "byte list \<Rightarrow> u64" where
  "load_le64 b = ucast (load_le32 b) OR push_bit 32 (ucast (load_le32 (drop 4 b)))"

definition snapshot_bytes :: "xproc_c_snapshot \<Rightarrow> byte list" where
  "snapshot_bytes c =
     store_le64 (cs_write_pos c) @ store_le64 (cs_read_pos c) @ store_le64 (cs_commit_pos c) @ store_le32 (cs_commit_seq c) @
     store_le32 (cs_read_wake_seq c) @ store_le32 (cs_attach_count c) @ store_le32 (word_of_int (cs_producer_pid c))"

record NativeSnapshot =
  ns_write_pos :: u64
  ns_read_pos :: u64
  ns_commit_seq :: u32
  ns_read_wake_seq :: u32
  ns_attach_count :: u32
  ns_producer_pid :: int

definition native_snapshot :: "byte list \<Rightarrow> NativeSnapshot" where
  "native_snapshot b =
     \<lparr>ns_write_pos = load_le64 b, ns_read_pos = load_le64 (drop 8 b), ns_commit_seq = load_le32 (drop 16 b),
      ns_read_wake_seq = load_le32 (drop 20 b), ns_attach_count = load_le32 (drop 24 b), ns_producer_pid = sint (load_le32 (drop 28 b))\<rparr>"

record XprocSnapshot =
  WritePos :: u64
  ReadPos :: u64
  CommitSeq :: u32
  ReadWakeSeq :: u32
  AttachCount :: u32
  ProducerPid :: int

definition GetSnapshot ::
  "spscring \<Rightarrow> (nat \<Rightarrow> control_block) \<Rightarrow> byte list \<Rightarrow> 's xproc_c_observer option \<Rightarrow> capi \<Rightarrow> (cs_error + XprocSnapshot) \<times> byte list \<times> capi" where
  "GetSnapshot R mem stack handle g =
     (case DangerousHandle ''Observer'' handle of
        Inl e \<Rightarrow> (Inl e, stack, g)
      | Inr _ \<Rightarrow>
          (case xproc_c_observer_snapshot R mem handle
                  (Some \<lparr>cs_write_pos = 0, cs_read_pos = 0, cs_commit_pos = 0, cs_commit_seq = 0, cs_read_wake_seq = 0, cs_attach_count = 0,
                     cs_producer_pid = 0\<rparr>) g of
             (st, out, g1) \<Rightarrow>
               (let stack = (if st = STATUS_OK then buf_write 0 (snapshot_bytes (the out)) stack else stack);
                    s = native_snapshot stack
                in (cs_bind (ThrowIfError st ''Observer.GetSnapshot'' g1)
                      (\<lambda>_. Inr \<lparr>WritePos = ns_write_pos s, ReadPos = ns_read_pos s, CommitSeq = ns_commit_seq s,
                              ReadWakeSeq = ns_read_wake_seq s, AttachCount = ns_attach_count s, ProducerPid = ns_producer_pid s\<rparr>),
                    stack, g1))))"

definition PeekCopy ::
  "spscring \<Rightarrow> (segment \<Rightarrow> segment) \<Rightarrow> 's xproc_c_observer option \<Rightarrow> segment \<Rightarrow> capi
   \<Rightarrow> ((cs_error + byte list option) \<times> segment \<times> capi) option" where
  "PeekCopy R env handle s g =
     (case DangerousHandle ''Observer'' handle of
        Inl e \<Rightarrow> Some (Inl e, s, g)
      | Inr _ \<Rightarrow>
          two_calls (\<lambda>n. replicate n 0) (\<lambda>_ buffer. buffer) (xproc_exception ''Observer.PeekCopy'') (observer_call R handle) env s g)"

section \<open>Channels\<close>

record ShmChannelEndpoints =
  producerOptions :: cs_options
  consumerOptions :: cs_options
  observerOptions :: cs_options

definition new_ShmChannelEndpoints :: "cs_options \<Rightarrow> ShmChannelEndpoints" where
  "new_ShmChannelEndpoints baseOptions =
     \<lparr>producerOptions = Copy baseOptions, consumerOptions = Copy baseOptions,
      observerOptions = (Copy baseOptions)\<lparr>CreateIfMissing := False\<rparr>\<rparr>"

text \<open>The end of every constructor: the options are validated for the producer and for the consumer.\<close>

definition checked_channel ::
  "platform \<Rightarrow> abi \<Rightarrow> cs_options \<Rightarrow> capi \<Rightarrow> ((cs_error + ShmChannelEndpoints) \<times> capi) option" where
  "checked_channel p A options g =
     (case ValidateOptionsFor p A ENDPOINT_PRODUCER options g of
        None \<Rightarrow> None
      | Some (Inl e, g1) \<Rightarrow> Some (Inl e, g1)
      | Some (Inr _, g1) \<Rightarrow>
          map_option (\<lambda>(r, g2). (cs_bind r (\<lambda>_. Inr (new_ShmChannelEndpoints options)), g2))
            (ValidateOptionsFor p A ENDPOINT_CONSUMER options g1))"

definition CreateFixedChannel ::
  "platform \<Rightarrow> abi \<Rightarrow> string \<Rightarrow> u32 \<Rightarrow> u64 \<Rightarrow> u32 \<Rightarrow> u64 \<Rightarrow> u64 \<Rightarrow> u64 \<Rightarrow> string option \<Rightarrow> capi
   \<Rightarrow> ((cs_error + ShmChannelEndpoints) \<times> capi) option" where
  "CreateFixedChannel p A pth itemSize dataCapacity dataAlign schemaId creatorTimestampNs creatorFlags win32ObjectNamespace g =
     (case ThrowIfNullOrWhiteSpace pth of
        Inl e \<Rightarrow> Some (Inl e, g)
      | Inr _ \<Rightarrow>
          checked_channel p A
            (cs_TransportOptions\<lparr>Path := Some pth, ShmSize := xproc_c_shm_size_for_data_capacity A dataCapacity, ItemSize := itemSize,
               DataAlign := dataAlign, SchemaId := schemaId, CreatorTimestampNs := creatorTimestampNs, CreatorFlags := creatorFlags,
               CreateIfMissing := True, ChannelType := CHANNEL_FIXED, Win32ObjectNamespace := win32ObjectNamespace\<rparr>) g)"

definition CreateVarlenChannel ::
  "platform \<Rightarrow> abi \<Rightarrow> string \<Rightarrow> u64 \<Rightarrow> u32 \<Rightarrow> u64 \<Rightarrow> u64 \<Rightarrow> u64 \<Rightarrow> string option \<Rightarrow> capi
   \<Rightarrow> ((cs_error + ShmChannelEndpoints) \<times> capi) option" where
  "CreateVarlenChannel p A pth dataCapacity dataAlign schemaId creatorTimestampNs creatorFlags win32ObjectNamespace g =
     (case ThrowIfNullOrWhiteSpace pth of
        Inl e \<Rightarrow> Some (Inl e, g)
      | Inr _ \<Rightarrow>
          checked_channel p A
            (cs_TransportOptions\<lparr>Path := Some pth, ShmSize := xproc_c_shm_size_for_data_capacity A dataCapacity,
               DataAlign := dataAlign, SchemaId := schemaId, CreatorTimestampNs := creatorTimestampNs, CreatorFlags := creatorFlags,
               CreateIfMissing := True, ChannelType := CHANNEL_VARLEN, Win32ObjectNamespace := win32ObjectNamespace\<rparr>) g)"

text \<open>The two attachers differ in the channel type and in the text of the mismatch.\<close>

definition attach_shm_channel ::
  "string \<Rightarrow> int \<Rightarrow> string \<Rightarrow> platform \<Rightarrow> abi \<Rightarrow> ('s, 'k) shm_backend \<Rightarrow> ('k \<Rightarrow> 'k) \<Rightarrow> string \<Rightarrow> u64 option \<Rightarrow> string option \<Rightarrow> 'k \<Rightarrow> capi
   \<Rightarrow> ((cs_error + ShmChannelEndpoints) \<times> 'k \<times> capi) option" where
  "attach_shm_channel name kind expected p A B sleep pth schemaId win32ObjectNamespace k g =
     (case ThrowIfNullOrWhiteSpace pth of
        Inl e \<Rightarrow> Some (Inl e, k, g)
      | Inr _ \<Rightarrow>
          (case ReadExistingShmOptions p A B sleep pth win32ObjectNamespace k g of
             None \<Rightarrow> None
           | Some (Inl e, k1, g1) \<Rightarrow> Some (Inl e, k1, g1)
           | Some (Inr inferred, k1, g1) \<Rightarrow>
               if ChannelType inferred \<noteq> kind
               then Some (Inl (CreateManagedLayoutException name LAYOUT_ERROR_LAYOUT_TYPE_MISMATCH expected), k1, g1)
               else if schemaId \<noteq> None \<and> SchemaId inferred \<noteq> the schemaId
               then Some (Inl (CreateManagedLayoutException name LAYOUT_ERROR_SCHEMA_ID_MISMATCH ''schema_id mismatch''), k1, g1)
               else
                 map_option (\<lambda>(r, g2). (r, k1, g2))
                   (checked_channel p A
                      ((Copy inferred)\<lparr>Path := Some pth, SchemaId := (case schemaId of None \<Rightarrow> SchemaId inferred | Some i \<Rightarrow> i),
                         CreateIfMissing := False, ChannelType := kind,
                         Win32ObjectNamespace :=
                           (case win32ObjectNamespace of None \<Rightarrow> Win32ObjectNamespace inferred | Some s \<Rightarrow> Some s)\<rparr>) g1)))"

definition AttachFixedChannel ::
  "platform \<Rightarrow> abi \<Rightarrow> ('s, 'k) shm_backend \<Rightarrow> ('k \<Rightarrow> 'k) \<Rightarrow> string \<Rightarrow> u64 option \<Rightarrow> string option \<Rightarrow> 'k \<Rightarrow> capi
   \<Rightarrow> ((cs_error + ShmChannelEndpoints) \<times> 'k \<times> capi) option" where
  "AttachFixedChannel = attach_shm_channel ''AttachFixedChannel'' CHANNEL_FIXED ''expected a fixed shared-memory channel''"

definition AttachVarlenChannel ::
  "platform \<Rightarrow> abi \<Rightarrow> ('s, 'k) shm_backend \<Rightarrow> ('k \<Rightarrow> 'k) \<Rightarrow> string \<Rightarrow> u64 option \<Rightarrow> string option \<Rightarrow> 'k \<Rightarrow> capi
   \<Rightarrow> ((cs_error + ShmChannelEndpoints) \<times> 'k \<times> capi) option" where
  "AttachVarlenChannel = attach_shm_channel ''AttachVarlenChannel'' CHANNEL_VARLEN ''expected a varlen shared-memory channel''"

section \<open>Options survive C#\<close>

lemma cs_options_round_trip:
  assumes "list_all (\<lambda>s. valid_utf8 s \<and> CHR 0x00 \<notin> set s) [path opts, win32_object_namespace opts, socket_host opts]"
    and "win32_object_namespace opts \<noteq> []" and "socket_host opts \<noteq> []"
  shows "to_cpp_options (NativeOptionsScope (FromNativeOptions (fill_borrowed_options opts))) = opts"
  using assms by (cases "backend opts"; cases "chan_type opts"; cases opts)
    (auto simp: to_cpp_options_def NativeOptionsScope_def FromNativeOptions_def fill_borrowed_options_def AllocateUtf8_def PtrToStringUtf8_def
      to_string_lossy_valid c_enum_defs)

section \<open>Polling and peeking\<close>

lemma cs_poll_copy:
  assumes "consumer_waiting p R N m ds" and "\<And>m. consumer_waiting p R N m ds \<Longrightarrow> consumer_waiting p R N (env m) (ds @ new)"
  shows "\<exists>m' g' new'. PollCopy p R N env m g = Some (Inr (case ds of [] \<Rightarrow> None | d # _ \<Rightarrow> Some d), m', g') \<and>
      consumer_waiting p R N m' (tl ds @ new') \<and> new' \<in> {[], new}"
proof -
  have "fst m \<noteq> None" using assms(1) by (auto simp: consumer_waiting_def)
  then have "PollCopy p R N env m g =
      two_calls (\<lambda>n. replicate n 0) (\<lambda>_ buffer. buffer) (xproc_exception ''Consumer.PollCopy'') (consumer_call p R N) env m g"
    by (auto simp: PollCopy_def DangerousHandle_def)
  moreover have "\<exists>m' g' new'. two_calls (\<lambda>n. replicate n 0) (\<lambda>_ buffer. buffer) (xproc_exception ''Consumer.PollCopy'')
      (consumer_call p R N) env m g = Some (Inr (case ds of [] \<Rightarrow> None | d # _ \<Rightarrow> Some d), m', g') \<and>
      consumer_waiting p R N m' (tl ds @ new') \<and> new' \<in> {[], new}"
    by (rule cc.two_calls_take [OF assms]) simp_all
  ultimately show ?thesis by simp
qed

text \<open>The length of the second call is ignored: after a shorter message the buffer keeps its zeros.\<close>

lemma cs_peek_copy:
  assumes "observer_waiting R ob s ds" and "\<And>s. observer_waiting R ob s ds \<Longrightarrow> observer_waiting R ob (env s) ds'"
  shows "\<exists>r s' g'. PeekCopy R env (Some \<lparr>cv_impl = Some ob\<rparr>) s g = Some (r, s', g') \<and>
    (case ds of
       [] \<Rightarrow> r = Inr None
     | d # _ \<Rightarrow>
         if d = [] then r = Inr (Some [])
         else
           (case ds' of
              [] \<Rightarrow> r = Inl (xproc_exception ''Observer.PeekCopy'' STATUS_AGAIN g')
            | d' # _ \<Rightarrow> r = (if length d' \<le> length d then Inr (Some (zero_pad (length d) d'))
                               else Inl (xproc_exception ''Observer.PeekCopy'' STATUS_BUFFER_TOO_SMALL g'))))"
proof -
  let ?err = "xproc_exception ''Observer.PeekCopy''" and ?h = "Some \<lparr>cv_impl = Some ob\<rparr>"
  have pad: "buf_write 0 d' (replicate n 0) = zero_pad n d'" for n and d' :: "byte list"
    by (simp add: buf_write_def zero_pad_def)
  have "\<exists>r s' g'. two_calls (\<lambda>n. replicate n 0) (\<lambda>_ buffer. buffer) ?err (observer_call R ?h) env s g = Some (r, s', g') \<and>
    (case ds of
       [] \<Rightarrow> r = Inr None \<and> observer_waiting R ob s' []
     | d # _ \<Rightarrow>
         if d = [] then r = Inr (Some []) \<and> observer_waiting R ob s' ds
         else
           (case ds' of
              [] \<Rightarrow> r = Inl (?err STATUS_AGAIN g') \<and> observer_waiting R ob s' []
            | d' # _ \<Rightarrow>
                if length d' \<le> length d
                then r = Inr (Some (buf_write 0 d' (replicate (length d) 0))) \<and> observer_waiting R ob s' ds'
                else r = Inl (?err STATUS_BUFFER_TOO_SMALL g') \<and> observer_waiting R ob s' ds'))"
    by (rule oc.two_calls_result [OF assms]) simp_all
  then obtain r s' g' where
    "two_calls (\<lambda>n. replicate n 0) (\<lambda>_ buffer. buffer) ?err (observer_call R ?h) env s g = Some (r, s', g')" and
    "case ds of
       [] \<Rightarrow> r = Inr None
     | d # _ \<Rightarrow>
         if d = [] then r = Inr (Some [])
         else
           (case ds' of
              [] \<Rightarrow> r = Inl (?err STATUS_AGAIN g')
            | d' # _ \<Rightarrow> r = (if length d' \<le> length d then Inr (Some (zero_pad (length d) d'))
                               else Inl (?err STATUS_BUFFER_TOO_SMALL g')))"
    unfolding pad by (cases ds; cases ds') (auto split: if_split_asm)
  then show ?thesis by (intro exI [of _ r] exI [of _ s'] exI [of _ g']) (simp add: PeekCopy_def DangerousHandle_def)
qed

section \<open>Snapshots\<close>

lemma load_le32_append [simp]: "load_le32 (store_le32 v @ b) = v"
proof -
  have "load_le32 (store_le32 v @ b) = load_le32 (store_le32 v)" by (simp add: load_le32_def nth_append)
  then show ?thesis by simp
qed

lemma length_store_le64 [simp]: "length (store_le64 v) = 8"
  by (simp add: store_le64_def)

lemma load_le64_append [simp]: "load_le64 (store_le64 v @ b) = v"
proof -
  have "load_le64 (store_le64 v @ b) = ucast (ucast v :: u32) OR push_bit 32 (ucast (ucast (drop_bit 32 v) :: u32))"
    by (simp add: load_le64_def store_le64_def)
  also have "\<dots> = v"
    by (rule bit_word_eqI) (auto simp: bit_simps)
  finally show ?thesis .
qed

text \<open>
  C40. \<open>Observer.GetSnapshot\<close> of C# reads the wrong fields and overruns its memory. The C# declaration of the snapshot lacks the field
  \<open>commit_pos\<close>. The positions of the writer and the reader are right, but the commit sequence and the wake sequence are the two
  halves of the commit position, the attach count is the commit sequence, and the process id is the wake sequence;
  and the eight bytes behind the structure are overwritten.
\<close>

theorem snapshot_misread:
  assumes "length stack \<ge> 40"
  shows "let c = to_c_snapshot (snapshot R (observed mem ob)) in
    \<exists>g'. GetSnapshot R mem stack (Some \<lparr>cv_impl = Some ob\<rparr>) g =
      (Inr \<lparr>WritePos = cs_write_pos c, ReadPos = cs_read_pos c, CommitSeq = ucast (cs_commit_pos c),
            ReadWakeSeq = ucast (drop_bit 32 (cs_commit_pos c)), AttachCount = cs_commit_seq c, ProducerPid = sint (cs_read_wake_seq c)\<rparr>,
       take 32 (snapshot_bytes c) @ store_le32 (cs_attach_count c) @ store_le32 (word_of_int (cs_producer_pid c)) @ drop 40 stack, g')"
proof -
  define c where "c = to_c_snapshot (snapshot R (observed mem ob))"
  let ?b = "snapshot_bytes c"
  have len: "length ?b = 40" by (simp add: snapshot_bytes_def store_le64_def)
  have w: "buf_write 0 ?b stack = ?b @ drop 40 stack" using assms len by (simp add: buf_write_def)
  have read: "native_snapshot (?b @ r) =
      \<lparr>ns_write_pos = cs_write_pos c, ns_read_pos = cs_read_pos c, ns_commit_seq = ucast (cs_commit_pos c),
       ns_read_wake_seq = ucast (drop_bit 32 (cs_commit_pos c)), ns_attach_count = cs_commit_seq c,
       ns_producer_pid = sint (cs_read_wake_seq c)\<rparr>" for r
    by (simp add: native_snapshot_def snapshot_bytes_def) (simp add: store_le64_def)
  have "?b = take 32 ?b @ store_le32 (cs_attach_count c) @ store_le32 (word_of_int (cs_producer_pid c))"
    by (simp add: snapshot_bytes_def store_le64_def)
  then have eq: "?b @ drop 40 stack = take 32 ?b @ store_le32 (cs_attach_count c) @ store_le32 (word_of_int (cs_producer_pid c)) @ drop 40 stack"
    by (metis append.assoc)
  have "GetSnapshot R mem stack (Some \<lparr>cv_impl = Some ob\<rparr>) g =
      (Inr \<lparr>WritePos = cs_write_pos c, ReadPos = cs_read_pos c, CommitSeq = ucast (cs_commit_pos c),
            ReadWakeSeq = ucast (drop_bit 32 (cs_commit_pos c)), AttachCount = cs_commit_seq c, ProducerPid = sint (cs_read_wake_seq c)\<rparr>,
       ?b @ drop 40 stack, clear_last_error g)"
    by (simp add: GetSnapshot_def DangerousHandle_def xproc_c_observer_snapshot_def handle_query_def validate_out_pointer_def validate_handle_def
        ThrowIfError_def cs_bind_def Let_def c_def [symmetric] w read)
  then show ?thesis unfolding Let_def c_def [symmetric] eq by blast
qed

text \<open>Any observer shows it: here of a block whose positions and counters are all different.\<close>

theorem snapshot_misread_witness:
  "let mem = \<lambda>_. ref_block\<lparr>attach_count := 2, spscring_cb := (spscring_cb ref_block)\<lparr>commit_pos := 96\<rparr>\<rparr>;
       x = GetSnapshot (shift_ring 8 8) mem (replicate 40 0) (Some \<lparr>cv_impl = Some \<lparr>ob_opts = ref_options, ob_shm = (), ob_header = Some 4\<rparr>\<rparr>)
         \<lparr>g_last_error = [], g_last_layout_error = LAYOUT_ERROR_NONE,
          g_read_existing_option_strings = \<lparr>os_path = [], os_win32_object_namespace = [], os_socket_host = []\<rparr>\<rparr>
   in CommitSeq (projr (fst x)) = 96 \<and> take 4 (drop 32 (fst (snd x))) = store_le32 2"
proof -
  let ?mem = "\<lambda>_. ref_block\<lparr>attach_count := 2, spscring_cb := (spscring_cb ref_block)\<lparr>commit_pos := 96\<rparr>\<rparr>"
  let ?ob = "\<lparr>ob_opts = ref_options, ob_shm = (), ob_header = Some 4\<rparr>"
  have "length (snapshot_bytes c) = 40" for c by (simp add: snapshot_bytes_def)
  moreover have "cs_commit_pos (to_c_snapshot (snapshot (shift_ring 8 8) (observed ?mem ?ob))) = 96"
    "cs_attach_count (to_c_snapshot (snapshot (shift_ring 8 8) (observed ?mem ?ob))) = 2"
    by (simp_all add: to_c_snapshot_def snapshot_def observed_def)
  ultimately show ?thesis
    using snapshot_misread [of "replicate 40 0" "shift_ring 8 8" ?mem ?ob
        "\<lparr>g_last_error = [], g_last_layout_error = LAYOUT_ERROR_NONE,
          g_read_existing_option_strings = \<lparr>os_path = [], os_win32_object_namespace = [], os_socket_host = []\<rparr>\<rparr>"]
    by (auto simp: Let_def)
qed

section \<open>Channels are those of the builders\<close>

lemma Copy_id [simp]: "Copy o1 = o1"
  by (simp add: Copy_def)

lemma ValidateOptionsFor_ok:
  assumes "kind = ENDPOINT_PRODUCER \<or> kind = ENDPOINT_CONSUMER" and "to_cpp_options (NativeOptionsScope o1) = create_transport A ch pth cap item align schema ts fl ns"
    and "shm_size_for_data_capacity A cap \<noteq> 0"
  shows "\<exists>r g'. ValidateOptionsFor p A kind o1 g = Some (r, g') \<and>
    (case validate_transport_options p A (to_cpp_options (NativeOptionsScope o1)) of
       Inl e \<Rightarrow> \<exists>x. r = Inl (Cs_xproc x) \<and> xx_status x = STATUS_INVALID_ARGUMENT
     | Inr _ \<Rightarrow> r = Inr ())"
proof -
  from assms(2,3) have "validate_producer_transport_options p A (to_cpp_options (NativeOptionsScope o1)) = validate_transport_options p A (to_cpp_options (NativeOptionsScope o1))"
    "validate_consumer_transport_options p A (to_cpp_options (NativeOptionsScope o1)) = validate_transport_options p A (to_cpp_options (NativeOptionsScope o1))"
    by (simp_all add: create_transport_valid)
  from validate_options_status [OF assms(1) this] obtain st g' where
    "xproc_c_validate_options_for p A kind (Some (NativeOptionsScope o1)) g = Some (st, g')"
    "st = (case validate_transport_options p A (to_cpp_options (NativeOptionsScope o1)) of Inl e \<Rightarrow> STATUS_INVALID_ARGUMENT | Inr _ \<Rightarrow> STATUS_OK)"
    by blast
  then show ?thesis by (auto simp: ValidateOptionsFor_def ThrowIfError_def Let_def split: sum.split)
qed

lemma checked_channel_agrees:
  assumes "to_cpp_options (NativeOptionsScope o1) = create_transport A ch pth cap item align schema ts fl ns"
    and "shm_size_for_data_capacity A cap \<noteq> 0"
  shows "\<exists>r g'. checked_channel p A o1 g = Some (r, g') \<and>
    (case checked (validate_transport_options p A) (create_transport A ch pth cap item align schema ts fl ns) of
       Inl e \<Rightarrow> \<exists>x. r = Inl (Cs_xproc x) \<and> xx_status x = STATUS_INVALID_ARGUMENT
     | Inr opts \<Rightarrow> \<exists>ep. r = Inr ep \<and> to_cpp_options (NativeOptionsScope (producerOptions ep)) = opts \<and>
         to_cpp_options (NativeOptionsScope (consumerOptions ep)) = opts \<and>
         to_cpp_options (NativeOptionsScope (observerOptions ep)) = opts\<lparr>create_if_missing := False\<rparr>)"
proof -
  have obs: "to_cpp_options (NativeOptionsScope (o1\<lparr>CreateIfMissing := False\<rparr>)) = (to_cpp_options (NativeOptionsScope o1))\<lparr>create_if_missing := False\<rparr>"
    by (simp add: to_cpp_options_def NativeOptionsScope_def)
  from ValidateOptionsFor_ok [OF disjI1 [OF refl] assms] obtain r1 g1 where
    p1: "ValidateOptionsFor p A ENDPOINT_PRODUCER o1 g = Some (r1, g1)"
    "case validate_transport_options p A (to_cpp_options (NativeOptionsScope o1)) of
       Inl e \<Rightarrow> \<exists>x. r1 = Inl (Cs_xproc x) \<and> xx_status x = STATUS_INVALID_ARGUMENT | Inr _ \<Rightarrow> r1 = Inr ()" by blast
  from ValidateOptionsFor_ok [OF disjI2 [OF refl] assms] obtain r2 g2 where
    p2: "ValidateOptionsFor p A ENDPOINT_CONSUMER o1 g1 = Some (r2, g2)"
    "case validate_transport_options p A (to_cpp_options (NativeOptionsScope o1)) of
       Inl e \<Rightarrow> \<exists>x. r2 = Inl (Cs_xproc x) \<and> xx_status x = STATUS_INVALID_ARGUMENT | Inr _ \<Rightarrow> r2 = Inr ()" by blast
  show ?thesis
  proof (cases "validate_transport_options p A (to_cpp_options (NativeOptionsScope o1))")
    case (Inl e)
    with p1 assms(1) show ?thesis by (auto simp: checked_def checked_channel_def)
  next
    case (Inr u)
    with p1 p2 assms(1) obs show ?thesis by (auto simp: checked_def checked_channel_def cs_bind_def new_ShmChannelEndpoints_def)
  qed
qed

text \<open>
  The constructors of channels agree with the C++ builders: they throw an invalid_argument error exactly when the builder
  throws, and otherwise return endpoints that open the builder's options. The arguments are text without NUL, and the size of
  the segment does not wrap around to 0.
\<close>

lemma cs_channels_agree:
  assumes "\<not> blank (fb_path b)" and "CHR 0x00 \<notin> set (fb_path b)" and "fb_win32_object_namespace b \<noteq> []"
    and "CHR 0x00 \<notin> set (fb_win32_object_namespace b)" and "shm_size_for_data_capacity A cap \<noteq> 0"
  shows "\<exists>r g'. CreateFixedChannel p A (fb_path b) (fb_item_size b) cap (fb_data_align b) (fb_schema_id b) (fb_creator_timestamp_ns b)
      (fb_creator_flags b) (Some (fb_win32_object_namespace b)) g = Some (r, g') \<and>
    (case fixed_builder_create p A b cap of
       Inl e \<Rightarrow> \<exists>x. r = Inl (Cs_xproc x) \<and> xx_status x = STATUS_INVALID_ARGUMENT
     | Inr se \<Rightarrow> \<exists>ep. r = Inr ep \<and> to_cpp_options (NativeOptionsScope (producerOptions ep)) = producer_options se \<and>
         to_cpp_options (NativeOptionsScope (consumerOptions ep)) = consumer_options se \<and>
         to_cpp_options (NativeOptionsScope (observerOptions ep)) = observer_options se)"
proof -
  let ?o = "cs_TransportOptions\<lparr>Path := Some (fb_path b), ShmSize := xproc_c_shm_size_for_data_capacity A cap, ItemSize := fb_item_size b,
      DataAlign := fb_data_align b, SchemaId := fb_schema_id b, CreatorTimestampNs := fb_creator_timestamp_ns b,
      CreatorFlags := fb_creator_flags b, CreateIfMissing := True, ChannelType := CHANNEL_FIXED,
      Win32ObjectNamespace := Some (fb_win32_object_namespace b)\<rparr>"
  have "fb_path b \<noteq> []" using assms(1) by (auto simp: blank.simps)
  then have "to_cpp_options (NativeOptionsScope ?o) = create_transport A fixed (fb_path b) cap (fb_item_size b) (fb_data_align b) (fb_schema_id b)
      (fb_creator_timestamp_ns b) (fb_creator_flags b) (fb_win32_object_namespace b)"
    using assms by (simp add: to_cpp_options_def NativeOptionsScope_def cs_TransportOptions_def AllocateUtf8_def create_transport_def
        default_options_def c_enum_defs xproc_c_shm_size_for_data_capacity_def)
  from checked_channel_agrees [OF this assms(5), of p g] show ?thesis using assms(1)
    by (auto simp: CreateFixedChannel_def ThrowIfNullOrWhiteSpace_def fixed_builder_create_def fixed_builder_options_def create_transport_def
        producer_options_def consumer_options_def observer_options_def split: sum.splits)
qed

end
