(* ===== verification/Bindings.thy ===== *)
theory Bindings
  imports Node_Channels Rust_Binding Python_Binding CSharp_Binding
begin

text \<open>
  What the bindings for Node.js, Rust, Python and C# have in common, and where they differ: how they hand out messages, what they
  show of a queue that changes under them, and that options survive the way through each language.
\<close>

section \<open>Polling\<close>

lemma node_poll_copy:
  assumes "napi_spec E" and "consumer_waiting p R N m ds"
  shows "\<exists>w md' g'. poll_copy_js E p R N \<lparr>cw_handle = fst m, cw_active_waits = a\<rparr> (snd m) g =
      Some (Inr (case ds of [] \<Rightarrow> JNull | d # _ \<Rightarrow> JBuffer d), w, md', g') \<and> consumer_waiting p R N (cw_handle w, md') (tl ds)"
proof -
  from assms(2) obtain ct pending ms where m: "fst m = Some \<lparr>cc_impl = Some ct, cc_pending = pending\<rparr>"
    and h: "consumer_holds p R N ct (snd m) ms" "length pending < 2 ^ 32" and ds: "ds = waiting pending ms"
    unfolding consumer_waiting_def by blast
  from cq.poll_copy_js_step [OF assms(1) h, of a g] show ?thesis unfolding m ds consumer_waiting_def by fastforce
qed

text \<open>
  C36. All bindings hand out the same messages. Whatever the transport, a poll in Node.js, Rust, Python or C# returns, throws
  nothing, and yields exactly the oldest waiting message, or the null value of the language if there is none, although
  each of them makes two native calls, with a buffer allocated in between; and the other messages are still waiting, together
  with those that arrived during the call.
\<close>

theorem bindings_poll_exact:
  assumes "napi_spec E" and "consumer_waiting p R N m ds"
    and "\<And>m. consumer_waiting p R N m ds \<Longrightarrow> consumer_waiting p R N (env m) (ds @ new)"
  shows "(\<exists>w md' g'. poll_copy_js E p R N \<lparr>cw_handle = fst m, cw_active_waits = a\<rparr> (snd m) g =
        Some (Inr (case ds of [] \<Rightarrow> JNull | d # _ \<Rightarrow> JBuffer d), w, md', g') \<and> consumer_waiting p R N (cw_handle w, md') (tl ds)) \<and>
    (\<exists>m' g' new'. Consumer_poll_copy p R N env m g = Some (Inr (case ds of [] \<Rightarrow> None | d # _ \<Rightarrow> Some d), m', g') \<and>
        consumer_waiting p R N m' (tl ds @ new') \<and> new' \<in> {[], new}) \<and>
    (\<exists>m' g' new'. py_poll_copy p R N env m g = Some (Inr (case ds of [] \<Rightarrow> PyNone | d # _ \<Rightarrow> PyBytes d), m', g') \<and>
        consumer_waiting p R N m' (tl ds @ new') \<and> new' \<in> {[], new}) \<and>
    (\<exists>m' g' new'. PollCopy p R N env m g = Some (Inr (case ds of [] \<Rightarrow> None | d # _ \<Rightarrow> Some d), m', g') \<and>
        consumer_waiting p R N m' (tl ds @ new') \<and> new' \<in> {[], new})"
  using node_poll_copy [OF assms(1,2), of a g] rust_poll_copy [where env = env and g = g, OF assms(2,3)] py_poll_copy_ok [where env = env and g = g, OF assms(2,3)]
    cs_poll_copy [where env = env and g = g, OF assms(2,3)]
  by (intro conjI)

theorem bindings_poll_exact_witness:
  "\<exists>(m :: unit xproc_c_consumer option \<times> _) g.
     (\<exists>x. poll_copy_js ref_napi Linux (shift_ring 8 8) ref_sockets \<lparr>cw_handle = fst m, cw_active_waits = 0\<rparr> (snd m) g =
        Some (Inr (JBuffer [1, 2, 3, 0, 0, 0, 0, 0]), x)) \<and>
     (\<exists>x. Consumer_poll_copy Linux (shift_ring 8 8) ref_sockets (\<lambda>m. m) m g = Some (Inr (Some [1, 2, 3, 0, 0, 0, 0, 0]), x)) \<and>
     (\<exists>x. py_poll_copy Linux (shift_ring 8 8) ref_sockets (\<lambda>m. m) m g = Some (Inr (PyBytes [1, 2, 3, 0, 0, 0, 0, 0]), x)) \<and>
     (\<exists>x. PollCopy Linux (shift_ring 8 8) ref_sockets (\<lambda>m. m) m g = Some (Inr (Some [1, 2, 3, 0, 0, 0, 0, 0]), x))"
proof -
  let ?c = "\<lparr>cc_impl = Some (Shm_consumer (ref_endpoint consumer_role fixed)), cc_pending = []\<rparr>"
  obtain seg where "consumer_holds Linux (shift_ring 8 8) ref_sockets (Shm_consumer (ref_endpoint consumer_role fixed))
      \<lparr>md_seg = seg, md_net = []\<rparr> [(default_meta, [1, 2, 3, 0, 0, 0, 0, 0])]"
    using ref_one_waiting [of ref_sockets "[]"] by blast
  then have h: "consumer_waiting Linux (shift_ring 8 8) ref_sockets (Some ?c, \<lparr>md_seg = seg, md_net = []\<rparr>) [[1, 2, 3, 0, 0, 0, 0, 0]]"
    by (fastforce simp: consumer_waiting_def waiting_def)
  have "\<And>m. consumer_waiting Linux (shift_ring 8 8) ref_sockets (m :: unit xproc_c_consumer option \<times> _) [[1, 2, 3, 0, 0, 0, 0, 0]] \<Longrightarrow>
      consumer_waiting Linux (shift_ring 8 8) ref_sockets m ([[1, 2, 3, 0, 0, 0, 0, 0]] @ [])" by simp
  note all = bindings_poll_exact [where env = "\<lambda>m. m" and a = 0 and g = ref_capi, OF ref_napi_spec h this, unfolded list.case]
  show ?thesis
    by (rule exI [of _ "(Some ?c, \<lparr>md_seg = seg, md_net = []\<rparr>)"], rule exI [of _ ref_capi], intro conjI)
      (use all in \<open>blast+\<close>)
qed

section \<open>Peeking\<close>

text \<open>
  C37. What the observers of the bindings return, when the producer and the consumer change the queue from \<open>ds\<close> to \<open>ds'\<close> between the
  two native calls of a peek. If the oldest message stays the same, all return it, or the null value of the language if
  there is none. If the queue has been drained, all throw the status again instead of returning null; if the oldest
  message has become longer, all throw buffer_too_small. If it has become shorter, Rust and Python return the new message; C# returns it
  with zeros up to the length of the old one; and Node.js returns it followed by bytes that nobody wrote.
\<close>

theorem bindings_peek_result:
  assumes "napi_spec E" and "observer_waiting R ob s ds" and "\<And>s. observer_waiting R ob s ds \<Longrightarrow> observer_waiting R ob (env s) ds'"
  shows "\<exists>js rust py cs x1 x2 x3 x4.
    peek_copy_js E R env \<lparr>ow_handle = Some \<lparr>cv_impl = Some ob\<rparr>, ow_active_trackers = a\<rparr> s g = Some (js, x1) \<and>
    Observer_peek_copy R env (Some \<lparr>cv_impl = Some ob\<rparr>) s g = Some (rust, x2) \<and>
    py_peek_copy R env (Some \<lparr>cv_impl = Some ob\<rparr>) s g = Some (py, x3) \<and>
    PeekCopy R env (Some \<lparr>cv_impl = Some ob\<rparr>) s g = Some (cs, x4) \<and>
    (case ds of
       [] \<Rightarrow> js = Inr JNull \<and> rust = Inr None \<and> py = Inr PyNone \<and> cs = Inr None
     | d # _ \<Rightarrow>
         if d = [] then js = Inr (JBuffer []) \<and> rust = Inr (Some []) \<and> py = Inr (PyBytes []) \<and> cs = Inr (Some [])
         else
           (case ds' of
              [] \<Rightarrow>
                js = Inl (throw_xproc_status E STATUS_AGAIN ''Observer.peekCopy'' (snd x1)) \<and> rust = Inl (last_error STATUS_AGAIN (snd x2)) \<and>
                py = Inl (throw_status ''Observer.peek_copy'' STATUS_AGAIN (snd x3)) \<and>
                cs = Inl (xproc_exception ''Observer.PeekCopy'' STATUS_AGAIN (snd x4))
            | d' # _ \<Rightarrow>
                if length d' \<le> length d
                then js = Inr (JBuffer (d' @ drop (length d') (buffer_new E (length d)))) \<and> rust = Inr (Some d') \<and>
                     py = Inr (PyBytes d') \<and> cs = Inr (Some (zero_pad (length d) d'))
                else js = Inl (throw_xproc_status E STATUS_BUFFER_TOO_SMALL ''Observer.peekCopy'' (snd x1)) \<and>
                     rust = Inl (last_error STATUS_BUFFER_TOO_SMALL (snd x2)) \<and>
                     py = Inl (throw_status ''Observer.peek_copy'' STATUS_BUFFER_TOO_SMALL (snd x3)) \<and>
                     cs = Inl (xproc_exception ''Observer.PeekCopy'' STATUS_BUFFER_TOO_SMALL (snd x4))))"
proof -
  from peek_copy_js_result [where env = env and a = a and g = g, OF assms] obtain js s1 g1 where
    1: "peek_copy_js E R env \<lparr>ow_handle = Some \<lparr>cv_impl = Some ob\<rparr>, ow_active_trackers = a\<rparr> s g = Some (js, s1, g1)"
    "case ds of
       [] \<Rightarrow> js = Inr JNull
     | d # _ \<Rightarrow>
         if d = [] then js = Inr (JBuffer [])
         else
           (case ds' of
              [] \<Rightarrow> js = Inl (throw_xproc_status E STATUS_AGAIN ''Observer.peekCopy'' g1)
            | d' # _ \<Rightarrow> js = (if length d' \<le> length d then Inr (JBuffer (d' @ drop (length d') (buffer_new E (length d))))
                               else Inl (throw_xproc_status E STATUS_BUFFER_TOO_SMALL ''Observer.peekCopy'' g1)))" by blast
  from rust_peek_copy [where env = env and g = g, OF assms(2,3)] obtain rust s2 g2 where
    2: "Observer_peek_copy R env (Some \<lparr>cv_impl = Some ob\<rparr>) s g = Some (rust, s2, g2)"
    "case ds of
       [] \<Rightarrow> rust = Inr None
     | d # _ \<Rightarrow>
         if d = [] then rust = Inr (Some [])
         else
           (case ds' of
              [] \<Rightarrow> rust = Inl (last_error STATUS_AGAIN g2)
            | d' # _ \<Rightarrow> rust = (if length d' \<le> length d then Inr (Some d') else Inl (last_error STATUS_BUFFER_TOO_SMALL g2)))" by blast
  from py_peek_copy_ok [where env = env and g = g, OF assms(2,3)] obtain py s3 g3 where
    3: "py_peek_copy R env (Some \<lparr>cv_impl = Some ob\<rparr>) s g = Some (py, s3, g3)"
    "case ds of
       [] \<Rightarrow> py = Inr PyNone
     | d # _ \<Rightarrow>
         if d = [] then py = Inr (PyBytes [])
         else
           (case ds' of
              [] \<Rightarrow> py = Inl (throw_status ''Observer.peek_copy'' STATUS_AGAIN g3)
            | d' # _ \<Rightarrow> py = (if length d' \<le> length d then Inr (PyBytes d')
                               else Inl (throw_status ''Observer.peek_copy'' STATUS_BUFFER_TOO_SMALL g3)))" by blast
  from cs_peek_copy [where env = env and g = g, OF assms(2,3)] obtain cs s4 g4 where
    4: "PeekCopy R env (Some \<lparr>cv_impl = Some ob\<rparr>) s g = Some (cs, s4, g4)"
    "case ds of
       [] \<Rightarrow> cs = Inr None
     | d # _ \<Rightarrow>
         if d = [] then cs = Inr (Some [])
         else
           (case ds' of
              [] \<Rightarrow> cs = Inl (xproc_exception ''Observer.PeekCopy'' STATUS_AGAIN g4)
            | d' # _ \<Rightarrow> cs = (if length d' \<le> length d then Inr (Some (zero_pad (length d) d'))
                               else Inl (xproc_exception ''Observer.PeekCopy'' STATUS_BUFFER_TOO_SMALL g4)))" by blast
  show ?thesis
    by (rule exI [of _ js], rule exI [of _ rust], rule exI [of _ py], rule exI [of _ cs], rule exI [of _ "(s1, g1)"],
        rule exI [of _ "(s2, g2)"], rule exI [of _ "(s3, g3)"], rule exI [of _ "(s4, g4)"])
      (use 1 2 3 4 in \<open>cases ds; cases ds'; simp split: if_split_asm\<close>)
qed

theorem bindings_peek_result_witness:
  "let R = shift_ring 8 8; h = Some \<lparr>cv_impl = Some \<lparr>ob_opts = ref_options\<lparr>chan_type := varlen\<rparr>, ob_shm = (), ob_header = None\<rparr>\<rparr>;
       env = \<lambda>_. ref_slot [5]; s = ref_slot [1, 2, 3]
   in (\<exists>x. peek_copy_js ref_napi R env \<lparr>ow_handle = h, ow_active_trackers = 0\<rparr> s ref_capi = Some (Inr (JBuffer [5, 170, 170]), x)) \<and>
      (\<exists>x. Observer_peek_copy R env h s ref_capi = Some (Inr (Some [5]), x)) \<and>
      (\<exists>x. py_peek_copy R env h s ref_capi = Some (Inr (PyBytes [5]), x)) \<and>
      (\<exists>x. PeekCopy R env h s ref_capi = Some (Inr (Some [5, 0, 0]), x))"
proof -
  let ?ob = "\<lparr>ob_opts = ref_options\<lparr>chan_type := varlen\<rparr>, ob_shm = (), ob_header = None\<rparr>" and ?m = "default_meta\<lparr>timestamp_ns := 7\<rparr>"
  have "slot_q (ref_slot [1, 2, 3]) = [(?m, [1, 2, 3])]" "slot_q (ref_slot [5]) = [(?m, [5])]" by code_simp+
  from ref_slot_seen [OF this(1)] ref_slot_seen [OF this(2)]
  have o: "observer_waiting (shift_ring 8 8) ?ob (ref_slot [1, 2, 3]) [[1, 2, 3]]" "observer_waiting (shift_ring 8 8) ?ob (ref_slot [5]) [[5]]"
    by (fastforce simp: observer_waiting_def)+
  from bindings_peek_result [where env = "\<lambda>_. ref_slot [5]" and a = 0 and g = ref_capi, OF ref_napi_spec o(1,2)]
  show ?thesis by (auto simp: Let_def ref_napi_def numeral_3_eq_3 zero_pad_def)
qed

section \<open>Options\<close>

text \<open>
  C38. Options survive every language. The options read from an endpoint in JavaScript, Rust, Python or C# can be given to a
  constructor of the same binding, which then opens an endpoint with exactly the options of the first. In JavaScript this needs the
  normalization of \<open>index.js\<close>, since the native constructors refuse what the native \<open>options()\<close> return. The strings must be UTF-8 text
  without NUL that a JavaScript string can hold, and the retry settings must fit an \<open>int\<close>.
\<close>

theorem bindings_options_round_trip:
  assumes "napi_spec E"
    and "list_all (\<lambda>s. valid_utf8 s \<and> CHR 0x00 \<notin> set s \<and> utf8_new E s = s) [path opts, win32_object_namespace opts, socket_host opts]"
    and "win32_object_namespace opts \<noteq> []" and "socket_host opts \<noteq> []"
    and "list_all (\<lambda>i. - (2 ^ 31) \<le> i \<and> i < 2 ^ 31) [socket_connect_retries opts, socket_connect_retry_ms opts]"
  shows "(\<exists>n c. normalizeOptions (decorateOptions (options_to_js E (fill_borrowed_options opts))) = Inr n \<and>
        options_from_js E (JObject n) = Inr c \<and> to_cpp_options c = opts) \<and>
    (\<exists>e. options_from_js E (options_to_js E (fill_borrowed_options opts)) = Inl e) \<and>
    (\<exists>raw. to_raw (from_raw_borrowed (fill_borrowed_options opts)) = Inr raw \<and> to_cpp_options raw = opts) \<and>
    to_cpp_options (marshalled_options (make_transport_options (fill_borrowed_options opts))) = opts \<and>
    to_cpp_options (NativeOptionsScope (FromNativeOptions (fill_borrowed_options opts))) = opts"
proof (intro conjI)
  from assms(2) have s: "list_all (\<lambda>s. CHR 0x00 \<notin> set s \<and> utf8_new E s = s) [path opts, win32_object_namespace opts, socket_host opts]"
    "list_all (\<lambda>s. valid_utf8 s \<and> CHR 0x00 \<notin> set s) [path opts, win32_object_namespace opts, socket_host opts]"
    "list_all (\<lambda>s. CHR 0x00 \<notin> set s) [path opts, win32_object_namespace opts, socket_host opts]" by simp_all
  show "\<exists>n c. normalizeOptions (decorateOptions (options_to_js E (fill_borrowed_options opts))) = Inr n \<and>
        options_from_js E (JObject n) = Inr c \<and> to_cpp_options c = opts"
    by (rule node_options_round_trip [OF assms(1) s(1) assms(3-5)])
  show "\<exists>e. options_from_js E (options_to_js E (fill_borrowed_options opts)) = Inl e" by (rule native_options_refused)
  show "\<exists>raw. to_raw (from_raw_borrowed (fill_borrowed_options opts)) = Inr raw \<and> to_cpp_options raw = opts"
    by (rule rust_options_round_trip [OF s(2) assms(3,4)])
  show "to_cpp_options (marshalled_options (make_transport_options (fill_borrowed_options opts))) = opts"
    by (rule py_options_round_trip [OF s(3) assms(3,4)])
  show "to_cpp_options (NativeOptionsScope (FromNativeOptions (fill_borrowed_options opts))) = opts"
    by (rule cs_options_round_trip [OF s(2) assms(3,4)])
qed

theorem bindings_options_round_trip_witness:
  "let opts = default_options\<lparr>path := ''/seg''\<rparr> in
     (\<exists>raw. to_raw (from_raw_borrowed (fill_borrowed_options opts)) = Inr raw \<and> to_cpp_options raw = opts) \<and>
     to_cpp_options (NativeOptionsScope (FromNativeOptions (fill_borrowed_options opts))) = opts"
proof -
  have "valid_utf8 ''/seg''" "valid_utf8 ''Local''" "valid_utf8 ''127.0.0.1''" by code_simp+
  with bindings_options_round_trip [OF ref_napi_spec, of "default_options\<lparr>path := ''/seg''\<rparr>"] show ?thesis
    by (simp add: ref_napi_def [THEN arg_cong [of _ _ utf8_new]] default_options_def)
qed

end
