(* ===== verification/Spec2Isabelle.thy ===== *)
theory Spec2Isabelle
  imports Layout Options Ring Endpoint Shm_Posix Channel Socket Socket_Resources Observer Builders Shm_Win32 Runtime Capi
    Subprocess_Win32 Queue_Refinement Bindings
begin

text \<open>
  Verification of xproc, a C++ library for single-producer single-consumer channels between processes, over shared
  memory or TCP.

  \<^bold>\<open>The program and the theories.\<close> Paths are relative to the repository; each theory models the files it names, one
  definition per function, with the source's names.

  \<^item> \<open>Xproc_Prelude\<close>: machine integers at their widths, byte buffers (\<open>memcpy\<close>, \<open>memset\<close>), numbers as strings, the platform of a
    build; the shared lemmas.
  \<^item> \<open>Layout\<close> (\<open>core/layout_types.hpp\<close>, \<open>core/layout_manager.hpp\<close>/\<open>.cpp\<close>, \<open>core/layout_exception.hpp\<close>): the control block at the start of
    a segment, its initialisation and validation. A concurrently written block is the function of its successive values, so that
    the wait for readiness and races with a creator are visible. Validation accepts exactly the matching blocks, waits
    at most a million loads, and accepts what initialisation made.
  \<^item> \<open>Options\<close> (\<open>ipc/options.hpp\<close>): the validators accept exactly the documented options of each role; sizes and capacities convert
    both ways unless the 64-bit sum wraps.
  \<^item> \<open>Ring\<close>: the third-party ring buffer \<open>spscring\<close>, whose source is not in the repository, as a record of functions with its
    documented behaviour as predicates (\<open>fixed_ring\<close>, \<open>varlen_ring\<close>, \<open>spin_spec\<close>, \<open>ring_frame\<close>); a small concrete ring satisfies them.
  \<^item> \<open>Endpoint\<close> (\<open>ipc/endpoint.hpp\<close>): construction and destruction over an interface of shared-memory objects; the attach count is
    exact over every sequence of steps.
  \<^item> \<open>Shm_Posix\<close>, \<open>Shm_Win32\<close> (\<open>core/shm_posix.cpp\<close>, \<open>core/shm_win32.cpp\<close>, \<open>core/shm.hpp\<close>): its two implementations over the documented system
    calls: what \<open>open\<close> does in every mode, no leak of descriptors, handles, mappings or views, the reference
    counts of the Windows view registry, kernel names.
  \<^item> \<open>Fifo\<close>: the contract of a transport (locale \<open>fifo_transport\<close>) and runs of sends and polls in any order.
  \<^item> \<open>Channel\<close> (\<open>ipc/channel.hpp\<close>, \<open>ipc/send_result.hpp\<close>, \<open>ipc/message_meta.hpp\<close>): every send (blocking, non-blocking, bounded in time) and poll;
    channels are lossless and in order, bounded sends return by their deadline, blocking ones exactly if there is ever room,
    a message whose handler throws is kept, occupancy never exceeds the capacity.
  \<^item> \<open>Socket\<close>, \<open>Socket_Resources\<close> (\<open>ipc/socket_channel.hpp\<close>/\<open>.cpp\<close>): framing, partial sends and receives, connection and retries,
    interruption of a wait; the transport is lossless and in order however the network cuts the stream, nothing is
    written after a failed send, and no handle leaks.
  \<^item> \<open>Observer\<close> (\<open>ipc/observer.hpp\<close>, \<open>ipc/inspector.hpp\<close>, \<open>ipc/diagnostics_tracker.hpp\<close>/\<open>.cpp\<close>): observers change nothing, and \<open>peek\<close> shows what
    the next poll delivers.
  \<^item> \<open>Builders\<close> (\<open>ipc/shm_builders.hpp\<close>, \<open>ipc/socket_builders.hpp\<close>): built options are valid, and attachers recover the creator's options.
  \<^item> \<open>Transport\<close> (\<open>ipc/channel_interface.hpp\<close>, \<open>ipc/shm_channel.hpp\<close>, \<open>ipc/shm_interface.cpp\<close>, \<open>ipc/transport_factory.hpp\<close>): the interfaces with their
    implementations as datatypes, the factory; the contract of a consumer for its clients (locale \<open>polled_queue\<close>).
  \<^item> \<open>Runtime\<close> (\<open>ipc/runtime.hpp\<close>): the receive loops with their copy policies, and \<open>stop\<close>. The interleaving of \<open>stop\<close> with a loop that is
    about to wait is a step relation, one atomic operation per step; no wake-up is lost.
  \<^item> \<open>Capi\<close> (\<open>capi/xproc_c.h\<close>, \<open>capi/xproc_c.cpp\<close>): the C interface; its consumer loses no message whatever buffers it is given.
  \<^item> \<open>Copy_Protocol\<close>: how every binding takes a message out of the C interface, one call for its length and one with a buffer. The contract
    of such a call is the locale \<open>copy_call\<close>, with the consumer and the observer of \<open>Capi\<close> as its instances. \<open>Utf8\<close>: the lossy decoding
    of UTF-8 that Rust and .NET apply to strings of the library.
  \<^item> \<open>Node_Values\<close>, \<open>Node_Binding\<close> (\<open>node/src/node_binding.cpp\<close>): the native module of the Node.js package over the C interface.
    JavaScript values are a datatype; conversions return a JavaScript error or a value. A consumer of JavaScript loses no message, what an
    observer returns when the queue changes under it, and no native handle is closed while an asynchronous wait or a tracker uses it
    (step relations \<open>waiting_step\<close>, \<open>tracking_step\<close>).
  \<^item> \<open>Node_Api\<close>, \<open>Node_Options\<close>, \<open>Node_Channels\<close> (\<open>node/index.js\<close>): the JavaScript side of the package. Options survive the way through
    JavaScript, and its channel constructors agree with the C++ builders.
  \<^item> \<open>Rust_Binding\<close> (\<open>rust/xproc/src/lib.rs\<close>), \<open>Python_Binding\<close> (\<open>Python/src/python_binding.cpp\<close>), \<open>CSharp_Binding\<close> (\<open>csharp/XprocSharp\<close>): the other
    bindings: options, errors, endpoints, channel constructors. What is sent of a Python object is what it contains, if it is
    contiguous; the snapshot of C# reads the wrong fields.
  \<^item> \<open>Bindings\<close>: what holds in all four languages. A poll yields the oldest message and loses none; what a peek returns when the queue
    changes under it; options read from an endpoint open an equal one.
  \<^item> \<open>Subprocess\<close>, \<open>Subprocess_Win32\<close> (\<open>platform/subprocess.hpp\<close>, \<open>platform/subprocess_posix.cpp\<close>, \<open>platform/subprocess_win32.cpp\<close>): child processes; no
    leaked descriptors and zombies, and the quoting of a Windows command line is read back by the documented rules.
  \<^item> \<open>Queue_Refinement\<close> and this theory: the transports implement one abstract queue, and are interchangeable.

  \<^bold>\<open>Conventions.\<close> Exceptions are values of \<open>exn\<close>; a function that may throw returns \<open>exn + 'a\<close>. Shared memory is a \<open>segment\<close>, control
  block and data, passed explicitly; what other processes do between two steps of an operation is a parameter \<open>env\<close>. Code outside the
  repository (the ring, POSIX, Win32, sockets, clocks, executors, the Node-API, pybind11) is a parameter with named hypotheses, each of which a
  concrete instance satisfies in the witnesses. The backends of an interface are instances of locales: \<open>shm_api\<close> and \<open>shm_resources\<close> for
  shared memory, \<open>fifo_transport\<close>, \<open>queue_refinement\<close> and \<open>polled_queue\<close> for transports, \<open>shm_passive\<close> for observers, \<open>copy_call\<close> for the
  copying calls of the C interface.

  \<^bold>\<open>Loops.\<close> Loops that may not end (blocking sends, the receive loops, waits) are partial functions with an option result, and that they
  return is proved under the condition under which they do. The others recurse on their data, or on a bound that the code has:
  the million loads of the readiness wait, the number of connection attempts, the size of a batch. No fuel is used.

  \<^bold>\<open>Not modelled.\<close> The memory model of C++: atomic operations are sequentially consistent, and an operation on the ring is one step.
  Failing allocations, among them the limit of .NET on the length of an array. Concurrent use of one object by several threads, apart from
  \<open>stop\<close> and the asynchronous waits of Node.js. Lifetimes of borrowed pointers, apart from the environment of a child and the handles of
  Node.js. Of the bindings: the registration of names, classes and constants, the foreign declarations of the C interface (\<open>rust/xproc-sys\<close>,
  the \<open>DllImport\<close>s), loading the native library, finalizers, getters and proxies among the JavaScript objects. Examples, benchmarks,
  tests and build files.
\<close>

section \<open>The transports as implementations of one queue\<close>




lemma ref_socket_link_fixed:
  "socket_link Linux ref_sockets 1 2 (\<lambda>_. True) (\<lambda>n. n) (sp_opts (fst (ref_socket_pair fixed))) (ref_socket_pair fixed)"
  using ref_stream by (simp add: socket_link_def ref_socket_pair_def Let_def exI [of _ "[]"])


end
